(* ===== verification/Prelude.thy ===== *)
theory Prelude
  imports Main "HOL-Library.Word" "HOL-Library.AList" "HOL-Library.Sublist"
begin

section \<open>Prelude: what the components share\<close>

text \<open>
  The language and standard-library facts that the Rust sources of the console use, modelled once:
  \<^item> \<open>str\<close>/\<open>String\<close> and text-like \<open>&[u8]\<close> are HOL strings, one \<open>char\<close> per byte: a Rust string is
    its UTF-8 byte sequence. Operations with ASCII patterns work on the bytes; operations on
    characters (\<open>chars\<close>, \<open>trim\<close>) go through \<open>chars\<close>, which groups the bytes of a character;
  \<^item> \<open>Instant\<close> and \<open>Duration\<close> are naturals (nanoseconds); subtraction on \<open>nat\<close> is
    \<open>saturating_duration_since\<close>;
  \<^item> a \<open>HashMap\<close> is an association list with distinct keys. Its order stands for the iteration
    order, about which nothing is assumed;
  \<^item> \<open>Result<T, E>\<close> is the sum \<open>'e + 'a\<close> with \<open>Inl\<close> for \<open>Err\<close>;
  \<^item> \<open>u32\<close> is \<open>32 word\<close>, the bytes of binary formats are \<open>8 word\<close>;
  \<^item> \<open>serde_json::Value\<close> is the datatype \<open>json\<close>; the JSON parser and printer themselves are
    parameters of the definitions that call them.
  The theory also holds the two interfaces that several components implement: a table whose
  entries expire (\<open>expiring_table\<close>) and a stepwise machine with an invariant
  (\<open>invariant_machine\<close>).
\<close>

named_theorems table_simps "lookup, size and well-formedness of hash tables"
named_theorems str_simps "evaluation of string operations"

type_synonym time = nat
type_synonym byte = "8 word"
type_synonym u32 = "32 word"

subsection \<open>Saturating arithmetic\<close>

definition sat_add32 :: "u32 \<Rightarrow> u32 \<Rightarrow> u32" where
  "sat_add32 a b = (if unat a + unat b < 2 ^ 32 then a + b else - 1)"

lemma unat_sat_add32: "unat (sat_add32 a b) = min (unat a + unat b) (2 ^ 32 - 1)"
proof (cases "unat a + unat b < 2 ^ 32")
  case True
  then have "unat (a + b) = unat a + unat b"
    by (subst unat_add_lem [symmetric]) simp
  with True show ?thesis by (simp add: sat_add32_def)
next
  case False
  have "unat (- 1 :: u32) = 2 ^ 32 - 1" by (simp add: unsigned_minus_1_eq_mask mask_eq_exp_minus_1)
  with False show ?thesis by (simp add: sat_add32_def)
qed

subsection \<open>Hash tables\<close>

type_synonym ('k, 'v) hmap = "('k \<times> 'v) list"

definition hm_wf :: "('k, 'v) hmap \<Rightarrow> bool" where
  "hm_wf m \<longleftrightarrow> distinct (map fst m)"

definition hm_get :: "('k, 'v) hmap \<Rightarrow> 'k \<Rightarrow> 'v option" where
  "hm_get m k = map_of m k"

definition hm_insert :: "'k \<Rightarrow> 'v \<Rightarrow> ('k, 'v) hmap \<Rightarrow> ('k, 'v) hmap" where
  "hm_insert k v m = AList.update k v m"

definition hm_remove :: "'k \<Rightarrow> ('k, 'v) hmap \<Rightarrow> ('k, 'v) hmap" where
  "hm_remove k m = AList.delete k m"

definition hm_retain :: "('v \<Rightarrow> bool) \<Rightarrow> ('k, 'v) hmap \<Rightarrow> ('k, 'v) hmap" where
  "hm_retain P m = filter (\<lambda>(k, v). P v) m"

lemma hm_wf_Nil [table_simps, simp]: "hm_wf []"
  by (simp add: hm_wf_def)

lemma hm_wf_insert [table_simps, intro]: "hm_wf m \<Longrightarrow> hm_wf (hm_insert k v m)"
  by (simp add: hm_wf_def hm_insert_def distinct_update)

lemma hm_wf_remove [table_simps, intro]: "hm_wf m \<Longrightarrow> hm_wf (hm_remove k m)"
  by (simp add: hm_wf_def hm_remove_def distinct_delete)

lemma hm_wf_retain [table_simps, intro]: "hm_wf m \<Longrightarrow> hm_wf (hm_retain P m)"
  by (auto simp: hm_wf_def hm_retain_def distinct_map inj_on_def)

lemma hm_get_Nil [table_simps, simp]: "hm_get [] k = None"
  by (simp add: hm_get_def)

lemma hm_get_insert [table_simps]:
  "hm_get (hm_insert k v m) k' = (if k' = k then Some v else hm_get m k')"
  by (simp add: hm_get_def hm_insert_def update_conv)

lemma hm_get_remove [table_simps]:
  "hm_get (hm_remove k m) k' = (if k' = k then None else hm_get m k')"
  by (simp add: hm_get_def hm_remove_def delete_conv)

lemma hm_get_retain [table_simps]:
  assumes "hm_wf m"
  shows "hm_get (hm_retain P m) k =
    (case hm_get m k of None \<Rightarrow> None | Some v \<Rightarrow> if P v then Some v else None)"
  using assms
proof (induction m)
  case Nil
  then show ?case by (simp add: hm_retain_def)
next
  case (Cons kv m)
  obtain k1 v1 where kv: "kv = (k1, v1)" by (cases kv)
  from Cons.prems kv have wf: "hm_wf m" and notin: "k1 \<notin> fst ` set m"
    by (auto simp: hm_wf_def)
  have "map_of (filter (\<lambda>(k, v). P v) m) k1 = None"
    using notin by (auto simp: map_of_eq_None_iff)
  with Cons.IH [OF wf] kv show ?case
    by (auto simp: hm_get_def hm_retain_def split: option.splits)
qed

lemma hm_get_Some_set: "hm_get m k = Some v \<Longrightarrow> (k, v) \<in> set m"
  by (simp add: hm_get_def map_of_SomeD)

lemma hm_get_in_set: "hm_wf m \<Longrightarrow> (k, v) \<in> set m \<Longrightarrow> hm_get m k = Some v"
  by (simp add: hm_wf_def hm_get_def)

lemma hm_get_None_iff: "hm_get m k = None \<longleftrightarrow> k \<notin> fst ` set m"
  by (simp add: hm_get_def map_of_eq_None_iff)

lemma length_hm_remove_le: "length (hm_remove k m) \<le> length m"
  by (simp add: hm_remove_def length_delete_le)

lemma length_hm_retain_le: "length (hm_retain P m) \<le> length m"
  by (simp add: hm_retain_def)

lemma length_hm_insert_new:
  "hm_get m k = None \<Longrightarrow> length (hm_insert k v m) = Suc (length m)"
  by (induction m) (auto simp: hm_get_def hm_insert_def split: if_splits)

lemma length_hm_insert_old:
  "hm_get m k = Some w \<Longrightarrow> length (hm_insert k v m) = length m"
  by (induction m) (auto simp: hm_get_def hm_insert_def split: if_splits)

lemma length_hm_remove_present:
  "hm_get m k = Some w \<Longrightarrow> length (hm_remove k m) < length m"
proof (induction m)
  case (Cons kv m)
  have "length (hm_remove k m) \<le> length m" by (rule length_hm_remove_le)
  with Cons show ?case
    by (cases kv) (auto simp: hm_get_def hm_remove_def split: if_splits)
qed simp

lemma keys_hm_insert: "fst ` set (hm_insert k v m) = insert k (fst ` set m)"
  by (simp add: hm_insert_def dom_update)

lemma length_hm_keys: "hm_wf m \<Longrightarrow> length m = card (fst ` set m)"
  by (metis hm_wf_def distinct_card length_map list.set_map)

subsection \<open>Characters of a string\<close>

text \<open>
  \<open>str::chars\<close> on a UTF-8 string: a character is a byte that is no continuation byte, together
  with the continuation bytes (\<open>0x80..0xBF\<close>) that follow it.
\<close>

definition is_cont :: "char \<Rightarrow> bool" where
  "is_cont c \<longleftrightarrow> 128 \<le> (of_char c :: nat) \<and> (of_char c :: nat) < 192"

function chars :: "string \<Rightarrow> string list" where
  "chars [] = []"
| "chars (c # cs) = (c # takeWhile is_cont cs) # chars (dropWhile is_cont cs)"
  by pat_completeness auto
termination
  by (relation "measure length") (auto simp: less_Suc_eq_le length_dropWhile_le)

lemma concat_chars [simp]: "concat (chars s) = s"
  by (induction s rule: chars.induct) auto

definition take_chars :: "nat \<Rightarrow> string \<Rightarrow> string" where
  "take_chars n s = concat (take n (chars s))"

lemma take_chars_prefix: "prefix (take_chars n s) s"
proof -
  have "s = concat (take n (chars s)) @ concat (drop n (chars s))"
    by (simp flip: concat_append)
  then show ?thesis unfolding take_chars_def prefix_def by blast
qed

text \<open>\<open>char::is_whitespace\<close> (Unicode \<open>White_Space\<close>) on the UTF-8 bytes of one character, and the
  operations built on it.\<close>

definition is_white :: "string \<Rightarrow> bool" where
  "is_white c =
     (case map (of_char :: char \<Rightarrow> nat) c of
        [a] \<Rightarrow> a = 32 \<or> 9 \<le> a \<and> a \<le> 13
      | [a, b] \<Rightarrow> a = 0xC2 \<and> (b = 0x85 \<or> b = 0xA0)
      | [a, b, d] \<Rightarrow>
          a = 0xE1 \<and> b = 0x9A \<and> d = 0x80
        \<or> a = 0xE2 \<and> b = 0x80 \<and> (0x80 \<le> d \<and> d \<le> 0x8A \<or> d = 0xA8 \<or> d = 0xA9 \<or> d = 0xAF)
        \<or> a = 0xE2 \<and> b = 0x81 \<and> d = 0x9F
        \<or> a = 0xE3 \<and> b = 0x80 \<and> d = 0x80
      | _ \<Rightarrow> False)"

definition trim :: "string \<Rightarrow> string" where
  "trim s = concat (rev (dropWhile is_white (rev (dropWhile is_white (chars s)))))"

function split_white :: "string list \<Rightarrow> string list" where
  "split_white cs =
     (case dropWhile is_white cs of
        [] \<Rightarrow> []
      | c # rest \<Rightarrow>
          concat (takeWhile (\<lambda>x. \<not> is_white x) (c # rest))
            # split_white (dropWhile (\<lambda>x. \<not> is_white x) rest))"
  by pat_completeness auto
termination
proof (relation "measure length", simp, goal_cases)
  case (1 cs c rest)
  have "length (dropWhile (\<lambda>x. \<not> is_white x) rest) \<le> length rest" by (rule length_dropWhile_le)
  moreover have "length (c # rest) \<le> length cs" using length_dropWhile_le [of is_white cs] 1 by simp
  ultimately show ?case by simp
qed

declare split_white.simps [simp del]

definition split_whitespace :: "string \<Rightarrow> string list" where
  "split_whitespace s = split_white (chars s)"

text \<open>\<open>str::strip_prefix\<close>, \<open>split_once\<close> on one character, and the last part of \<open>rsplit\<close>.\<close>

definition strip_prefix :: "string \<Rightarrow> string \<Rightarrow> string option" where
  "strip_prefix p s = (if prefix p s then Some (drop (length p) s) else None)"

definition split_once :: "char \<Rightarrow> string \<Rightarrow> (string \<times> string) option" where
  "split_once c s =
     (case dropWhile (\<lambda>x. x \<noteq> c) s of [] \<Rightarrow> None | _ # rest \<Rightarrow> Some (takeWhile (\<lambda>x. x \<noteq> c) s, rest))"

definition last_part :: "char \<Rightarrow> string \<Rightarrow> string" where
  "last_part c s = rev (takeWhile (\<lambda>x. x \<noteq> c) (rev s))"

lemma strip_prefix_append [simp]: "strip_prefix p (p @ s) = Some s"
  by (simp add: strip_prefix_def)

lemma strip_prefix_Some: "strip_prefix p s = Some r \<longleftrightarrow> s = p @ r"
  by (auto simp: strip_prefix_def prefix_def)

lemma split_once_append [simp]:
  assumes "c \<notin> set a"
  shows "split_once c (a @ c # b) = Some (a, b)"
proof -
  from assms have "\<And>x. x \<in> set a \<Longrightarrow> x \<noteq> c" by blast
  then show ?thesis by (simp add: split_once_def)
qed

lemma split_once_Some: "split_once c s = Some (a, b) \<Longrightarrow> s = a @ c # b \<and> c \<notin> set a"
proof -
  assume h: "split_once c s = Some (a, b)"
  then obtain x where d: "dropWhile (\<lambda>x. x \<noteq> c) s = x # b" and a: "a = takeWhile (\<lambda>x. x \<noteq> c) s"
    by (auto simp: split_once_def split: list.splits)
  have "x = c" using d by (metis (mono_tags, lifting) dropWhile_eq_Cons_conv)
  with d a show ?thesis by (metis takeWhile_dropWhile_id set_takeWhileD)
qed

text \<open>\<open>str::to_ascii_lowercase\<close> and \<open>char::is_ascii_alphanumeric\<close>.\<close>

definition to_ascii_lowercase :: "string \<Rightarrow> string" where
  "to_ascii_lowercase s =
     map (\<lambda>c. if 65 \<le> (of_char c :: nat) \<and> (of_char c :: nat) \<le> 90
               then char_of ((of_char c :: nat) + 32) else c) s"

definition ascii_alphanumeric :: "string \<Rightarrow> bool" where
  "ascii_alphanumeric c =
     (case map (of_char :: char \<Rightarrow> nat) c of
        [n] \<Rightarrow> 48 \<le> n \<and> n \<le> 57 \<or> 65 \<le> n \<and> n \<le> 90 \<or> 97 \<le> n \<and> n \<le> 122
      | _ \<Rightarrow> False)"

text \<open>\<open>[String]::join\<close>.\<close>

fun join :: "string \<Rightarrow> string list \<Rightarrow> string" where
  "join sep [] = []"
| "join sep [x] = x"
| "join sep (x # y # xs) = x @ sep @ join sep (y # xs)"

subsection \<open>Lowercase hex\<close>

definition hex_digits :: string where
  "hex_digits = ''0123456789abcdef''"

definition hex_byte :: "byte \<Rightarrow> string" where
  "hex_byte b = [hex_digits ! (unat b div 16), hex_digits ! (unat b mod 16)]"

definition hex :: "byte list \<Rightarrow> string" where
  "hex bs = concat (map hex_byte bs)"

lemma hex_digit_inj:
  assumes "i < 16" and "j < 16" and "hex_digits ! i = hex_digits ! j"
  shows "i = j"
proof -
  have "distinct hex_digits" "length hex_digits = 16" by (simp_all add: hex_digits_def)
  with assms show ?thesis by (simp add: nth_eq_iff_index_eq)
qed

lemma byte_less: "unat (b :: byte) < 256"
  by (rule order.strict_trans2 [OF unsigned_less]) simp

lemma hex_byte_inj: "hex_byte a = hex_byte b \<Longrightarrow> a = b"
proof -
  assume eq: "hex_byte a = hex_byte b"
  have d: "unat a div 16 = unat b div 16" "unat a mod 16 = unat b mod 16"
    using eq byte_less [of a] byte_less [of b]
    by (auto simp: hex_byte_def intro!: hex_digit_inj)
  then have "unat a = unat b" by (metis div_mult_mod_eq)
  then show "a = b" by (rule unsigned_word_eqI)
qed

lemma hex_inj: "hex as = hex bs \<Longrightarrow> as = bs"
proof (induction as arbitrary: bs)
  case Nil
  then show ?case by (cases bs) (auto simp: hex_def hex_byte_def)
next
  case (Cons a as)
  then obtain b bs' where bs: "bs = b # bs'"
    by (cases bs) (auto simp: hex_def hex_byte_def)
  with Cons.prems have "hex_byte a = hex_byte b" "hex as = hex bs'"
    by (auto simp: hex_def hex_byte_def)
  with bs Cons.IH show ?case by (auto dest: hex_byte_inj)
qed

subsection \<open>Decimal numbers\<close>

text \<open>The decimal text of an unsigned integer, as \<open>to_string\<close> prints it.\<close>

fun dec :: "nat \<Rightarrow> string" where
  "dec n = (if n < 10 then [char_of (48 + n)] else dec (n div 10) @ [char_of (48 + n mod 10)])"

declare dec.simps [simp del]

subsection \<open>The first minimum of an iterator\<close>

text \<open>\<open>Iterator::min_by_key\<close>: the first element with the least key.\<close>

fun min_by_key :: "('a \<Rightarrow> 'b::linorder) \<Rightarrow> 'a list \<Rightarrow> 'a option" where
  "min_by_key f [] = None"
| "min_by_key f (x # xs) =
     (case min_by_key f xs of
        None \<Rightarrow> Some x
      | Some y \<Rightarrow> if f x \<le> f y then Some x else Some y)"

lemma min_by_key_None_iff: "min_by_key f xs = None \<longleftrightarrow> xs = []"
  by (cases xs) (auto split: option.splits)

lemma min_by_key_Some:
  "min_by_key f xs = Some y \<Longrightarrow> y \<in> set xs \<and> (\<forall>x\<in>set xs. f y \<le> f x)"
proof (induction xs arbitrary: y)
  case (Cons x xs)
  then show ?case
    by (cases "min_by_key f xs") (force simp: min_by_key_None_iff split: if_splits)+
qed simp

subsection \<open>Results\<close>

text \<open>The \<open>?\<close> operator on \<open>Result\<close>, \<open>Option::ok_or\<close>, and a check that returns early.\<close>

definition ebind :: "'e + 'a \<Rightarrow> ('a \<Rightarrow> 'e + 'b) \<Rightarrow> 'e + 'b" where
  "ebind m f = (case m of Inl e \<Rightarrow> Inl e | Inr x \<Rightarrow> f x)"

definition ok_or :: "'e \<Rightarrow> 'a option \<Rightarrow> 'e + 'a" where
  "ok_or e x = (case x of None \<Rightarrow> Inl e | Some a \<Rightarrow> Inr a)"

definition ensure :: "bool \<Rightarrow> 'e \<Rightarrow> 'e + unit" where
  "ensure b e = (if b then Inr () else Inl e)"

lemma ebind_simps [simp]: "ebind (Inl e) f = Inl e" "ebind (Inr x) f = f x"
  by (simp_all add: ebind_def)

lemma ebind_Inr_iff: "ebind m f = Inr y \<longleftrightarrow> (\<exists>x. m = Inr x \<and> f x = Inr y)"
  by (cases m) auto

lemma ebind_Inl_iff: "ebind m f = Inl e \<longleftrightarrow> m = Inl e \<or> (\<exists>x. m = Inr x \<and> f x = Inl e)"
  by (cases m) auto

lemma ok_or_Inr_iff: "ok_or e x = Inr a \<longleftrightarrow> x = Some a"
  by (auto simp: ok_or_def split: option.splits)

lemma ok_or_Inl_iff: "ok_or e x = Inl e' \<longleftrightarrow> x = None \<and> e' = e"
  by (auto simp: ok_or_def split: option.splits)

lemma ok_or_simps [simp]: "ok_or e None = Inl e" "ok_or e (Some a) = Inr a"
  by (simp_all add: ok_or_def)

lemma ensure_Inr_iff: "ensure b e = Inr u \<longleftrightarrow> b"
  by (auto simp: ensure_def)

lemma ensure_Inl_iff: "ensure b e = Inl e' \<longleftrightarrow> \<not> b \<and> e' = e"
  by (auto simp: ensure_def)

lemma ensure_simps [simp]: "ensure True e = Inr ()" "ensure False e = Inl e"
  by (simp_all add: ensure_def)

lemmas result_iffs = ebind_Inr_iff ebind_Inl_iff ok_or_Inr_iff ok_or_Inl_iff ensure_Inr_iff ensure_Inl_iff

subsection \<open>Slices\<close>

text \<open>Indexing and slicing of a byte array; \<open>None\<close> is the panic of an index out of range.\<close>

definition at :: "'a list \<Rightarrow> nat \<Rightarrow> 'a option" where
  "at xs i = (if i < length xs then Some (xs ! i) else None)"

definition slice :: "'a list \<Rightarrow> nat \<Rightarrow> nat \<Rightarrow> 'a list option" where
  "slice xs i j = (if i \<le> j \<and> j \<le> length xs then Some (take (j - i) (drop i xs)) else None)"

lemma at_append_left [simp]: "i < length xs \<Longrightarrow> at (xs @ ys) i = at xs i"
  by (simp add: at_def nth_append)

lemma at_append_right [simp]: "length xs \<le> i \<Longrightarrow> at (xs @ ys) i = at ys (i - length xs)"
  by (auto simp: at_def nth_append)

subsection \<open>JSON values\<close>

text \<open>\<open>serde_json::Value\<close>. An object is its list of members; a number is its text.\<close>

datatype json =
    JNull
  | JBool bool
  | JNum string
  | JString string
  | JArray "json list"
  | JObject "(string \<times> json) list"

definition json_get :: "json \<Rightarrow> string \<Rightarrow> json option" where
  "json_get v key = (case v of JObject ms \<Rightarrow> map_of ms key | _ \<Rightarrow> None)"

definition json_str :: "json \<Rightarrow> string option" where
  "json_str v = (case v of JString s \<Rightarrow> Some s | _ \<Rightarrow> None)"

lemma json_str_simps [simp]: "json_str (JString s) = Some s"
  by (simp add: json_str_def)

definition json_bool :: "json \<Rightarrow> bool option" where
  "json_bool v = (case v of JBool b \<Rightarrow> Some b | _ \<Rightarrow> None)"

subsection \<open>Tables whose entries expire\<close>

text \<open>
  The sign-in throttle, the session table and the table of pending ceremonies are all hash maps
  whose entries stop counting at some instant and are swept now and then. What a client of such a
  table can rely on depends on one law only: an entry that has expired stays expired.
\<close>

locale expiring_table =
  fixes live :: "time \<Rightarrow> 'v \<Rightarrow> bool"
  assumes live_antimono: "now \<le> later \<Longrightarrow> live later v \<Longrightarrow> live now v"
begin

definition view :: "time \<Rightarrow> ('k, 'v) hmap \<Rightarrow> 'k \<Rightarrow> 'v option" where
  "view now m k = (case hm_get m k of None \<Rightarrow> None | Some v \<Rightarrow> if live now v then Some v else None)"

lemma view_Some_iff: "view now m k = Some v \<longleftrightarrow> hm_get m k = Some v \<and> live now v"
  by (auto simp: view_def split: option.splits)

text \<open>A sweep is invisible from its own instant on.\<close>

lemma view_sweep:
  assumes "hm_wf m" and "now \<le> later"
  shows "view later (hm_retain (live now) m) k = view later m k"
  using assms live_antimono [OF assms(2)]
  by (auto simp: view_def hm_get_retain split: option.splits)

text \<open>Time alone only takes entries away.\<close>

lemma view_shrinks:
  assumes "now \<le> later" and "view later m k = Some v"
  shows "view now m k = Some v"
  using assms live_antimono by (auto simp: view_Some_iff)

lemma sweep_keeps_live:
  assumes "hm_wf m" and "hm_get m k = Some v" and "live now v"
  shows "hm_get (hm_retain (live now) m) k = Some v"
  using assms by (simp add: hm_get_retain)

lemma sweep_drops_expired:
  assumes "hm_wf m" and "hm_get (hm_retain (live now) m) k = Some v"
  shows "live now v \<and> hm_get m k = Some v"
  using assms by (auto simp: hm_get_retain split: option.splits if_splits)

end

subsection \<open>Machines with an invariant\<close>

text \<open>
  A stateful component is driven by a list of operations; \<open>run\<close> threads its state through them and
  collects what each operation answered.
\<close>

fun run :: "('s \<Rightarrow> 'e \<Rightarrow> 's \<times> 'o) \<Rightarrow> 's \<Rightarrow> 'e list \<Rightarrow> 's \<times> 'o list" where
  "run step s [] = (s, [])"
| "run step s (e # es) =
     (let (s1, out) = step s e; (s2, outs) = run step s1 es in (s2, out # outs))"

lemma run_Cons:
  "run step s (e # es) =
     (fst (run step (fst (step s e)) es), snd (step s e) # snd (run step (fst (step s e)) es))"
  by (simp add: Let_def case_prod_unfold)

lemma run_append:
  "run step s (es @ fs) =
     (fst (run step (fst (run step s es)) fs),
      snd (run step s es) @ snd (run step (fst (run step s es)) fs))"
proof (induction es arbitrary: s)
  case (Cons e es)
  then show ?case by (simp only: append_Cons run_Cons) simp
qed simp

lemma length_run [simp]: "length (snd (run step s es)) = length es"
proof (induction es arbitrary: s)
  case (Cons e es)
  then show ?case by (simp only: run_Cons) simp
qed simp

lemma run_snoc:
  "run step s (es @ [e]) =
     (fst (step (fst (run step s es)) e), snd (run step s es) @ [snd (step (fst (run step s es)) e)])"
  by (simp add: run_append Let_def case_prod_unfold)

locale invariant_machine =
  fixes step :: "'s \<Rightarrow> 'e \<Rightarrow> 's \<times> 'o" and inv :: "'s \<Rightarrow> bool"
  assumes inv_step: "inv s \<Longrightarrow> inv (fst (step s e))"
begin

lemma inv_run: "inv s \<Longrightarrow> inv (fst (run step s es))"
proof (induction es arbitrary: s)
  case (Cons e es)
  then show ?case using inv_step [of s e] by (simp only: run_Cons) simp
qed simp

end

subsection \<open>Where a stored entry comes from\<close>

definition state_at :: "('s \<Rightarrow> 'e \<Rightarrow> 's \<times> 'o) \<Rightarrow> 's \<Rightarrow> 'e list \<Rightarrow> nat \<Rightarrow> 's" where
  "state_at step s es n = fst (run step s (take n es))"

lemma state_at_0 [simp]: "state_at step s es 0 = s"
  by (simp add: state_at_def)

lemma state_at_Suc:
  "n < length es \<Longrightarrow> state_at step s es (Suc n) = fst (step (state_at step s es n) (es ! n))"
  by (simp add: state_at_def take_Suc_conv_app_nth run_snoc)

lemma run_nth:
  assumes "n < length es"
  shows "snd (run step s es) ! n = snd (step (state_at step s es n) (es ! n))"
proof -
  have "es = take n es @ es ! n # drop (Suc n) es" using assms by (rule id_take_nth_drop)
  then have "snd (run step s es) = snd (run step s (take n es)) @
      snd (run step (state_at step s es n) (es ! n # drop (Suc n) es))"
    unfolding state_at_def by (metis run_append snd_conv)
  then show ?thesis using assms by (simp add: nth_append run_Cons del: run.simps)
qed

text \<open>
  A table inside the state of a machine: an entry that is there after a step was there before it or
  the step put it there. Then every entry at any moment has an origin among the steps so far, and
  has been there ever since.
\<close>

locale provenance = invariant_machine step inv
  for step :: "'s \<Rightarrow> 'e \<Rightarrow> 's \<times> 'o" and inv :: "'s \<Rightarrow> bool" +
  fixes lookup :: "'s \<Rightarrow> 'k \<Rightarrow> 'v option" and creates :: "'s \<Rightarrow> 'e \<Rightarrow> 'k \<Rightarrow> 'v \<Rightarrow> bool"
  assumes origin_step:
    "inv s \<Longrightarrow> lookup (fst (step s e)) k = Some v \<Longrightarrow> lookup s k = Some v \<or> creates s e k v"
begin

lemma inv_state_at: "inv s \<Longrightarrow> inv (state_at step s es n)"
  unfolding state_at_def by (rule inv_run)

lemma entry_origin:
  assumes "inv s" and "n \<le> length es" and "lookup (state_at step s es n) k = Some v"
    and "lookup s k = None"
  shows "\<exists>i<n. creates (state_at step s es i) (es ! i) k v
           \<and> (\<forall>j. i < j \<and> j \<le> n \<longrightarrow> lookup (state_at step s es j) k = Some v)"
  using assms(2,3)
proof (induction n)
  case 0
  with assms(4) show ?case by simp
next
  case (Suc n)
  then have st: "state_at step s es (Suc n) = fst (step (state_at step s es n) (es ! n))"
    by (simp add: state_at_Suc)
  from origin_step [OF inv_state_at [OF assms(1)]] Suc.prems(2) st
  consider "lookup (state_at step s es n) k = Some v" | "creates (state_at step s es n) (es ! n) k v"
    by metis
  then show ?case
  proof cases
    case 1
    with Suc obtain i where "i < n" "creates (state_at step s es i) (es ! i) k v"
      "\<forall>j. i < j \<and> j \<le> n \<longrightarrow> lookup (state_at step s es j) k = Some v"
      by (auto dest: Suc_leD)
    with Suc.prems(2) show ?thesis by (intro exI [of _ i]) (auto simp: le_Suc_eq)
  next
    case 2
    with Suc.prems(2) show ?thesis by (intro exI [of _ n]) (auto simp: le_Suc_eq)
  qed
qed

end

end
