(* ===== verification/Events.thy ===== *)
theory Events
  imports Prelude
begin

section \<open>The event envelope and its conformance check\<close>

text \<open>
  \<open>crates/core/src/event.rs\<close>, \<open>conform.rs\<close> and \<open>attribution.rs\<close>: the envelope versions, the typed
  envelope, the check a line has to pass before it becomes an event, and the rule that names the
  subject an event is filed under. Parameters (\<open>conform_ext\<close>): the JSON parser, the compiled JSON
  schema validators, the derived decoder of the envelope and the escaping of \<open>{:?}\<close>, which depends
  on Unicode tables.
\<close>

subsection \<open>The envelope (\<open>event.rs\<close>)\<close>

datatype schema_version = V0_1 | V0_2 | V1_0

definition SCHEMA_V0_1 :: string where "SCHEMA_V0_1 = ''taipanbox.dev/agent-event/v0.1''"
definition SCHEMA_V0_2 :: string where "SCHEMA_V0_2 = ''taipanbox.dev/agent-event/v0.2''"
definition SCHEMA_V1_0 :: string where "SCHEMA_V1_0 = ''taipanbox.dev/agent-event/v1.0''"

lemmas schema_names = SCHEMA_V0_1_def SCHEMA_V0_2_def SCHEMA_V1_0_def

definition from_schema_str :: "string \<Rightarrow> schema_version option" where
  "from_schema_str s =
     (if s = SCHEMA_V0_1 then Some V0_1
      else if s = SCHEMA_V0_2 then Some V0_2
      else if s = SCHEMA_V1_0 then Some V1_0
      else None)"

definition schema_str :: "schema_version \<Rightarrow> string" where
  "schema_str v = (case v of V0_1 \<Rightarrow> SCHEMA_V0_1 | V0_2 \<Rightarrow> SCHEMA_V0_2 | V1_0 \<Rightarrow> SCHEMA_V1_0)"

lemma from_schema_str_inverse: "from_schema_str (schema_str v) = Some v"
  by (cases v) (simp_all add: schema_str_def from_schema_str_def schema_names)

datatype severity = Info | Low | Medium | High | Critical

definition severity_parse :: "string \<Rightarrow> severity option" where
  "severity_parse s =
     (if s = ''info'' then Some Info
      else if s = ''low'' then Some Low
      else if s = ''medium'' then Some Medium
      else if s = ''high'' then Some High
      else if s = ''critical'' then Some Critical
      else None)"

record agent_event =
  ev_schema :: string
  ev_ts :: string
  ev_source :: string
  ev_type :: string
  ev_agent_id :: string
  ev_severity :: "string option"
  ev_run_id :: "string option"
  ev_on_behalf_of :: "string list"
  ev_data :: "json option"
  ev_prev_hash :: "string option"
  ev_extra :: "(string \<times> json) list"

definition severity_typed :: "agent_event \<Rightarrow> severity option" where
  "severity_typed e = Option.bind (ev_severity e) severity_parse"

definition event_schema_version :: "agent_event \<Rightarrow> schema_version option" where
  "event_schema_version e = from_schema_str (ev_schema e)"

record origin =
  pr_env :: string
  pr_connector :: string
  pr_file :: "string option"
  pr_offset :: "nat option"
  pr_endpoint :: "string option"
  pr_received_ts :: string

record console_event =
  ce_event :: agent_event
  ce_origin :: origin
  ce_raw :: string
  ce_schema_version :: schema_version

subsection \<open>Conformance (\<open>conform.rs\<close>)\<close>

definition CLAIMED_PREFIX :: string where "CLAIMED_PREFIX = ''claimed:''"

definition CLAIMED_SUBJECT_REFUSED :: string where
  "CLAIMED_SUBJECT_REFUSED =
     ''claimed subject refused: agent_id carries `claimed:` and this console does not model claimed identities (agent-passport SPEC 3.3, 6.4.1)''"

record conform_ext =
  parse_json :: "string \<Rightarrow> string + json"
  schema_valid :: "schema_version \<Rightarrow> json \<Rightarrow> bool"
  schema_errors :: "schema_version \<Rightarrow> json \<Rightarrow> string list"
  decode_event :: "string \<Rightarrow> string + agent_event"
  debug_str :: "string \<Rightarrow> string"

text \<open>The derived decoder reads the same members the parsed value has: \<open>schema\<close>, \<open>source\<close> and
  \<open>agent_id\<close> are plain required strings.\<close>

definition decodes_members :: "'x conform_ext_scheme \<Rightarrow> bool" where
  "decodes_members X \<longleftrightarrow>
     (\<forall>line e v. decode_event X line = Inr e \<longrightarrow> parse_json X line = Inr v \<longrightarrow>
        json_get v ''schema'' = Some (JString (ev_schema e))
      \<and> json_get v ''source'' = Some (JString (ev_source e))
      \<and> json_get v ''agent_id'' = Some (JString (ev_agent_id e)))"

record conform_report =
  rep_valid :: bool
  rep_schema_version :: "schema_version option"
  rep_errors :: "string list"

definition report_invalid :: "schema_version option \<Rightarrow> string list \<Rightarrow> conform_report" where
  "report_invalid version errors =
     \<lparr>rep_valid = False, rep_schema_version = version, rep_errors = errors\<rparr>"

definition check_value :: "'x conform_ext_scheme \<Rightarrow> json \<Rightarrow> conform_report" where
  "check_value X v =
     (let declared = Option.bind (json_get v ''schema'') json_str in
      case Option.bind declared from_schema_str of
        None \<Rightarrow>
          report_invalid None
            [''unknown or missing `schema` (got ''
               @ debug_str X (case declared of Some s \<Rightarrow> s | None \<Rightarrow> ''<missing>'')
               @ ''); expected '' @ debug_str X SCHEMA_V0_1 @ '', '' @ debug_str X SCHEMA_V0_2
               @ '' or '' @ debug_str X SCHEMA_V1_0]
      | Some version \<Rightarrow>
          if schema_valid X version v then
            (if (case Option.bind (json_get v ''agent_id'') json_str of
                   Some i \<Rightarrow> prefix CLAIMED_PREFIX i
                 | None \<Rightarrow> False)
             then report_invalid (Some version) [CLAIMED_SUBJECT_REFUSED]
             else \<lparr>rep_valid = True, rep_schema_version = Some version, rep_errors = []\<rparr>)
          else report_invalid (Some version) (schema_errors X version v))"

definition check_line :: "'x conform_ext_scheme \<Rightarrow> string \<Rightarrow> conform_report" where
  "check_line X line =
     (case parse_json X line of
        Inr v \<Rightarrow> check_value X v
      | Inl e \<Rightarrow> report_invalid None [''malformed json: '' @ e])"

definition parse_valid :: "'x conform_ext_scheme \<Rightarrow> string \<Rightarrow> conform_report + agent_event" where
  "parse_valid X line =
     (let report = check_line X line in
      if \<not> rep_valid report then Inl report
      else (case decode_event X line of
              Inl e \<Rightarrow> Inl (report_invalid (rep_schema_version report) [''decode: '' @ e])
            | Inr e \<Rightarrow> Inr e))"

text \<open>A line that passes is valid under the schema it names, and its subject is no claim.\<close>

lemma parse_valid_Inr:
  assumes "decodes_members X" and "parse_valid X line = Inr e"
  shows "\<exists>v version. parse_json X line = Inr v \<and> event_schema_version e = Some version
    \<and> schema_valid X version v \<and> \<not> prefix CLAIMED_PREFIX (ev_agent_id e)"
proof -
  from assms(2) have valid: "rep_valid (check_line X line)" and e: "decode_event X line = Inr e"
    by (auto simp: parse_valid_def Let_def split: if_splits sum.splits)
  from valid obtain v where v: "parse_json X line = Inr v" and cv: "rep_valid (check_value X v)"
    by (auto simp: check_line_def report_invalid_def split: sum.splits)
  from assms(1) e v have m: "json_get v ''schema'' = Some (JString (ev_schema e))"
    "json_get v ''agent_id'' = Some (JString (ev_agent_id e))"
    by (auto simp: decodes_members_def)
  from cv m v show ?thesis
    by (auto simp: check_value_def Let_def report_invalid_def event_schema_version_def
        split: if_splits option.splits)
qed

subsection \<open>Attribution (\<open>attribution.rs\<close>)\<close>

definition IDENTITY_MISMATCH :: string where "IDENTITY_MISMATCH = ''identity_mismatch''"
definition KEY_PREFIX :: string where "KEY_PREFIX = ''key:''"
definition NO_KEY :: string where "NO_KEY = ''key:(none)''"

definition key_of :: "json option \<Rightarrow> string option" where
  "key_of data =
     (case Option.bind (Option.bind data (\<lambda>d. json_get d ''key_id'')) json_str of
        Some k \<Rightarrow> if k \<noteq> [] then Some k else None
      | None \<Rightarrow> None)"

definition filed_under :: "string \<Rightarrow> string \<Rightarrow> json option \<Rightarrow> string" where
  "filed_under type agent_id data =
     (if type \<noteq> IDENTITY_MISMATCH then agent_id
      else (case key_of data of Some key \<Rightarrow> KEY_PREFIX @ key | None \<Rightarrow> NO_KEY))"

definition refused_key :: "string \<Rightarrow> json option \<Rightarrow> string option" where
  "refused_key type data = (if type \<noteq> IDENTITY_MISMATCH then None else key_of data)"

text \<open>A refusal is never filed under the identity it claimed: whoever the caller said it was, the
  event lands under a key.\<close>

lemma refusal_filed_under_key:
  "prefix KEY_PREFIX (filed_under IDENTITY_MISMATCH claimed data)
   \<and> filed_under IDENTITY_MISMATCH claimed data = filed_under IDENTITY_MISMATCH other data"
  by (auto simp: filed_under_def KEY_PREFIX_def NO_KEY_def split: option.splits)

text \<open>The subject of a refusal without a key is not reserved: a caller that names the key \<open>(none)\<close> is
  filed under it as well.\<close>

lemma no_key_is_a_key:
  "filed_under IDENTITY_MISMATCH i (Some (JObject [(''key_id'', JString ''(none)'')])) = NO_KEY
   \<and> filed_under IDENTITY_MISMATCH i None = NO_KEY"
  by (simp add: filed_under_def key_of_def json_get_def KEY_PREFIX_def NO_KEY_def)

end
