(* ===== verification/Utf8.thy ===== *)
theory Utf8
  imports Prelude
begin

section \<open>Bytes that become text\<close>

text \<open>
  \<open>String::from_utf8_lossy\<close> of the standard library: well-formed characters are kept, and every
  maximal ill-formed sequence is replaced by U+FFFD. Tails of event files and the decoder of the
  event stream both read bytes through it, line by line.
\<close>

definition in_range :: "nat \<Rightarrow> nat \<Rightarrow> char option \<Rightarrow> bool" where
  "in_range lo hi c = (case c of Some b \<Rightarrow> lo \<le> of_char b \<and> (of_char b :: nat) \<le> hi | None \<Rightarrow> False)"

text \<open>Whether the second byte may follow the first, for the sequences of three and of four bytes.\<close>

definition second_ok :: "nat \<Rightarrow> char option \<Rightarrow> bool" where
  "second_ok a b =
     (if a = 0xE0 then in_range 0xA0 0xBF b
      else if a = 0xED then in_range 0x80 0x9F b
      else if a = 0xF0 then in_range 0x90 0xBF b
      else if a = 0xF4 then in_range 0x80 0x8F b
      else in_range 0x80 0xBF b)"

text \<open>The next chunk of a byte string: whether it is one well-formed character, and how many bytes it
  takes (of an ill-formed sequence, the longest prefix that could have begun a character).\<close>

definition utf8_step :: "char \<Rightarrow> string \<Rightarrow> bool \<times> nat" where
  "utf8_step c cs =
     (let a = of_char c :: nat; b = at cs 0; d = at cs 1; e = at cs 2 in
      if a < 0x80 then (True, 1)
      else if 0xC2 \<le> a \<and> a \<le> 0xDF then
        (if in_range 0x80 0xBF b then (True, 2) else (False, 1))
      else if 0xE0 \<le> a \<and> a \<le> 0xEF then
        (if \<not> second_ok a b then (False, 1)
         else if \<not> in_range 0x80 0xBF d then (False, 2) else (True, 3))
      else if 0xF0 \<le> a \<and> a \<le> 0xF4 then
        (if \<not> second_ok a b then (False, 1)
         else if \<not> in_range 0x80 0xBF d then (False, 2)
         else if \<not> in_range 0x80 0xBF e then (False, 3) else (True, 4))
      else (False, 1))"

definition REPLACEMENT :: string where
  "REPLACEMENT = [char_of (0xEF :: nat), char_of (0xBF :: nat), char_of (0xBD :: nat)]"

lemma utf8_step_pos: "snd (utf8_step c cs) \<noteq> 0"
  by (simp add: utf8_step_def Let_def)

function from_utf8_lossy :: "string \<Rightarrow> string" where
  "from_utf8_lossy [] = []"
| "from_utf8_lossy (c # cs) =
     (case utf8_step c cs of
        (ok, n) \<Rightarrow> (if ok then take n (c # cs) else REPLACEMENT) @ from_utf8_lossy (drop n (c # cs)))"
  by pat_completeness auto
termination
proof (relation "measure length")
  fix c cs ok n assume "(ok, n) = utf8_step c cs"
  then have "n = snd (utf8_step c cs)" by (metis snd_conv)
  with utf8_step_pos [of c cs] show "(drop n (c # cs), c # cs) \<in> measure length" by (cases n) auto
qed simp

declare from_utf8_lossy.simps(2) [simp del]

definition utf8_ok :: "string \<Rightarrow> bool" where
  "utf8_ok s \<longleftrightarrow> from_utf8_lossy s = s"

definition LF :: char where "LF = CHR 0x0A"

text \<open>ASCII bytes stand for themselves.\<close>

lemma from_utf8_lossy_ascii:
  "(of_char c :: nat) < 128 \<Longrightarrow> from_utf8_lossy (c # s) = c # from_utf8_lossy s"
  by (simp add: from_utf8_lossy.simps(2) utf8_step_def Let_def)

lemma from_utf8_lossy_ascii_append:
  "list_all (\<lambda>c. (of_char c :: nat) < 128) p \<Longrightarrow> from_utf8_lossy (p @ s) = p @ from_utf8_lossy s"
  by (induction p) (simp_all add: from_utf8_lossy_ascii)

lemma utf8_ok_ascii_append:
  "list_all (\<lambda>c. (of_char c :: nat) < 128) p \<Longrightarrow> utf8_ok (p @ s) \<longleftrightarrow> utf8_ok s"
  by (simp add: utf8_ok_def from_utf8_lossy_ascii_append)

text \<open>A Rust \<open>str\<close> is always well-formed: every character is a whole UTF-8 sequence.\<close>

definition whole_char :: "string \<Rightarrow> bool" where
  "whole_char c = (case c of [] \<Rightarrow> False | b # bs \<Rightarrow> utf8_step b bs = (True, length c))"

definition valid_str :: "string \<Rightarrow> bool" where
  "valid_str s = list_all whole_char (chars s)"

text \<open>So an ASCII byte inside a character is the whole character.\<close>

lemma chars_shape:
  "c \<in> set (chars s) \<Longrightarrow> \<exists>b bs. c = b # bs \<and> list_all is_cont bs"
  by (induction s rule: chars.induct) (auto simp: list_all_iff dest: set_takeWhileD)

lemma whole_char_ascii:
  assumes "c \<in> set (chars s)" and "whole_char c" and "a \<in> set c" and "(of_char a :: nat) < 128"
  shows "c = [a]"
proof -
  obtain b bs where c: "c = b # bs" "list_all is_cont bs" using chars_shape [OF assms(1)] by blast
  then have "a \<notin> set bs" using assms(4) by (auto simp: list_all_iff is_cont_def)
  with c assms(3) have a: "a = b" by simp
  have "utf8_step b bs = (True, length c)" using assms(2) by (simp add: whole_char_def c)
  with a assms(4) have "length c = 1" by (simp add: utf8_step_def Let_def)
  with c a show ?thesis by simp
qed

text \<open>A string that begins no character in the middle can be appended character by character.\<close>

definition starts_char :: "string \<Rightarrow> bool" where
  "starts_char s = (case s of [] \<Rightarrow> True | b # _ \<Rightarrow> \<not> is_cont b)"

lemma cont_run:
  assumes "\<forall>b\<in>set s. is_cont b"
  shows "takeWhile is_cont s = s" and "dropWhile is_cont s = []"
    and "\<not> is_cont b \<Longrightarrow> takeWhile is_cont (s @ b # t) = s"
    and "\<not> is_cont b \<Longrightarrow> dropWhile is_cont (s @ b # t) = b # t"
  using assms by (induction s) auto

lemma chars_append: "starts_char t \<Longrightarrow> chars (s @ t) = chars s @ chars t"
proof (induction s rule: chars.induct)
  case (2 c cs)
  show ?case
  proof (cases "dropWhile is_cont cs = []")
    case True
    then have "\<forall>b\<in>set cs. is_cont b" by (simp add: dropWhile_eq_Nil_conv)
    with 2(2) show ?thesis
      by (cases t) (simp_all add: starts_char_def cont_run)
  next
    case False
    then obtain b where "b \<in> set cs" "\<not> is_cont b" by (auto simp: dropWhile_eq_Nil_conv)
    with 2 show ?thesis by (simp add: takeWhile_append1 dropWhile_append1)
  qed
qed simp

lemma whole_char_starts: "whole_char c \<Longrightarrow> c \<noteq> [] \<and> starts_char c"
  by (auto simp: whole_char_def starts_char_def is_cont_def utf8_step_def Let_def split: list.splits if_splits)

lemma chars_take_chars: "chars (take_chars n s) = take n (chars s)"
proof (induction s arbitrary: n rule: chars.induct)
  case (2 c cs)
  show ?case
  proof (cases n)
    case (Suc m)
    let ?t = "concat (take m (chars (dropWhile is_cont cs)))"
    have "starts_char ?t"
    proof (cases "dropWhile is_cont cs")
      case (Cons b bs)
      then have "\<not> is_cont b" by (metis hd_dropWhile list.distinct(1) list.sel(1))
      then show ?thesis by (cases m) (simp_all add: Cons starts_char_def)
    next
      case Nil
      show ?thesis unfolding Nil by (simp add: starts_char_def)
    qed
    moreover have "chars (c # takeWhile is_cont cs) = [c # takeWhile is_cont cs]"
    proof -
      have "\<forall>b\<in>set (takeWhile is_cont cs). is_cont b" by (auto dest: set_takeWhileD)
      then show ?thesis by (simp add: cont_run)
    qed
    ultimately have "chars ((c # takeWhile is_cont cs) @ ?t) = (c # takeWhile is_cont cs) # chars ?t"
      by (subst chars_append) (simp_all del: chars.simps)
    with Suc 2 [of m] show ?thesis by (simp add: take_chars_def)
  qed (simp add: take_chars_def)
qed (simp add: take_chars_def)

lemma length_take_chars: "length (chars (take_chars n s)) \<le> n"
  by (simp add: chars_take_chars)

lemma valid_str_append:
  assumes "valid_str s" and "valid_str t"
  shows "valid_str (s @ t)"
proof -
  have "starts_char t"
  proof (cases t)
    case (Cons b bs)
    with assms(2) have "whole_char (b # takeWhile is_cont bs)" by (simp add: valid_str_def)
    from whole_char_starts [OF this] show ?thesis by (simp add: Cons starts_char_def)
  qed (simp add: starts_char_def)
  then show ?thesis using assms by (simp add: valid_str_def chars_append)
qed

text \<open>Trimming what is trimmed.\<close>

lemma chars_drop: "chars (concat (drop n (chars s))) = drop n (chars s)"
proof (induction s arbitrary: n rule: chars.induct)
  case (2 c cs)
  then show ?case by (cases n) simp_all
qed simp

lemma rev_dropWhile_take: "rev (dropWhile P (rev xs)) = take (length xs - length (takeWhile P (rev xs))) xs"
  by (simp add: dropWhile_eq_drop rev_drop)

lemma chars_trim: "chars (trim s) = rev (dropWhile is_white (rev (dropWhile is_white (chars s))))"
proof -
  define t where "t = concat (dropWhile is_white (chars s))"
  have t: "chars t = dropWhile is_white (chars s)"
    unfolding t_def by (metis chars_drop dropWhile_eq_drop)
  have "trim s = take_chars (length (chars t) - length (takeWhile is_white (rev (chars t)))) t"
    by (simp add: trim_def take_chars_def t [symmetric] rev_dropWhile_take)
  then show ?thesis
    unfolding t [symmetric] rev_dropWhile_take by (simp add: chars_take_chars)
qed

lemma trim_trim [simp]: "trim (trim s) = trim s"
proof -
  define ys where "ys = rev (dropWhile is_white (rev (dropWhile is_white (chars s))))"
  have "dropWhile is_white ys = ys"
  proof (cases "ys = []")
    case False
    then have "dropWhile is_white (chars s) \<noteq> []" unfolding ys_def by (metis dropWhile.simps(1) rev.simps(1))
    then have "\<not> is_white (hd (dropWhile is_white (chars s)))" by (rule hd_dropWhile)
    moreover have "prefix ys (dropWhile is_white (chars s))"
      unfolding ys_def rev_dropWhile_take by (rule take_is_prefix)
    then have "hd ys = hd (dropWhile is_white (chars s))"
      using False by (auto simp: prefix_def hd_append)
    ultimately show ?thesis using False by (cases ys) auto
  qed simp
  moreover have "rev (dropWhile is_white (rev ys)) = ys" by (simp add: ys_def)
  moreover have "chars (trim s) = ys" "trim s = concat ys" unfolding ys_def by (rule chars_trim, rule trim_def)
  ultimately show ?thesis by (metis trim_def)
qed
text \<open>The code point of a character.\<close>

definition code_point :: "string \<Rightarrow> nat" where
  "code_point c =
     (case map (of_char :: char \<Rightarrow> nat) c of
        [a] \<Rightarrow> a
      | [a, b] \<Rightarrow> (a mod 32) * 64 + b mod 64
      | [a, b, d] \<Rightarrow> (a mod 16) * 4096 + (b mod 64) * 64 + d mod 64
      | [a, b, d, e] \<Rightarrow> (a mod 8) * 262144 + (b mod 64) * 4096 + (d mod 64) * 64 + e mod 64
      | _ \<Rightarrow> 0)"

text \<open>\<open>char::is_control\<close>: the category Cc.\<close>

definition is_control :: "string \<Rightarrow> bool" where
  "is_control c \<longleftrightarrow> code_point c < 32 \<or> 127 \<le> code_point c \<and> code_point c < 160"

end
