(* ===== verification/Ingest.thy ===== *)
theory Ingest
  imports Events Utf8
begin

section \<open>Ingest: tailing event files into the store\<close>

text \<open>
  \<open>crates/core/src/ingest.rs\<close> and the parts of \<open>store.rs\<close> it writes through: \<open>FileTail\<close>, the
  service with its pinned sources, one poll cycle with its batch insert, quarantine and offset
  journal, and the restart that resumes from the journal. File offsets are naturals (a \<open>u64\<close> in
  the code; no file reaches \<open>2^63\<close> bytes, and the conversion to a signed SQLite integer is checked
  where the code checks it). A poll sees the file system at one instant (\<open>fs\<close>). Parameters
  (\<open>ingest_lib\<close>): the conformance parameters, SHA-256 in hex, the JSON printer and the RFC 3339
  parser. The database is a list of rows per table, with every failure it can answer an input of the
  cycle (\<open>w_store_error\<close>).
\<close>

subsection \<open>\<open>FileTail\<close>\<close>

record raw_record =
  raw :: string
  rec_file :: "string option"
  rec_offset :: "nat option"

datatype ingest_error = Io string | Conform string | StoreError string

text \<open>What opening, measuring and reading a path finds.\<close>

datatype file_view = Missing | Unreadable string | Contents string

record file_tail =
  tail_id :: string
  tail_path :: string
  tail_offset :: nat

text \<open>The loop over \<open>buf.iter().enumerate()\<close>: \<open>start\<close> and \<open>cursor\<close> as in the code.\<close>

fun tail_scan :: "string \<Rightarrow> string \<Rightarrow> (nat \<times> char) list \<Rightarrow> nat \<Rightarrow> nat \<Rightarrow> raw_record list \<times> nat" where
  "tail_scan key buf [] start cursor = ([], cursor)"
| "tail_scan key buf ((i, byte) # rest) start cursor =
     (if byte \<noteq> LF then tail_scan key buf rest start cursor
      else let line_offset = cursor; cursor' = cursor + (i - start + 1) in
        (case tail_scan key buf rest (i + 1) cursor' of
           (records, c) \<Rightarrow>
             (\<lparr>raw = from_utf8_lossy (take (i - start) (drop start buf)), rec_file = Some key,
               rec_offset = Some line_offset\<rparr> # records, c)))"

definition tail_poll :: "file_tail \<Rightarrow> file_view \<Rightarrow> file_tail \<times> (ingest_error + raw_record list)" where
  "tail_poll t view =
     (case view of
        Missing \<Rightarrow> (t, Inr [])
      | Unreadable e \<Rightarrow> (t, Inl (Io e))
      | Contents bytes \<Rightarrow>
          (let len = length bytes;
               t1 = (if len < tail_offset t then t\<lparr>tail_offset := 0\<rparr> else t) in
           if len = tail_offset t1 then (t1, Inr [])
           else
             (let buf = drop (tail_offset t1) bytes in
              case tail_scan (tail_path t1) buf (enumerate 0 buf) 0 (tail_offset t1) of
                (records, cursor) \<Rightarrow> (t1\<lparr>tail_offset := cursor\<rparr>, Inr records))))"

definition file_tail_new :: "string \<Rightarrow> string \<Rightarrow> nat \<Rightarrow> file_tail" where
  "file_tail_new i path offset = \<lparr>tail_id = i, tail_path = path, tail_offset = offset\<rparr>"

subsection \<open>The store\<close>

record stored_row =
  row_id :: nat
  row_env :: string
  row_ts :: string
  row_source :: string
  row_type :: string
  row_agent_id :: string
  row_run_id :: "string option"
  row_severity :: "string option"
  row_schema :: string
  row_on_behalf_of :: "string option"
  row_data :: "string option"
  row_prev_hash :: "string option"
  row_raw :: string
  row_file :: "string option"
  row_off :: "nat option"
  row_dedupe :: string
  row_ts_ms :: "int option"

record quarantine_row =
  q_env :: string
  q_file :: "string option"
  q_off :: "nat option"
  q_raw :: string
  q_reason :: string
  q_ts :: string

record source_state =
  src_offset :: nat
  src_inode :: "nat option"
  src_head :: "string option"

record store =
  st_events :: "stored_row list"
  st_quarantine :: "quarantine_row list"
  st_offsets :: "(string, source_state) hmap"

record ingest_lib = conform_ext +
  sha256_hex :: "string \<Rightarrow> string"
  json_text :: "json \<Rightarrow> string"
  rfc3339_millis :: "string \<Rightarrow> int option"

definition to_i64 :: "nat \<Rightarrow> ingest_error + nat" where
  "to_i64 v = (if v < 2 ^ 63 then Inr v else Inl (StoreError ''out of range integral type conversion attempted''))"

definition opt_i64 :: "nat option \<Rightarrow> ingest_error + nat option" where
  "opt_i64 v = (case v of None \<Rightarrow> Inr None | Some n \<Rightarrow> ebind (to_i64 n) (\<lambda>m. Inr (Some m)))"

definition dedupe_preimage :: "string \<Rightarrow> string option \<Rightarrow> nat option \<Rightarrow> string \<Rightarrow> string" where
  "dedupe_preimage env file offset line =
     env @ [CHR 0x00] @ (case file of Some f \<Rightarrow> f | None \<Rightarrow> []) @ [CHR 0x00]
       @ (case offset of Some i \<Rightarrow> dec i | None \<Rightarrow> []) @ [CHR 0x00] @ line"

definition dedupe_key :: "ingest_lib \<Rightarrow> string \<Rightarrow> string option \<Rightarrow> nat option \<Rightarrow> string \<Rightarrow> string" where
  "dedupe_key X env file offset line = sha256_hex X (dedupe_preimage env file offset line)"

text \<open>SQLite's next \<open>INTEGER PRIMARY KEY\<close>: one more than the greatest in the table.\<close>

definition next_row_id :: "stored_row list \<Rightarrow> nat" where
  "next_row_id rows = Suc (Max (insert 0 (row_id ` set rows)))"

definition row_of :: "ingest_lib \<Rightarrow> nat \<Rightarrow> nat option \<Rightarrow> console_event \<Rightarrow> stored_row" where
  "row_of X i off ce =
     (let e = ce_event ce; p = ce_origin ce in
      \<lparr>row_id = i, row_env = pr_env p, row_ts = ev_ts e, row_source = ev_source e, row_type = ev_type e,
       row_agent_id = ev_agent_id e, row_run_id = ev_run_id e, row_severity = ev_severity e,
       row_schema = ev_schema e,
       row_on_behalf_of = (if ev_on_behalf_of e = [] then None
                           else Some (json_text X (JArray (map JString (ev_on_behalf_of e))))),
       row_data = map_option (json_text X) (ev_data e), row_prev_hash = ev_prev_hash e,
       row_raw = ce_raw ce, row_file = pr_file p, row_off = off,
       row_dedupe = dedupe_key X (pr_env p) (pr_file p) (pr_offset p) (ce_raw ce),
       row_ts_ms = rfc3339_millis X (ev_ts e)\<rparr>)"

fun insert_rows :: "ingest_lib \<Rightarrow> stored_row list \<Rightarrow> nat \<Rightarrow> console_event list \<Rightarrow> ingest_error + stored_row list \<times> nat" where
  "insert_rows X rows inserted [] = Inr (rows, inserted)"
| "insert_rows X rows inserted (ce # ces) =
     ebind (opt_i64 (pr_offset (ce_origin ce))) (\<lambda>off.
       let row = row_of X (next_row_id rows) off ce in
       if row_dedupe row \<in> row_dedupe ` set rows then insert_rows X rows inserted ces
       else insert_rows X (rows @ [row]) (inserted + 1) ces)"

text \<open>\<open>failed\<close> is the error of the transaction itself, when the database answers one.\<close>

definition insert_batch :: "ingest_lib \<Rightarrow> string option \<Rightarrow> store \<Rightarrow> console_event list \<Rightarrow> store \<times> (ingest_error + nat)" where
  "insert_batch X failed st ces =
     (if ces = [] then (st, Inr 0)
      else (case failed of
              Some e \<Rightarrow> (st, Inl (StoreError e))
            | None \<Rightarrow>
                (case insert_rows X (st_events st) 0 ces of
                   Inl e \<Rightarrow> (st, Inl e)
                 | Inr (rows, n) \<Rightarrow> (st\<lparr>st_events := rows\<rparr>, Inr n))))"

definition quarantine :: "string option \<Rightarrow> store \<Rightarrow> quarantine_row \<Rightarrow> store \<times> (ingest_error + unit)" where
  "quarantine failed st q =
     (case opt_i64 (q_off q) of
        Inl e \<Rightarrow> (st, Inl e)
      | Inr _ \<Rightarrow>
          (case failed of
             Some e \<Rightarrow> (st, Inl (StoreError e))
           | None \<Rightarrow> (st\<lparr>st_quarantine := st_quarantine st @ [q]\<rparr>, Inr ())))"

definition set_offset :: "string option \<Rightarrow> store \<Rightarrow> string \<Rightarrow> nat \<Rightarrow> nat option \<Rightarrow> string option \<Rightarrow> store \<times> (ingest_error + unit)" where
  "set_offset failed st file offset inode head =
     (case to_i64 offset of
        Inl e \<Rightarrow> (st, Inl e)
      | Inr _ \<Rightarrow>
     (case opt_i64 inode of
        Inl e \<Rightarrow> (st, Inl e)
      | Inr _ \<Rightarrow>
          (case failed of
             Some e \<Rightarrow> (st, Inl (StoreError e))
           | None \<Rightarrow>
               (st\<lparr>st_offsets := hm_insert file \<lparr>src_offset = offset, src_inode = inode, src_head = head\<rparr>
                    (st_offsets st)\<rparr>, Inr ()))))"

definition get_source_state :: "store \<Rightarrow> string \<Rightarrow> source_state option" where
  "get_source_state st file = hm_get (st_offsets st) file"

definition HEAD_FINGERPRINT_BYTES :: nat where "HEAD_FINGERPRINT_BYTES = 64 * 1024"

definition head_fingerprint :: "ingest_lib \<Rightarrow> file_view \<Rightarrow> nat \<Rightarrow> string option" where
  "head_fingerprint X view offset =
     (if offset = 0 then None
      else (case view of
              Contents bytes \<Rightarrow>
                if length bytes < offset then None
                else Some (sha256_hex X (take (min offset HEAD_FINGERPRINT_BYTES) bytes))
            | _ \<Rightarrow> None))"

subsection \<open>The service\<close>

definition PINNED_SOURCE_REFUSED :: string where
  "PINNED_SOURCE_REFUSED =
     ''the line claims a source its stream may not carry (a pinned stream carries only its own source)''"

record ingest =
  ing_store :: store
  ing_env :: string
  ing_sources :: "file_tail list"
  ing_pinned :: "(string, string) hmap"
  ing_sent :: "console_event list"

definition ingest_new :: "store \<Rightarrow> string \<Rightarrow> ingest" where
  "ingest_new st env =
     \<lparr>ing_store = st, ing_env = env, ing_sources = [], ing_pinned = [], ing_sent = []\<rparr>"

datatype store_call = InsertBatch | QuarantineLine "string option" "nat option" | SetOffset string

record poll_world =
  w_view :: "string \<Rightarrow> file_view"
  w_inode :: "string \<Rightarrow> nat option"
  w_ts :: string
  w_store_error :: "store_call \<Rightarrow> string option"

definition resume_offset :: "ingest_lib \<Rightarrow> poll_world \<Rightarrow> store \<Rightarrow> string \<Rightarrow> nat" where
  "resume_offset X w st key =
     (case get_source_state st key of
        None \<Rightarrow> 0
      | Some state \<Rightarrow>
          (let inode_says_new =
                 (case (src_inode state, w_inode w key) of (Some old, Some now) \<Rightarrow> old \<noteq> now | _ \<Rightarrow> False);
               head_says_new =
                 (case (src_head state, head_fingerprint X (w_view w key) (src_offset state)) of
                    (Some old, Some now) \<Rightarrow> old \<noteq> now | _ \<Rightarrow> False) in
           if inode_says_new \<or> head_says_new then 0 else src_offset state))"

definition add_file_source :: "ingest_lib \<Rightarrow> poll_world \<Rightarrow> ingest \<Rightarrow> string \<Rightarrow> string \<Rightarrow> ingest" where
  "add_file_source X w I i path =
     I\<lparr>ing_sources := ing_sources I @ [file_tail_new i path (resume_offset X w (ing_store I) path)]\<rparr>"

definition add_pinned_file_source :: "ingest_lib \<Rightarrow> poll_world \<Rightarrow> ingest \<Rightarrow> string \<Rightarrow> string \<Rightarrow> string \<Rightarrow> ingest" where
  "add_pinned_file_source X w I i path source =
     (let I1 = add_file_source X w I i path in I1\<lparr>ing_pinned := hm_insert path source (ing_pinned I1)\<rparr>)"

subsection \<open>One poll cycle\<close>

record cycle =
  cy_quarantined :: nat
  cy_valid :: "console_event list"
  cy_offsets :: "(string, nat) hmap"

definition note_offset :: "(string, nat) hmap \<Rightarrow> raw_record \<Rightarrow> (string, nat) hmap" where
  "note_offset m r =
     (case (rec_file r, rec_offset r) of
        (Some file, Some offset) \<Rightarrow>
          (let nxt = offset + length (raw r) + 1 in
           hm_insert file (case hm_get m file of None \<Rightarrow> nxt | Some k \<Rightarrow> max k nxt) m)
      | _ \<Rightarrow> m)"

text \<open>The one decision about a line: the reason it is quarantined, or the event it is.\<close>

definition pin_refuses :: "ingest \<Rightarrow> raw_record \<Rightarrow> agent_event \<Rightarrow> bool" where
  "pin_refuses I r event \<longleftrightarrow>
     (case Option.bind (rec_file r) (hm_get (ing_pinned I)) of
        Some want \<Rightarrow> ev_source event \<noteq> want
      | None \<Rightarrow> False)"

definition quarantine_line :: "poll_world \<Rightarrow> ingest \<Rightarrow> store \<Rightarrow> cycle \<Rightarrow> raw_record \<Rightarrow> string \<Rightarrow> store \<times> (ingest_error + cycle)" where
  "quarantine_line w I st cy r reason =
     (case quarantine (w_store_error w (QuarantineLine (rec_file r) (rec_offset r))) st
        \<lparr>q_env = ing_env I, q_file = rec_file r, q_off = rec_offset r, q_raw = raw r, q_reason = reason,
         q_ts = w_ts w\<rparr> of
        (st', Inl e) \<Rightarrow> (st', Inl e)
      | (st', Inr _) \<Rightarrow> (st', Inr (cy\<lparr>cy_quarantined := cy_quarantined cy + 1\<rparr>)))"

definition console_event_of :: "poll_world \<Rightarrow> ingest \<Rightarrow> string \<Rightarrow> raw_record \<Rightarrow> agent_event \<Rightarrow> schema_version \<Rightarrow> console_event" where
  "console_event_of w I connector r event version =
     \<lparr>ce_event = event,
      ce_origin = \<lparr>pr_env = ing_env I, pr_connector = connector, pr_file = rec_file r,
        pr_offset = rec_offset r, pr_endpoint = None, pr_received_ts = w_ts w\<rparr>,
      ce_raw = raw r, ce_schema_version = version\<rparr>"

definition take_record ::
  "ingest_lib \<Rightarrow> poll_world \<Rightarrow> ingest \<Rightarrow> string \<Rightarrow> store \<Rightarrow> cycle \<Rightarrow> raw_record \<Rightarrow> store \<times> (ingest_error + cycle)" where
  "take_record X w I connector st cy r =
     (let cy1 = cy\<lparr>cy_offsets := note_offset (cy_offsets cy) r\<rparr> in
      case parse_valid X (raw r) of
        Inr event \<Rightarrow>
          (if pin_refuses I r event then quarantine_line w I st cy1 r PINNED_SOURCE_REFUSED
           else (case event_schema_version event of
                   None \<Rightarrow>
                     (st, Inl (Conform (''event passed conformance under an unrecognized schema: ''
                                @ debug_str X (ev_schema event))))
                 | Some version \<Rightarrow>
                     (st, Inr (cy1\<lparr>cy_valid :=
                        cy_valid cy1 @ [console_event_of w I connector r event version]\<rparr>))))
      | Inl report \<Rightarrow>
          quarantine_line w I st cy1 r
            (if rep_errors report = [] then ''conformance failed'' else join ''; '' (rep_errors report)))"

fun take_records ::
  "ingest_lib \<Rightarrow> poll_world \<Rightarrow> ingest \<Rightarrow> string \<Rightarrow> store \<Rightarrow> cycle \<Rightarrow> raw_record list \<Rightarrow> store \<times> (ingest_error + cycle)" where
  "take_records X w I connector st cy [] = (st, Inr cy)"
| "take_records X w I connector st cy (r # rs) =
     (case take_record X w I connector st cy r of
        (st', Inl e) \<Rightarrow> (st', Inl e)
      | (st', Inr cy') \<Rightarrow> take_records X w I connector st' cy' rs)"

fun poll_sources ::
  "ingest_lib \<Rightarrow> poll_world \<Rightarrow> ingest \<Rightarrow> store \<Rightarrow> cycle \<Rightarrow> file_tail list \<Rightarrow> file_tail list \<times> store \<times> (ingest_error + cycle)" where
  "poll_sources X w I st cy [] = ([], st, Inr cy)"
| "poll_sources X w I st cy (t # ts) =
     (case tail_poll t (w_view w (tail_path t)) of
        (t', Inl e) \<Rightarrow> (t' # ts, st, Inl e)
      | (t', Inr records) \<Rightarrow>
          (case take_records X w I (tail_id t) st cy records of
             (st', Inl e) \<Rightarrow> (t' # ts, st', Inl e)
           | (st', Inr cy') \<Rightarrow>
               (case poll_sources X w I st' cy' ts of (ts', r) \<Rightarrow> (t' # ts', r))))"

fun journal_offsets ::
  "ingest_lib \<Rightarrow> poll_world \<Rightarrow> store \<Rightarrow> (string \<times> nat) list \<Rightarrow> store \<times> (ingest_error + unit)" where
  "journal_offsets X w st [] = (st, Inr ())"
| "journal_offsets X w st ((file, offset) # rest) =
     (case set_offset (w_store_error w (SetOffset file)) st file offset (w_inode w file)
        (head_fingerprint X (w_view w file) offset) of
        (st', Inl e) \<Rightarrow> (st', Inl e)
      | (st', Inr _) \<Rightarrow> journal_offsets X w st' rest)"

record ingest_stats =
  inserted :: nat
  quarantined :: nat

definition poll_once :: "ingest_lib \<Rightarrow> poll_world \<Rightarrow> ingest \<Rightarrow> ingest \<times> (ingest_error + ingest_stats)" where
  "poll_once X w I =
     (case poll_sources X w I (ing_store I) \<lparr>cy_quarantined = 0, cy_valid = [], cy_offsets = []\<rparr> (ing_sources I) of
        (ts, st, Inl e) \<Rightarrow> (I\<lparr>ing_sources := ts, ing_store := st\<rparr>, Inl e)
      | (ts, st, Inr cy) \<Rightarrow>
     (case insert_batch X (w_store_error w InsertBatch) st (cy_valid cy) of
        (st1, Inl e) \<Rightarrow> (I\<lparr>ing_sources := ts, ing_store := st1\<rparr>, Inl e)
      | (st1, Inr n) \<Rightarrow>
     (case journal_offsets X w st1 (cy_offsets cy) of
        (st2, Inl e) \<Rightarrow> (I\<lparr>ing_sources := ts, ing_store := st2\<rparr>, Inl e)
      | (st2, Inr _) \<Rightarrow>
          (I\<lparr>ing_sources := ts, ing_store := st2, ing_sent := ing_sent I @ cy_valid cy\<rparr>,
           Inr \<lparr>inserted = n, quarantined = cy_quarantined cy\<rparr>))))"

text \<open>The feeder's loop logs a failed cycle and goes on with the next.\<close>

fun poll_cycles :: "ingest_lib \<Rightarrow> ingest \<Rightarrow> poll_world list \<Rightarrow> ingest" where
  "poll_cycles X I [] = I"
| "poll_cycles X I (w # ws) = poll_cycles X (fst (poll_once X w I)) ws"

end
