(* ===== verification/Text.thy ===== *)
theory Text
  imports Utf8 "HOL-Library.Char_ord" "HOL-Library.List_Lexorder"
begin

section \<open>Text operations of the copilot\<close>

text \<open>
  The \<open>str\<close> and \<open>BTreeMap\<close> operations that the checks of the copilot on plane text and on draft
  answers use. The Unicode tables behind \<open>to_lowercase\<close>, \<open>is_alphanumeric\<close>, \<open>is_alphabetic\<close> and
  \<open>is_uppercase\<close> are a parameter (\<open>unicode\<close>), as is what \<open>f64\<close> makes of the text of a JSON number
  (\<open>numbers\<close>); \<open>unicode_ok\<close> states the documented agreement of the tables with ASCII.
\<close>

record unicode =
  u_lower :: "string \<Rightarrow> string"
  u_alphanumeric :: "string \<Rightarrow> bool"
  u_alphabetic :: "string \<Rightarrow> bool"
  u_uppercase :: "string \<Rightarrow> bool"

definition unicode_ok :: "unicode \<Rightarrow> bool" where
  "unicode_ok u \<longleftrightarrow> (\<forall>b. (of_char b :: nat) < 128 \<longrightarrow> u_alphanumeric u [b] = ascii_alphanumeric [b])"

text \<open>The restriction of the tables to ASCII, to run the model with.\<close>

definition ascii_alphabetic :: "string \<Rightarrow> bool" where
  "ascii_alphabetic c =
     (case map (of_char :: char \<Rightarrow> nat) c of
        [n] \<Rightarrow> 65 \<le> n \<and> n \<le> 90 \<or> 97 \<le> n \<and> n \<le> 122 | _ \<Rightarrow> False)"

definition ascii_uppercase :: "string \<Rightarrow> bool" where
  "ascii_uppercase c = (case map (of_char :: char \<Rightarrow> nat) c of [n] \<Rightarrow> 65 \<le> n \<and> n \<le> 90 | _ \<Rightarrow> False)"

definition ascii_unicode :: unicode where
  "ascii_unicode = \<lparr>u_lower = to_ascii_lowercase, u_alphanumeric = ascii_alphanumeric,
     u_alphabetic = ascii_alphabetic, u_uppercase = ascii_uppercase\<rparr>"

lemma ascii_unicode_ok: "unicode_ok ascii_unicode"
  by (simp add: unicode_ok_def ascii_unicode_def)

subsection \<open>Bytes and characters\<close>

definition utf8 :: "nat list \<Rightarrow> string" where
  "utf8 ns = map char_of ns"

definition ascii_digit :: "char \<Rightarrow> bool" where
  "ascii_digit c \<longleftrightarrow> 48 \<le> (of_char c :: nat) \<and> (of_char c :: nat) \<le> 57"

lemma of_char_of_nat_small: "n < 256 \<Longrightarrow> (of_char (char_of n :: char) :: nat) = n"
  by (simp add: of_char_of)

text \<open>The value of a string of ASCII digits, as \<open>str::parse\<close> reads it.\<close>

definition digits_value :: "string \<Rightarrow> nat" where
  "digits_value s = foldl (\<lambda>n c. 10 * n + (of_char c - 48)) 0 s"

lemma digits_value_snoc: "digits_value (s @ [c]) = 10 * digits_value s + (of_char c - 48)"
  by (simp add: digits_value_def)

lemma dec_digits: "dec n \<noteq> [] \<and> list_all ascii_digit (dec n) \<and> digits_value (dec n) = n"
proof (induction n rule: dec.induct)
  case (1 n)
  have digit: "ascii_digit (char_of (48 + d)) \<and> (of_char (char_of (48 + d) :: char) :: nat) - 48 = d" if "d < 10" for d :: nat
    using that by (simp add: ascii_digit_def of_char_of_nat_small)
  show ?case
  proof (cases "n < 10")
    case True
    then show ?thesis using digit [of n] by (subst (1 2 3) dec.simps) (simp add: digits_value_def)
  next
    case False
    then show ?thesis using 1 digit [of "n mod 10"] by (subst (1 2 3) dec.simps) (simp add: digits_value_snoc)
  qed
qed

lemma dec_inj: "dec m = dec n \<longleftrightarrow> m = n"
  using dec_digits by metis

text \<open>A signed integer in decimal.\<close>

definition idec :: "int \<Rightarrow> string" where
  "idec i = (if i < 0 then CHR ''-'' # dec (nat (- i)) else dec (nat i))"

definition ascii_lower_letter :: "char \<Rightarrow> bool" where
  "ascii_lower_letter c \<longleftrightarrow> 97 \<le> (of_char c :: nat) \<and> (of_char c :: nat) \<le> 122"

definition chars_all :: "(string \<Rightarrow> bool) \<Rightarrow> string \<Rightarrow> bool" where
  "chars_all P s = list_all P (chars s)"

definition chars_any :: "(string \<Rightarrow> bool) \<Rightarrow> string \<Rightarrow> bool" where
  "chars_any P s = list_ex P (chars s)"

text \<open>\<open>chars().next()\<close> and \<open>chars().next_back()\<close>.\<close>

definition first_char :: "string \<Rightarrow> string option" where
  "first_char s = (case chars s of [] \<Rightarrow> None | c # _ \<Rightarrow> Some c)"

definition last_char :: "string \<Rightarrow> string option" where
  "last_char s = (case rev (chars s) of [] \<Rightarrow> None | c # _ \<Rightarrow> Some c)"

text \<open>\<open>trim_start\<close>, \<open>trim_end\<close>, and the \<open>trim_matches\<close> family on a set of characters.\<close>

definition trim_start_by :: "(string \<Rightarrow> bool) \<Rightarrow> string \<Rightarrow> string" where
  "trim_start_by P s = concat (dropWhile P (chars s))"

lemma trim_start_by_code [code]:
  "trim_start_by P s =
     (case s of
        [] \<Rightarrow> []
      | c # cs \<Rightarrow> if P (c # takeWhile is_cont cs) then trim_start_by P (dropWhile is_cont cs) else s)"
  by (cases s) (simp_all add: trim_start_by_def)

definition trim_end_by :: "(string \<Rightarrow> bool) \<Rightarrow> string \<Rightarrow> string" where
  "trim_end_by P s = concat (rev (dropWhile P (rev (chars s))))"

definition trim_by :: "(string \<Rightarrow> bool) \<Rightarrow> string \<Rightarrow> string" where
  "trim_by P s = concat (rev (dropWhile P (rev (dropWhile P (chars s)))))"

definition strip_suffix :: "string \<Rightarrow> string \<Rightarrow> string option" where
  "strip_suffix p s = (if suffix p s then Some (take (length s - length p) s) else None)"

subsection \<open>Searching\<close>

fun contains :: "string \<Rightarrow> string \<Rightarrow> bool" where
  "contains [] p = (p = [])"
| "contains (c # cs) p = (prefix p (c # cs) \<or> contains cs p)"

text \<open>\<open>str::replace\<close> and \<open>str::match_indices\<close> for a non-empty pattern: matches do not overlap.\<close>

function replace :: "string \<Rightarrow> string \<Rightarrow> string \<Rightarrow> string" where
  "replace p r [] = []"
| "replace p r (c # cs) =
     (if p \<noteq> [] \<and> prefix p (c # cs) then r @ replace p r (drop (length p) (c # cs))
      else c # replace p r cs)"
  by pat_completeness auto
termination by (relation "measure (\<lambda>(p, r, s). length s)") auto

function match_indices_from :: "nat \<Rightarrow> string \<Rightarrow> string \<Rightarrow> nat list" where
  "match_indices_from i p [] = []"
| "match_indices_from i p (c # cs) =
     (if p \<noteq> [] \<and> prefix p (c # cs)
      then i # match_indices_from (i + length p) p (drop (length p) (c # cs))
      else match_indices_from (i + 1) p cs)"
  by pat_completeness auto
termination by (relation "measure (\<lambda>(i, p, s). length s)") auto

definition match_indices :: "string \<Rightarrow> string \<Rightarrow> nat list" where
  "match_indices s p = match_indices_from 0 p s"

text \<open>\<open>str::split\<close> on a predicate on characters.\<close>

fun split_pieces :: "(string \<Rightarrow> bool) \<Rightarrow> string list \<Rightarrow> string list list" where
  "split_pieces P [] = [[]]"
| "split_pieces P (c # cs) =
     (if P c then [] # split_pieces P cs
      else (case split_pieces P cs of [] \<Rightarrow> [[c]] | w # ws \<Rightarrow> (c # w) # ws))"

definition split_by :: "(string \<Rightarrow> bool) \<Rightarrow> string \<Rightarrow> string list" where
  "split_by P s = map concat (split_pieces P (chars s))"

text \<open>A token found whole: no character of an identifier touches the match on either side.\<close>

definition whole_match :: "(string \<Rightarrow> bool) \<Rightarrow> string \<Rightarrow> string \<Rightarrow> nat \<Rightarrow> bool" where
  "whole_match is_id hay needle i \<longleftrightarrow>
     \<not> (case last_char (take i hay) of None \<Rightarrow> False | Some c \<Rightarrow> is_id c) \<and>
     \<not> (case first_char (drop (i + length needle) hay) of None \<Rightarrow> False | Some c \<Rightarrow> is_id c)"

definition id_char :: "unicode \<Rightarrow> string \<Rightarrow> bool" where
  "id_char u c \<longleftrightarrow> u_alphanumeric u c \<or> c = ''-'' \<or> c = ''_''"

subsection \<open>Ordered maps and sets\<close>

text \<open>A \<open>BTreeMap\<close> is its list of entries in ascending order of the keys, which is the order of its
  iterators; a \<open>BTreeSet\<close> is its ascending list.\<close>

fun bt_insert :: "'k::linorder \<Rightarrow> 'v \<Rightarrow> ('k \<times> 'v) list \<Rightarrow> ('k \<times> 'v) list" where
  "bt_insert k v [] = [(k, v)]"
| "bt_insert k v ((k1, v1) # m) =
     (if k < k1 then (k, v) # (k1, v1) # m
      else if k = k1 then (k, v) # m
      else (k1, v1) # bt_insert k v m)"

definition bs_insert :: "'k::linorder \<Rightarrow> 'k list \<Rightarrow> 'k list" where
  "bs_insert k xs = map fst (bt_insert k () (map (\<lambda>x. (x, ())) xs))"

lemma map_of_bt_insert [simp]: "map_of (bt_insert k v m) = (map_of m)(k \<mapsto> v)"
  by (induction k v m rule: bt_insert.induct) auto

lemma set_bs_insert [simp]: "set (bs_insert k xs) = insert k (set xs)"
proof -
  have "fst ` set (bt_insert k v m) = insert k (fst ` set m)" for v and m :: "('a \<times> unit) list"
    by (induction k v m rule: bt_insert.induct) auto
  then show ?thesis by (simp add: bs_insert_def image_image)
qed

end
