(* ===== verification/Journal.thy ===== *)
theory Journal
  imports Ingest Text
begin

section \<open>The journal of privileged actions\<close>

text \<open>
  \<open>crates/core/src/command.rs\<close> with \<open>Store::insert_command\<close>, and the callers' side of it:
  \<open>crates/api/src/journal.rs\<close> and \<open>console_actor.rs\<close>. A record becomes a row of \<open>commands_journal\<close> and
  a line of the console events file, which is one hash chain. The state is the table, the files by identity
  and the sinks this process has opened; \<open>SINKS\<close> is lost at a restart, the rest is not. Paths
  (\<open>path_lib\<close>) and what the outside does during one call (\<open>journal_world\<close>) are parameters, as are
  SHA-256 and \<open>serde_json\<close> (\<open>ingest_lib\<close>); serializing a \<open>Value\<close> does not fail.
\<close>

subsection \<open>Records\<close>

record command_record =
  rec_operator :: string
  rec_env :: string
  rec_action :: string
  rec_target :: string
  rec_params :: json
  rec_decision :: string
  rec_sig_alg :: string
  rec_sig_fpr :: string
  rec_http_status :: nat
  rec_verify_result :: string

text \<open>Of the errors of the crate, those a record can end in.\<close>

datatype command_error =
    CommandIo string
  | CommandStore string
  | BreakGlassMissingReason

definition require_break_glass_reason :: "command_record \<Rightarrow> command_error + unit" where
  "require_break_glass_reason rec =
     (if rec_decision rec = ''break_glass'' then
        (let reason = (case Option.bind (json_get (rec_params rec) ''reason'') json_str of None \<Rightarrow> [] | Some r \<Rightarrow> r)
         in if trim reason = [] then Inl BreakGlassMissingReason else Inr ())
      else Inr ())"

subsection \<open>The line of a record\<close>

text \<open>A \<open>serde_json\<close> map is ordered by key. \<open>json!\<close> and \<open>Map::insert\<close> build one by insertion.\<close>

definition json_object :: "(string \<times> json) list \<Rightarrow> json" where
  "json_object ms = JObject (foldl (\<lambda>m (k, v). bt_insert k v m) [] ms)"

definition json_remove :: "string \<Rightarrow> json \<Rightarrow> json" where
  "json_remove key v = (case v of JObject ms \<Rightarrow> JObject (filter (\<lambda>(k, _). k \<noteq> key) ms) | _ \<Rightarrow> v)"

definition sanitize_host :: "string \<Rightarrow> string" where
  "sanitize_host host =
     (let sanitized = concat (map (\<lambda>c.
            let lower = to_ascii_lowercase c in
            if ascii_alphanumeric lower \<or> lower = ''.'' \<or> lower = ''-'' then lower else ''-'') (chars (trim host)))
      in if sanitized = [] then ''unknown-host'' else sanitized)"

definition is_delegatable_principal :: "string \<Rightarrow> bool" where
  "is_delegatable_principal s \<longleftrightarrow> prefix ''agent://'' s \<or> prefix ''user://'' s"

definition command_data :: "command_record \<Rightarrow> json" where
  "command_data rec = json_object
     [(''action'', JString (rec_action rec)), (''target'', JString (rec_target rec)),
      (''decision'', JString (rec_decision rec)), (''sig_alg'', JString (rec_sig_alg rec)),
      (''sig_fpr'', JString (rec_sig_fpr rec)), (''http_status'', JNum (dec (rec_http_status rec))),
      (''verify_result'', JString (rec_verify_result rec))]"

definition console_command_value :: "string \<Rightarrow> string \<Rightarrow> command_record \<Rightarrow> string \<Rightarrow> string option \<Rightarrow> json" where
  "console_command_value org_domain host rec ts prev_hash = json_object
     ([(''schema'', JString (schema_str V0_2)), (''ts'', JString ts), (''source'', JString ''console''),
       (''type'', JString ''console_command''),
       (''agent_id'', JString (''agent://'' @ org_domain @ ''/console/'' @ sanitize_host host))]
      @ (if is_delegatable_principal (rec_operator rec)
         then [(''on_behalf_of'', JArray [JString (rec_operator rec)])] else [])
      @ [(''data'', command_data rec)]
      @ (case prev_hash of None \<Rightarrow> [] | Some prev \<Rightarrow> [(''prev_hash'', JString prev)]))"

definition console_command_line :: "ingest_lib \<Rightarrow> string \<Rightarrow> string \<Rightarrow> command_record \<Rightarrow> string \<Rightarrow> string option \<Rightarrow> string" where
  "console_command_line X org_domain host rec ts prev_hash =
     json_text X (console_command_value org_domain host rec ts prev_hash)"

definition chain_hash_of_line :: "ingest_lib \<Rightarrow> string \<Rightarrow> string option" where
  "chain_hash_of_line X line =
     (case parse_json X line of
        Inl _ \<Rightarrow> None
      | Inr v \<Rightarrow> Some (''sha256:'' @ sha256_hex X (json_text X (json_remove ''prev_hash'' v))))"

subsection \<open>The events file\<close>

text \<open>\<open>str::lines\<close>: the pieces that end at a line feed, without a carriage return before it, and what follows
  the last one, if anything does.\<close>

fun lf_pieces :: "string \<Rightarrow> string list" where
  "lf_pieces [] = []"
| "lf_pieces (c # cs) =
     (if c = LF then [] # lf_pieces cs
      else (case lf_pieces cs of [] \<Rightarrow> [[c]] | l # ls \<Rightarrow> (c # l) # ls))"

definition strip_cr :: "string \<Rightarrow> string" where
  "strip_cr l = (if l \<noteq> [] \<and> last l = CHR 0x0D then butlast l else l)"

definition str_lines :: "string \<Rightarrow> string list" where
  "str_lines s =
     (let ls = lf_pieces s in
      if s = [] \<or> last s = LF then map strip_cr ls else map strip_cr (butlast ls) @ [last ls])"

definition last_line_of :: "string option \<Rightarrow> string option" where
  "last_line_of content =
     (case content of None \<Rightarrow> None
      | Some text \<Rightarrow> if valid_str text then find (\<lambda>l. trim l \<noteq> []) (rev (str_lines text)) else None)"

record chain_sink =
  sk_file :: string
  sk_next :: "string option"

record journal_row =
  jr_ts :: string
  jr_operator :: string
  jr_env :: string
  jr_action :: string
  jr_target :: string
  jr_params :: string
  jr_decision :: string
  jr_sig_alg :: string
  jr_sig_fpr :: string
  jr_http_status :: nat
  jr_verify_result :: string

record console_journal =
  cj_rows :: "journal_row list"
  cj_files :: "(string, string) hmap"
  cj_sinks :: "(string, chain_sink) hmap"

text \<open>The operations of \<open>Path\<close>, and the identity of the file a path leads to.\<close>

record path_lib =
  path_parent :: "string \<Rightarrow> string option"
  path_file_name :: "string \<Rightarrow> string option"
  path_join :: "string \<Rightarrow> string \<Rightarrow> string"
  path_canonicalize :: "string \<Rightarrow> string option"
  path_file :: "string \<Rightarrow> string"

text \<open>One call's time and failures. \<open>jw_written\<close> is how much of the frame reached the file when the write
  failed.\<close>

record journal_world =
  jw_ts :: string
  jw_row_error :: "string option"
  jw_dir_error :: "string option"
  jw_open_error :: "string option"
  jw_written :: "nat option"

definition row_of_command :: "ingest_lib \<Rightarrow> command_record \<Rightarrow> string \<Rightarrow> journal_row" where
  "row_of_command X rec ts =
     \<lparr>jr_ts = ts, jr_operator = rec_operator rec, jr_env = rec_env rec, jr_action = rec_action rec,
      jr_target = rec_target rec, jr_params = json_text X (rec_params rec), jr_decision = rec_decision rec,
      jr_sig_alg = rec_sig_alg rec, jr_sig_fpr = rec_sig_fpr rec, jr_http_status = rec_http_status rec,
      jr_verify_result = rec_verify_result rec\<rparr>"

definition insert_command ::
  "ingest_lib \<Rightarrow> journal_world \<Rightarrow> console_journal \<Rightarrow> command_record \<Rightarrow> string \<Rightarrow> console_journal \<times> (command_error + unit)" where
  "insert_command X w st rec ts =
     (case jw_row_error w of
        Some e \<Rightarrow> (st, Inl (CommandStore e))
      | None \<Rightarrow> (st\<lparr>cj_rows := cj_rows st @ [row_of_command X rec ts]\<rparr>, Inr ()))"

definition canonical_key :: "path_lib \<Rightarrow> string \<Rightarrow> string" where
  "canonical_key P path =
     (case (path_parent P path, path_file_name P path) of
        (Some parent, Some name) \<Rightarrow>
          if parent \<noteq> [] then
            (case path_canonicalize P parent of None \<Rightarrow> path | Some p \<Rightarrow> path_join P p name)
          else path
      | _ \<Rightarrow> path)"

text \<open>Opening creates the file, empty.\<close>

definition opened :: "string \<Rightarrow> (string, string) hmap \<Rightarrow> (string, string) hmap" where
  "opened file files = (case hm_get files file of None \<Rightarrow> hm_insert file [] files | Some _ \<Rightarrow> files)"

definition sink_for ::
  "ingest_lib \<Rightarrow> path_lib \<Rightarrow> journal_world \<Rightarrow> console_journal \<Rightarrow> string \<Rightarrow> console_journal \<times> (command_error + chain_sink)" where
  "sink_for X P w st path =
     (case (case path_parent P path of None \<Rightarrow> None
            | Some parent \<Rightarrow> if parent \<noteq> [] then jw_dir_error w else None) of
        Some e \<Rightarrow> (st, Inl (CommandIo e))
      | None \<Rightarrow>
          (case hm_get (cj_sinks st) (canonical_key P path) of
             Some existing \<Rightarrow> (st, Inr existing)
           | None \<Rightarrow>
               (case jw_open_error w of
                  Some e \<Rightarrow> (st, Inl (CommandIo e))
                | None \<Rightarrow>
                    (let file = path_file P path;
                         files = opened file (cj_files st);
                         next = Option.bind (last_line_of (hm_get files file)) (chain_hash_of_line X);
                         sink = \<lparr>sk_file = file, sk_next = next\<rparr>
                     in (st\<lparr>cj_files := files, cj_sinks := hm_insert (canonical_key P path) sink (cj_sinks st)\<rparr>,
                         Inr sink)))))"

text \<open>\<open>append_chained\<close> on the content of the file: the new content, the next link and the answer of the write.\<close>

definition append_chained ::
  "ingest_lib \<Rightarrow> journal_world \<Rightarrow> string \<Rightarrow> string option \<Rightarrow> (string option \<Rightarrow> string)
    \<Rightarrow> string \<times> string option \<times> (command_error + unit)" where
  "append_chained X w content next build =
     (let line = build next;
          advanced = chain_hash_of_line X line;
          framed = line @ [LF]
      in case jw_written w of
           None \<Rightarrow> (content @ framed, advanced, Inr ())
         | Some k \<Rightarrow> (content @ take k framed, next, Inl (CommandIo ''write'')))"

definition record_command ::
  "ingest_lib \<Rightarrow> path_lib \<Rightarrow> journal_world \<Rightarrow> console_journal \<Rightarrow> string \<Rightarrow> string \<Rightarrow> string \<Rightarrow> command_record
    \<Rightarrow> console_journal \<times> (command_error + unit)" where
  "record_command X P w st path org_domain host rec =
     (case require_break_glass_reason rec of
        Inl e \<Rightarrow> (st, Inl e)
      | Inr _ \<Rightarrow>
          (case insert_command X w st rec (jw_ts w) of
             (st1, Inl e) \<Rightarrow> (st1, Inl e)
           | (st1, Inr _) \<Rightarrow>
               (case sink_for X P w st1 path of
                  (st2, Inl e) \<Rightarrow> (st2, Inl e)
                | (st2, Inr sink) \<Rightarrow>
                    (case append_chained X w
                            (case hm_get (cj_files st2) (sk_file sink) of None \<Rightarrow> [] | Some s \<Rightarrow> s) (sk_next sink)
                            (console_command_line X org_domain host rec (jw_ts w)) of
                       (content, next, r) \<Rightarrow>
                         (st2\<lparr>cj_files := hm_insert (sk_file sink) content (cj_files st2),
                              cj_sinks := hm_insert (canonical_key P path) (sink\<lparr>sk_next := next\<rparr>) (cj_sinks st2)\<rparr>,
                          r)))))"

text \<open>A new process has opened nothing yet.\<close>

definition journal_restart :: "console_journal \<Rightarrow> console_journal" where
  "journal_restart st = st\<lparr>cj_sinks := []\<rparr>"

subsection \<open>The caller\<close>

text \<open>The task-locals of a request: the signed-in user and the ceremony's signature, algorithm and credential.\<close>

record console_scope =
  sc_actor :: "string option"
  sc_signature :: "(string \<times> string) option"

definition signature_or :: "console_scope \<Rightarrow> string \<Rightarrow> string \<Rightarrow> string \<times> string" where
  "signature_or sc alg fpr = (case sc_signature sc of Some s \<Rightarrow> s | None \<Rightarrow> (alg, fpr))"

text \<open>\<open>str::rfind\<close> of a slash, and the part before it.\<close>

definition before_last_slash :: "string \<Rightarrow> string option" where
  "before_last_slash s =
     (case dropWhile (\<lambda>c. c \<noteq> CHR ''/'') (rev s) of [] \<Rightarrow> None | _ # r \<Rightarrow> Some (rev r))"

definition operator_or :: "console_scope \<Rightarrow> string \<Rightarrow> string" where
  "operator_or sc fallback =
     (case sc_actor sc of
        None \<Rightarrow> fallback
      | Some user \<Rightarrow> (case before_last_slash fallback of Some s \<Rightarrow> s @ ''/'' @ user | None \<Rightarrow> user))"

text \<open>\<open>record_console_action\<close>: without a bus, or when the store does not open (\<open>store_error\<close>), nothing is
  recorded; the two variables of the environment have defaults.\<close>

definition console_action_record ::
  "console_scope \<Rightarrow> string option \<Rightarrow> string \<Rightarrow> string \<Rightarrow> json \<Rightarrow> string \<Rightarrow> command_record" where
  "console_action_record sc org_env action target params verify_result =
     (let org_domain = (case org_env of Some d \<Rightarrow> d | None \<Rightarrow> ''local'');
          sig = signature_or sc ''software-signed'' ''software-signed''
      in \<lparr>rec_operator = operator_or sc (''user://'' @ org_domain @ ''/operator''), rec_env = org_domain,
          rec_action = action, rec_target = target, rec_params = params, rec_decision = ''allow'',
          rec_sig_alg = fst sig, rec_sig_fpr = snd sig, rec_http_status = 200, rec_verify_result = verify_result\<rparr>)"

definition record_console_action ::
  "ingest_lib \<Rightarrow> path_lib \<Rightarrow> journal_world \<Rightarrow> console_scope \<Rightarrow> string option \<Rightarrow> string option \<Rightarrow> string option
    \<Rightarrow> string option \<Rightarrow> console_journal \<Rightarrow> string \<Rightarrow> string \<Rightarrow> json \<Rightarrow> string \<Rightarrow> console_journal \<times> bool" where
  "record_console_action X P w sc org_env host_env bus store_error st action target params verify_result =
     (case bus of
        None \<Rightarrow> (st, False)
      | Some events_path \<Rightarrow>
          (case store_error of
             Some _ \<Rightarrow> (st, False)
           | None \<Rightarrow>
               (case record_command X P w st events_path
                       (case org_env of Some d \<Rightarrow> d | None \<Rightarrow> ''local'')
                       (case host_env of Some h \<Rightarrow> h | None \<Rightarrow> ''console'')
                       (console_action_record sc org_env action target params verify_result) of
                  (st', r) \<Rightarrow> (st', case r of Inr _ \<Rightarrow> True | Inl _ \<Rightarrow> False))))"

end
