(* ===== verification/UrlPath.thy ===== *)
theory UrlPath
  imports Prelude
begin

section \<open>One URL path segment\<close>

text \<open>
  \<open>crates/connectors/src/urlpath.rs\<close>: the encoding of an id as exactly one segment of a URL path,
  which every client of a plane puts its ids through. Strings are UTF-8 byte sequences, so the loop
  over \<open>id.as_bytes()\<close> is a recursion on the string.
\<close>

datatype path_segment_error = Empty | DotSegment string

definition ascii_alphanumeric_byte :: "char \<Rightarrow> bool" where
  "ascii_alphanumeric_byte b =
     (let n = of_char b :: nat in 48 \<le> n \<and> n \<le> 57 \<or> 65 \<le> n \<and> n \<le> 90 \<or> 97 \<le> n \<and> n \<le> 122)"

definition is_literal_pchar :: "char \<Rightarrow> bool" where
  "is_literal_pchar b \<longleftrightarrow>
     ascii_alphanumeric_byte b \<or> b \<in> set ''-._~'' \<or> b \<in> set ''!$&'' \<or> b = CHR 0x27 \<or> b \<in> set ''()*+,;='' \<or> b \<in> set '':@''"

definition upper_hex_digit :: "nat \<Rightarrow> char" where
  "upper_hex_digit n = (if n < 10 then char_of (48 + n) else char_of (55 + n))"

definition pct :: "char \<Rightarrow> string" where
  "pct b = (let n = of_char b :: nat in [CHR ''%'', upper_hex_digit (n div 16), upper_hex_digit (n mod 16)])"

fun encode_bytes :: "string \<Rightarrow> string" where
  "encode_bytes [] = []"
| "encode_bytes (b # bs) = (if is_literal_pchar b then [b] else pct b) @ encode_bytes bs"

definition path_segment :: "string \<Rightarrow> path_segment_error + string" where
  "path_segment i =
     (if i = [] then Inl Empty
      else if i = ''.'' \<or> i = ''..'' then Inl (DotSegment i)
      else Inr (encode_bytes i))"

subsection \<open>What a server reads back\<close>

text \<open>The decoding of RFC 3986: a triplet \<open>%XY\<close> is the byte with that value.\<close>

definition hex_value :: "char \<Rightarrow> nat" where
  "hex_value c = (let n = of_char c in if n < 65 then n - 48 else n - 55)"

fun pct_decode :: "string \<Rightarrow> string" where
  "pct_decode (c # x # y # rest) =
     (if c = CHR ''%'' then char_of (hex_value x * 16 + hex_value y) # pct_decode rest
      else c # pct_decode (x # y # rest))"
| "pct_decode (c # rest) = c # pct_decode rest"
| "pct_decode [] = []"

lemma hex_value_digit: "n < 16 \<Longrightarrow> hex_value (upper_hex_digit n) = n"
  by (simp add: hex_value_def upper_hex_digit_def of_char_of)

lemma byte_of_char_less: "(of_char b :: nat) < 256"
  using nat_of_char_less_256 by simp

lemma pct_decode_pct: "pct_decode (pct b @ rest) = b # pct_decode rest"
proof -
  have n: "of_char b div 16 < (16 :: nat)" using byte_of_char_less [of b] by linarith
  show ?thesis by (simp add: pct_def Let_def hex_value_digit n)
qed

lemma literal_not_percent: "is_literal_pchar b \<Longrightarrow> b \<noteq> CHR ''%''"
  by (auto simp: is_literal_pchar_def ascii_alphanumeric_byte_def Let_def)

lemma pct_decode_literal: "c \<noteq> CHR ''%'' \<Longrightarrow> pct_decode (c # rest) = c # pct_decode rest"
  by (cases rest; cases "tl rest") (auto simp: neq_Nil_conv)

lemma pct_decode_encode: "pct_decode (encode_bytes bs) = bs"
  by (induction bs) (simp_all add: pct_decode_pct pct_decode_literal literal_not_percent)

lemma encode_chars: "list_all (\<lambda>c. is_literal_pchar c \<or> c = CHR ''%'') (encode_bytes bs)"
proof (induction bs)
  case (Cons b bs)
  have digit: "is_literal_pchar (upper_hex_digit n)" if "n < 16" for n
    using that by (auto simp: is_literal_pchar_def ascii_alphanumeric_byte_def upper_hex_digit_def Let_def of_char_of)
  have "(of_char b :: nat) div 16 < 16" using byte_of_char_less [of b] by linarith
  with Cons digit show ?case by (simp add: pct_def Let_def)
qed simp

text \<open>An id becomes exactly one path segment and stays recoverable. The encoding fails exactly on
  the empty id and the two dot segments; otherwise it uses only characters that may stand in one
  segment (no \<open>/\<close>, \<open>?\<close>, \<open>#\<close> or space), is itself neither empty nor a dot segment, and decodes back to
  the id, so no id can reach the resource of another.\<close>

theorem path_segment_roundtrip:
  "case path_segment i of
     Inl Empty \<Rightarrow> i = []
   | Inl (DotSegment d) \<Rightarrow> d = i \<and> i \<in> set [''.'', ''..'']
   | Inr s \<Rightarrow> pct_decode s = i \<and> s \<notin> set [[], ''.'', ''..'']
       \<and> list_all (\<lambda>c. is_literal_pchar c \<or> c = CHR ''%'') s \<and> list_all (\<lambda>c. c \<notin> set ''/?# '') s"
proof -
  have "c \<notin> set ''/?# ''" if "is_literal_pchar c \<or> c = CHR ''%''" for c
    using that by (auto simp: is_literal_pchar_def ascii_alphanumeric_byte_def Let_def)
  then have "list_all (\<lambda>c. c \<notin> set ''/?# '') (encode_bytes i)"
    using encode_chars [of i] unfolding list_all_iff by blast
  moreover have "encode_bytes i \<notin> set [[], ''.'', ''..'']" if "i \<notin> set [[], ''.'', ''..'']"
    using that pct_decode_encode [of i] by (cases "encode_bytes i") (auto simp: pct_decode_literal)
  ultimately show ?thesis
    using pct_decode_encode [of i] encode_chars [of i] by (simp add: path_segment_def)
qed

end
