(* ===== verification/CloudRest.thy ===== *)
theory CloudRest
  imports Journal UrlPath
begin

section \<open>Signed requests and the client of the Cloud\<close>

text \<open>
  \<open>crates/signing/src/lib.rs\<close> and \<open>es256.rs\<close>: the string a device signs and the headers that carry the
  signature; \<open>crates/connectors/src/cloud_rest.rs\<close>: the client that sends it, what it makes of an answer, and the
  shapes it reads. The network, the clock and the random source are the parameter \<open>cloud_world\<close>; they may answer
  every request by all that was sent before it, and the list of the requests sent is the state. The HTTP
  client, the elliptic-curve signer, Base64 and the derived decoders are the parameters \<open>cloud_lib\<close> and
  \<open>signer\<close>. An \<open>f64\<close> is the JSON value \<open>serde_json\<close> writes for it.
\<close>

subsection \<open>Signing\<close>

datatype signing_error =
    KeyGeneration string
  | KeyExport string
  | Signing string
  | Entropy string
  | MalformedPublicKey string
  | MalformedSignature string
  | VerificationFailed
  | ClockBeforeEpoch

fun signing_error_text :: "signing_error \<Rightarrow> string" where
  "signing_error_text (KeyGeneration e) = ''key generation failed: '' @ e"
| "signing_error_text (KeyExport e) = ''public-key export failed: '' @ e"
| "signing_error_text (Signing e) = ''signing failed: '' @ e"
| "signing_error_text (Entropy e) = ''entropy source failed: '' @ e"
| "signing_error_text (MalformedPublicKey e) = ''malformed public key: '' @ e"
| "signing_error_text (MalformedSignature e) = ''malformed signature: '' @ e"
| "signing_error_text VerificationFailed = ''signature verification failed''"
| "signing_error_text ClockBeforeEpoch = ''system clock is before the unix epoch''"

datatype assurance = SecureEnclave | SoftwareSecKey | SoftwareP256

fun assurance_label :: "assurance \<Rightarrow> string" where
  "assurance_label SecureEnclave = ''secure-enclave''"
| "assurance_label SoftwareSecKey = ''software-signed''"
| "assurance_label SoftwareP256 = ''software-signed''"

fun is_hardware :: "assurance \<Rightarrow> bool" where
  "is_hardware SecureEnclave = True"
| "is_hardware SoftwareSecKey = False"
| "is_hardware SoftwareP256 = False"

text \<open>The trait \<open>Es256Signer\<close>.\<close>

record signer =
  sg_assurance :: assurance
  sg_public_key_x963 :: "signing_error + string"
  sg_sign_raw :: "string \<Rightarrow> signing_error + string"

definition canonical_request :: "string \<Rightarrow> string \<Rightarrow> string \<Rightarrow> string \<Rightarrow> string \<Rightarrow> string" where
  "canonical_request method path body_hash ts nonce =
     method @ [LF] @ path @ [LF] @ body_hash @ [LF] @ ts @ [LF] @ nonce"

definition body_sha256_hex :: "ingest_lib \<Rightarrow> string \<Rightarrow> string" where
  "body_sha256_hex X body = sha256_hex X body"

definition lower_hex_digit :: "nat \<Rightarrow> char" where
  "lower_hex_digit n = (if n < 10 then char_of (48 + n) else char_of (87 + n))"

fun hex_lower :: "string \<Rightarrow> string" where
  "hex_lower [] = []"
| "hex_lower (b # bs) = lower_hex_digit (of_char b div 16) # lower_hex_digit (of_char b mod 16) # hex_lower bs"

record signed_mutation =
  sm_ts :: string
  sm_nonce :: string
  sm_sig_b64 :: string

record request =
  rq_method :: string
  rq_url :: string
  rq_bearer :: "string option"
  rq_headers :: "(string \<times> string) list"
  rq_body :: string

text \<open>What a request comes to: no response (the text of the transport error), or a status and a body, which may
  fail while it is read.\<close>

datatype reply = NoReply string | Reply nat "string + string"

record cloud_world =
  cw_clock :: "request list \<Rightarrow> nat option"
  cw_random :: "request list \<Rightarrow> string + string"
  cw_send :: "request list \<Rightarrow> request \<Rightarrow> reply"

text \<open>The shapes the client reads.\<close>

record pii_kind =
  pk_kind :: string
  pk_calls :: nat

record summary =
  su_runs :: nat
  su_calls :: nat
  su_spent_microusd :: int
  su_pii_calls :: "nat option"
  su_pii_kinds :: "pii_kind list option"

record run_model =
  rm_model :: string
  rm_calls :: nat
  rm_spent_microusd :: int

record run_agg =
  ra_run_id :: string
  ra_model :: string
  ra_agent_id :: string
  ra_unit :: string
  ra_owner :: string
  ra_spent_microusd :: int
  ra_calls :: nat
  ra_cache_hits :: nat
  ra_steps :: nat
  ra_last_seen_millis :: int
  ra_killed :: bool
  ra_site :: "string option"
  ra_blocked :: "nat option"
  ra_last_decision :: "string option"
  ra_last_decision_millis :: "int option"
  ra_fallback_calls :: "nat option"
  ra_basis_unreported_calls :: "nat option"
  ra_identity_warned :: "nat option"
  ra_last_identity_reason :: "string option"
  ra_models :: "run_model list option"
  ra_model_switches :: "nat option"
  ra_pii_calls :: "nat option"

record savings_summary =
  sv_blocked_spend_microusd :: int
  sv_cache_saved_microusd :: int
  sv_router_saved_microusd :: int
  sv_budget_breaks :: nat
  sv_total_saved_microusd :: int

record alert =
  ca_run_id :: string
  ca_spent_microusd :: int
  ca_budget_micros :: int
  ca_fraction :: json
  ca_killed :: bool

record incident =
  in_id :: string
  in_org :: string
  in_run_id :: "string option"
  in_agent_id :: "string option"
  in_kind :: string
  in_severity :: severity
  in_first_seen_millis :: int
  in_last_seen_millis :: int
  in_occurrences :: nat
  in_acknowledged :: bool
  in_last_notified_millis :: int
  in_source :: "string option"
  in_summary :: "string option"

record owner_agg =
  oa_owner :: string
  oa_spent_microusd :: int
  oa_calls :: nat
  oa_runs :: nat
  oa_agents :: nat
  oa_last_seen_millis :: int
  oa_tool_calls :: nat

record agent_window_spend =
  aw_agent_id :: string
  aw_spent_microusd :: int
  aw_calls :: nat
  aw_blocked :: nat

record window_spend =
  ws_days_requested :: int
  ws_days_covered :: int
  ws_from_day :: "int option"
  ws_spent_microusd :: int
  ws_calls :: nat
  ws_blocked :: nat
  ws_agents :: "agent_window_spend list"

record unit_agg =
  ua_unit :: string
  ua_spent_microusd :: int
  ua_calls :: nat
  ua_runs :: nat
  ua_last_seen_millis :: int
  ua_tool_calls :: nat
  ua_month :: string
  ua_month_spent_microusd :: int
  ua_month_calls :: nat

record gateway_agg =
  ga_site :: string
  ga_spent_microusd :: int
  ga_calls :: nat
  ga_tool_calls :: nat
  ga_pushes :: nat
  ga_first_push_millis :: int
  ga_last_push_millis :: int
  ga_last_record_millis :: int

record pair_response =
  pa_device_id :: string
  pa_org :: string
  pa_role :: string
  pa_device_token :: string

record budget_response =
  br_run :: string
  br_budget_micros :: int

record unit_budget_response =
  ur_unit :: string
  ur_budget_micros :: int

record cloud_lib =
  cl_base64 :: "string \<Rightarrow> string"
  cl_plan_required :: "string \<Rightarrow> (string \<times> string \<times> string) option"
  cl_error :: "string \<Rightarrow> string option"
  cl_kill :: "string \<Rightarrow> string + string"
  cl_budget :: "string \<Rightarrow> string + budget_response"
  cl_unit_budget :: "string \<Rightarrow> string + unit_budget_response"
  cl_ack :: "string \<Rightarrow> string + string"
  cl_pair_new :: "string \<Rightarrow> string + string"
  cl_pair :: "string \<Rightarrow> string + pair_response"
  cl_summary :: "string \<Rightarrow> string + summary"
  cl_runs :: "string \<Rightarrow> string + run_agg list"
  cl_savings :: "string \<Rightarrow> string + savings_summary"
  cl_incidents :: "string \<Rightarrow> string + incident list"
  cl_alerts :: "string \<Rightarrow> string + alert list"
  cl_owners :: "string \<Rightarrow> string + owner_agg list"
  cl_budgets :: "string \<Rightarrow> string + (string \<times> int) list"
  cl_spend :: "string \<Rightarrow> string + window_spend"
  cl_units :: "string \<Rightarrow> string + unit_agg list"
  cl_unit_budgets :: "string \<Rightarrow> string + (string \<times> int) list"
  cl_gateways :: "string \<Rightarrow> string + gateway_agg list"

definition sign_mutation_at ::
  "ingest_lib \<Rightarrow> cloud_lib \<Rightarrow> signer \<Rightarrow> string \<Rightarrow> string \<Rightarrow> string \<Rightarrow> string \<Rightarrow> string \<Rightarrow> signing_error + signed_mutation" where
  "sign_mutation_at X L sg method path body ts nonce =
     (case sg_sign_raw sg (canonical_request method path (body_sha256_hex X body) ts nonce) of
        Inl e \<Rightarrow> Inl e
      | Inr raw_sig \<Rightarrow> Inr \<lparr>sm_ts = ts, sm_nonce = nonce, sm_sig_b64 = cl_base64 L raw_sig\<rparr>)"

definition sign_mutation ::
  "ingest_lib \<Rightarrow> cloud_lib \<Rightarrow> cloud_world \<Rightarrow> request list \<Rightarrow> signer \<Rightarrow> string \<Rightarrow> string \<Rightarrow> string
    \<Rightarrow> signing_error + signed_mutation" where
  "sign_mutation X L w sent sg method path body =
     (case cw_clock w sent of
        None \<Rightarrow> Inl ClockBeforeEpoch
      | Some now \<Rightarrow>
          (case cw_random w sent of
             Inl e \<Rightarrow> Inl (Entropy e)
           | Inr buf \<Rightarrow> sign_mutation_at X L sg method path body (dec now) (hex_lower buf)))"

subsection \<open>Errors and answers\<close>

datatype connector_error =
    Transport string
  | BadJson string
  | Api nat string
  | PlanRequired string string string
  | NoDeviceSigner
  | InvalidPathSegment path_segment_error
  | SigningFailed signing_error
  | SignatureRejected

fun path_segment_error_text :: "path_segment_error \<Rightarrow> string" where
  "path_segment_error_text Empty = ''an empty id cannot address a resource''"
| "path_segment_error_text (DotSegment s) = ''`'' @ s @ ''` is a relative path segment, not an id''"

fun connector_error_text :: "connector_error \<Rightarrow> string" where
  "connector_error_text (Transport e) = ''http transport: '' @ e"
| "connector_error_text (BadJson e) = ''json: '' @ e"
| "connector_error_text (Api status body) = ''cloud returned HTTP '' @ dec status @ '': '' @ body"
| "connector_error_text (PlanRequired feature org upgrade_url) =
     ''plan required: feature='' @ feature @ '' org='' @ org @ '' (upgrade: '' @ upgrade_url @ '')''"
| "connector_error_text NoDeviceSigner =
     ''mutation requires a paired device signer; call attach_device (or pair) first''"
| "connector_error_text (InvalidPathSegment e) = ''invalid id for a URL path segment: '' @ path_segment_error_text e"
| "connector_error_text (SigningFailed e) = ''signing failed: '' @ signing_error_text e"
| "connector_error_text SignatureRejected = ''device signature rejected (403 signature_invalid)''"

definition classify_error :: "cloud_lib \<Rightarrow> nat \<Rightarrow> string \<Rightarrow> connector_error" where
  "classify_error L status bytes =
     (let api = Api status (from_utf8_lossy bytes) in
      case (if status = 402 then cl_plan_required L bytes else None) of
        Some (feature, org, upgrade_url) \<Rightarrow> PlanRequired feature org upgrade_url
      | None \<Rightarrow> if status = 403 \<and> cl_error L bytes = Some ''signature_invalid'' then SignatureRejected else api)"

definition parse_response :: "cloud_lib \<Rightarrow> (string \<Rightarrow> string + 'a) \<Rightarrow> reply \<Rightarrow> connector_error + 'a" where
  "parse_response L decode r =
     (case r of
        NoReply e \<Rightarrow> Inl (Transport e)
      | Reply status body \<Rightarrow>
          (case body of
             Inl e \<Rightarrow> Inl (Transport e)
           | Inr bytes \<Rightarrow>
               if 200 \<le> status \<and> status < 300
               then (case decode bytes of Inl e \<Rightarrow> Inl (BadJson e) | Inr v \<Rightarrow> Inr v)
               else Inl (classify_error L status bytes)))"

subsection \<open>The client\<close>

record paired_device =
  pd_device_id :: string
  pd_device_token :: string
  pd_signer :: signer

record cloud_client =
  cc_base_url :: string
  cc_bearer_token :: string
  cc_device :: "paired_device option"

definition trim_end_slashes :: "string \<Rightarrow> string" where
  "trim_end_slashes s = rev (dropWhile (\<lambda>c. c = CHR ''/'') (rev s))"

text \<open>Building the HTTP client may fail (\<open>build_error\<close>).\<close>

definition cloud_client_new :: "string option \<Rightarrow> string \<Rightarrow> string \<Rightarrow> connector_error + cloud_client" where
  "cloud_client_new build_error base_url bearer_token =
     (case build_error of
        Some e \<Rightarrow> Inl (Transport e)
      | None \<Rightarrow> Inr \<lparr>cc_base_url = trim_end_slashes base_url, cc_bearer_token = bearer_token, cc_device = None\<rparr>)"

definition attach_device :: "string \<Rightarrow> string \<Rightarrow> signer \<Rightarrow> cloud_client \<Rightarrow> cloud_client" where
  "attach_device device_id device_token sg c =
     c\<lparr>cc_device := Some \<lparr>pd_device_id = device_id, pd_device_token = device_token, pd_signer = sg\<rparr>\<rparr>"

definition send :: "cloud_world \<Rightarrow> request list \<Rightarrow> request \<Rightarrow> request list \<times> reply" where
  "send w sent rq = (sent @ [rq], cw_send w sent rq)"

definition get_request :: "cloud_client \<Rightarrow> string \<Rightarrow> request" where
  "get_request c path =
     \<lparr>rq_method = ''GET'', rq_url = cc_base_url c @ path, rq_bearer = Some (cc_bearer_token c), rq_headers = [], rq_body = []\<rparr>"

definition get_json ::
  "cloud_lib \<Rightarrow> cloud_world \<Rightarrow> cloud_client \<Rightarrow> (string \<Rightarrow> string + 'a) \<Rightarrow> string \<Rightarrow> request list
    \<Rightarrow> request list \<times> (connector_error + 'a)" where
  "get_json L w c decode path sent =
     (case send w sent (get_request c path) of (sent', r) \<Rightarrow> (sent', parse_response L decode r))"

definition get_json_or_absent ::
  "cloud_lib \<Rightarrow> cloud_world \<Rightarrow> cloud_client \<Rightarrow> (string \<Rightarrow> string + 'a) \<Rightarrow> string \<Rightarrow> request list
    \<Rightarrow> request list \<times> (connector_error + 'a option)" where
  "get_json_or_absent L w c decode path sent =
     (case send w sent (get_request c path) of
        (sent', r) \<Rightarrow>
          (sent', if (case r of Reply status _ \<Rightarrow> status = 404 | NoReply _ \<Rightarrow> False) then Inr None
                  else map_sum id Some (parse_response L decode r)))"

definition cloud_summary where "cloud_summary L w c = get_json L w c (cl_summary L) ''/v1/summary''"
definition cloud_runs where "cloud_runs L w c = get_json L w c (cl_runs L) ''/v1/runs''"
definition cloud_owners where "cloud_owners L w c = get_json L w c (cl_owners L) ''/v1/owners''"
definition cloud_savings where "cloud_savings L w c = get_json L w c (cl_savings L) ''/v1/savings''"
definition cloud_incidents where "cloud_incidents L w c = get_json L w c (cl_incidents L) ''/v1/incidents''"
definition cloud_alerts where "cloud_alerts L w c = get_json L w c (cl_alerts L) ''/v1/alerts''"
definition cloud_budgets where "cloud_budgets L w c = get_json L w c (cl_budgets L) ''/v1/budgets''"

definition spend_window ::
  "cloud_lib \<Rightarrow> cloud_world \<Rightarrow> cloud_client \<Rightarrow> int \<Rightarrow> request list \<Rightarrow> request list \<times> (connector_error + window_spend option)" where
  "spend_window L w c days = get_json_or_absent L w c (cl_spend L) (''/v1/spend?days='' @ idec days)"

definition cloud_units where
  "cloud_units L w c = get_json_or_absent L w c (cl_units L) ''/v1/units''"
definition cloud_unit_budgets where
  "cloud_unit_budgets L w c = get_json_or_absent L w c (cl_unit_budgets L) ''/v1/unit-budgets''"
definition cloud_gateways where
  "cloud_gateways L w c = get_json_or_absent L w c (cl_gateways L) ''/v1/gateways''"

subsection \<open>Pairing\<close>

definition json_header :: "(string \<times> string) list" where
  "json_header = [(''content-type'', ''application/json'')]"

definition pair_new ::
  "cloud_lib \<Rightarrow> cloud_world \<Rightarrow> cloud_client \<Rightarrow> string \<Rightarrow> request list \<Rightarrow> request list \<times> (connector_error + string)" where
  "pair_new L w c admin_bearer sent =
     (case send w sent \<lparr>rq_method = ''POST'', rq_url = cc_base_url c @ ''/v1/pair/new'', rq_bearer = Some admin_bearer,
                        rq_headers = json_header, rq_body = ''{}''\<rparr> of
        (sent', r) \<Rightarrow> (sent', parse_response L (cl_pair_new L) r))"

definition pair_body :: "string \<Rightarrow> string \<Rightarrow> string \<Rightarrow> assurance \<Rightarrow> json" where
  "pair_body code pubkey_b64 platform a = JObject
     [(''code'', JString code), (''pubkey_b64'', JString pubkey_b64), (''platform'', JString platform),
      (''name'', JString (''genaryx-connectors ('' @ assurance_label a @ '')''))]"

definition pair ::
  "ingest_lib \<Rightarrow> cloud_lib \<Rightarrow> cloud_world \<Rightarrow> string \<Rightarrow> cloud_client \<Rightarrow> string \<Rightarrow> signer \<Rightarrow> request list
    \<Rightarrow> request list \<times> (connector_error + pair_response)" where
  "pair X L w platform c admin_bearer sg sent =
     (case pair_new L w c admin_bearer sent of
        (sent1, Inl e) \<Rightarrow> (sent1, Inl e)
      | (sent1, Inr code) \<Rightarrow>
          (case sg_public_key_x963 sg of
             Inl e \<Rightarrow> (sent1, Inl (SigningFailed e))
           | Inr key \<Rightarrow>
               (case send w sent1 \<lparr>rq_method = ''POST'', rq_url = cc_base_url c @ ''/v1/pair'', rq_bearer = None,
                        rq_headers = json_header,
                        rq_body = json_text X (pair_body code (cl_base64 L key) platform (sg_assurance sg))\<rparr> of
                  (sent2, r) \<Rightarrow> (sent2, parse_response L (cl_pair L) r))))"

subsection \<open>Mutations\<close>

definition signed_request :: "cloud_client \<Rightarrow> paired_device \<Rightarrow> string \<Rightarrow> string \<Rightarrow> signed_mutation \<Rightarrow> request" where
  "signed_request c d path body m =
     \<lparr>rq_method = ''POST'', rq_url = cc_base_url c @ path, rq_bearer = Some (pd_device_token d),
      rq_headers = [(''X-Fuse-Device'', pd_device_id d), (''X-Fuse-TS'', sm_ts m), (''X-Fuse-Nonce'', sm_nonce m),
                    (''X-Fuse-Sig'', sm_sig_b64 m)] @ json_header,
      rq_body = body\<rparr>"

definition signed_post ::
  "ingest_lib \<Rightarrow> cloud_lib \<Rightarrow> cloud_world \<Rightarrow> cloud_client \<Rightarrow> (string \<Rightarrow> string + 'a) \<Rightarrow> string \<Rightarrow> string \<Rightarrow> request list
    \<Rightarrow> request list \<times> (connector_error + 'a)" where
  "signed_post X L w c decode path body sent =
     (case cc_device c of
        None \<Rightarrow> (sent, Inl NoDeviceSigner)
      | Some d \<Rightarrow>
          (case sign_mutation X L w sent (pd_signer d) ''POST'' path body of
             Inl e \<Rightarrow> (sent, Inl (SigningFailed e))
           | Inr m \<Rightarrow>
               (case send w sent (signed_request c d path body m) of
                  (sent', r) \<Rightarrow> (sent', parse_response L decode r))))"

definition kill_run ::
  "ingest_lib \<Rightarrow> cloud_lib \<Rightarrow> cloud_world \<Rightarrow> cloud_client \<Rightarrow> string \<Rightarrow> request list \<Rightarrow> request list \<times> (connector_error + string)" where
  "kill_run X L w c run_id sent =
     (case path_segment run_id of
        Inl e \<Rightarrow> (sent, Inl (InvalidPathSegment e))
      | Inr seg \<Rightarrow> signed_post X L w c (cl_kill L) (''/v1/runs/'' @ seg @ ''/kill'') [] sent)"

definition budget_body :: "ingest_lib \<Rightarrow> json \<Rightarrow> string" where
  "budget_body X budget_usd = json_text X (JObject [(''budget_usd'', budget_usd)])"

definition set_budget ::
  "ingest_lib \<Rightarrow> cloud_lib \<Rightarrow> cloud_world \<Rightarrow> cloud_client \<Rightarrow> string \<Rightarrow> json \<Rightarrow> request list
    \<Rightarrow> request list \<times> (connector_error + budget_response)" where
  "set_budget X L w c run_id budget_usd sent =
     (case path_segment run_id of
        Inl e \<Rightarrow> (sent, Inl (InvalidPathSegment e))
      | Inr seg \<Rightarrow>
          signed_post X L w c (cl_budget L) (''/v1/runs/'' @ seg @ ''/budget'') (budget_body X budget_usd) sent)"

definition set_unit_budget ::
  "ingest_lib \<Rightarrow> cloud_lib \<Rightarrow> cloud_world \<Rightarrow> cloud_client \<Rightarrow> string \<Rightarrow> json \<Rightarrow> request list
    \<Rightarrow> request list \<times> (connector_error + unit_budget_response)" where
  "set_unit_budget X L w c un budget_usd sent =
     (case path_segment un of
        Inl e \<Rightarrow> (sent, Inl (InvalidPathSegment e))
      | Inr seg \<Rightarrow>
          signed_post X L w c (cl_unit_budget L) (''/v1/units/'' @ seg @ ''/budget'') (budget_body X budget_usd) sent)"

definition ack_incident ::
  "ingest_lib \<Rightarrow> cloud_lib \<Rightarrow> cloud_world \<Rightarrow> cloud_client \<Rightarrow> string \<Rightarrow> request list \<Rightarrow> request list \<times> (connector_error + string)" where
  "ack_incident X L w c incident_id sent =
     (case path_segment incident_id of
        Inl e \<Rightarrow> (sent, Inl (InvalidPathSegment e))
      | Inr seg \<Rightarrow> signed_post X L w c (cl_ack L) (''/v1/incidents/'' @ seg @ ''/ack'') [] sent)"

end
