(* ===== verification/Money.thy ===== *)
theory Money
  imports CloudRest
begin

section \<open>The money plane\<close>

text \<open>
  \<open>crates/api/src/money/state.rs\<close>, \<open>commands.rs\<close>, \<open>units.rs\<close> and \<open>gateways.rs\<close>: connecting to the Cloud, the rows
  the views are given, and the commands that change something there, which are journaled whatever the
  Cloud answered. The state is what has been sent and the journal. The journal's world and the error of opening
  the store are given per attempt to journal, in order. \<open>money_lib\<close> has the operations on \<open>f64\<close> (an \<open>f64\<close> is the
  JSON value \<open>serde_json\<close> writes for it) and the calendar.
\<close>

subsection \<open>The journal of a plane\<close>

record actions =
  ac_sent :: "request list"
  ac_journal :: console_journal
  ac_attempts :: nat

record bus_env =
  be_lib :: ingest_lib
  be_paths :: path_lib
  be_scope :: console_scope
  be_store_error :: "nat \<Rightarrow> string option"
  be_world :: "nat \<Rightarrow> journal_world"

fun command_error_text :: "command_error \<Rightarrow> string" where
  "command_error_text (CommandIo e) = ''io: '' @ e"
| "command_error_text (CommandStore e) = ''store: '' @ e"
| "command_error_text BreakGlassMissingReason = ''break-glass requires a non-empty reason''"

text \<open>\<open>journal\<close>: the bus is the path of the console's events file, if there is one.\<close>

definition journal ::
  "bus_env \<Rightarrow> string option \<Rightarrow> string \<Rightarrow> string \<Rightarrow> command_record \<Rightarrow> actions \<Rightarrow> actions \<times> bool \<times> string option" where
  "journal B bus org_domain host rec a =
     (case bus of
        None \<Rightarrow> (a, False, Some ''no live event bus available (startup seeding did not complete)'')
      | Some events_path \<Rightarrow>
          (let k = ac_attempts a; a' = a\<lparr>ac_attempts := Suc k\<rparr> in
           case be_store_error B k of
             Some e \<Rightarrow> (a', False, Some e)
           | None \<Rightarrow>
               (case record_command (be_lib B) (be_paths B) (be_world B k) (ac_journal a) events_path org_domain host rec of
                  (st, Inr _) \<Rightarrow> (a'\<lparr>ac_journal := st\<rparr>, True, None)
                | (st, Inl e) \<Rightarrow> (a'\<lparr>ac_journal := st\<rparr>, False, Some (command_error_text e)))))"

subsection \<open>Connecting (\<open>state.rs\<close>, \<open>env.rs\<close>)\<close>

datatype env_source = Taipan string | EnvFallback

record resolved_env =
  rv_source :: env_source
  rv_cloud_url :: string
  rv_admin_bearer :: string

definition FALLBACK_CLOUD_URL :: string where "FALLBACK_CLOUD_URL = ''http://127.0.0.1:8080''"

definition env_fallback_from :: "string option \<Rightarrow> string option \<Rightarrow> resolved_env option" where
  "env_fallback_from url admin_bearer =
     (case admin_bearer of
        None \<Rightarrow> None
      | Some bearer \<Rightarrow>
          if trim bearer = [] then None
          else Some \<lparr>rv_source = EnvFallback,
                     rv_cloud_url = (case url of Some u \<Rightarrow> if trim u \<noteq> [] then u else FALLBACK_CLOUD_URL
                                      | None \<Rightarrow> FALLBACK_CLOUD_URL),
                     rv_admin_bearer = bearer\<rparr>)"

record money_client =
  mc_client :: cloud_client
  mc_source :: env_source
  mc_cloud_url :: string
  mc_org_domain :: string
  mc_operator :: string
  mc_host :: string
  mc_sig_fpr :: string
  mc_bus :: "string option"

datatype money_state =
    Bootstrapping
  | NoEnvironment
  | PairingFailed env_source string string
  | Ready money_client

definition sanitize_domain :: "string \<Rightarrow> string" where
  "sanitize_domain org =
     (let sanitized = concat (map (\<lambda>c.
            let lower = to_ascii_lowercase c in
            if ascii_alphanumeric lower \<or> lower = ''.'' \<or> lower = ''-'' then lower else ''-'') (chars (trim org)))
      in if sanitized = [] then ''genaryx.local'' else sanitized)"

definition operator_principal :: "string option \<Rightarrow> string \<Rightarrow> string" where
  "operator_principal user_env org_domain =
     ''user://'' @ org_domain @ ''/''
       @ (case user_env of Some u \<Rightarrow> if trim u \<noteq> [] then u else ''operator'' | None \<Rightarrow> ''operator'')"

text \<open>What the box is: the signer made at start, the host name, the user, the platform, whether the ten seconds
  ran out, and the error of building the HTTP client.\<close>

record box =
  bx_signer :: "signing_error + signer"
  bx_host :: string
  bx_user :: "string option"
  bx_platform :: string
  bx_timed_out :: bool
  bx_build_error :: "string option"

definition connect ::
  "ingest_lib \<Rightarrow> cloud_lib \<Rightarrow> cloud_world \<Rightarrow> box \<Rightarrow> resolved_env \<Rightarrow> request list
    \<Rightarrow> request list \<times> (string + cloud_client \<times> string \<times> string)" where
  "connect X L w bx r sent =
     (case cloud_client_new (bx_build_error bx) (rv_cloud_url r) (rv_admin_bearer r) of
        Inl e \<Rightarrow> (sent, Inl (connector_error_text e))
      | Inr c \<Rightarrow>
          (case bx_signer bx of
             Inl e \<Rightarrow> (sent, Inl (''could not generate a device key: '' @ signing_error_text e))
           | Inr sg \<Rightarrow>
               (case pair X L w (bx_platform bx) c (rv_admin_bearer r) sg sent of
                  (sent', Inl e) \<Rightarrow> (sent', Inl (''device pairing failed: '' @ connector_error_text e))
                | (sent', Inr paired) \<Rightarrow>
                    (sent', Inr (attach_device (pa_device_id paired) (pa_device_token paired) sg c,
                                 sanitize_domain (pa_org paired), assurance_label (sg_assurance sg))))))"

definition bootstrap ::
  "ingest_lib \<Rightarrow> cloud_lib \<Rightarrow> cloud_world \<Rightarrow> box \<Rightarrow> resolved_env option \<Rightarrow> string option \<Rightarrow> request list
    \<Rightarrow> request list \<times> money_state" where
  "bootstrap X L w bx resolved bus sent =
     (case resolved of
        None \<Rightarrow> (sent, NoEnvironment)
      | Some r \<Rightarrow>
          (case connect X L w bx r sent of
             (sent', res) \<Rightarrow>
               (sent',
                if bx_timed_out bx
                then PairingFailed (rv_source r) (rv_cloud_url r) ''timed out after 10s waiting for the Cloud to respond''
                else (case res of
                        Inl reason \<Rightarrow> PairingFailed (rv_source r) (rv_cloud_url r) reason
                      | Inr (c, org_domain, sig_fpr) \<Rightarrow>
                          Ready \<lparr>mc_client = c, mc_source = rv_source r, mc_cloud_url = rv_cloud_url r,
                                 mc_org_domain = org_domain, mc_operator = operator_principal (bx_user bx) org_domain,
                                 mc_host = bx_host bx, mc_sig_fpr = sig_fpr, mc_bus = bus\<rparr>))))"

subsection \<open>Errors\<close>

datatype money_error =
    MoneyBootstrapping
  | MoneyNoEnvironment
  | MoneyPairingFailed string
  | MoneyPlanRequired string string string
  | MoneyMissingReason
  | InvalidArgument string
  | CloudFailed "nat option" string

fun money_error_of :: "connector_error \<Rightarrow> money_error" where
  "money_error_of (PlanRequired feature org upgrade_url) = MoneyPlanRequired feature org upgrade_url"
| "money_error_of SignatureRejected = CloudFailed (Some 403) ''device signature rejected by the Cloud (signature_invalid)''"
| "money_error_of (Api status body) = CloudFailed (Some status) body"
| "money_error_of NoDeviceSigner = CloudFailed None ''no paired device signer attached (internal state error)''"
| "money_error_of (InvalidPathSegment e) =
     CloudFailed None (''this id cannot be used in a request path: '' @ path_segment_error_text e)"
| "money_error_of (SigningFailed e) = CloudFailed None (''signing failed: '' @ signing_error_text e)"
| "money_error_of (Transport e) = CloudFailed None (''could not reach the Cloud: '' @ e)"
| "money_error_of (BadJson e) = CloudFailed None (''unexpected response shape from the Cloud: '' @ e)"

fun status_of :: "connector_error \<Rightarrow> nat" where
  "status_of (Api status _) = status"
| "status_of SignatureRejected = 403"
| "status_of (PlanRequired _ _ _) = 402"
| "status_of NoDeviceSigner = 0"
| "status_of (InvalidPathSegment _) = 0"
| "status_of (SigningFailed _) = 0"
| "status_of (Transport _) = 0"
| "status_of (BadJson _) = 0"

definition money_require_reason :: "string \<Rightarrow> money_error + unit" where
  "money_require_reason reason = (if trim reason = [] then Inl MoneyMissingReason else Inr ())"

definition ready_client :: "money_state \<Rightarrow> money_error + money_client" where
  "ready_client s =
     (case s of
        Ready c \<Rightarrow> Inr c
      | Bootstrapping \<Rightarrow> Inl MoneyBootstrapping
      | NoEnvironment \<Rightarrow> Inl MoneyNoEnvironment
      | PairingFailed _ _ reason \<Rightarrow> Inl (MoneyPairingFailed reason))"

subsection \<open>The rows of the views\<close>

text \<open>\<open>ml_usd\<close> is \<open>micros as f64 / 1_000_000.0\<close>, \<open>ml_rank\<close> its place under \<open>total_cmp\<close>, \<open>ml_ratio\<close> the quotient
  of two amounts and \<open>ml_near\<close> whether that quotient is at least 0.8; \<open>ml_iso\<close> is the calendar's text of a
  time.\<close>

record money_lib =
  ml_usd :: "int \<Rightarrow> json"
  ml_rank :: "json \<Rightarrow> int"
  ml_ratio :: "int \<Rightarrow> int \<Rightarrow> json"
  ml_near :: "int \<Rightarrow> int \<Rightarrow> bool"
  ml_negative :: "json \<Rightarrow> bool"
  ml_display :: "json \<Rightarrow> string"
  ml_display4 :: "json \<Rightarrow> string"
  ml_iso :: "int \<Rightarrow> string option"

definition millis_to_iso :: "money_lib \<Rightarrow> int \<Rightarrow> string" where
  "millis_to_iso M ms = (case ml_iso M ms of Some s \<Rightarrow> s | None \<Rightarrow> idec ms)"

fun severity_str :: "severity \<Rightarrow> string" where
  "severity_str Info = ''info''"
| "severity_str Low = ''low''"
| "severity_str Medium = ''medium''"
| "severity_str High = ''high''"
| "severity_str Critical = ''critical''"

record overview_dto =
  ov_total_spent_usd :: json
  ov_total_calls :: nat
  ov_total_runs :: nat
  ov_active_runs :: nat
  ov_killed_runs :: nat
  ov_open_incidents :: nat
  ov_total_incidents :: nat
  ov_total_saved_usd :: json
  ov_pii_calls :: "nat option"
  ov_pii_kinds :: "pii_kind list option"

text \<open>\<open>saturating_sub\<close> is subtraction of naturals.\<close>

definition overview_build ::
  "money_lib \<Rightarrow> summary \<Rightarrow> run_agg list \<Rightarrow> incident list \<Rightarrow> savings_summary \<Rightarrow> overview_dto" where
  "overview_build M s runs incidents savings =
     (let killed_runs = length (filter ra_killed runs) in
      \<lparr>ov_total_spent_usd = ml_usd M (su_spent_microusd s), ov_total_calls = su_calls s, ov_total_runs = su_runs s,
       ov_active_runs = length runs - killed_runs, ov_killed_runs = killed_runs,
       ov_open_incidents = length (filter (\<lambda>i. \<not> in_acknowledged i) incidents), ov_total_incidents = length incidents,
       ov_total_saved_usd = ml_usd M (sv_total_saved_microusd savings), ov_pii_calls = su_pii_calls s,
       ov_pii_kinds = su_pii_kinds s\<rparr>)"

record run_model_dto =
  rmd_model :: string
  rmd_calls :: nat
  rmd_spent_usd :: json

record run_dto =
  rd_run_id :: string
  rd_unit :: string
  rd_owner :: string
  rd_model :: string
  rd_agent_id :: string
  rd_spent_usd :: json
  rd_budget_usd :: "json option"
  rd_budgets_read :: bool
  rd_calls :: nat
  rd_cache_hits :: nat
  rd_steps :: nat
  rd_last_seen :: string
  rd_killed :: bool
  rd_site :: "string option"
  rd_blocked :: "nat option"
  rd_last_decision :: "string option"
  rd_last_decision_at :: "string option"
  rd_fallback_calls :: "nat option"
  rd_basis_unreported_calls :: "nat option"
  rd_identity_warned :: "nat option"
  rd_last_identity_reason :: "string option"
  rd_models :: "run_model_dto list option"
  rd_model_switches :: "nat option"
  rd_pii_calls :: "nat option"

definition run_dto_of :: "money_lib \<Rightarrow> (string \<rightharpoonup> int) \<Rightarrow> bool \<Rightarrow> run_agg \<Rightarrow> run_dto" where
  "run_dto_of M budgets budgets_read r =
     \<lparr>rd_run_id = ra_run_id r, rd_unit = ra_unit r, rd_owner = ra_owner r, rd_model = ra_model r,
      rd_agent_id = ra_agent_id r, rd_spent_usd = ml_usd M (ra_spent_microusd r),
      rd_budget_usd = map_option (ml_usd M) (budgets (ra_run_id r)), rd_budgets_read = budgets_read,
      rd_calls = ra_calls r, rd_cache_hits = ra_cache_hits r, rd_steps = ra_steps r,
      rd_last_seen = millis_to_iso M (ra_last_seen_millis r), rd_killed = ra_killed r, rd_site = ra_site r,
      rd_blocked = ra_blocked r, rd_last_decision = ra_last_decision r,
      rd_last_decision_at =
        (case ra_last_decision_millis r of Some m \<Rightarrow> if 0 < m then Some (millis_to_iso M m) else None | None \<Rightarrow> None),
      rd_fallback_calls = ra_fallback_calls r, rd_basis_unreported_calls = ra_basis_unreported_calls r,
      rd_identity_warned = ra_identity_warned r, rd_last_identity_reason = ra_last_identity_reason r,
      rd_models = map_option (map (\<lambda>m. \<lparr>rmd_model = rm_model m, rmd_calls = rm_calls m,
                                        rmd_spent_usd = ml_usd M (rm_spent_microusd m)\<rparr>)) (ra_models r),
      rd_model_switches = ra_model_switches r, rd_pii_calls = ra_pii_calls r\<rparr>"

record incident_dto =
  idt_id :: string
  idt_run_id :: "string option"
  idt_agent_id :: "string option"
  idt_kind :: string
  idt_severity :: string
  idt_first_seen :: string
  idt_last_seen :: string
  idt_occurrences :: nat
  idt_acknowledged :: bool

definition incident_dto_of :: "money_lib \<Rightarrow> incident \<Rightarrow> incident_dto" where
  "incident_dto_of M i =
     \<lparr>idt_id = in_id i, idt_run_id = in_run_id i, idt_agent_id = in_agent_id i, idt_kind = in_kind i,
      idt_severity = severity_str (in_severity i), idt_first_seen = millis_to_iso M (in_first_seen_millis i),
      idt_last_seen = millis_to_iso M (in_last_seen_millis i), idt_occurrences = in_occurrences i,
      idt_acknowledged = in_acknowledged i\<rparr>"

record savings_dto =
  sd_blocked_spend_usd :: json
  sd_cache_saved_usd :: json
  sd_router_saved_usd :: json
  sd_budget_breaks :: nat
  sd_total_saved_usd :: json

definition savings_dto_of :: "money_lib \<Rightarrow> savings_summary \<Rightarrow> savings_dto" where
  "savings_dto_of M s =
     \<lparr>sd_blocked_spend_usd = ml_usd M (sv_blocked_spend_microusd s), sd_cache_saved_usd = ml_usd M (sv_cache_saved_microusd s),
      sd_router_saved_usd = ml_usd M (sv_router_saved_microusd s), sd_budget_breaks = sv_budget_breaks s,
      sd_total_saved_usd = ml_usd M (sv_total_saved_microusd s)\<rparr>"

record owner_dto =
  od_owner :: string
  od_spent_usd :: json
  od_calls :: nat
  od_runs :: nat
  od_agents :: nat
  od_last_seen :: string
  od_tool_calls :: nat

definition owner_dto_of :: "money_lib \<Rightarrow> owner_agg \<Rightarrow> owner_dto" where
  "owner_dto_of M p =
     \<lparr>od_owner = oa_owner p, od_spent_usd = ml_usd M (oa_spent_microusd p), od_calls = oa_calls p, od_runs = oa_runs p,
      od_agents = oa_agents p, od_last_seen = millis_to_iso M (oa_last_seen_millis p), od_tool_calls = oa_tool_calls p\<rparr>"

subsection \<open>The reads\<close>

text \<open>The four reads of the overview are made at once and the first error in time is the answer; the model makes
  them in the order written.\<close>

definition money_overview ::
  "cloud_lib \<Rightarrow> cloud_world \<Rightarrow> money_lib \<Rightarrow> money_state \<Rightarrow> request list \<Rightarrow> request list \<times> (money_error + overview_dto)" where
  "money_overview L w M s sent =
     (case ready_client s of
        Inl e \<Rightarrow> (sent, Inl e)
      | Inr mc \<Rightarrow>
          (let c = mc_client mc;
               (sent1, su) = cloud_summary L w c sent;
               (sent2, ru) = cloud_runs L w c sent1;
               (sent3, inc) = cloud_incidents L w c sent2;
               (sent4, sa) = cloud_savings L w c sent3
           in (sent4,
               case su of Inl e \<Rightarrow> Inl (money_error_of e) | Inr su' \<Rightarrow>
               (case ru of Inl e \<Rightarrow> Inl (money_error_of e) | Inr ru' \<Rightarrow>
               (case inc of Inl e \<Rightarrow> Inl (money_error_of e) | Inr inc' \<Rightarrow>
               (case sa of Inl e \<Rightarrow> Inl (money_error_of e) | Inr sa' \<Rightarrow> Inr (overview_build M su' ru' inc' sa')))))))"

definition money_spend_window ::
  "cloud_lib \<Rightarrow> cloud_world \<Rightarrow> money_state \<Rightarrow> int \<Rightarrow> request list \<Rightarrow> request list \<times> (money_error + window_spend option)" where
  "money_spend_window L w s days sent =
     (case ready_client s of
        Inl e \<Rightarrow> (sent, Inl e)
      | Inr mc \<Rightarrow> map_prod id (map_sum money_error_of id) (spend_window L w (mc_client mc) days sent))"

text \<open>A list of pairs collected into a hash map: the last pair of a key stands.\<close>

definition money_runs ::
  "cloud_lib \<Rightarrow> cloud_world \<Rightarrow> money_lib \<Rightarrow> money_state \<Rightarrow> request list \<Rightarrow> request list \<times> (money_error + run_dto list)" where
  "money_runs L w M s sent =
     (case ready_client s of
        Inl e \<Rightarrow> (sent, Inl e)
      | Inr mc \<Rightarrow>
          (let c = mc_client mc;
               (sent1, runs) = cloud_runs L w c sent;
               (sent2, budgets) = cloud_budgets L w c sent1
           in case runs of
                Inl e \<Rightarrow> (sent2, Inl (money_error_of e))
              | Inr rs \<Rightarrow>
                  (case budgets of
                     Inr m \<Rightarrow> (sent2, Inr (map (run_dto_of M (map_of m) True) rs))
                   | Inl _ \<Rightarrow>
                       (case cloud_alerts L w c sent2 of
                          (sent3, Inr as) \<Rightarrow>
                            (sent3, Inr (map (run_dto_of M
                               (map_of (rev (map (\<lambda>a. (ca_run_id a, ca_budget_micros a)) as))) False) rs))
                        | (sent3, Inl _) \<Rightarrow> (sent3, Inr (map (run_dto_of M Map.empty False) rs))))))"

definition money_read ::
  "(cloud_client \<Rightarrow> request list \<Rightarrow> request list \<times> (connector_error + 'a list)) \<Rightarrow> ('a \<Rightarrow> 'b) \<Rightarrow> money_state \<Rightarrow> request list
    \<Rightarrow> request list \<times> (money_error + 'b list)" where
  "money_read get row s sent =
     (case ready_client s of
        Inl e \<Rightarrow> (sent, Inl e)
      | Inr mc \<Rightarrow> map_prod id (map_sum money_error_of (map row)) (get (mc_client mc) sent))"

definition money_incidents where
  "money_incidents L w M = money_read (cloud_incidents L w) (incident_dto_of M)"

definition money_owners where
  "money_owners L w M = money_read (cloud_owners L w) (owner_dto_of M)"

definition money_savings ::
  "cloud_lib \<Rightarrow> cloud_world \<Rightarrow> money_lib \<Rightarrow> money_state \<Rightarrow> request list \<Rightarrow> request list \<times> (money_error + savings_dto)" where
  "money_savings L w M s sent =
     (case ready_client s of
        Inl e \<Rightarrow> (sent, Inl e)
      | Inr mc \<Rightarrow> map_prod id (map_sum money_error_of (savings_dto_of M)) (cloud_savings L w (mc_client mc) sent))"

subsection \<open>The mutations\<close>

record mutation_outcome =
  mo_summary :: string
  mo_http_status :: nat
  mo_verify_result :: string
  mo_sig_alg :: string
  mo_sig_fpr :: string
  mo_bus_recorded :: bool
  mo_bus_error :: "string option"

definition mutation_record ::
  "bus_env \<Rightarrow> money_client \<Rightarrow> string \<Rightarrow> string \<Rightarrow> json \<Rightarrow> string \<Rightarrow> nat \<Rightarrow> string \<Rightarrow> command_record" where
  "mutation_record B mc action target params decision http_status verify_result =
     (let sig = signature_or (be_scope B) ''es256'' (mc_sig_fpr mc)
      in \<lparr>rec_operator = operator_or (be_scope B) (mc_operator mc), rec_env = ''local'', rec_action = action,
          rec_target = target, rec_params = params, rec_decision = decision, rec_sig_alg = fst sig, rec_sig_fpr = snd sig,
          rec_http_status = http_status, rec_verify_result = verify_result\<rparr>)"

definition finish_mutation ::
  "bus_env \<Rightarrow> money_client \<Rightarrow> string \<Rightarrow> string \<Rightarrow> json \<Rightarrow> string \<Rightarrow> (connector_error + 'a) \<Rightarrow> ('a \<Rightarrow> string \<times> string) \<Rightarrow> actions
    \<Rightarrow> actions \<times> (money_error + mutation_outcome)" where
  "finish_mutation B mc action target params decision cloud_result on_ok a =
     (let (http_status, verify_result, sm) = (case cloud_result of
            Inr value \<Rightarrow> (let (sm, verify_result) = on_ok value in (200, verify_result, sm))
          | Inl e \<Rightarrow> (status_of e, ''error: '' @ connector_error_text e, []));
          rec = mutation_record B mc action target params decision http_status verify_result;
          (a', bus_recorded, bus_error) = journal B (mc_bus mc) (mc_org_domain mc) (mc_host mc) rec a
      in (a', case cloud_result of
                Inr _ \<Rightarrow> Inr \<lparr>mo_summary = sm, mo_http_status = http_status, mo_verify_result = verify_result,
                              mo_sig_alg = ''es256'', mo_sig_fpr = mc_sig_fpr mc, mo_bus_recorded = bus_recorded,
                              mo_bus_error = bus_error\<rparr>
              | Inl e \<Rightarrow> Inl (money_error_of e)))"

definition bool_text :: "bool \<Rightarrow> string" where
  "bool_text b = (if b then ''true'' else ''false'')"

definition money_kill_run ::
  "bus_env \<Rightarrow> cloud_lib \<Rightarrow> cloud_world \<Rightarrow> string \<Rightarrow> string \<Rightarrow> money_state \<Rightarrow> actions \<Rightarrow> actions \<times> (money_error + mutation_outcome)" where
  "money_kill_run B L w run_id reason s a =
     (case money_require_reason reason of
        Inl e \<Rightarrow> (a, Inl e)
      | Inr _ \<Rightarrow>
          (case ready_client s of
             Inl e \<Rightarrow> (a, Inl e)
           | Inr mc \<Rightarrow>
               (case kill_run (be_lib B) L w (mc_client mc) run_id (ac_sent a) of
                  (sent, result) \<Rightarrow>
                    finish_mutation B mc ''console.kill_run'' run_id (json_object [(''reason'', JString reason)])
                      ''break_glass'' result
                      (\<lambda>killed. (''run '' @ run_id @ '' killed'', ''killed:'' @ bool_text (killed = run_id)))
                      (a\<lparr>ac_sent := sent\<rparr>))))"

definition money_set_budget ::
  "bus_env \<Rightarrow> cloud_lib \<Rightarrow> cloud_world \<Rightarrow> money_lib \<Rightarrow> string \<Rightarrow> json \<Rightarrow> string \<Rightarrow> money_state \<Rightarrow> actions
    \<Rightarrow> actions \<times> (money_error + mutation_outcome)" where
  "money_set_budget B L w M run_id budget_usd reason s a =
     (case money_require_reason reason of
        Inl e \<Rightarrow> (a, Inl e)
      | Inr _ \<Rightarrow>
          (case ready_client s of
             Inl e \<Rightarrow> (a, Inl e)
           | Inr mc \<Rightarrow>
               (case set_budget (be_lib B) L w (mc_client mc) run_id budget_usd (ac_sent a) of
                  (sent, result) \<Rightarrow>
                    finish_mutation B mc ''console.set_budget'' run_id
                      (json_object [(''reason'', JString reason), (''budget_usd'', budget_usd)]) ''break_glass'' result
                      (\<lambda>resp. (''run '' @ run_id @ '' budget set to $'' @ ml_display4 M budget_usd,
                               ''budget_micros:'' @ idec (br_budget_micros resp)))
                      (a\<lparr>ac_sent := sent\<rparr>))))"

definition money_ack_incident ::
  "bus_env \<Rightarrow> cloud_lib \<Rightarrow> cloud_world \<Rightarrow> string \<Rightarrow> money_state \<Rightarrow> actions \<Rightarrow> actions \<times> (money_error + mutation_outcome)" where
  "money_ack_incident B L w incident_id s a =
     (case ready_client s of
        Inl e \<Rightarrow> (a, Inl e)
      | Inr mc \<Rightarrow>
          (case ack_incident (be_lib B) L w (mc_client mc) incident_id (ac_sent a) of
             (sent, result) \<Rightarrow>
               finish_mutation B mc ''console.ack_incident'' incident_id (json_object []) ''allow'' result
                 (\<lambda>acked. (''incident '' @ incident_id @ '' acknowledged'', ''acknowledged:'' @ bool_text (acked = incident_id)))
                 (a\<lparr>ac_sent := sent\<rparr>)))"

end
