(* ===== verification/Delegation.thy ===== *)
theory Delegation
  imports Money
begin

section \<open>Cutting off an agent\<close>

text \<open>
  \<open>crates/api/src/delegation/env.rs\<close>, \<open>commands.rs\<close> and \<open>stop.rs\<close>: the configuration, revoking one delegation,
  and stopping and letting back one agent, with every step in the journal. The answers of vouchryx are a
  parameter, by all that was sent to it before; a body arrives in chunks.
\<close>

subsection \<open>Configuration (\<open>env.rs\<close>)\<close>

datatype revoke_config = NotConfigured | Configured string string

definition revoke_key_new :: "string \<Rightarrow> string option" where
  "revoke_key_new key = (if trim key = [] then None else Some (trim key))"

definition URL_VAR :: string where "URL_VAR = ''GENARYX_VOUCHRYX_URL''"
definition KEY_FILE_VAR :: string where "KEY_FILE_VAR = ''GENARYX_VOUCHRYX_REVOKE_KEY_FILE''"

definition validate_url :: "string \<Rightarrow> string + string" where
  "validate_url url =
     (let trimmed = trim url in
      if \<not> (prefix ''http://'' trimmed \<or> prefix ''https://'' trimmed)
      then Inl (URL_VAR @ '' ('' @ url @ '') must start with http:// or https://'')
      else Inr (trim_end_slashes trimmed))"

text \<open>What reading the file answers is a parameter, the path printed as it is.\<close>

definition read_key_file :: "(string \<Rightarrow> string + string) \<Rightarrow> string \<Rightarrow> string + string" where
  "read_key_file read path =
     (case read path of
        Inl e \<Rightarrow> Inl (KEY_FILE_VAR @ '' ('' @ path @ '') cannot be read: '' @ e)
      | Inr bytes \<Rightarrow>
          if trim bytes = [] then Inl (KEY_FILE_VAR @ '' ('' @ path @ '') is empty'') else Inr (trim bytes))"

definition non_blank :: "string option \<Rightarrow> string option" where
  "non_blank x = (case x of Some s \<Rightarrow> if trim s \<noteq> [] then Some s else None | None \<Rightarrow> None)"

definition resolve_from :: "(string \<Rightarrow> string + string) \<Rightarrow> string option \<Rightarrow> string option \<Rightarrow> string + revoke_config" where
  "resolve_from read url key_file =
     (case (non_blank url, non_blank key_file) of
        (None, None) \<Rightarrow> Inr NotConfigured
      | (Some u, Some path) \<Rightarrow>
          (case validate_url u of
             Inl e \<Rightarrow> Inl e
           | Inr u' \<Rightarrow> (case read_key_file read path of Inl e \<Rightarrow> Inl e | Inr key \<Rightarrow> Inr (Configured u' key)))
      | (Some _, None) \<Rightarrow> Inl (URL_VAR @ '' is set but '' @ KEY_FILE_VAR @ '' is not: delegation_revoke needs both or neither'')
      | (None, Some _) \<Rightarrow> Inl (KEY_FILE_VAR @ '' is set but '' @ URL_VAR @ '' is not: delegation_revoke needs both or neither''))"

subsection \<open>Calling vouchryx (\<open>commands.rs\<close>)\<close>

datatype chunked = NoAnswer string | Answer nat "(string + string) list"

record vouchryx =
  vx_build_error :: "request list \<Rightarrow> string option"
  vx_post :: "request list \<Rightarrow> request \<Rightarrow> chunked"

definition MAX_RESPONSE_BYTES :: nat where "MAX_RESPONSE_BYTES = 64 * 1024"

fun read_capped_body :: "string \<Rightarrow> (string + string) list \<Rightarrow> string + string" where
  "read_capped_body buf [] = Inr buf"
| "read_capped_body buf (Inl e # _) = Inl (''reading vouchryx's response: '' @ e)"
| "read_capped_body buf (Inr chunk # cs) =
     (if MAX_RESPONSE_BYTES < length buf + length chunk
      then Inl (''vouchryx's response exceeded '' @ dec MAX_RESPONSE_BYTES @ '' bytes; refused to read further'')
      else read_capped_body (buf @ chunk) cs)"

definition parsed_or_text :: "ingest_lib \<Rightarrow> string \<Rightarrow> json" where
  "parsed_or_text X bytes = (case parse_json X bytes of Inr v \<Rightarrow> v | Inl _ \<Rightarrow> JString (from_utf8_lossy bytes))"

definition post_capped ::
  "ingest_lib \<Rightarrow> vouchryx \<Rightarrow> string \<Rightarrow> string \<Rightarrow> json \<Rightarrow> request list \<Rightarrow> request list \<times> (string + nat \<times> json)" where
  "post_capped X V url revoke_key body sent =
     (case vx_build_error V sent of
        Some e \<Rightarrow> (sent, Inl e)
      | None \<Rightarrow>
          (let rq = \<lparr>rq_method = ''POST'', rq_url = url, rq_bearer = Some revoke_key, rq_headers = json_header,
                     rq_body = json_text X body\<rparr>
           in (sent @ [rq],
               case vx_post V sent rq of
                 NoAnswer e \<Rightarrow> Inl e
               | Answer status chunks \<Rightarrow>
                   (case read_capped_body [] chunks of
                      Inl e \<Rightarrow> Inl e
                    | Inr bytes \<Rightarrow> Inr (status, parsed_or_text X bytes)))))"

definition says :: "string \<Rightarrow> json \<Rightarrow> bool" where
  "says key v \<longleftrightarrow> Option.bind (json_get v key) json_bool = Some True"

datatype revoke_target = Jti string | Subject string

definition MAX_REASON_LEN :: nat where "MAX_REASON_LEN = 500"

datatype delegation_error =
    NotConfiguredError
  | ExactlyOneTarget
  | InvalidSubject string
  | InvalidReason nat
  | Refused nat string
  | NotDurable
  | Unreachable string
  | Unconfirmed json

definition checked_reason :: "string \<Rightarrow> nat + string" where
  "checked_reason reason =
     (let trimmed = trim reason; n = length (chars trimmed)
      in if n = 0 \<or> MAX_REASON_LEN < n then Inl n else Inr trimmed)"

definition validate_args :: "string option \<Rightarrow> string option \<Rightarrow> string \<Rightarrow> delegation_error + revoke_target \<times> string" where
  "validate_args subject jti reason =
     (case (case (subject, jti) of
              (Some s, None) \<Rightarrow> if prefix ''agent://'' s \<or> prefix ''user://'' s then Inr (Subject s) else Inl (InvalidSubject s)
            | (None, Some j) \<Rightarrow> Inr (Jti j)
            | _ \<Rightarrow> Inl ExactlyOneTarget) of
        Inl e \<Rightarrow> Inl e
      | Inr target \<Rightarrow>
          (case checked_reason reason of Inl n \<Rightarrow> Inl (InvalidReason n) | Inr trimmed \<Rightarrow> Inr (target, trimmed)))"

text \<open>The process: its environment, the lib of the journal, and the console's bus.\<close>

record desk =
  dk_bus_env :: bus_env
  dk_org_env :: "string option"
  dk_host_env :: "string option"
  dk_bus :: "string option"

definition org_domain :: "desk \<Rightarrow> string" where
  "org_domain D = (case dk_org_env D of Some d \<Rightarrow> d | None \<Rightarrow> ''local'')"

definition desk_actor :: "desk \<Rightarrow> string" where
  "desk_actor D = operator_or (be_scope (dk_bus_env D)) (''user://'' @ org_domain D @ ''/operator'')"

definition desk_signature :: "desk \<Rightarrow> string \<times> string" where
  "desk_signature D = signature_or (be_scope (dk_bus_env D)) ''software-signed'' ''software-signed''"

definition desk_journal :: "desk \<Rightarrow> command_record \<Rightarrow> actions \<Rightarrow> actions \<times> bool \<times> string option" where
  "desk_journal D rec a =
     journal (dk_bus_env D) (dk_bus D) (org_domain D) (case dk_host_env D of Some h \<Rightarrow> h | None \<Rightarrow> ''console'') rec a"

datatype call_outcome = Http nat json | UnconfirmedCall json | UnreachableCall string

text \<open>\<open>RevokeRequest\<close> serializes its members in the order they are declared.\<close>

definition revoke_request :: "revoke_target \<Rightarrow> string \<Rightarrow> string \<Rightarrow> json" where
  "revoke_request target actor reason =
     (let (jti, subject) = (case target of Jti j \<Rightarrow> (j, []) | Subject s \<Rightarrow> ([], s))
      in JObject [(''jti'', JString jti), (''subject'', JString subject), (''actor'', JString actor), (''reason'', JString reason)])"

definition call_vouchryx ::
  "ingest_lib \<Rightarrow> vouchryx \<Rightarrow> string \<Rightarrow> string \<Rightarrow> json \<Rightarrow> request list \<Rightarrow> request list \<times> (call_outcome + json)" where
  "call_vouchryx X V vouchryx_url revoke_key body sent =
     (case post_capped X V (vouchryx_url @ ''/v1/revoke'') revoke_key body sent of
        (sent', Inl e) \<Rightarrow> (sent', Inl (UnreachableCall e))
      | (sent', Inr (status, parsed)) \<Rightarrow>
          (sent',
           if status \<noteq> 200 then Inl (Http status parsed)
           else if says ''revoked'' parsed then Inr parsed else Inl (UnconfirmedCall parsed)))"

record revoke_outcome =
  ro_http_status :: nat
  ro_verify_result :: string
  ro_response :: json
  ro_bus_recorded :: bool
  ro_bus_error :: "string option"

definition error_code :: "json \<Rightarrow> string" where
  "error_code body = (case Option.bind (json_get body ''error'') json_str of Some c \<Rightarrow> c | None \<Rightarrow> ''unknown'')"

text \<open>The answer as the journal and the operator get it: status, words, body and error.\<close>

definition revoke_verdict :: "call_outcome + json \<Rightarrow> nat \<times> string \<times> json \<times> delegation_error option" where
  "revoke_verdict outcome =
     (case outcome of
        Inr resp \<Rightarrow> (200, ''revoked:true'', resp, None)
      | Inl (Http status body) \<Rightarrow>
          if status = 503 then (status, ''not_durable'', body, Some NotDurable)
          else (status, ''refused:'' @ error_code body, body, Some (Refused status (error_code body)))
      | Inl (UnreachableCall detail) \<Rightarrow> (0, ''unreachable: '' @ detail, JNull, Some (Unreachable detail))
      | Inl (UnconfirmedCall body) \<Rightarrow>
          (200, ''200 without revoked:true confirmation'', body, Some (Unconfirmed body)))"

definition delegation_record :: "desk \<Rightarrow> string \<Rightarrow> string \<Rightarrow> json \<Rightarrow> nat \<Rightarrow> string \<Rightarrow> command_record" where
  "delegation_record D action target params http_status verify_result =
     \<lparr>rec_operator = desk_actor D, rec_env = org_domain D, rec_action = action, rec_target = target, rec_params = params,
      rec_decision = ''break_glass'', rec_sig_alg = fst (desk_signature D), rec_sig_fpr = snd (desk_signature D),
      rec_http_status = http_status, rec_verify_result = verify_result\<rparr>"

definition delegation_revoke ::
  "desk \<Rightarrow> vouchryx \<Rightarrow> revoke_config \<Rightarrow> string option \<Rightarrow> string option \<Rightarrow> string \<Rightarrow> actions
    \<Rightarrow> actions \<times> (delegation_error + revoke_outcome)" where
  "delegation_revoke D V config subject jti reason a =
     (case validate_args subject jti reason of
        Inl e \<Rightarrow> (a, Inl e)
      | Inr (target, trimmed) \<Rightarrow>
          (case config of
             NotConfigured \<Rightarrow> (a, Inl NotConfiguredError)
           | Configured url key \<Rightarrow>
               (let (sent, outcome) = call_vouchryx (be_lib (dk_bus_env D)) V url key
                      (revoke_request target (desk_actor D) trimmed) (ac_sent a);
                    (http_status, verify_result, response, err) = revoke_verdict outcome;
                    target_label = (case target of Jti j \<Rightarrow> ''jti:'' @ j | Subject s \<Rightarrow> s);
                    rec = delegation_record D ''console.revoke_delegation'' target_label
                      (json_object [(''reason'', JString trimmed)]) http_status verify_result;
                    (a', bus_recorded, bus_error) = desk_journal D rec (a\<lparr>ac_sent := sent\<rparr>)
                in (a', case err of
                          Some e \<Rightarrow> Inl e
                        | None \<Rightarrow> Inr \<lparr>ro_http_status = http_status, ro_verify_result = verify_result, ro_response = response,
                                       ro_bus_recorded = bus_recorded, ro_bus_error = bus_error\<rparr>))))"

subsection \<open>Stopping an agent (\<open>stop.rs\<close>)\<close>

definition CEREMONY_ALG :: string where "CEREMONY_ALG = ''webauthn-es256''"
definition MAX_RUNS_PER_STOP :: nat where "MAX_RUNS_PER_STOP = 500"

record stop_step =
  sp_step :: string
  sp_target :: string
  sp_ok :: bool
  sp_http_status :: nat
  sp_verify_result :: string
  sp_journaled :: bool
  sp_journal_error :: "string option"

record stop_outcome =
  so_subject :: string
  so_stopped :: bool
  so_ban_durable :: "bool option"
  so_open_runs :: "nat option"
  so_runs_killed :: nat
  so_warnings :: "string list"
  so_steps :: "stop_step list"

record lift_outcome =
  lo_subject :: string
  lo_lifted :: bool
  lo_lift_durable :: "bool option"
  lo_warnings :: "string list"
  lo_steps :: "stop_step list"

datatype stop_error =
    StopInvalidSubject string
  | StopInvalidReason nat
  | NotStopped stop_outcome
  | NotLifted lift_outcome

definition id_domain_byte :: "char \<Rightarrow> bool" where
  "id_domain_byte b \<longleftrightarrow> ascii_lower_letter b \<or> ascii_digit b \<or> b = CHR ''.'' \<or> b = CHR ''-''"

definition id_path_byte :: "char \<Rightarrow> bool" where
  "id_path_byte b \<longleftrightarrow> ascii_lower_letter b \<or> ascii_digit b \<or> b \<in> set ''._/-''"

definition is_agent_id :: "string \<Rightarrow> bool" where
  "is_agent_id s =
     (if prefix ''agent://'' s then
        (case split_once (CHR ''/'') (drop 8 s) of
           None \<Rightarrow> False
         | Some (domain, path) \<Rightarrow>
             domain \<noteq> [] \<and> path \<noteq> [] \<and> list_all id_domain_byte domain \<and> list_all id_path_byte path)
      else False)"

definition validate_stop :: "string \<Rightarrow> string \<Rightarrow> stop_error + string \<times> string" where
  "validate_stop subject reason =
     (if \<not> is_agent_id subject then Inl (StopInvalidSubject subject)
      else (case checked_reason reason of Inl n \<Rightarrow> Inl (StopInvalidReason n) | Inr trimmed \<Rightarrow> Inr (subject, trimmed)))"

text \<open>\<open>Steps\<close>: what the lines share, and the list with the state the lines are written to.\<close>

record stop_ctx =
  cx_desk :: desk
  cx_action :: string
  cx_reason :: string

type_synonym stop_log = "stop_step list \<times> actions"

definition record_step ::
  "stop_ctx \<Rightarrow> string \<Rightarrow> string \<Rightarrow> bool \<Rightarrow> nat \<Rightarrow> string \<Rightarrow> stop_log \<Rightarrow> stop_log" where
  "record_step C step target ok http_status verify lg =
     (let action = (if step = ''verdict'' then cx_action C else cx_action C @ ''.'' @ step);
          rec = delegation_record (cx_desk C) action target
            (json_object [(''reason'', JString (cx_reason C)), (''step'', JString step)]) http_status verify;
          (a', journaled, journal_error) = desk_journal (cx_desk C) rec (snd lg)
      in (fst lg @ [\<lparr>sp_step = step, sp_target = target, sp_ok = ok, sp_http_status = http_status,
                     sp_verify_result = verify, sp_journaled = journaled, sp_journal_error = journal_error\<rparr>], a'))"

definition NO_PASSKEY_WARNING :: string where
  "NO_PASSKEY_WARNING = ''no passkey confirmed this action: the caller has none enrolled, so it ran on the session alone (GENARYX_WEB_ALLOW_SOFTWARE_CEREMONY is set; the default refuses such an action)''"

definition record_ceremony :: "stop_ctx \<Rightarrow> string \<Rightarrow> stop_log \<Rightarrow> stop_log \<times> string list" where
  "record_ceremony C subject lg =
     (if fst (desk_signature (cx_desk C)) = CEREMONY_ALG
      then (record_step C ''ceremony'' subject True 0 (''confirmed:'' @ CEREMONY_ALG) lg, [])
      else (record_step C ''ceremony'' subject True 0 ''not_confirmed:no_passkey_enrolled'' lg, [NO_PASSKEY_WARNING]))"

record vx_answer =
  an_ok :: bool
  an_http_status :: nat
  an_verify :: string
  an_durable :: "bool option"

definition refused_answer :: "nat \<Rightarrow> json \<Rightarrow> vx_answer" where
  "refused_answer status body =
     \<lparr>an_ok = False, an_http_status = status,
      an_verify = (if status = 503 then ''not_durable:'' @ error_code body else ''refused:'' @ error_code body),
      an_durable = None\<rparr>"

definition not_configured_answer :: vx_answer where
  "not_configured_answer =
     \<lparr>an_ok = False, an_http_status = 0,
      an_verify = ''not_configured: GENARYX_VOUCHRYX_URL and GENARYX_VOUCHRYX_REVOKE_KEY_FILE are unset'',
      an_durable = None\<rparr>"

definition unreachable_answer :: "string \<Rightarrow> vx_answer" where
  "unreachable_answer detail =
     \<lparr>an_ok = False, an_http_status = 0, an_verify = ''unreachable: '' @ detail, an_durable = None\<rparr>"

definition REVOKED_NOT_BANNED :: string where
  "REVOKED_NOT_BANNED = ''revoked_not_banned: vouchryx revoked the tokens the agent holds and did not confirm a ban, so new tokens can still be issued''"

definition ban_answer :: "json \<Rightarrow> vx_answer" where
  "ban_answer answer =
     (let revoked = says ''revoked'' answer; banned = says ''banned'' answer; durable = says ''durable'' answer in
      if revoked \<and> banned then
        \<lparr>an_ok = True, an_http_status = 200,
         an_verify = (if durable then ''banned:durable'' else ''banned:not_durable''), an_durable = Some durable\<rparr>
      else \<lparr>an_ok = False, an_http_status = 200,
            an_verify = (if revoked then REVOKED_NOT_BANNED else ''200 without revoked:true confirmation''),
            an_durable = None\<rparr>)"

definition lift_answer :: "json \<Rightarrow> vx_answer" where
  "lift_answer answer =
     (if says ''lifted'' answer then
        \<lparr>an_ok = True, an_http_status = 200,
         an_verify = (if says ''durable'' answer then ''lifted:durable'' else ''lifted:not_durable''),
         an_durable = Some (says ''durable'' answer)\<rparr>
      else \<lparr>an_ok = False, an_http_status = 200, an_verify = ''200 without lifted:true confirmation'', an_durable = None\<rparr>)"

definition ask_vouchryx ::
  "ingest_lib \<Rightarrow> vouchryx \<Rightarrow> revoke_config \<Rightarrow> string \<Rightarrow> json \<Rightarrow> (json \<Rightarrow> vx_answer) \<Rightarrow> request list \<Rightarrow> request list \<times> vx_answer" where
  "ask_vouchryx X V config route body confirmed sent =
     (case config of
        NotConfigured \<Rightarrow> (sent, not_configured_answer)
      | Configured url key \<Rightarrow>
          (case post_capped X V (url @ route) key body sent of
             (sent', Inl detail) \<Rightarrow> (sent', unreachable_answer detail)
           | (sent', Inr (status, answer)) \<Rightarrow>
               (sent', if status = 200 then confirmed answer else refused_answer status answer)))"

definition ban_at_vouchryx ::
  "ingest_lib \<Rightarrow> vouchryx \<Rightarrow> revoke_config \<Rightarrow> string \<Rightarrow> string \<Rightarrow> string \<Rightarrow> request list \<Rightarrow> request list \<times> vx_answer" where
  "ban_at_vouchryx X V config subject actor reason =
     ask_vouchryx X V config ''/v1/revoke''
       (json_object [(''jti'', JString []), (''subject'', JString subject), (''actor'', JString actor),
                     (''reason'', JString reason), (''ban'', JBool True)]) ban_answer"

definition lift_at_vouchryx ::
  "ingest_lib \<Rightarrow> vouchryx \<Rightarrow> revoke_config \<Rightarrow> string \<Rightarrow> string \<Rightarrow> string \<Rightarrow> request list \<Rightarrow> request list \<times> vx_answer" where
  "lift_at_vouchryx X V config subject actor reason =
     ask_vouchryx X V config ''/v1/revoke/lift''
       (json_object [(''subject'', JString subject), (''actor'', JString actor), (''reason'', JString reason)]) lift_answer"

definition stop_cloud_client :: "money_state \<Rightarrow> string + cloud_client" where
  "stop_cloud_client money =
     (case money of
        Ready mc \<Rightarrow> Inr (mc_client mc)
      | Bootstrapping \<Rightarrow> Inl ''the Cloud connection is still starting''
      | NoEnvironment \<Rightarrow> Inl ''no TokenFuse Cloud is configured''
      | PairingFailed _ _ reason \<Rightarrow> Inl (''the Cloud connection failed: '' @ reason))"

text \<open>One kill: what the Cloud answered, as the step says it.\<close>

definition kill_step :: "ingest_lib \<Rightarrow> string \<Rightarrow> connector_error + string \<Rightarrow> bool \<times> nat \<times> string" where
  "kill_step X run_id result =
     (case result of
        Inr killed \<Rightarrow>
          if killed = run_id then (True, 200, ''killed:true'')
          else (False, 200, ''unconfirmed: the Cloud answered killed='' @ debug_str X killed)
      | Inl e \<Rightarrow> (False, status_of e, ''error: '' @ connector_error_text e))"

definition set_sent :: "request list \<Rightarrow> stop_log \<Rightarrow> stop_log" where
  "set_sent sent lg = (fst lg, (snd lg)\<lparr>ac_sent := sent\<rparr>)"

fun kill_runs ::
  "stop_ctx \<Rightarrow> cloud_lib \<Rightarrow> cloud_world \<Rightarrow> cloud_client \<Rightarrow> run_agg list \<Rightarrow> stop_log \<Rightarrow> nat \<Rightarrow> nat \<Rightarrow> stop_log \<times> nat \<times> nat" where
  "kill_runs C L w c [] lg killed failed = (lg, killed, failed)"
| "kill_runs C L w c (r # rs) lg killed failed =
     (let X = be_lib (dk_bus_env (cx_desk C));
          (sent, result) = kill_run X L w c (ra_run_id r) (ac_sent (snd lg));
          (ok, http_status, verify) = kill_step X (ra_run_id r) result
      in kill_runs C L w c rs (record_step C ''kill_run'' (ra_run_id r) ok http_status verify (set_sent sent lg))
           (if ok then Suc killed else killed) (if ok then failed else Suc failed))"

text \<open>The newest first; the sort is stable.\<close>

definition open_runs_of :: "string \<Rightarrow> run_agg list \<Rightarrow> run_agg list" where
  "open_runs_of subject runs =
     sort_key (\<lambda>r. - ra_last_seen_millis r) (filter (\<lambda>r. ra_agent_id r = subject \<and> \<not> ra_killed r) runs)"

text \<open>Listing and killing: the log, the runs found open, how many were killed, how many kills failed and how many
  were not attempted.\<close>

definition stop_runs ::
  "stop_ctx \<Rightarrow> cloud_lib \<Rightarrow> cloud_world \<Rightarrow> money_state \<Rightarrow> string \<Rightarrow> stop_log
    \<Rightarrow> stop_log \<times> nat option \<times> nat \<times> nat \<times> nat" where
  "stop_runs C L w money subject lg =
     (case stop_cloud_client money of
        Inl why \<Rightarrow> (record_step C ''list_runs'' subject False 0 (''error: '' @ why) lg, None, 0, 0, 0)
      | Inr c \<Rightarrow>
          (case cloud_runs L w c (ac_sent (snd lg)) of
             (sent, Inl e) \<Rightarrow>
               (record_step C ''list_runs'' subject False (status_of e) (''error: '' @ connector_error_text e) (set_sent sent lg),
                None, 0, 0, 0)
           | (sent, Inr runs) \<Rightarrow>
               (let open_runs = open_runs_of subject runs;
                    lg1 = record_step C ''list_runs'' subject True 200 (''listed:'' @ dec (length open_runs) @ '' open'') (set_sent sent lg)
                in case kill_runs C L w c (take MAX_RUNS_PER_STOP open_runs) lg1 0 0 of
                     (lg2, killed, failed) \<Rightarrow>
                       (lg2, Some (length open_runs), killed, failed, length open_runs - MAX_RUNS_PER_STOP))))"

fun join :: "string \<Rightarrow> string list \<Rightarrow> string" where
  "join sep [] = []"
| "join sep [s] = s"
| "join sep (s # t # ss) = s @ sep @ join sep (t # ss)"

definition stop_verdict :: "vx_answer \<Rightarrow> nat option \<Rightarrow> nat \<Rightarrow> nat \<Rightarrow> nat \<Rightarrow> bool \<times> string" where
  "stop_verdict ban open_runs killed failed not_attempted =
     (if an_ok ban \<and> open_runs = Some killed then
        (True, if an_durable ban = Some True then ''stopped'' else ''stopped:ban_not_durable'')
      else
        (False, ''not_stopped: '' @ join ''; ''
          ((if an_ok ban then [] else [''ban '' @ an_verify ban])
           @ (case open_runs of
                None \<Rightarrow> [''runs not listed'']
              | Some n \<Rightarrow>
                  (if 0 < failed then [dec failed @ '' of '' @ dec n @ '' run kill(s) failed''] else [])
                  @ (if 0 < not_attempted
                     then [dec not_attempted @ '' run(s) over the limit of '' @ dec MAX_RUNS_PER_STOP @ '' not attempted'']
                     else [])))))"

definition NOT_DURABLE_WARNING :: string where
  "NOT_DURABLE_WARNING = ''the ban is not durable: vouchryx keeps no revocation store, so restarting it lifts the ban''"

definition agent_stop ::
  "desk \<Rightarrow> vouchryx \<Rightarrow> cloud_lib \<Rightarrow> cloud_world \<Rightarrow> revoke_config \<Rightarrow> money_state \<Rightarrow> string \<Rightarrow> string \<Rightarrow> actions
    \<Rightarrow> actions \<times> (stop_error + stop_outcome)" where
  "agent_stop D V L w config money subject0 reason0 a =
     (case validate_stop subject0 reason0 of
        Inl e \<Rightarrow> (a, Inl e)
      | Inr (subject, reason) \<Rightarrow>
          (let C = \<lparr>cx_desk = D, cx_action = ''console.stop_agent'', cx_reason = reason\<rparr>;
               (lg1, warnings) = record_ceremony C subject ([], a);
               (sent, ban) = ban_at_vouchryx (be_lib (dk_bus_env D)) V config subject (desk_actor D) reason (ac_sent (snd lg1));
               lg2 = record_step C ''ban'' subject (an_ok ban) (an_http_status ban) (an_verify ban) (set_sent sent lg1);
               (lg3, open_runs, killed, failed, not_attempted) = stop_runs C L w money subject lg2;
               (stopped, verdict) = stop_verdict ban open_runs killed failed not_attempted;
               lg4 = record_step C ''verdict'' subject stopped 0 verdict lg3;
               outcome = \<lparr>so_subject = subject, so_stopped = stopped, so_ban_durable = an_durable ban, so_open_runs = open_runs,
                          so_runs_killed = killed,
                          so_warnings = warnings @ (if an_durable ban = Some False then [NOT_DURABLE_WARNING] else []),
                          so_steps = fst lg4\<rparr>
           in (snd lg4, if stopped then Inr outcome else Inl (NotStopped outcome))))"

definition agent_lift ::
  "desk \<Rightarrow> vouchryx \<Rightarrow> revoke_config \<Rightarrow> string \<Rightarrow> string \<Rightarrow> actions \<Rightarrow> actions \<times> (stop_error + lift_outcome)" where
  "agent_lift D V config subject0 reason0 a =
     (case validate_stop subject0 reason0 of
        Inl e \<Rightarrow> (a, Inl e)
      | Inr (subject, reason) \<Rightarrow>
          (let C = \<lparr>cx_desk = D, cx_action = ''console.lift_agent'', cx_reason = reason\<rparr>;
               (lg1, warnings) = record_ceremony C subject ([], a);
               (sent, lift) = lift_at_vouchryx (be_lib (dk_bus_env D)) V config subject (desk_actor D) reason (ac_sent (snd lg1));
               lg2 = record_step C ''lift'' subject (an_ok lift) (an_http_status lift) (an_verify lift) (set_sent sent lg1);
               verdict = (if an_ok lift then ''lifted'' else ''not_lifted: '' @ an_verify lift);
               lg3 = record_step C ''verdict'' subject (an_ok lift) 0 verdict lg2;
               outcome = \<lparr>lo_subject = subject, lo_lifted = an_ok lift, lo_lift_durable = an_durable lift,
                          lo_warnings = warnings @ (if an_durable lift = Some False
                            then [''the lift is not durable: vouchryx keeps no revocation store''] else []),
                          lo_steps = fst lg3\<rparr>
           in (snd lg3, if an_ok lift then Inr outcome else Inl (NotLifted outcome))))"

end
