(* ===== verification/Retained.thy ===== *)
theory Retained
  imports Delegation
begin

section \<open>Closing a retained reservation\<close>

text \<open>
  \<open>crates/api/src/money/closure.rs\<close> and \<open>retained.rs\<close> with the client of the gateway they call,
  \<open>crates/connectors/src/gateway.rs\<close>: the shared secret and the token minted from it, listing what a person may
  close, and closing one with evidence. HMAC-SHA256, the derived decoders and the reading of a JSON number as an
  \<open>i64\<close> are parameters (\<open>gateway_lib\<close>), and so are the answers of the gateway, the random source and the clock.
\<close>

subsection \<open>The token (\<open>closure.rs\<close>)\<close>

definition SECRET_FILE_VAR :: string where "SECRET_FILE_VAR = ''GENARYX_CLOSURE_SECRET_FILE''"
definition MIN_SECRET_BYTES :: nat where "MIN_SECRET_BYTES = 32"
definition TOKEN_TTL_MILLIS :: int where "TOKEN_TTL_MILLIS = 120000"
definition MAX_TOKEN_TTL_MILLIS :: int where "MAX_TOKEN_TTL_MILLIS = 300000"
definition MAC_DOMAIN :: string where "MAC_DOMAIN = ''tokenfuse-closure-v1''"

datatype closure_config = ClosureNotConfigured | ClosureConfigured string

definition ascii_whitespace :: "char \<Rightarrow> bool" where
  "ascii_whitespace b \<longleftrightarrow> b \<in> {CHR '' '', CHR 0x09, CHR 0x0A, CHR 0x0C, CHR 0x0D}"

definition trim_ascii_whitespace :: "string \<Rightarrow> string" where
  "trim_ascii_whitespace bs = rev (dropWhile ascii_whitespace (rev (dropWhile ascii_whitespace bs)))"

definition from_secret_file :: "(string \<Rightarrow> string + string) \<Rightarrow> string option \<Rightarrow> string + closure_config" where
  "from_secret_file read var =
     (case non_blank (map_option trim var) of
        None \<Rightarrow> Inr ClosureNotConfigured
      | Some path \<Rightarrow>
          (case read path of
             Inl e \<Rightarrow> Inl (SECRET_FILE_VAR @ '' ('' @ path @ '') cannot be read: '' @ e)
           | Inr bytes \<Rightarrow>
               (let secret = trim_ascii_whitespace bytes in
                if secret = [] then Inl (SECRET_FILE_VAR @ '' ('' @ path @ '') is empty'')
                else if length secret < MIN_SECRET_BYTES then
                  Inl (SECRET_FILE_VAR @ '' ('' @ path @ '') holds '' @ dec (length secret)
                    @ '' bytes; the closure secret must be at least '' @ dec MIN_SECRET_BYTES
                    @ '' bytes, or unset the variable to turn closing off'')
                else Inr (ClosureConfigured secret))))"

record gateway_retained =
  gr_reservation_id :: nat
  gr_revision :: string
  gr_run_id :: string
  gr_chain :: "string list"
  gr_amount_microusd :: int
  gr_unit :: "string option"
  gr_model :: string
  gr_retained_at_millis :: int

record gateway_lib =
  gl_hmac_sha256 :: "string \<Rightarrow> string \<Rightarrow> string"
  gl_retained :: "string \<Rightarrow> string + gateway_retained list"
  gl_i64 :: "json \<Rightarrow> int option"

definition closure_message :: "nat \<Rightarrow> string \<Rightarrow> int \<Rightarrow> string" where
  "closure_message i revision expiry_millis =
     MAC_DOMAIN @ [LF] @ dec i @ [LF] @ revision @ [LF] @ idec expiry_millis"

definition mint_token :: "gateway_lib \<Rightarrow> string \<Rightarrow> nat \<Rightarrow> string \<Rightarrow> int \<Rightarrow> string" where
  "mint_token G secret i revision expiry_millis =
     ''v1.'' @ dec i @ ''.'' @ revision @ ''.'' @ idec expiry_millis @ ''.''
       @ hex_lower (gl_hmac_sha256 G secret (closure_message i revision expiry_millis))"

definition saturating_add :: "int \<Rightarrow> int \<Rightarrow> int" where
  "saturating_add x y = max (- (2 ^ 63)) (min (2 ^ 63 - 1) (x + y))"

definition expiry_for :: "int \<Rightarrow> int" where
  "expiry_for now_millis = saturating_add now_millis TOKEN_TTL_MILLIS"

subsection \<open>The gateway (\<open>gateway.rs\<close>)\<close>

datatype gateway_error =
    GwTransport string
  | GwJson string
  | GwUnauthorized
  | GwAdminKeysRequired
  | GwApi nat string
  | GwTooLarge nat

fun gateway_error_text :: "gateway_error \<Rightarrow> string" where
  "gateway_error_text (GwTransport e) = ''http transport: '' @ e"
| "gateway_error_text (GwJson e) = ''json: '' @ e"
| "gateway_error_text GwUnauthorized = ''the gateway refused the presented key (401 unauthorized)''"
| "gateway_error_text GwAdminKeysRequired = ''the gateway requires TOKENFUSE_ADMIN_KEYS and refuses every request (403)''"
| "gateway_error_text (GwApi status body) = ''gateway returned HTTP '' @ dec status @ '': '' @ body"
| "gateway_error_text (GwTooLarge limit) =
     ''the gateway's response exceeded '' @ dec limit @ '' bytes; refused to read further''"

record gateway_client =
  gc_base_url :: string
  gc_admin_key :: "string option"

record gateway_world =
  gv_get :: "request list \<Rightarrow> request \<Rightarrow> reply"
  gv_build_error :: "request list \<Rightarrow> string option"
  gv_post :: "request list \<Rightarrow> request \<Rightarrow> chunked"
  gv_now_millis :: "request list \<Rightarrow> int"

definition gateway_parse :: "(string \<Rightarrow> string + 'a) \<Rightarrow> reply \<Rightarrow> gateway_error + 'a" where
  "gateway_parse decode r =
     (case r of
        NoReply e \<Rightarrow> Inl (GwTransport e)
      | Reply status body \<Rightarrow>
          (case body of
             Inl e \<Rightarrow> Inl (GwTransport e)
           | Inr bytes \<Rightarrow>
               if 200 \<le> status \<and> status < 300 then (case decode bytes of Inl e \<Rightarrow> Inl (GwJson e) | Inr v \<Rightarrow> Inr v)
               else if status = 401 then Inl GwUnauthorized
               else if status = 403 \<and> sublist ''admin_keys_required'' (from_utf8_lossy bytes) then Inl GwAdminKeysRequired
               else Inl (GwApi status (from_utf8_lossy bytes))))"

definition get_retained ::
  "gateway_lib \<Rightarrow> gateway_world \<Rightarrow> gateway_client \<Rightarrow> request list \<Rightarrow> request list \<times> (gateway_error + gateway_retained list)" where
  "get_retained G w c sent =
     (let rq = \<lparr>rq_method = ''GET'', rq_url = gc_base_url c @ ''/v1/retained'', rq_bearer = gc_admin_key c,
                rq_headers = [], rq_body = []\<rparr>
      in (sent @ [rq], gateway_parse (gl_retained G) (gv_get w sent rq)))"

definition CLOSURE_TOKEN_HEADER :: string where "CLOSURE_TOKEN_HEADER = ''x-fuse-closure-token''"
definition MAX_CLOSE_RESPONSE_BYTES :: nat where "MAX_CLOSE_RESPONSE_BYTES = 64 * 1024"

fun read_close_body :: "string \<Rightarrow> (string + string) list \<Rightarrow> gateway_error + string" where
  "read_close_body buf [] = Inr buf"
| "read_close_body buf (Inl e # _) = Inl (GwTransport e)"
| "read_close_body buf (Inr chunk # cs) =
     (if MAX_CLOSE_RESPONSE_BYTES < length buf + length chunk then Inl (GwTooLarge MAX_CLOSE_RESPONSE_BYTES)
      else read_close_body (buf @ chunk) cs)"

definition close_retained ::
  "ingest_lib \<Rightarrow> gateway_world \<Rightarrow> gateway_client \<Rightarrow> json \<Rightarrow> string \<Rightarrow> request list \<Rightarrow> request list \<times> (gateway_error + nat \<times> json)" where
  "close_retained X w c body token sent =
     (case gv_build_error w sent of
        Some e \<Rightarrow> (sent, Inl (GwTransport e))
      | None \<Rightarrow>
          (let rq = \<lparr>rq_method = ''POST'', rq_url = gc_base_url c @ ''/v1/retained/close'', rq_bearer = gc_admin_key c,
                     rq_headers = (CLOSURE_TOKEN_HEADER, token) # json_header, rq_body = json_text X body\<rparr>
           in (sent @ [rq],
               case gv_post w sent rq of
                 NoAnswer e \<Rightarrow> Inl (GwTransport e)
               | Answer status chunks \<Rightarrow>
                   (case read_close_body [] chunks of
                      Inl e \<Rightarrow> Inl e
                    | Inr bytes \<Rightarrow> Inr (status, if bytes = [] then JNull else parsed_or_text X bytes)))))"

subsection \<open>The commands (\<open>retained.rs\<close>)\<close>

definition MAX_EVIDENCE_REF_BYTES :: nat where "MAX_EVIDENCE_REF_BYTES = 512"

datatype evidence_kind = Observed | NoCharge

fun evidence_kind_str :: "evidence_kind \<Rightarrow> string" where
  "evidence_kind_str Observed = ''observed''"
| "evidence_kind_str NoCharge = ''no_charge''"

record close_args =
  ca_reservation_id :: nat
  ca_expected_revision :: string
  ca_evidence_kind :: evidence_kind
  ca_observed_microusd :: "int option"
  ca_evidence_ref :: string

datatype retained_error =
    RetNotConfigured
  | RetBootstrapping
  | RetNoEnvironment
  | RetGatewayUnreachable string
  | RetInvalidArgs string
  | RetClosureOff
  | RetRefused nat string string
  | RetUnconfirmed nat json
  | RetUnreachable string

record close_outcome =
  co_http_status :: nat
  co_verify_result :: string
  co_operation_id :: string
  co_replayed :: bool
  co_settled_microusd :: "int option"
  co_gateway_response :: json
  co_bus_recorded :: bool
  co_bus_error :: "string option"

text \<open>The plane of the gateway's credentials.\<close>

datatype gateway_plane =
    GwBootstrapping
  | GwNoEnvironment
  | GwUnreachable string
  | GwReady gateway_client

definition ready_gateway :: "gateway_plane \<Rightarrow> retained_error + gateway_client" where
  "ready_gateway s =
     (case s of
        GwReady c \<Rightarrow> Inr c
      | GwBootstrapping \<Rightarrow> Inl RetBootstrapping
      | GwNoEnvironment \<Rightarrow> Inl RetNoEnvironment
      | GwUnreachable reason \<Rightarrow> Inl (RetGatewayUnreachable reason))"

fun kind_of :: "retained_error \<Rightarrow> string" where
  "kind_of RetNotConfigured = ''not_configured''"
| "kind_of RetBootstrapping = ''bootstrapping''"
| "kind_of RetNoEnvironment = ''no_environment''"
| "kind_of (RetGatewayUnreachable _) = ''gateway_unreachable''"
| "kind_of (RetInvalidArgs _) = ''invalid_args''"
| "kind_of RetClosureOff = ''closure_off''"
| "kind_of (RetRefused _ _ _) = ''refused''"
| "kind_of (RetUnconfirmed _ _) = ''unconfirmed''"
| "kind_of (RetUnreachable _) = ''unreachable''"

definition revision_digit :: "char \<Rightarrow> bool" where
  "revision_digit b \<longleftrightarrow> ascii_digit b \<or> b \<in> set ''abcdef''"

definition validate_close :: "close_args \<Rightarrow> string + unit" where
  "validate_close args =
     (let rev = ca_expected_revision args; ev = ca_evidence_ref args in
      if length rev \<noteq> 16 \<or> \<not> list_all revision_digit rev
      then Inl ''expected_revision must be the 16 lowercase hex digits GET /v1/retained lists''
      else if trim ev = [] \<or> MAX_EVIDENCE_REF_BYTES < length ev \<or> list_ex is_control (chars ev)
      then Inl (''evidence_ref must name the evidence in 1 to '' @ dec MAX_EVIDENCE_REF_BYTES @ '' bytes with no control characters'')
      else (case (ca_evidence_kind args, ca_observed_microusd args) of
              (Observed, None) \<Rightarrow> Inl ''an observed closure needs observed_microusd, the cost the evidence shows''
            | (Observed, Some c) \<Rightarrow> if c < 0 then Inl ''observed_microusd cannot be negative'' else Inr ()
            | (NoCharge, Some _) \<Rightarrow> Inl ''a no_charge closure carries no observed_microusd: it releases at zero''
            | (NoCharge, None) \<Rightarrow> Inr ()))"

definition refusal_of :: "json \<Rightarrow> string option \<times> string" where
  "refusal_of body =
     (case json_get body ''error'' of
        Some (JObject ms) \<Rightarrow>
          (Option.bind (map_of ms ''type'') json_str,
           case Option.bind (map_of ms ''message'') json_str of Some m \<Rightarrow> m | None \<Rightarrow> [])
      | Some (JString s) \<Rightarrow> (Some s, [])
      | _ \<Rightarrow> (None, []))"

definition list_error :: "ingest_lib \<Rightarrow> gateway_error \<Rightarrow> retained_error" where
  "list_error X e =
     (case e of
        GwTransport err \<Rightarrow> RetUnreachable err
      | GwTooLarge limit \<Rightarrow> RetUnreachable (''the gateway's response exceeded '' @ dec limit @ '' bytes'')
      | GwJson err \<Rightarrow> RetUnconfirmed 200 (JString (''not a retained list: '' @ err))
      | GwUnauthorized \<Rightarrow> RetRefused 401 ''unauthorized''
          ''the gateway refused the console's key: check TOKENFUSE_GATEWAY_ADMIN_KEY against the gateway's TOKENFUSE_ADMIN_KEYS''
      | GwAdminKeysRequired \<Rightarrow> RetRefused 403 ''admin_keys_required''
          ''the gateway requires TOKENFUSE_ADMIN_KEYS on a non-loopback bind and the console holds no key (TOKENFUSE_GATEWAY_ADMIN_KEY is unset)''
      | GwApi status body \<Rightarrow>
          (case (status, refusal_of (case parse_json X body of Inr v \<Rightarrow> v | Inl _ \<Rightarrow> JNull)) of
             (status, error, message) \<Rightarrow>
               if status = 404 \<and> error = None then RetClosureOff
               else RetRefused status (case error of Some k \<Rightarrow> k | None \<Rightarrow> ''unknown'') (if message = [] then body else message)))"

definition money_list_retained ::
  "ingest_lib \<Rightarrow> gateway_lib \<Rightarrow> gateway_world \<Rightarrow> gateway_plane \<Rightarrow> request list \<Rightarrow> request list \<times> (retained_error + gateway_retained list)" where
  "money_list_retained X G w s sent =
     (case ready_gateway s of
        Inl e \<Rightarrow> (sent, Inl e)
      | Inr c \<Rightarrow> map_prod id (map_sum (list_error X) id) (get_retained G w c sent))"

text \<open>\<open>to_le_bytes\<close>, the lowest byte first.\<close>

fun le_bytes :: "nat \<Rightarrow> nat \<Rightarrow> string" where
  "le_bytes 0 n = []"
| "le_bytes (Suc k) n = char_of (n mod 256) # le_bytes k (n div 256)"

text \<open>16 random bytes, or the low 12 bytes of the clock in nanoseconds and the process id.\<close>

definition new_operation_id :: "string option \<Rightarrow> nat \<Rightarrow> nat \<Rightarrow> string" where
  "new_operation_id random nanos pid =
     ''genaryx-'' @ hex_lower (case random of Some bytes \<Rightarrow> bytes | None \<Rightarrow> le_bytes 12 nanos @ le_bytes 4 pid)"

definition char_boundary :: "string \<Rightarrow> nat \<Rightarrow> bool" where
  "char_boundary s k \<longleftrightarrow> k = 0 \<or> k = length s \<or> k < length s \<and> \<not> is_cont (s ! k)"

fun clip_end :: "string \<Rightarrow> nat \<Rightarrow> nat" where
  "clip_end s 0 = 0"
| "clip_end s (Suc k) = (if char_boundary s (Suc k) then Suc k else clip_end s k)"

definition clip :: "string \<Rightarrow> nat \<Rightarrow> string" where
  "clip s m = (if length s \<le> m then s else take (clip_end s m) s)"

definition json_int :: "int \<Rightarrow> json" where
  "json_int i = JNum (idec i)"

definition evidence_json :: "close_args \<Rightarrow> string \<Rightarrow> string \<Rightarrow> string \<Rightarrow> json" where
  "evidence_json args revision operation_id evidence_ref = json_object
     [(''reservation_id'', JNum (dec (ca_reservation_id args))), (''expected_revision'', JString revision),
      (''operation_id'', JString operation_id), (''evidence_kind'', JString (evidence_kind_str (ca_evidence_kind args))),
      (''observed_microusd'', (case ca_observed_microusd args of Some i \<Rightarrow> json_int i | None \<Rightarrow> JNull)),
      (''evidence_ref'', JString evidence_ref)]"

definition attempt_record :: "desk \<Rightarrow> close_args \<Rightarrow> string \<Rightarrow> nat \<Rightarrow> string \<Rightarrow> command_record" where
  "attempt_record D args operation_id http_status verify_result =
     \<lparr>rec_operator = desk_actor D, rec_env = org_domain D, rec_action = ''console.close_retained'',
      rec_target = ''reservation:'' @ dec (ca_reservation_id args),
      rec_params = evidence_json args (clip (ca_expected_revision args) 64) operation_id
        (clip (ca_evidence_ref args) MAX_EVIDENCE_REF_BYTES),
      rec_decision = ''allow'', rec_sig_alg = fst (desk_signature D), rec_sig_fpr = snd (desk_signature D),
      rec_http_status = http_status, rec_verify_result = verify_result\<rparr>"

definition attempt_journal ::
  "desk \<Rightarrow> close_args \<Rightarrow> string \<Rightarrow> nat \<Rightarrow> string \<Rightarrow> actions \<Rightarrow> actions \<times> bool \<times> string option" where
  "attempt_journal D args operation_id http_status verify_result a =
     desk_journal D (attempt_record D args operation_id http_status verify_result) a"

text \<open>What the answer comes to: status, words and the error, or whether the closure was a replay and the body.\<close>

definition close_verdict :: "gateway_error + nat \<times> json \<Rightarrow> nat \<times> string \<times> (retained_error + bool \<times> json)" where
  "close_verdict answer =
     (case answer of
        Inl e \<Rightarrow> (0, ''unreachable: '' @ gateway_error_text e, Inl (RetUnreachable (gateway_error_text e)))
      | Inr (status, body) \<Rightarrow>
          if 200 \<le> status \<and> status < 300 then
            (if \<not> says ''closed'' body
             then (status, dec status @ '' without closed:true confirmation'', Inl (RetUnconfirmed status body))
             else (status, if says ''replayed'' body then ''closed (replayed)'' else ''closed'', Inr (says ''replayed'' body, body)))
          else
            (case refusal_of body of
               (error, message) \<Rightarrow>
                 if status = 404 \<and> error = None then (status, ''refused:closure_off'', Inl RetClosureOff)
                 else (let k = (case error of Some k \<Rightarrow> k | None \<Rightarrow> ''unknown'')
                       in (status, ''refused:'' @ k, Inl (RetRefused status k message)))))"

definition money_close_retained ::
  "desk \<Rightarrow> gateway_lib \<Rightarrow> gateway_world \<Rightarrow> string \<Rightarrow> close_args \<Rightarrow> closure_config \<Rightarrow> gateway_plane \<Rightarrow> actions
    \<Rightarrow> actions \<times> (retained_error + close_outcome)" where
  "money_close_retained D G w operation_id args config plane a =
     (case validate_close args of
        Inl reason \<Rightarrow> (fst (attempt_journal D args operation_id 0 ''refused:invalid_args'' a), Inl (RetInvalidArgs reason))
      | Inr _ \<Rightarrow>
          (case config of
             ClosureNotConfigured \<Rightarrow>
               (fst (attempt_journal D args operation_id 0 ''refused:not_configured'' a), Inl RetNotConfigured)
           | ClosureConfigured secret \<Rightarrow>
               (case ready_gateway plane of
                  Inl e \<Rightarrow> (fst (attempt_journal D args operation_id 0 (''refused:'' @ kind_of e) a), Inl e)
                | Inr c \<Rightarrow>
                    (let token = mint_token G secret (ca_reservation_id args) (ca_expected_revision args)
                           (expiry_for (gv_now_millis w (ac_sent a)));
                         body = evidence_json args (ca_expected_revision args) operation_id (ca_evidence_ref args);
                         (sent, answer) = close_retained (be_lib (dk_bus_env D)) w c body token (ac_sent a);
                         (http_status, words, verdict) = close_verdict answer;
                         (a', recorded, bus_error) = attempt_journal D args operation_id http_status words (a\<lparr>ac_sent := sent\<rparr>)
                     in (a', case verdict of
                               Inl e \<Rightarrow> Inl e
                             | Inr (replayed, response) \<Rightarrow>
                                 Inr \<lparr>co_http_status = http_status, co_verify_result = words,
                                      co_operation_id = operation_id, co_replayed = replayed,
                                      co_settled_microusd = Option.bind (json_get response ''settled_microusd'') (gl_i64 G),
                                      co_gateway_response = response, co_bus_recorded = recorded,
                                      co_bus_error = bus_error\<rparr>)))))"

end
