(* ===== verification/MoneyUnits.thy ===== *)
theory MoneyUnits
  imports Money "HOL-Library.Product_Lexorder"
begin

section \<open>Unit caps and silent gateways\<close>

text \<open>
  \<open>crates/api/src/money/units.rs\<close> and \<open>gateways.rs\<close>: the join of what the units of an organization spent this
  month with the caps set on them, setting a cap, and which gateways the Cloud still hears from.
\<close>

definition UNASSIGNED :: string where "UNASSIGNED = ''unassigned''"

datatype unit_cap_state = OverCap | NearCap | UnderCap | NoCap | CapUnknown | SpendUnknown

record unit_cap_dto =
  uc_unit :: string
  uc_month_spent_usd :: "json option"
  uc_month_calls :: "nat option"
  uc_cap_usd :: "json option"
  uc_fraction :: "json option"
  uc_state :: unit_cap_state
  uc_cappable :: bool

record unit_caps_dto =
  us_month :: "string option"
  us_units_read :: bool
  us_caps_read :: bool
  us_notes :: "string list"
  us_units :: "unit_cap_dto list"

fun state_rank :: "unit_cap_state \<Rightarrow> nat" where
  "state_rank OverCap = 0"
| "state_rank NearCap = 1"
| "state_rank SpendUnknown = 2"
| "state_rank UnderCap = 3"
| "state_rank CapUnknown = 4"
| "state_rank NoCap = 5"

definition standing :: "money_lib \<Rightarrow> int option \<Rightarrow> bool \<Rightarrow> int option \<Rightarrow> unit_cap_state \<times> json option" where
  "standing M cap_micros caps_read spent_micros =
     (case cap_micros of
        None \<Rightarrow> (if caps_read then NoCap else CapUnknown, None)
      | Some cap \<Rightarrow>
          if cap \<le> 0 then (OverCap, None)
          else (case spent_micros of
                  None \<Rightarrow> (SpendUnknown, None)
                | Some spent \<Rightarrow>
                    (if cap \<le> spent then OverCap else if ml_near M spent cap then NearCap else UnderCap,
                     Some (ml_ratio M spent cap))))"

text \<open>The hash map from a list of units keeps the last of a name; the names come out of an ordered set.\<close>

definition unit_row :: "money_lib \<Rightarrow> (string \<rightharpoonup> unit_agg) \<Rightarrow> (string \<rightharpoonup> int) option \<Rightarrow> string \<Rightarrow> unit_cap_dto" where
  "unit_row M by_unit caps name =
     (let agg = by_unit name;
          spent = map_option ua_month_spent_microusd agg;
          cap = Option.bind caps (\<lambda>c. c name);
          (state, fraction) = standing M cap (caps \<noteq> None) spent
      in \<lparr>uc_unit = name, uc_month_spent_usd = map_option (ml_usd M) spent, uc_month_calls = map_option ua_month_calls agg,
          uc_cap_usd = map_option (ml_usd M) cap, uc_fraction = fraction, uc_state = state,
          uc_cappable = (name \<noteq> UNASSIGNED)\<rparr>)"

text \<open>An unknown spend sorts as \<open>0.0\<close>, which is no micro-dollars.\<close>

definition unit_sort_key :: "money_lib \<Rightarrow> unit_cap_dto \<Rightarrow> nat \<times> int \<times> string" where
  "unit_sort_key M row =
     (state_rank (uc_state row),
      - ml_rank M (case uc_month_spent_usd row of Some v \<Rightarrow> v | None \<Rightarrow> ml_usd M 0), uc_unit row)"

definition join_unit_caps :: "money_lib \<Rightarrow> unit_agg list option \<Rightarrow> (string \<times> int) list option \<Rightarrow> unit_cap_dto list" where
  "join_unit_caps M units caps =
     (let us = (case units of Some us \<Rightarrow> us | None \<Rightarrow> []);
          by_unit = map_of (rev (map (\<lambda>u. (ua_unit u, u)) us));
          names = sort (remdups (map ua_unit us @ (case caps of Some c \<Rightarrow> map fst c | None \<Rightarrow> [])))
      in sort_key (unit_sort_key M) (map (unit_row M by_unit (map_option map_of caps)) names))"

definition unread :: "string \<Rightarrow> connector_error \<Rightarrow> string" where
  "unread route e = ''TokenFuse Cloud did not answer '' @ route @ '': '' @ connector_error_text e"

definition is_err :: "'e + 'a \<Rightarrow> bool" where
  "is_err r = (case r of Inl _ \<Rightarrow> True | Inr _ \<Rightarrow> False)"

text \<open>Both reads are made at once; the model makes them in the order written.\<close>

definition money_units ::
  "cloud_lib \<Rightarrow> cloud_world \<Rightarrow> money_lib \<Rightarrow> money_state \<Rightarrow> request list \<Rightarrow> request list \<times> (money_error + unit_caps_dto)" where
  "money_units L w M s sent =
     (case ready_client s of
        Inl e \<Rightarrow> (sent, Inl e)
      | Inr mc \<Rightarrow>
          (let (sent1, units) = cloud_units L w (mc_client mc) sent;
               (sent2, caps) = cloud_unit_budgets L w (mc_client mc) sent1;
               answer = (\<lambda>us notes.
                 (let cs = (case caps of Inr c \<Rightarrow> c | Inl _ \<Rightarrow> None);
                      notes' = (case caps of
                          Inr (Some _) \<Rightarrow> []
                        | Inr None \<Rightarrow> [''This Cloud has no GET /v1/unit-budgets, so whether a unit has a cap is unknown.'']
                        | Inl e \<Rightarrow> [unread ''GET /v1/unit-budgets'' e])
                  in Inr \<lparr>us_month = Option.bind us (\<lambda>l. find (\<lambda>m. m \<noteq> []) (map ua_month l)),
                          us_units_read = (us \<noteq> None), us_caps_read = (cs \<noteq> None), us_notes = notes @ notes',
                          us_units = join_unit_caps M us cs\<rparr>))
           in (sent2,
               case units of
                 Inr (Some u) \<Rightarrow> answer (Some u) []
               | Inr None \<Rightarrow> answer None [''This Cloud has no GET /v1/units, so no month spend can be shown.'']
               | Inl e \<Rightarrow>
                   if is_err caps then Inl (money_error_of e) else answer None [unread ''GET /v1/units'' e])))"

text \<open>An \<open>f64\<close> that is not finite serializes as null.\<close>

definition validate_unit_cap :: "money_lib \<Rightarrow> string \<Rightarrow> json \<Rightarrow> money_error + unit" where
  "validate_unit_cap M un budget_usd =
     (if trim un = [] then Inl (InvalidArgument ''a unit cap needs a unit id'')
      else if un = UNASSIGNED then
        Inl (InvalidArgument (CHR 0x22 # ''unassigned'' @ CHR 0x22 # '' is the Cloud's bucket for spend that resolved no unit; a cap cannot apply to it''))
      else if budget_usd = JNull \<or> ml_negative M budget_usd then
        Inl (InvalidArgument (''a unit cap must be a finite amount of zero or more USD, got '' @ ml_display M budget_usd))
      else Inr ())"

definition money_set_unit_budget ::
  "bus_env \<Rightarrow> cloud_lib \<Rightarrow> cloud_world \<Rightarrow> money_lib \<Rightarrow> string \<Rightarrow> json \<Rightarrow> string \<Rightarrow> money_state \<Rightarrow> actions
    \<Rightarrow> actions \<times> (money_error + mutation_outcome)" where
  "money_set_unit_budget B L w M un budget_usd reason s a =
     (case money_require_reason reason of
        Inl e \<Rightarrow> (a, Inl e)
      | Inr _ \<Rightarrow>
          (case validate_unit_cap M un budget_usd of
             Inl e \<Rightarrow> (a, Inl e)
           | Inr _ \<Rightarrow>
               (case ready_client s of
                  Inl e \<Rightarrow> (a, Inl e)
                | Inr mc \<Rightarrow>
                    (case set_unit_budget (be_lib B) L w (mc_client mc) un budget_usd (ac_sent a) of
                       (sent, result) \<Rightarrow>
                         finish_mutation B mc ''console.set_unit_budget'' un
                           (json_object [(''reason'', JString reason), (''budget_usd'', budget_usd)]) ''break_glass'' result
                           (\<lambda>resp. (''unit '' @ un @ '' month cap set to $'' @ ml_display4 M budget_usd,
                                    ''budget_micros:'' @ idec (ur_budget_micros resp)))
                           (a\<lparr>ac_sent := sent\<rparr>)))))"

subsection \<open>Gateways\<close>

definition SILENT_AFTER_MS :: int where "SILENT_AFTER_MS = 5 * 60 * 1000"

datatype gateway_state = Reporting | Silent

record gateway_dto =
  gd_site :: string
  gd_state :: gateway_state
  gd_last_push :: string
  gd_last_push_age_secs :: int
  gd_last_record :: "string option"
  gd_first_push :: string
  gd_pushes :: nat
  gd_calls :: nat
  gd_spent_usd :: json

record gateways_dto =
  gw_reported :: bool
  gw_silent_after_secs :: int
  gw_checked_at :: string
  gw_gateways :: "gateway_dto list"

text \<open>\<open>i64::saturating_sub\<close>, and the division of \<open>i64\<close>, which cuts toward zero.\<close>

definition saturating_sub :: "int \<Rightarrow> int \<Rightarrow> int" where
  "saturating_sub x y = max (- (2 ^ 63)) (min (2 ^ 63 - 1) (x - y))"

definition quot :: "int \<Rightarrow> int \<Rightarrow> int" where
  "quot x y = (if x < 0 then - ((- x) div y) else x div y)"

definition gateway_row :: "money_lib \<Rightarrow> int \<Rightarrow> gateway_agg \<Rightarrow> gateway_dto" where
  "gateway_row M now_ms g =
     (let age_ms = saturating_sub now_ms (ga_last_push_millis g)
      in \<lparr>gd_site = ga_site g,
          gd_state = (if ga_last_push_millis g \<le> 0 \<or> SILENT_AFTER_MS < age_ms then Silent else Reporting),
          gd_last_push = millis_to_iso M (ga_last_push_millis g), gd_last_push_age_secs = quot age_ms 1000,
          gd_last_record = (if 0 < ga_last_record_millis g then Some (millis_to_iso M (ga_last_record_millis g)) else None),
          gd_first_push = millis_to_iso M (ga_first_push_millis g), gd_pushes = ga_pushes g, gd_calls = ga_calls g,
          gd_spent_usd = ml_usd M (ga_spent_microusd g)\<rparr>)"

definition gateways_view :: "money_lib \<Rightarrow> gateway_agg list \<Rightarrow> int \<Rightarrow> gateway_dto list" where
  "gateways_view M gs now_ms =
     sort_key (\<lambda>r. (gd_state r = Reporting, gd_last_push_age_secs r, gd_site r)) (map (gateway_row M now_ms) gs)"

definition money_gateways ::
  "cloud_lib \<Rightarrow> cloud_world \<Rightarrow> money_lib \<Rightarrow> int \<Rightarrow> money_state \<Rightarrow> request list \<Rightarrow> request list \<times> (money_error + gateways_dto)" where
  "money_gateways L w M now_ms s sent =
     (case ready_client s of
        Inl e \<Rightarrow> (sent, Inl e)
      | Inr mc \<Rightarrow>
          (case cloud_gateways L w (mc_client mc) sent of
             (sent', Inl e) \<Rightarrow> (sent', Inl (money_error_of e))
           | (sent', Inr gs) \<Rightarrow>
               (sent', Inr \<lparr>gw_reported = (gs \<noteq> None), gw_silent_after_secs = quot SILENT_AFTER_MS 1000,
                            gw_checked_at = millis_to_iso M now_ms,
                            gw_gateways = (case gs of Some l \<Rightarrow> gateways_view M l now_ms | None \<Rightarrow> [])\<rparr>)))"

end
