(* ===== verification/CloudFacts.thy ===== *)
theory CloudFacts
  imports CloudRest
begin

section \<open>What a signature covers\<close>

text \<open>
  The signed string is read back line by line, so that one signature stands for one mutation of one object; a
  mutation is sent only with a signature over what is sent.
\<close>

subsection \<open>The lines of the signed string\<close>

definition one_line :: "string \<Rightarrow> bool" where
  "one_line s \<longleftrightarrow> LF \<notin> set s"

lemma one_line_append [simp]: "one_line (s @ t) \<longleftrightarrow> one_line s \<and> one_line t"
  by (auto simp: one_line_def)

lemma cut_at: "c \<notin> set s \<Longrightarrow> c \<notin> set s' \<Longrightarrow> s @ c # r = s' @ c # r' \<Longrightarrow> s = s' \<and> r = r'"
proof (induction s arbitrary: s')
  case Nil
  then show ?case by (cases s') auto
next
  case (Cons x s)
  then show ?case by (cases s') auto
qed

lemma lines_cut: "one_line s \<Longrightarrow> one_line s' \<Longrightarrow> s @ LF # r = s' @ LF # r' \<Longrightarrow> s = s' \<and> r = r'"
  unfolding one_line_def by (rule cut_at)

lemma dec_one_line: "one_line (dec n)"
  using dec_digits [of n] by (auto simp: one_line_def list_all_iff ascii_digit_def LF_def)

lemma canonical_request_inj:
  assumes "list_all one_line [m, p, h, t]" and "list_all one_line [m', p', h', t']"
    and "canonical_request m p h t n = canonical_request m' p' h' t' n'"
  shows "m = m' \<and> p = p' \<and> h = h' \<and> t = t' \<and> n = n'"
  using assms lines_cut by (simp add: canonical_request_def) metis

lemma encode_bytes_inj: "encode_bytes s = encode_bytes s' \<Longrightarrow> s = s'"
  by (metis pct_decode_encode)

lemma literal_no_slash: "is_literal_pchar c \<or> c = CHR ''%'' \<Longrightarrow> c \<noteq> CHR ''/'' \<and> c \<noteq> LF"
  by (auto simp: is_literal_pchar_def ascii_alphanumeric_byte_def Let_def LF_def)

lemma encode_no_slash: "CHR ''/'' \<notin> set (encode_bytes s) \<and> one_line (encode_bytes s)"
  using encode_chars [of s] literal_no_slash by (auto simp: list_all_iff one_line_def)

subsection \<open>The mutations\<close>

datatype mutation =
    KillRun string
  | SetBudget string json
  | SetUnitBudget string json
  | AckIncident string

fun mutation_id :: "mutation \<Rightarrow> string" where
  "mutation_id (KillRun i) = i"
| "mutation_id (SetBudget i _) = i"
| "mutation_id (SetUnitBudget i _) = i"
| "mutation_id (AckIncident i) = i"

fun mutation_path :: "mutation \<Rightarrow> string" where
  "mutation_path (KillRun i) = ''/v1/runs/'' @ encode_bytes i @ ''/kill''"
| "mutation_path (SetBudget i _) = ''/v1/runs/'' @ encode_bytes i @ ''/budget''"
| "mutation_path (SetUnitBudget i _) = ''/v1/units/'' @ encode_bytes i @ ''/budget''"
| "mutation_path (AckIncident i) = ''/v1/incidents/'' @ encode_bytes i @ ''/ack''"

fun mutation_body :: "ingest_lib \<Rightarrow> mutation \<Rightarrow> string" where
  "mutation_body X (KillRun _) = []"
| "mutation_body X (SetBudget _ v) = budget_body X v"
| "mutation_body X (SetUnitBudget _ v) = budget_body X v"
| "mutation_body X (AckIncident _) = []"

text \<open>The requests a mutation leaves sent.\<close>

fun mutate :: "ingest_lib \<Rightarrow> cloud_lib \<Rightarrow> cloud_world \<Rightarrow> cloud_client \<Rightarrow> mutation \<Rightarrow> request list \<Rightarrow> request list" where
  "mutate X L w c (KillRun i) sent = fst (kill_run X L w c i sent)"
| "mutate X L w c (SetBudget i v) sent = fst (set_budget X L w c i v sent)"
| "mutate X L w c (SetUnitBudget i v) sent = fst (set_unit_budget X L w c i v sent)"
| "mutate X L w c (AckIncident i) sent = fst (ack_incident X L w c i sent)"

lemma path_segment_ok: "path_segment i = Inr seg \<Longrightarrow> seg = encode_bytes i \<and> i \<notin> {[], ''.'', ''..''}"
  by (auto simp: path_segment_def split: if_splits)

definition signed_for :: "ingest_lib \<Rightarrow> cloud_lib \<Rightarrow> paired_device \<Rightarrow> string \<Rightarrow> string \<Rightarrow> request \<Rightarrow> bool" where
  "signed_for X L d path body rq \<longleftrightarrow> (\<exists>ts nonce raw_sig.
     sg_sign_raw (pd_signer d) (canonical_request (rq_method rq) path (body_sha256_hex X (rq_body rq)) ts nonce) = Inr raw_sig
   \<and> rq_method rq = ''POST'' \<and> rq_body rq = body \<and> rq_bearer rq = Some (pd_device_token d)
   \<and> map_of (rq_headers rq) ''X-Fuse-Device'' = Some (pd_device_id d)
   \<and> map_of (rq_headers rq) ''X-Fuse-TS'' = Some ts \<and> map_of (rq_headers rq) ''X-Fuse-Nonce'' = Some nonce
   \<and> map_of (rq_headers rq) ''X-Fuse-Sig'' = Some (cl_base64 L raw_sig))"

lemma sign_mutationD:
  assumes "sign_mutation X L w sent sg method path body = Inr m"
  shows "\<exists>raw_sig. sg_sign_raw sg (canonical_request method path (body_sha256_hex X body) (sm_ts m) (sm_nonce m)) = Inr raw_sig
    \<and> sm_sig_b64 m = cl_base64 L raw_sig"
  using assms by (auto simp: sign_mutation_def sign_mutation_at_def split: option.splits sum.splits)

lemma signed_post_sends:
  obtains "fst (signed_post X L w c decode path body sent) = sent"
  | d rq where "fst (signed_post X L w c decode path body sent) = sent @ [rq]" and "cc_device c = Some d"
      and "rq_url rq = cc_base_url c @ path" and "signed_for X L d path body rq"
proof (cases "cc_device c")
  case None
  then show ?thesis using that(1) by (simp add: signed_post_def)
next
  case (Some d)
  show ?thesis
  proof (cases "sign_mutation X L w sent (pd_signer d) ''POST'' path body")
    case (Inl e)
    then show ?thesis using that(1) Some by (simp add: signed_post_def)
  next
    case (Inr m)
    from sign_mutationD [OF Inr] have "signed_for X L d path body (signed_request c d path body m)"
      by (auto simp: signed_for_def signed_request_def)
    then show ?thesis
      using that(2) [of "signed_request c d path body m" d] Some Inr
      by (simp add: signed_post_def send_def signed_request_def)
  qed
qed

lemma mutate_post:
  "mutate X L w c m sent =
     (case path_segment (mutation_id m) of Inl _ \<Rightarrow> sent
      | Inr _ \<Rightarrow> fst (signed_post X L w c (\<lambda>_. Inr ()) (mutation_path m) (mutation_body X m) sent))"
  by (cases m)
    (auto simp: kill_run_def set_budget_def set_unit_budget_def ack_incident_def signed_post_def
      dest: path_segment_ok split: sum.splits option.splits prod.splits)

text \<open>C28. No unsigned request. A mutation of the Cloud sends nothing, or one request, with the token of the paired device,
  whose signature was made by that device over exactly the method, path and body hash of the request and the
  time and nonce beside it; the path names the object by its encoded id. Without a device, and for an id
  that is empty or a dot segment, nothing is sent.\<close>

theorem mutation_signed_as_sent:
  "mutate X L w c m sent = sent \<or> (\<exists>d rq. mutate X L w c m sent = sent @ [rq] \<and> cc_device c = Some d
      \<and> rq_url rq = cc_base_url c @ mutation_path m \<and> signed_for X L d (mutation_path m) (mutation_body X m) rq
      \<and> mutation_id m \<notin> {[], ''.'', ''..''})"
proof (cases "path_segment (mutation_id m)")
  case (Inl e)
  then show ?thesis by (simp add: mutate_post)
next
  case (Inr seg)
  note ok = path_segment_ok [OF Inr]
  show ?thesis
    by (rule signed_post_sends [of X L w c "\<lambda>_. Inr ()" "mutation_path m" "mutation_body X m" sent])
      (use Inr ok in \<open>auto simp: mutate_post\<close>)
qed

lemma mutation_path_lines: "one_line (mutation_path m)"
  by (cases m) (simp_all add: encode_no_slash, simp_all add: one_line_def LF_def encode_no_slash [unfolded one_line_def LF_def])

lemma mutation_path_inj:
  assumes "mutation_path m = mutation_path m'"
  shows "mutation_id m = mutation_id m'
    \<and> (case (m, m') of (KillRun _, KillRun _) \<Rightarrow> True | (SetBudget _ _, SetBudget _ _) \<Rightarrow> True
        | (SetUnitBudget _ _, SetUnitBudget _ _) \<Rightarrow> True | (AckIncident _, AckIncident _) \<Rightarrow> True | _ \<Rightarrow> False)"
  using assms encode_no_slash
  by (cases m; cases m') (auto dest!: cut_at dest: encode_bytes_inj)

text \<open>One signature, one mutation. When the strings that are signed for two mutations are equal, so are the two
  mutations up to the hash of their bodies, their times and their nonces: a signature over one kill, budget or
  acknowledgement is none over another object or action. SHA-256 in hexadecimal is one line.\<close>

theorem signature_names_one_mutation:
  assumes "\<And>s. one_line (sha256_hex X s)"
    and "canonical_request ''POST'' (mutation_path m) (body_sha256_hex X (mutation_body X m)) (dec now) nonce
       = canonical_request ''POST'' (mutation_path m') (body_sha256_hex X (mutation_body X m')) (dec now') nonce'"
  shows "mutation_id m = mutation_id m'
    \<and> (case (m, m') of (KillRun _, KillRun _) \<Rightarrow> True | (SetBudget _ _, SetBudget _ _) \<Rightarrow> True
        | (SetUnitBudget _ _, SetUnitBudget _ _) \<Rightarrow> True | (AckIncident _, AckIncident _) \<Rightarrow> True | _ \<Rightarrow> False)
    \<and> sha256_hex X (mutation_body X m) = sha256_hex X (mutation_body X m') \<and> now = now' \<and> nonce = nonce'"
proof -
  have post: "one_line ''POST''" by (simp add: one_line_def LF_def)
  from canonical_request_inj [OF _ _ assms(2)] have
    "mutation_path m = mutation_path m'" "sha256_hex X (mutation_body X m) = sha256_hex X (mutation_body X m')"
    "dec now = dec now'" "nonce = nonce'"
    using assms(1) mutation_path_lines post by (simp_all add: body_sha256_hex_def dec_one_line)
  then show ?thesis using mutation_path_inj [of m m'] by (simp add: dec_inj)
qed

end
