(* ===== verification/JournalFacts.thy ===== *)
theory JournalFacts
  imports Journal "HOL-Library.Sublist"
begin

section \<open>One hash chain per events file\<close>

text \<open>
  A verifier reads the lines of a file in order: each must carry as \<open>prev_hash\<close> the hash of the one before,
  and the first must carry none. The records of a process, with clean write failures and restarts between
  them, leave a file that passes; a write that stops inside a line does not.
\<close>

subsection \<open>What the verifier checks\<close>

definition line_prev :: "ingest_lib \<Rightarrow> string \<Rightarrow> string option" where
  "line_prev X l =
     (case parse_json X l of Inl _ \<Rightarrow> None | Inr v \<Rightarrow> Option.bind (json_get v ''prev_hash'') json_str)"

fun chained :: "ingest_lib \<Rightarrow> string option \<Rightarrow> string list \<Rightarrow> bool" where
  "chained X prev [] = True"
| "chained X prev (l # ls) =
     (line_prev X l = prev \<and> chain_hash_of_line X l \<noteq> None \<and> chained X (chain_hash_of_line X l) ls)"

definition tip :: "ingest_lib \<Rightarrow> string list \<Rightarrow> string option" where
  "tip X ls = (if ls = [] then None else chain_hash_of_line X (last ls))"

lemma chained_snoc:
  "chained X prev (ls @ [l]) \<longleftrightarrow> chained X prev ls \<and>
     line_prev X l = (if ls = [] then prev else chain_hash_of_line X (last ls)) \<and> chain_hash_of_line X l \<noteq> None"
  by (induction ls arbitrary: prev) auto

lemma tip_snoc [simp]: "tip X (ls @ [l]) = chain_hash_of_line X l"
  by (simp add: tip_def)

subsection \<open>Framing\<close>

definition frame :: "string list \<Rightarrow> string" where
  "frame ls = concat (map (\<lambda>l. l @ [LF]) ls)"

lemma frame_simps [simp]: "frame [] = []" "frame (l # ls) = l @ LF # frame ls" "frame (ls @ ks) = frame ls @ frame ks"
  by (simp_all add: frame_def)

text \<open>A line a reader gets back as it was written.\<close>

definition plain_line :: "string \<Rightarrow> bool" where
  "plain_line l \<longleftrightarrow> LF \<notin> set l \<and> strip_cr l = l"

definition clean_line :: "string \<Rightarrow> bool" where
  "clean_line l \<longleftrightarrow> plain_line l \<and> trim l \<noteq> [] \<and> valid_str l"

lemma clean_plain: "list_all clean_line ls \<Longrightarrow> list_all plain_line ls"
  by (auto simp: clean_line_def list_all_iff)

lemma trim_Nil [simp]: "trim [] = []"
  by (simp add: trim_def)

lemma lf_pieces_line: "LF \<notin> set l \<Longrightarrow> lf_pieces (l @ LF # s) = l # lf_pieces s"
  by (induction l) auto

lemma lf_pieces_rest: "LF \<notin> set l \<Longrightarrow> l \<noteq> [] \<Longrightarrow> lf_pieces l = [l]"
proof (induction l)
  case (Cons c l)
  then show ?case by (cases l) auto
qed simp

lemma lf_pieces_frame: "list_all plain_line ls \<Longrightarrow> lf_pieces (frame ls @ s) = ls @ lf_pieces s"
  by (induction ls) (simp_all add: plain_line_def lf_pieces_line)

lemma strip_cr_fixed: "strip_cr l = l \<longleftrightarrow> l = [] \<or> last l \<noteq> CHR 0x0D"
  by (cases l rule: rev_cases) (simp_all add: strip_cr_def)

lemma strip_plain: "list_all plain_line ls \<Longrightarrow> map strip_cr ls = ls"
  by (induction ls) (simp_all add: plain_line_def)

lemma frame_ends: "ls \<noteq> [] \<Longrightarrow> last (frame ls) = LF \<and> frame ls \<noteq> []"
  by (induction ls) (auto simp: frame_def)

lemma frame_eq_Nil [simp]: "frame ls = [] \<longleftrightarrow> ls = []"
  using frame_ends [of ls] by (cases "ls = []") simp_all

lemma Nil_eq_frame [simp]: "[] = frame ls \<longleftrightarrow> ls = []"
  using frame_eq_Nil [of ls] by (simp add: eq_commute)

lemma str_lines_frame: "list_all plain_line ls \<Longrightarrow> str_lines (frame ls) = ls"
  using lf_pieces_frame [of ls "[]"] frame_ends [of ls]
  by (cases "ls = []") (simp_all add: str_lines_def strip_plain)

lemma str_lines_open:
  assumes "list_all plain_line ls" and "LF \<notin> set l" and "l \<noteq> []"
  shows "str_lines (frame ls @ l) = ls @ [l]"
proof -
  have "last (frame ls @ l) \<noteq> LF" using assms(2,3) by (metis last_appendR last_in_set)
  moreover have "lf_pieces (frame ls @ l) = ls @ [l]"
    using lf_pieces_frame [OF assms(1)] lf_pieces_rest [OF assms(2,3)] by simp
  ultimately show ?thesis using assms(1,3) by (simp add: str_lines_def strip_plain)
qed

text \<open>Validity goes by lines.\<close>

lemma valid_str_frame: "list_all clean_line ls \<Longrightarrow> valid_str (frame ls)"
proof (induction ls)
  case Nil
  show ?case by (simp add: valid_str_def)
next
  case (Cons l ls)
  have "valid_str [LF]" by (simp add: valid_str_def LF_def whole_char_def utf8_step_def Let_def)
  with Cons valid_str_append [of "[LF]" "frame ls"] valid_str_append [of l "LF # frame ls"]
  show ?case by (simp add: clean_line_def)
qed

lemma last_line_of_frame:
  assumes "list_all clean_line ls"
  shows "last_line_of (Some (frame ls)) = (if ls = [] then None else Some (last ls))"
proof (cases ls rule: rev_cases)
  case (snoc ks l)
  then have "find (\<lambda>l. trim l \<noteq> []) (rev ls) = Some (last ls)" using assms by (simp add: clean_line_def)
  with snoc show ?thesis
    using valid_str_frame [OF assms] str_lines_frame [OF clean_plain [OF assms]] by (auto simp: last_line_of_def)
qed (simp add: last_line_of_def str_lines_def valid_str_def)

subsection \<open>Lines of records\<close>

lemma map_of_inserts: "map_of (foldl (\<lambda>m (k, v). bt_insert k v m) m ms) = map_of m ++ map_of (rev ms)"
proof (induction ms arbitrary: m)
  case (Cons kv ms)
  show ?case by (cases kv) (auto simp: Cons map_add_def fun_eq_iff split: option.splits)
qed simp

lemma json_get_object: "json_get (json_object ms) key = map_of (rev ms) key"
  by (simp add: json_get_def json_object_def map_of_inserts)

lemma command_value_get:
  "json_get (console_command_value org host rec ts prev) ''prev_hash'' = map_option JString prev"
  "json_get (console_command_value org host rec ts prev) ''data'' = Some (command_data rec)"
  "json_get (console_command_value org host rec ts prev) ''ts'' = Some (JString ts)"
  "json_get (console_command_value org host rec ts prev) ''on_behalf_of'' =
     (if is_delegatable_principal (rec_operator rec) then Some (JArray [JString (rec_operator rec)]) else None)"
  by (simp_all add: console_command_value_def json_get_object split: option.split)

text \<open>What \<open>serde_json\<close> does for a value: it reads back what it printed, and prints it as one line.\<close>

definition prints :: "ingest_lib \<Rightarrow> json \<Rightarrow> bool" where
  "prints X v \<longleftrightarrow> parse_json X (json_text X v) = Inr v \<and> clean_line (json_text X v)"

lemma line_facts:
  assumes "prints X (console_command_value org host rec ts prev)"
  shows "line_prev X (console_command_line X org host rec ts prev) = prev"
    and "chain_hash_of_line X (console_command_line X org host rec ts prev) \<noteq> None"
    and "clean_line (console_command_line X org host rec ts prev)"
  using assms
  by (cases prev; simp add: prints_def console_command_line_def line_prev_def chain_hash_of_line_def command_value_get)+

subsection \<open>The machine\<close>

record journal_call =
  jc_path :: string
  jc_org :: string
  jc_host :: string
  jc_rec :: command_record
  jc_world :: journal_world

datatype journal_step = Call journal_call | Restart

text \<open>A run answers the calls that reported success.\<close>

primrec journal_run ::
  "ingest_lib \<Rightarrow> path_lib \<Rightarrow> console_journal \<Rightarrow> journal_step list \<Rightarrow> console_journal \<times> journal_call list" where
  "journal_run X P st [] = (st, [])"
| "journal_run X P st (s # ss) =
     (case s of
        Restart \<Rightarrow> journal_run X P (journal_restart st) ss
      | Call c \<Rightarrow>
          (case record_command X P (jc_world c) st (jc_path c) (jc_org c) (jc_host c) (jc_rec c) of
             (st1, r) \<Rightarrow> (case journal_run X P st1 ss of
                (st2, out) \<Rightarrow> (st2, (case r of Inr _ \<Rightarrow> [c] | Inl _ \<Rightarrow> []) @ out))))"

definition call_line :: "ingest_lib \<Rightarrow> string option \<Rightarrow> journal_call \<Rightarrow> string" where
  "call_line X prev c = console_command_line X (jc_org c) (jc_host c) (jc_rec c) (jw_ts (jc_world c)) prev"

fun call_lines :: "ingest_lib \<Rightarrow> string option \<Rightarrow> journal_call list \<Rightarrow> string list" where
  "call_lines X prev [] = []"
| "call_lines X prev (c # cs) =
     call_line X prev c # call_lines X (chain_hash_of_line X (call_line X prev c)) cs"

text \<open>A call on the file \<open>f\<close> whose failures leave no part of a line behind. Its line is printable whatever
  hash it carries.\<close>

definition chain_link :: "ingest_lib \<Rightarrow> string option \<Rightarrow> bool" where
  "chain_link X prev \<longleftrightarrow> (case prev of None \<Rightarrow> True | Some p \<Rightarrow> \<exists>t. p = ''sha256:'' @ sha256_hex X t)"

definition printable_call :: "ingest_lib \<Rightarrow> journal_call \<Rightarrow> bool" where
  "printable_call X c \<longleftrightarrow> (\<forall>prev. chain_link X prev \<longrightarrow>
     prints X (console_command_value (jc_org c) (jc_host c) (jc_rec c) (jw_ts (jc_world c)) prev))"

definition names_file :: "path_lib \<Rightarrow> string \<Rightarrow> string \<Rightarrow> journal_call \<Rightarrow> bool" where
  "names_file P k f c \<longleftrightarrow> canonical_key P (jc_path c) = k \<and> path_file P (jc_path c) = f"

definition writes_whole_lines :: "journal_call \<Rightarrow> bool" where
  "writes_whole_lines c \<longleftrightarrow> jw_written (jc_world c) \<in> {None, Some 0}"

lemma chain_link_hash [simp]: "chain_link X None" "chain_link X (chain_hash_of_line X l)" "chain_link X (tip X ls)"
  by (auto simp: chain_link_def chain_hash_of_line_def tip_def split: sum.splits)

lemma call_line_facts:
  assumes "printable_call X c" and "chain_link X prev"
  shows "line_prev X (call_line X prev c) = prev" and "chain_hash_of_line X (call_line X prev c) \<noteq> None"
    and "clean_line (call_line X prev c)"
  using assms line_facts unfolding printable_call_def call_line_def by blast+

subsection \<open>The invariant\<close>

text \<open>A file that does not exist yet reads as an empty one.\<close>

definition file_content :: "console_journal \<Rightarrow> string \<Rightarrow> string" where
  "file_content st f = (case hm_get (cj_files st) f of None \<Rightarrow> [] | Some s \<Rightarrow> s)"

definition journal_inv :: "ingest_lib \<Rightarrow> string \<Rightarrow> string \<Rightarrow> string list \<Rightarrow> console_journal \<Rightarrow> bool" where
  "journal_inv X k f ls st \<longleftrightarrow> list_all clean_line ls \<and> chained X None ls
     \<and> (case hm_get (cj_files st) f of None \<Rightarrow> ls = [] | Some s \<Rightarrow> s = frame ls)
     \<and> (case hm_get (cj_sinks st) k of None \<Rightarrow> True
        | Some sk \<Rightarrow> sk = \<lparr>sk_file = f, sk_next = tip X ls\<rparr> \<and> hm_get (cj_files st) f = Some (frame ls))"

lemma sink_for_inv:
  assumes "journal_inv X k f ls st" and "canonical_key P path = k" and "path_file P path = f"
    and "sink_for X P w st path = (st', r)"
  shows "journal_inv X k f ls st'"
    and "r = Inr sk \<Longrightarrow> sk = \<lparr>sk_file = f, sk_next = tip X ls\<rparr> \<and> hm_get (cj_files st') f = Some (frame ls)"
proof -
  have tip: "Option.bind (last_line_of (Some (frame ls))) (chain_hash_of_line X) = tip X ls"
    using assms(1) by (simp add: journal_inv_def last_line_of_frame tip_def)
  have content: "hm_get (opened f (cj_files st)) f = Some (frame ls)"
    using assms(1) by (auto simp: journal_inv_def opened_def hm_get_insert split: option.splits)
  show "journal_inv X k f ls st'" "r = Inr sk \<Longrightarrow>
      sk = \<lparr>sk_file = f, sk_next = tip X ls\<rparr> \<and> hm_get (cj_files st') f = Some (frame ls)"
    using assms tip content
    by (auto simp: sink_for_def journal_inv_def hm_get_insert Let_def split: option.splits if_splits)
qed

lemma insert_command_files:
  "insert_command X w st rec ts = (st', r) \<Longrightarrow> journal_inv X k f ls st' = journal_inv X k f ls st"
  by (auto simp: insert_command_def journal_inv_def split: option.splits)

lemma record_command_inv:
  assumes inv: "journal_inv X k f ls st" and "names_file P k f c" and "printable_call X c" and "writes_whole_lines c"
    and step: "record_command X P (jc_world c) st (jc_path c) (jc_org c) (jc_host c) (jc_rec c) = (st', r)"
  shows "journal_inv X k f (ls @ (case r of Inr _ \<Rightarrow> [call_line X (tip X ls) c] | Inl _ \<Rightarrow> [])) st'"
proof (cases "require_break_glass_reason (jc_rec c)")
  case (Inl e)
  with step have "st' = st \<and> r = Inl e" by (simp add: record_command_def)
  with inv show ?thesis by simp
next
  case reason: (Inr u)
  let ?w = "jc_world c"
  obtain st1 r1 where ins: "insert_command X ?w st (jc_rec c) (jw_ts ?w) = (st1, r1)" by fastforce
  have inv1: "journal_inv X k f ls st1" using insert_command_files [OF ins] inv by blast
  show ?thesis
  proof (cases r1)
    case (Inl e)
    with step reason ins have "st' = st1 \<and> r = Inl e" by (simp add: record_command_def)
    with inv1 show ?thesis by simp
  next
    case r1: (Inr u)
    obtain st2 r2 where sink: "sink_for X P ?w st1 (jc_path c) = (st2, r2)" by fastforce
    have names: "canonical_key P (jc_path c) = k" "path_file P (jc_path c) = f"
      using assms(2) by (auto simp: names_file_def)
    note inv2 = sink_for_inv [OF inv1 names sink]
    show ?thesis
    proof (cases r2)
      case (Inl e)
      with step reason ins r1 sink have "st' = st2 \<and> r = Inl e" by (simp add: record_command_def)
      with inv2(1) show ?thesis by simp
    next
      case (Inr sk)
      have sk: "sk = \<lparr>sk_file = f, sk_next = tip X ls\<rparr>" "hm_get (cj_files st2) f = Some (frame ls)"
        using inv2(2) [OF Inr] by auto
      have line: "clean_line (call_line X (tip X ls) c)" "line_prev X (call_line X (tip X ls) c) = tip X ls"
          "chain_hash_of_line X (call_line X (tip X ls) c) \<noteq> None"
        using call_line_facts [OF assms(3), of "tip X ls"] by simp_all
      have chain: "chained X None ls" "list_all clean_line ls" using inv by (auto simp: journal_inv_def)
      have extended: "chained X None (ls @ [call_line X (tip X ls) c])"
        unfolding chained_snoc using chain line by (simp add: tip_def)
      have eff: "st' = st2\<lparr>cj_files := hm_insert f (frame ls @ (case jw_written ?w of None \<Rightarrow> call_line X (tip X ls) c @ [LF] | Some _ \<Rightarrow> [])) (cj_files st2),
             cj_sinks := hm_insert k \<lparr>sk_file = f, sk_next = (case jw_written ?w of None \<Rightarrow> chain_hash_of_line X (call_line X (tip X ls) c) | Some _ \<Rightarrow> tip X ls)\<rparr> (cj_sinks st2)\<rparr>
        \<and> r = (case jw_written ?w of None \<Rightarrow> Inr () | Some _ \<Rightarrow> Inl (CommandIo ''write''))"
        using step reason ins r1 sink Inr sk names(1) assms(4)
        by (auto simp: record_command_def append_chained_def call_line_def writes_whole_lines_def Let_def
            split: option.splits)
      show ?thesis
        using eff chain line extended
        by (cases "jw_written ?w") (simp_all add: journal_inv_def hm_get_insert)
    qed
  qed
qed

lemma journal_inv_restart: "journal_inv X k f ls st \<Longrightarrow> journal_inv X k f ls (journal_restart st)"
  by (simp add: journal_inv_def journal_restart_def)

lemma call_lines_append:
  "call_lines X prev (cs @ ds) = call_lines X prev cs @
     call_lines X (if cs = [] then prev else chain_hash_of_line X (last (call_lines X prev cs))) ds"
  by (induction cs arbitrary: prev) (auto simp: neq_Nil_conv)

lemma journal_run_inv:
  assumes "journal_inv X k f ls st"
    and "\<forall>c. Call c \<in> set ss \<longrightarrow> names_file P k f c \<and> printable_call X c \<and> writes_whole_lines c"
    and "journal_run X P st ss = (st', out)"
  shows "journal_inv X k f (ls @ call_lines X (tip X ls) out) st'"
  using assms
proof (induction ss arbitrary: st ls out)
  case (Cons s ss)
  show ?case
  proof (cases s)
    case Restart
    with Cons.IH [OF journal_inv_restart [OF Cons.prems(1)]] Cons.prems(2,3) show ?thesis by simp
  next
    case (Call c)
    obtain st1 r where rec: "record_command X P (jc_world c) st (jc_path c) (jc_org c) (jc_host c) (jc_rec c) = (st1, r)"
      by fastforce
    obtain out1 where rest: "journal_run X P st1 ss = (st', out1)" "out = (case r of Inr _ \<Rightarrow> [c] | Inl _ \<Rightarrow> []) @ out1"
      using Cons.prems(3) Call rec by (auto split: prod.splits)
    have ok: "names_file P k f c" "printable_call X c" "writes_whole_lines c" using Cons.prems(2) Call by auto
    have "\<forall>c. Call c \<in> set ss \<longrightarrow> names_file P k f c \<and> printable_call X c \<and> writes_whole_lines c"
      using Cons.prems(2) by simp
    from Cons.IH [OF record_command_inv [OF Cons.prems(1) ok rec] this rest(1)] rest(2)
    show ?thesis by (cases r) simp_all
  qed
qed simp

subsection \<open>Rows and torn lines\<close>

definition accepted :: "journal_call \<Rightarrow> bool" where
  "accepted c \<longleftrightarrow> require_break_glass_reason (jc_rec c) = Inr () \<and> jw_row_error (jc_world c) = None"

definition calls_of :: "journal_step list \<Rightarrow> journal_call list" where
  "calls_of ss = List.map_filter (\<lambda>s. case s of Call c \<Rightarrow> Some c | Restart \<Rightarrow> None) ss"

lemma calls_of_simps [simp]:
  "calls_of [] = []" "calls_of (Call c # ss) = c # calls_of ss" "calls_of (Restart # ss) = calls_of ss"
  by (simp_all add: calls_of_def List.map_filter_simps)

lemma set_calls_of: "c \<in> set (calls_of ss) \<longleftrightarrow> Call c \<in> set ss"
proof (induction ss)
  case (Cons s ss)
  then show ?case by (cases s) auto
qed simp

lemma sink_for_rows: "sink_for X P w st path = (st', r) \<Longrightarrow> cj_rows st' = cj_rows st"
  by (auto simp: sink_for_def Let_def split: option.splits if_splits)

lemma record_command_rows:
  assumes "record_command X P w st path org host rec = (st', r)"
  shows "cj_rows st' = cj_rows st @
    (if require_break_glass_reason rec = Inr () \<and> jw_row_error w = None then [row_of_command X rec (jw_ts w)] else [])"
    and "r = Inr u \<Longrightarrow> require_break_glass_reason rec = Inr () \<and> jw_row_error w = None"
  using assms
  by (auto simp: record_command_def insert_command_def dest!: sink_for_rows split: sum.splits prod.splits option.splits)

lemma reason_given:
  "require_break_glass_reason rec = Inr () \<longleftrightarrow>
     (rec_decision rec = ''break_glass'' \<longrightarrow> (\<exists>r. json_get (rec_params rec) ''reason'' = Some (JString r) \<and> trim r \<noteq> []))"
proof -
  have "json_str v = Some r \<longleftrightarrow> v = JString r" for v r by (cases v) (simp_all add: json_str_def)
  then show ?thesis
    by (auto simp: require_break_glass_reason_def Let_def split: option.splits Option.bind_splits if_splits)
qed

lemma journal_run_rows:
  "cj_rows (fst (journal_run X P st ss)) = cj_rows st @
     map (\<lambda>c. row_of_command X (jc_rec c) (jw_ts (jc_world c))) (filter accepted (calls_of ss))
   \<and> subseq (snd (journal_run X P st ss)) (filter accepted (calls_of ss))"
proof (induction ss arbitrary: st)
  case (Cons s ss)
  show ?case
  proof (cases s)
    case (Call c)
    obtain st1 r where rec: "record_command X P (jc_world c) st (jc_path c) (jc_org c) (jc_host c) (jc_rec c) = (st1, r)"
      by fastforce
    from record_command_rows [OF rec] Cons.IH [of st1] show ?thesis
      by (cases r; cases "accepted c"; cases "journal_run X P st1 ss")
        (auto simp: Call rec accepted_def)
  qed (use Cons.IH [of "journal_restart st"] in \<open>simp add: journal_restart_def\<close>)
qed simp

definition opens :: "journal_call \<Rightarrow> bool" where
  "opens c \<longleftrightarrow> accepted c \<and> jw_dir_error (jc_world c) = None \<and> jw_open_error (jc_world c) = None"

text \<open>What a call that finds its file does: the link it uses, and the file and the sink it leaves.\<close>

lemma record_effect:
  assumes "names_file P k f c" and "opens c" and "hm_get (cj_files st) f = Some s"
    and "case hm_get (cj_sinks st) k of
           None \<Rightarrow> link = Option.bind (last_line_of (Some s)) (chain_hash_of_line X)
         | Some sk \<Rightarrow> sk = \<lparr>sk_file = f, sk_next = link\<rparr>"
  shows "\<exists>st'. record_command X P (jc_world c) st (jc_path c) (jc_org c) (jc_host c) (jc_rec c) =
        (st', if jw_written (jc_world c) = None then Inr () else Inl (CommandIo ''write''))
    \<and> hm_get (cj_files st') f = Some (s @ (case jw_written (jc_world c) of
           None \<Rightarrow> call_line X link c @ [LF] | Some n \<Rightarrow> take n (call_line X link c @ [LF])))
    \<and> hm_get (cj_sinks st') k = Some \<lparr>sk_file = f, sk_next = (case jw_written (jc_world c) of
           None \<Rightarrow> chain_hash_of_line X (call_line X link c) | Some _ \<Rightarrow> link)\<rparr>"
proof -
  have sink: "\<exists>st1. sink_for X P (jc_world c) (st\<lparr>cj_rows := rows\<rparr>) (jc_path c) = (st1, Inr \<lparr>sk_file = f, sk_next = link\<rparr>)
      \<and> hm_get (cj_files st1) f = Some s" for rows
    using assms unfolding names_file_def opens_def
    by (auto simp: sink_for_def opened_def hm_get_insert Let_def split: option.splits)
  have ins: "insert_command X (jc_world c) st (jc_rec c) ts = (st\<lparr>cj_rows := cj_rows st @ [row_of_command X (jc_rec c) ts]\<rparr>, Inr ())" for ts
    using assms(2) by (simp add: insert_command_def opens_def accepted_def)
  have ok: "require_break_glass_reason (jc_rec c) = Inr ()" "canonical_key P (jc_path c) = k"
    using assms(1,2) by (auto simp: opens_def accepted_def names_file_def)
  from sink obtain st1 where st1: "sink_for X P (jc_world c) (st\<lparr>cj_rows := cj_rows st @ [row_of_command X (jc_rec c) (jw_ts (jc_world c))]\<rparr>) (jc_path c)
      = (st1, Inr \<lparr>sk_file = f, sk_next = link\<rparr>)" "hm_get (cj_files st1) f = Some s" by blast
  let ?content = "case jw_written (jc_world c) of None \<Rightarrow> call_line X link c @ [LF] | Some n \<Rightarrow> take n (call_line X link c @ [LF])"
  let ?next = "case jw_written (jc_world c) of None \<Rightarrow> chain_hash_of_line X (call_line X link c) | Some _ \<Rightarrow> link"
  let ?st' = "st1\<lparr>cj_files := hm_insert f (s @ ?content) (cj_files st1),
    cj_sinks := hm_insert k \<lparr>sk_file = f, sk_next = ?next\<rparr> (cj_sinks st1)\<rparr>"
  have "record_command X P (jc_world c) st (jc_path c) (jc_org c) (jc_host c) (jc_rec c) =
      (?st', if jw_written (jc_world c) = None then Inr () else Inl (CommandIo ''write''))"
    by (simp add: record_command_def ins ok st1 append_chained_def call_line_def Let_def split: option.split)
  then show ?thesis by (intro exI [of _ ?st'] conjI) (simp_all add: hm_get_insert)
qed

subsection \<open>The host in the agent id\<close>

text \<open>The envelope's pattern \<open>^agent://[a-z0-9.-]+/[a-z0-9._/-]+$\<close>.\<close>

definition domain_char :: "char \<Rightarrow> bool" where
  "domain_char c \<longleftrightarrow> ascii_lower_letter c \<or> ascii_digit c \<or> c \<in> {CHR ''.'', CHR ''-''}"

definition path_char :: "char \<Rightarrow> bool" where
  "path_char c \<longleftrightarrow> domain_char c \<or> c \<in> {CHR ''_'', CHR ''/''}"

definition conforming_agent_id :: "string \<Rightarrow> bool" where
  "conforming_agent_id i \<longleftrightarrow> (\<exists>org path. i = ''agent://'' @ org @ ''/'' @ path \<and> org \<noteq> [] \<and> path \<noteq> []
     \<and> list_all domain_char org \<and> list_all path_char path)"

lemma sanitize_host_chars: "sanitize_host host \<noteq> [] \<and> list_all domain_char (sanitize_host host)"
proof -
  let ?f = "\<lambda>c. let lower = to_ascii_lowercase c in
    if ascii_alphanumeric lower \<or> lower = ''.'' \<or> lower = ''-'' then lower else ''-''"
  have "list_all domain_char (?f c)" for c
  proof (cases "ascii_alphanumeric (to_ascii_lowercase c)")
    case True
    then obtain y where c: "c = [y]"
      by (cases c; cases "tl c") (auto simp: ascii_alphanumeric_def to_ascii_lowercase_def)
    show ?thesis
    proof (cases "65 \<le> (of_char y :: nat) \<and> (of_char y :: nat) \<le> 90")
      case True
      then have "(of_char (char_of ((of_char y :: nat) + 32) :: char) :: nat) = of_char y + 32"
        by (simp add: of_char_of_nat_small)
      with True show ?thesis
        by (simp add: c to_ascii_lowercase_def ascii_alphanumeric_def domain_char_def ascii_lower_letter_def)
    next
      case False
      with \<open>ascii_alphanumeric (to_ascii_lowercase c)\<close> show ?thesis
        by (auto simp: c to_ascii_lowercase_def ascii_alphanumeric_def domain_char_def ascii_lower_letter_def
            ascii_digit_def)
    qed
  qed (auto simp: Let_def domain_char_def)
  then have "list_all domain_char (concat (map ?f (chars (trim host))))" by (auto simp: list_all_iff)
  moreover have "list_all domain_char ''unknown-host''"
    by (simp add: domain_char_def ascii_lower_letter_def ascii_digit_def)
  ultimately show ?thesis by (simp add: sanitize_host_def Let_def)
qed

subsection \<open>Properties\<close>

text \<open>C19. One file, one chain. Take an events file that passes the verifier, or is empty, and any run of a console
  on it: commands under any spelling of the path, restarts, refusals, and failures of the store, of the
  directory, of opening and of writing, as long as no write stops inside a line. The file then holds its old
  lines and one line for every command that reported success, in that order and nothing else, and the whole
  passes the verifier.\<close>

theorem journal_single_chain:
  assumes "list_all clean_line ls" and "chained X None ls"
    and "file_content st f = frame ls" and "cj_sinks st = []"
    and "\<forall>c\<in>set (calls_of ss). names_file P k f c \<and> printable_call X c \<and> writes_whole_lines c"
    and "journal_run X P st ss = (st', out)"
  shows "str_lines (file_content st' f) = ls @ call_lines X (tip X ls) out
     \<and> chained X None (str_lines (file_content st' f))"
proof -
  have "\<forall>c. Call c \<in> set ss \<longrightarrow> names_file P k f c \<and> printable_call X c \<and> writes_whole_lines c"
    using assms(5) by (simp add: set_calls_of)
  moreover have "journal_inv X k f ls st"
    using assms(1-4) by (auto simp: journal_inv_def file_content_def split: option.splits)
  ultimately have inv: "journal_inv X k f (ls @ call_lines X (tip X ls) out) st'" using journal_run_inv assms(6) by blast
  then have "file_content st' f = frame (ls @ call_lines X (tip X ls) out)"
    by (auto simp: journal_inv_def file_content_def simp del: frame_simps(3) split: option.splits)
  with inv show ?thesis by (simp add: journal_inv_def str_lines_frame clean_plain del: frame_simps)
qed

text \<open>C20. The table holds exactly the commands that were neither unjustified nor refused by the store, in order,
  whatever fails afterwards; a command reports success only if it has its row; and no row overrides
  governance without a reason that is more than white space.\<close>

theorem journal_rows_exact:
  "cj_rows (fst (journal_run X P st ss)) = cj_rows st @
     map (\<lambda>c. row_of_command X (jc_rec c) (jw_ts (jc_world c))) (filter accepted (calls_of ss))
   \<and> subseq (snd (journal_run X P st ss)) (filter accepted (calls_of ss))
   \<and> filter accepted (calls_of ss) = filter (\<lambda>c. jw_row_error (jc_world c) = None \<and>
       (if rec_decision (jc_rec c) = ''break_glass''
        then (\<exists>r. json_get (rec_params (jc_rec c)) ''reason'' = Some (JString r) \<and> trim r \<noteq> []) else True)) (calls_of ss)"
  using journal_run_rows by (auto simp: accepted_def reason_given intro!: filter_cong)

text \<open>C21. A write that stops inside a line breaks the file for the commands after it. The next one reports success
  and yet has no line of its own: its text is glued to the torn one, under the old link if the process goes
  on, and as the head of a second chain if it has restarted.\<close>

theorem torn_write_swallows_next:
  assumes "list_all clean_line ls" and "chained X None ls"
    and "file_content st f = frame ls" and "hm_get (cj_files st) f \<noteq> None" and "cj_sinks st = []"
    and "names_file P k f c1" and "names_file P k f c2" and "opens c1" and "opens c2"
    and "printable_call X c1" and "printable_call X c2"
    and "jw_written (jc_world c1) = Some n" and "jw_written (jc_world c2) = None"
    and "n < length (call_line X (tip X ls) c1)" and "trim (take n (call_line X (tip X ls) c1)) \<noteq> []"
    and "parse_json X (take n (call_line X (tip X ls) c1)) = Inl e"
  shows "(case journal_run X P st [Call c1, Call c2] of (st', out) \<Rightarrow> out = [c2] \<and>
      str_lines (file_content st' f) = ls @ [take n (call_line X (tip X ls) c1) @ call_line X (tip X ls) c2])
    \<and> (case journal_run X P st [Call c1, Restart, Call c2] of (st', out) \<Rightarrow> out = [c2] \<and>
      str_lines (file_content st' f) = ls @ [take n (call_line X (tip X ls) c1) @ call_line X None c2])"
proof -
  let ?torn = "take n (call_line X (tip X ls) c1)"
  have "n \<noteq> 0" using assms(15) by (cases n) simp_all
  then have torn: "LF \<notin> set ?torn" "?torn \<noteq> []" "take n (call_line X (tip X ls) c1 @ [LF]) = ?torn"
    using call_line_facts(3) [OF assms(10), of "tip X ls"] assms(14,15)
    by (auto simp: clean_line_def plain_line_def dest: in_set_takeD)
  have plain: "list_all plain_line ls" using clean_plain [OF assms(1)] .
  have glued: "str_lines (frame ls @ ?torn @ call_line X link c2 @ [LF]) = ls @ [?torn @ call_line X link c2]"
    if "chain_link X link" for link
  proof -
    have "clean_line (call_line X link c2)" using call_line_facts(3) [OF assms(11) that] .
    moreover from this have "call_line X link c2 \<noteq> []" by (auto simp: clean_line_def)
    ultimately have "plain_line (?torn @ call_line X link c2)"
      using torn(1) by (simp add: clean_line_def plain_line_def strip_cr_fixed)
    with plain str_lines_frame [of "ls @ [?torn @ call_line X link c2]"] show ?thesis by simp
  qed
  have stored: "hm_get (cj_files st) f = Some (frame ls)"
    using assms(3,4) by (auto simp: file_content_def split: option.splits)
  have "case hm_get (cj_sinks st) k of None \<Rightarrow> tip X ls = Option.bind (last_line_of (Some (frame ls))) (chain_hash_of_line X)
      | Some sk \<Rightarrow> sk = \<lparr>sk_file = f, sk_next = tip X ls\<rparr>"
    using last_line_of_frame [OF assms(1)] assms(5) by (simp add: tip_def)
  from record_effect [OF assms(6,8) stored this] assms(12) torn(3) obtain st1 where
    first: "record_command X P (jc_world c1) st (jc_path c1) (jc_org c1) (jc_host c1) (jc_rec c1) = (st1, Inl (CommandIo ''write''))"
      "hm_get (cj_files st1) f = Some (frame ls @ ?torn)"
      "hm_get (cj_sinks st1) k = Some \<lparr>sk_file = f, sk_next = tip X ls\<rparr>"
    by auto
  then have "case hm_get (cj_sinks st1) k of
        None \<Rightarrow> tip X ls = Option.bind (last_line_of (Some (frame ls @ ?torn))) (chain_hash_of_line X)
      | Some sk \<Rightarrow> sk = \<lparr>sk_file = f, sk_next = tip X ls\<rparr>" by simp
  from record_effect [OF assms(7,9) first(2) this] assms(13) obtain st2 where second:
      "record_command X P (jc_world c2) st1 (jc_path c2) (jc_org c2) (jc_host c2) (jc_rec c2) = (st2, Inr ())"
      "hm_get (cj_files st2) f = Some ((frame ls @ ?torn) @ call_line X (tip X ls) c2 @ [LF])"
    by auto
  have "hm_get (cj_files (journal_restart st1)) f = Some (frame ls @ ?torn)"
    "case hm_get (cj_sinks (journal_restart st1)) k of
        None \<Rightarrow> None = Option.bind (last_line_of (Some (frame ls @ ?torn))) (chain_hash_of_line X)
      | Some sk \<Rightarrow> sk = \<lparr>sk_file = f, sk_next = None\<rparr>"
    using first(2) str_lines_open [OF plain torn(1,2)] assms(15,16)
    by (simp_all add: journal_restart_def last_line_of_def chain_hash_of_line_def)
  from record_effect [OF assms(7,9) this] assms(13) obtain st3 where third:
      "record_command X P (jc_world c2) (journal_restart st1) (jc_path c2) (jc_org c2) (jc_host c2) (jc_rec c2) = (st3, Inr ())"
      "hm_get (cj_files st3) f = Some ((frame ls @ ?torn) @ call_line X None c2 @ [LF])"
    by auto
  show ?thesis
    using glued [of "tip X ls"] glued [of None] by (simp add: first(1) second third file_content_def)
qed

lemma before_last_slash_append: "CHR ''/'' \<notin> set s \<Longrightarrow> before_last_slash (p @ ''/'' @ s) = Some p"
proof -
  assume "CHR ''/'' \<notin> set s"
  then have "dropWhile (\<lambda>c. c \<noteq> CHR ''/'') (rev s @ CHR ''/'' # rev p) = CHR ''/'' # rev p"
    by (subst dropWhile_append2) auto
  then show ?thesis by (simp add: before_last_slash_def)
qed



end
