(* ===== verification/MoneyFacts.thy ===== *)
theory MoneyFacts
  imports MoneyUnits CloudFacts JournalFacts "HOL-Library.Sublist"
begin

section \<open>What a change of the money plane leaves behind\<close>

text \<open>
  The effect of one attempt to journal, and of the four commands that change something at the Cloud: what they send is
  what the client's mutation sends, and the journal says what the Cloud answered.
\<close>

subsection \<open>The journal\<close>

text \<open>Rows with their times left out.\<close>

definition untimed :: "journal_row list \<Rightarrow> journal_row list" where
  "untimed rows = map (\<lambda>r. r\<lparr>jr_ts := []\<rparr>) rows"

lemma journal_effect:
  assumes "journal B bus org host rec a = (a', ok, err)"
  shows "ac_sent a' = ac_sent a"
    and "\<exists>rows. cj_rows (ac_journal a') = cj_rows (ac_journal a) @ rows
      \<and> subseq (untimed rows) [row_of_command (be_lib B) rec []]
      \<and> (ok \<longrightarrow> rows \<noteq> [])"
proof -
  show "ac_sent a' = ac_sent a"
    using assms by (auto simp: journal_def Let_def split: option.splits prod.splits sum.splits)
  show "\<exists>rows. cj_rows (ac_journal a') = cj_rows (ac_journal a) @ rows
      \<and> subseq (untimed rows) [row_of_command (be_lib B) rec []] \<and> (ok \<longrightarrow> rows \<noteq> [])"
  proof (cases bus)
    case None
    with assms show ?thesis by (simp add: journal_def untimed_def)
  next
    case bus: (Some path)
    show ?thesis
    proof (cases "be_store_error B (ac_attempts a)")
      case (Some e)
      with bus assms show ?thesis by (auto simp: journal_def Let_def untimed_def)
    next
      case None
      obtain st r where rec: "record_command (be_lib B) (be_paths B) (be_world B (ac_attempts a)) (ac_journal a) path org host rec = (st, r)"
        by fastforce
      note rows = record_command_rows [OF rec]
      have a': "ac_journal a' = st \<and> (ok \<longrightarrow> r = Inr ())"
        using assms bus None rec by (auto simp: journal_def Let_def split: sum.splits)
      show ?thesis using rows a' by (cases "ok") (auto simp: row_of_command_def untimed_def)
    qed
  qed
qed

lemma journal_row:
  assumes "journal B bus org host rec a = (a', ok, err)" and "bus \<noteq> None" and "be_store_error B (ac_attempts a) = None"
    and "jw_row_error (be_world B (ac_attempts a)) = None" and "require_break_glass_reason rec = Inr ()"
  shows "cj_rows (ac_journal a') = cj_rows (ac_journal a) @ [row_of_command (be_lib B) rec (jw_ts (be_world B (ac_attempts a)))]"
proof -
  from assms(2) obtain path where bus: "bus = Some path" by blast
  obtain st r where rec: "record_command (be_lib B) (be_paths B) (be_world B (ac_attempts a)) (ac_journal a) path org host rec = (st, r)"
    by fastforce
  have "ac_journal a' = st" using assms(1,3) bus rec by (auto simp: journal_def Let_def split: sum.splits)
  with record_command_rows(1) [OF rec] assms(4,5) show ?thesis by simp
qed

subsection \<open>The four changes\<close>

fun money_change ::
  "bus_env \<Rightarrow> cloud_lib \<Rightarrow> cloud_world \<Rightarrow> money_lib \<Rightarrow> string \<Rightarrow> money_state \<Rightarrow> mutation \<Rightarrow> actions
    \<Rightarrow> actions \<times> (money_error + mutation_outcome)" where
  "money_change B L w M reason s (KillRun i) a = money_kill_run B L w i reason s a"
| "money_change B L w M reason s (SetBudget i v) a = money_set_budget B L w M i v reason s a"
| "money_change B L w M reason s (SetUnitBudget i v) a = money_set_unit_budget B L w M i v reason s a"
| "money_change B L w M reason s (AckIncident i) a = money_ack_incident B L w i s a"

fun is_override :: "mutation \<Rightarrow> bool" where
  "is_override (AckIncident _) = False"
| "is_override _ = True"

fun may_be_set :: "money_lib \<Rightarrow> mutation \<Rightarrow> bool" where
  "may_be_set M (SetUnitBudget i v) \<longleftrightarrow> validate_unit_cap M i v = Inr ()"
| "may_be_set M _ \<longleftrightarrow> True"

fun mutation_action :: "mutation \<Rightarrow> string" where
  "mutation_action (KillRun _) = ''console.kill_run''"
| "mutation_action (SetBudget _ _) = ''console.set_budget''"
| "mutation_action (SetUnitBudget _ _) = ''console.set_unit_budget''"
| "mutation_action (AckIncident _) = ''console.ack_incident''"

text \<open>The record of a change, by the answer the command gave.\<close>

definition records_answer ::
  "bus_env \<Rightarrow> money_client \<Rightarrow> string \<Rightarrow> mutation \<Rightarrow> money_error + mutation_outcome \<Rightarrow> command_record \<Rightarrow> bool" where
  "records_answer B mc reason m r rec \<longleftrightarrow>
     rec_action rec = mutation_action m \<and> rec_target rec = mutation_id m \<and> rec_operator rec = operator_or (be_scope B) (mc_operator mc)
   \<and> rec_decision rec = (if is_override m then ''break_glass'' else ''allow'')
   \<and> (is_override m \<longrightarrow> json_get (rec_params rec) ''reason'' = Some (JString reason))
   \<and> (case r of
        Inr out \<Rightarrow> rec_http_status rec = 200 \<and> rec_verify_result rec = mo_verify_result out
      | Inl err \<Rightarrow> (\<exists>e. err = money_error_of e \<and> rec_http_status rec = status_of e
                      \<and> rec_verify_result rec = ''error: '' @ connector_error_text e))"

lemma reason_ok [simp]: "money_require_reason reason = Inr u \<longleftrightarrow> trim reason \<noteq> []"
  by (simp add: money_require_reason_def)

lemma finish_mutation_effect:
  assumes "finish_mutation B mc action target params decision result on_ok a = (a', r)"
  shows "\<exists>rec ok err. journal B (mc_bus mc) (mc_org_domain mc) (mc_host mc) rec a = (a', ok, err)
    \<and> rec_action rec = action \<and> rec_target rec = target \<and> rec_params rec = params \<and> rec_decision rec = decision
    \<and> rec_operator rec = operator_or (be_scope B) (mc_operator mc)
    \<and> (case r of
        Inr out \<Rightarrow> rec_http_status rec = 200 \<and> rec_verify_result rec = mo_verify_result out \<and> mo_bus_recorded out = ok
      | Inl e' \<Rightarrow> (\<exists>e. e' = money_error_of e \<and> rec_http_status rec = status_of e
                      \<and> rec_verify_result rec = ''error: '' @ connector_error_text e))"
proof (cases result)
  case (Inl e)
  let ?rec = "mutation_record B mc action target params decision (status_of e) (''error: '' @ connector_error_text e)"
  obtain a1 ok err where j: "journal B (mc_bus mc) (mc_org_domain mc) (mc_host mc) ?rec a = (a1, ok, err)" by (metis prod_cases3)
  with assms Inl have "a' = a1 \<and> r = Inl (money_error_of e)" by (simp add: finish_mutation_def)
  with j show ?thesis
    by (intro exI [of _ ?rec] exI [of _ ok] exI [of _ err]) (auto simp: mutation_record_def Let_def)
next
  case (Inr v)
  obtain sm verify where words: "on_ok v = (sm, verify)" by fastforce
  let ?rec = "mutation_record B mc action target params decision 200 verify"
  obtain a1 ok err where j: "journal B (mc_bus mc) (mc_org_domain mc) (mc_host mc) ?rec a = (a1, ok, err)" by (metis prod_cases3)
  define out where "out = \<lparr>mo_summary = sm, mo_http_status = 200, mo_verify_result = verify, mo_sig_alg = ''es256'',
      mo_sig_fpr = mc_sig_fpr mc, mo_bus_recorded = ok, mo_bus_error = err\<rparr>"
  have "finish_mutation B mc action target params decision result on_ok a = (a1, Inr out)"
    by (simp add: finish_mutation_def Inr words j out_def)
  with assms have "a' = a1 \<and> r = Inr out" by simp
  moreover have "mo_verify_result out = verify" "mo_bus_recorded out = ok" by (simp_all add: out_def)
  ultimately show ?thesis using j
    by (intro exI [of _ ?rec] exI [of _ ok] exI [of _ err]) (auto simp: mutation_record_def Let_def)
qed

lemma finish_change:
  assumes "finish_mutation B mc (mutation_action m) (mutation_id m) params (if is_override m then ''break_glass'' else ''allow'')
      result on_ok a = (a', r)"
    and "is_override m \<longrightarrow> json_get params ''reason'' = Some (JString reason)"
  shows "\<exists>rec ok err. journal B (mc_bus mc) (mc_org_domain mc) (mc_host mc) rec a = (a', ok, err)
      \<and> records_answer B mc reason m r rec \<and> (\<forall>out. r = Inr out \<longrightarrow> mo_bus_recorded out = ok)"
proof -
  from finish_mutation_effect [OF assms(1)] obtain rec ok err where
    j: "journal B (mc_bus mc) (mc_org_domain mc) (mc_host mc) rec a = (a', ok, err)"
    and f: "rec_action rec = mutation_action m" "rec_target rec = mutation_id m" "rec_params rec = params"
      "rec_decision rec = (if is_override m then ''break_glass'' else ''allow'')"
      "rec_operator rec = operator_or (be_scope B) (mc_operator mc)"
    and c: "case r of
        Inr out \<Rightarrow> rec_http_status rec = 200 \<and> rec_verify_result rec = mo_verify_result out \<and> mo_bus_recorded out = ok
      | Inl e' \<Rightarrow> (\<exists>e. e' = money_error_of e \<and> rec_http_status rec = status_of e
                      \<and> rec_verify_result rec = ''error: '' @ connector_error_text e)"
    by blast
  have "records_answer B mc reason m r rec" "\<forall>out. r = Inr out \<longrightarrow> mo_bus_recorded out = ok"
    unfolding records_answer_def using f c assms(2) by (auto split: sum.splits)
  with j show ?thesis by blast
qed

lemma money_change_steps:
  assumes "money_change B L w M reason s m a = (a', r)"
  shows "if (is_override m \<longrightarrow> trim reason \<noteq> []) \<and> may_be_set M m \<and> (\<exists>mc. s = Ready mc)
    then \<exists>mc rec ok err. s = Ready mc
      \<and> journal B (mc_bus mc) (mc_org_domain mc) (mc_host mc) rec
          (a\<lparr>ac_sent := mutate (be_lib B) L w (mc_client mc) m (ac_sent a)\<rparr>) = (a', ok, err)
      \<and> records_answer B mc reason m r rec \<and> (\<forall>out. r = Inr out \<longrightarrow> mo_bus_recorded out = ok)
    else a' = a \<and> is_err r"
proof (cases "(is_override m \<longrightarrow> trim reason \<noteq> []) \<and> may_be_set M m \<and> (\<exists>mc. s = Ready mc)")
  case False
  then have "a' = a \<and> is_err r"
    using assms
    by (cases m; cases s)
      (auto simp: money_kill_run_def money_set_budget_def money_set_unit_budget_def money_ack_incident_def
        money_require_reason_def ready_client_def is_err_def split: if_splits sum.splits)
  then show ?thesis unfolding if_not_P [OF False] .
next
  case True
  then obtain mc where mc: "s = Ready mc" and ok: "is_override m \<longrightarrow> trim reason \<noteq> []" "may_be_set M m" by blast
  have get: "json_get (json_object [(''reason'', JString reason)]) ''reason'' = Some (JString reason)"
    "json_get (json_object [(''reason'', JString reason), (''budget_usd'', v)]) ''reason'' = Some (JString reason)" for v
    by (simp_all add: json_get_object)
  have "\<exists>rec ok err. journal B (mc_bus mc) (mc_org_domain mc) (mc_host mc) rec
          (a\<lparr>ac_sent := mutate (be_lib B) L w (mc_client mc) m (ac_sent a)\<rparr>) = (a', ok, err)
      \<and> records_answer B mc reason m r rec \<and> (\<forall>out. r = Inr out \<longrightarrow> mo_bus_recorded out = ok)"
  proof (cases m)
    case (KillRun i)
    with assms mc ok show ?thesis
      by (auto simp: money_kill_run_def ready_client_def money_require_reason_def get split: prod.splits
          dest!: finish_change [where m = "KillRun i" and reason = reason, simplified])
  next
    case (SetBudget i v)
    with assms mc ok show ?thesis
      by (auto simp: money_set_budget_def ready_client_def money_require_reason_def get split: prod.splits
          dest!: finish_change [where m = "SetBudget i v" and reason = reason, simplified])
  next
    case (SetUnitBudget i v)
    with assms mc ok show ?thesis
      by (auto simp: money_set_unit_budget_def ready_client_def money_require_reason_def get split: prod.splits
          dest!: finish_change [where m = "SetUnitBudget i v" and reason = reason, simplified])
  next
    case (AckIncident i)
    with assms mc ok show ?thesis
      by (auto simp: money_ack_incident_def ready_client_def get split: prod.splits
          dest!: finish_change [where m = "AckIncident i" and reason = reason, simplified])
  qed
  then show ?thesis unfolding if_P [OF True] using mc by blast
qed


text \<open>The standing of a unit says no more than was read. A unit is over its cap exactly when it has one that is not
  positive or that its known spend has reached; without a cap it is called uncapped only when the caps were
  read; with a cap and no known spend it is never called under it; and no cap can be set on the bucket of
  unassigned spend.\<close>

theorem standing_exact:
  "(fst (standing M cap caps_read spent) = OverCap \<longleftrightarrow>
      (case cap of None \<Rightarrow> False | Some c \<Rightarrow> c \<le> 0 \<or> (case spent of None \<Rightarrow> False | Some x \<Rightarrow> c \<le> x)))
   \<and> (fst (standing M cap caps_read spent) = NoCap \<longleftrightarrow> cap = None \<and> caps_read)
   \<and> (fst (standing M cap caps_read spent) \<in> {UnderCap, NearCap} \<longleftrightarrow>
      (case (cap, spent) of (Some c, Some x) \<Rightarrow> 0 < c \<and> x < c | _ \<Rightarrow> False))
   \<and> is_err (snd (money_set_unit_budget B L w M UNASSIGNED v reason s a))
   \<and> fst (money_set_unit_budget B L w M UNASSIGNED v reason s a) = a"
proof -
  have "validate_unit_cap M UNASSIGNED v \<noteq> Inr ()" by (simp add: validate_unit_cap_def)
  then show ?thesis
    by (auto simp: standing_def money_set_unit_budget_def is_err_def split: option.splits sum.splits if_splits)
qed

end
