(* ===== verification/DelegationFacts.thy ===== *)
theory DelegationFacts
  imports Delegation MoneyFacts
begin

section \<open>What a stop did\<close>

text \<open>
  A stop is reported only for what happened, every step of one is in the journal in order, and no more kills
  are signed than the bound; a revocation is reported only when vouchryx confirmed it.
\<close>

subsection \<open>The log of a stop\<close>

text \<open>The row of a step, its time left out.\<close>

definition step_row :: "stop_ctx \<Rightarrow> stop_step \<Rightarrow> journal_row" where
  "step_row C s =
     row_of_command (be_lib (dk_bus_env (cx_desk C)))
       (delegation_record (cx_desk C)
         (if sp_step s = ''verdict'' then cx_action C else cx_action C @ ''.'' @ sp_step s) (sp_target s)
         (json_object [(''reason'', JString (cx_reason C)), (''step'', JString (sp_step s))]) (sp_http_status s)
         (sp_verify_result s)) []"

text \<open>From one log to a later one: the steps added, and rows for them in order, one for each step that says it was
  journaled.\<close>

definition extends :: "stop_ctx \<Rightarrow> stop_log \<Rightarrow> stop_log \<Rightarrow> bool" where
  "extends C lg lg' \<longleftrightarrow> (\<exists>steps rows. fst lg' = fst lg @ steps
     \<and> cj_rows (ac_journal (snd lg')) = cj_rows (ac_journal (snd lg)) @ rows
     \<and> subseq (untimed rows) (map (step_row C) steps)
     \<and> subseq (map (step_row C) (filter sp_journaled steps)) (untimed rows))"

lemma extends_refl [simp]: "extends C lg lg"
  by (auto simp: extends_def untimed_def)

lemma extends_trans [trans]:
  assumes "extends C lg lg'" and "extends C lg' lg''"
  shows "extends C lg lg''"
proof -
  from assms obtain s1 r1 s2 r2 where
    "fst lg' = fst lg @ s1" "cj_rows (ac_journal (snd lg')) = cj_rows (ac_journal (snd lg)) @ r1"
    "subseq (untimed r1) (map (step_row C) s1)" "subseq (map (step_row C) (filter sp_journaled s1)) (untimed r1)"
    "fst lg'' = fst lg' @ s2" "cj_rows (ac_journal (snd lg'')) = cj_rows (ac_journal (snd lg')) @ r2"
    "subseq (untimed r2) (map (step_row C) s2)" "subseq (map (step_row C) (filter sp_journaled s2)) (untimed r2)"
    unfolding extends_def by blast
  then show ?thesis unfolding extends_def
    by (intro exI [of _ "s1 @ s2"] exI [of _ "r1 @ r2"]) (simp add: untimed_def list_emb_append_mono)
qed

lemma extends_set_sent [simp]: "extends C lg (set_sent sent lg') = extends C lg lg'"
  by (simp add: extends_def set_sent_def)

definition is_step :: "string \<Rightarrow> string \<Rightarrow> bool \<Rightarrow> nat \<Rightarrow> string \<Rightarrow> stop_step \<Rightarrow> bool" where
  "is_step step target ok http verify s \<longleftrightarrow> sp_step s = step \<and> sp_target s = target \<and> sp_ok s = ok
     \<and> sp_http_status s = http \<and> sp_verify_result s = verify"

lemma record_step_effect:
  "\<exists>s. fst (record_step C step target ok http verify lg) = fst lg @ [s] \<and> is_step step target ok http verify s"
  "ac_sent (snd (record_step C step target ok http verify lg)) = ac_sent (snd lg)"
  "extends C lg (record_step C step target ok http verify lg)"
proof -
  let ?rec = "delegation_record (cx_desk C) (if step = ''verdict'' then cx_action C else cx_action C @ ''.'' @ step) target
      (json_object [(''reason'', JString (cx_reason C)), (''step'', JString step)]) http verify"
  let ?D = "cx_desk C"
  obtain a' j je where jr: "desk_journal ?D ?rec (snd lg) = (a', j, je)" by (metis prod_cases3)
  let ?s = "\<lparr>sp_step = step, sp_target = target, sp_ok = ok, sp_http_status = http, sp_verify_result = verify,
      sp_journaled = j, sp_journal_error = je\<rparr>"
  have eff: "record_step C step target ok http verify lg = (fst lg @ [?s], a')"
    using jr by (simp add: record_step_def Let_def)
  note facts = journal_effect [OF jr [unfolded desk_journal_def]]
  show "\<exists>s. fst (record_step C step target ok http verify lg) = fst lg @ [s] \<and> is_step step target ok http verify s"
    by (simp add: eff is_step_def)
  show "ac_sent (snd (record_step C step target ok http verify lg)) = ac_sent (snd lg)"
    using facts(1) by (simp add: eff)
  have row: "step_row C ?s = row_of_command (be_lib (dk_bus_env ?D)) ?rec []"
    by (simp only: step_row_def stop_step.simps)
  from facts(2) obtain rows where rows: "cj_rows (ac_journal a') = cj_rows (ac_journal (snd lg)) @ rows"
      "subseq (untimed rows) [step_row C ?s]" "j \<longrightarrow> rows \<noteq> []"
    unfolding row by blast
  have "subseq (if j then [step_row C ?s] else []) (untimed rows)"
    using rows(2,3) by (cases rows) (auto simp: untimed_def split: if_splits)
  then show "extends C lg (record_step C step target ok http verify lg)"
    unfolding extends_def eff using rows
    by (intro exI [of _ "[?s]"] exI [of _ rows]) (cases j; simp)
qed

lemma record_step_extends [simp]: "extends C lg (record_step C step target ok http verify (set_sent sent lg))"
proof -
  have "extends C (set_sent sent lg) (record_step C step target ok http verify (set_sent sent lg))"
    by (rule record_step_effect(3))
  then show ?thesis by (simp add: extends_def set_sent_def)
qed

lemma record_ceremony_step:
  "record_ceremony C subject lg = (lg', ws) \<Longrightarrow> \<exists>verify. lg' = record_step C ''ceremony'' subject True 0 verify lg"
  by (auto simp: record_ceremony_def split: if_splits)

subsection \<open>The kills\<close>

text \<open>The requests that killed the runs: each is signed, names its run and was answered with that run.\<close>

fun kills_confirmed :: "ingest_lib \<Rightarrow> cloud_lib \<Rightarrow> cloud_world \<Rightarrow> cloud_client \<Rightarrow> request list \<Rightarrow> run_agg list \<Rightarrow> request list \<Rightarrow> bool" where
  "kills_confirmed X L w c sent [] kills = (kills = [])"
| "kills_confirmed X L w c sent (r # rs) [] = False"
| "kills_confirmed X L w c sent (r # rs) (rq # kills) =
     (rq_url rq = cc_base_url c @ mutation_path (KillRun (ra_run_id r))
      \<and> (case cc_device c of None \<Rightarrow> False | Some d \<Rightarrow> signed_for X L d (mutation_path (KillRun (ra_run_id r))) [] rq)
      \<and> parse_response L (cl_kill L) (cw_send w sent rq) = Inr (ra_run_id r)
      \<and> kills_confirmed X L w c (sent @ [rq]) rs kills)"

lemma kill_confirmed:
  assumes "kill_run X L w c i sent = (sent', Inr i)"
  shows "\<exists>rq d. sent' = sent @ [rq] \<and> rq_url rq = cc_base_url c @ mutation_path (KillRun i) \<and> cc_device c = Some d
    \<and> signed_for X L d (mutation_path (KillRun i)) [] rq \<and> parse_response L (cl_kill L) (cw_send w sent rq) = Inr i"
proof -
  from assms obtain seg d m where seg: "path_segment i = Inr seg" and d: "cc_device c = Some d"
    and m: "sign_mutation X L w sent (pd_signer d) ''POST'' (''/v1/runs/'' @ seg @ ''/kill'') [] = Inr m"
    and res: "sent' = sent @ [signed_request c d (''/v1/runs/'' @ seg @ ''/kill'') [] m]"
      "parse_response L (cl_kill L) (cw_send w sent (signed_request c d (''/v1/runs/'' @ seg @ ''/kill'') [] m)) = Inr i"
    by (auto simp: kill_run_def signed_post_def send_def split: sum.splits option.splits)
  have path: "''/v1/runs/'' @ seg @ ''/kill'' = mutation_path (KillRun i)" using path_segment_ok [OF seg] by simp
  from sign_mutationD [OF m] have "signed_for X L d (mutation_path (KillRun i)) [] (signed_request c d (mutation_path (KillRun i)) [] m)"
    unfolding path by (auto simp: signed_for_def signed_request_def)
  then show ?thesis using d res unfolding path by (auto simp: signed_request_def)
qed

lemma kill_runs_effect:
  assumes "kill_runs C L w c rs lg k f = (lg', k', f')"
  shows "extends C lg lg'"
    and "\<exists>steps. fst lg' = fst lg @ steps \<and> map (\<lambda>s. (sp_step s, sp_target s)) steps = map (\<lambda>r. (''kill_run'', ra_run_id r)) rs"
    and "k' + f' = k + f + length rs \<and> k \<le> k'"
    and "f' = f \<Longrightarrow> \<exists>kills. ac_sent (snd lg') = ac_sent (snd lg) @ kills
      \<and> kills_confirmed (be_lib (dk_bus_env (cx_desk C))) L w c (ac_sent (snd lg)) rs kills"
    and "f \<le> f'"
proof -
  have "extends C lg lg'
      \<and> (\<exists>steps. fst lg' = fst lg @ steps \<and> map (\<lambda>s. (sp_step s, sp_target s)) steps = map (\<lambda>r. (''kill_run'', ra_run_id r)) rs)
      \<and> (k' + f' = k + f + length rs \<and> k \<le> k') \<and> f \<le> f'
      \<and> (f' = f \<longrightarrow> (\<exists>kills. ac_sent (snd lg') = ac_sent (snd lg) @ kills
           \<and> kills_confirmed (be_lib (dk_bus_env (cx_desk C))) L w c (ac_sent (snd lg)) rs kills))"
    using assms
  proof (induction rs arbitrary: lg k f)
    case (Cons r rs)
    let ?X = "be_lib (dk_bus_env (cx_desk C))"
    obtain sent result where kr: "kill_run ?X L w c (ra_run_id r) (ac_sent (snd lg)) = (sent, result)" by fastforce
    obtain ok http verify where ks: "kill_step ?X (ra_run_id r) result = (ok, http, verify)" by (metis prod_cases3)
    define lg1 where "lg1 = record_step C ''kill_run'' (ra_run_id r) ok http verify (set_sent sent lg)"
    from Cons.prems have "kill_runs C L w c rs lg1 (if ok then Suc k else k) (if ok then f else Suc f) = (lg', k', f')"
      by (simp add: kr ks lg1_def)
    note IH = Cons.IH [OF this]
    obtain s where s: "fst lg1 = fst lg @ [s]" "is_step ''kill_run'' (ra_run_id r) ok http verify s"
      using record_step_effect(1) [of C "''kill_run''" "ra_run_id r" ok http verify "set_sent sent lg"]
      by (auto simp: lg1_def set_sent_def)
    have sent1: "ac_sent (snd lg1) = sent" by (simp add: lg1_def record_step_effect(2) set_sent_def)
    have e1: "extends C lg lg1" by (simp add: lg1_def)
    have e: "extends C lg lg'" using extends_trans [OF e1] IH by blast
    have steps: "\<exists>steps. fst lg' = fst lg @ steps
        \<and> map (\<lambda>s. (sp_step s, sp_target s)) steps = map (\<lambda>r. (''kill_run'', ra_run_id r)) (r # rs)"
    proof -
      from IH obtain steps where "fst lg' = fst lg1 @ steps"
          "map (\<lambda>s. (sp_step s, sp_target s)) steps = map (\<lambda>r. (''kill_run'', ra_run_id r)) rs" by blast
      with s show ?thesis by (intro exI [of _ "s # steps"]) (simp add: is_step_def)
    qed
    have confirmed: "\<exists>kills. ac_sent (snd lg') = ac_sent (snd lg) @ kills
        \<and> kills_confirmed ?X L w c (ac_sent (snd lg)) (r # rs) kills" if "f' = f"
    proof -
      have ok: "ok" using IH that by (cases ok) auto
      then have "result = Inr (ra_run_id r)"
        using ks by (auto simp: kill_step_def split: sum.splits if_splits)
      from kill_confirmed [OF kr [unfolded this]] obtain rq d where rq: "sent = ac_sent (snd lg) @ [rq]"
          "rq_url rq = cc_base_url c @ mutation_path (KillRun (ra_run_id r))" "cc_device c = Some d"
          "signed_for ?X L d (mutation_path (KillRun (ra_run_id r))) [] rq"
          "parse_response L (cl_kill L) (cw_send w (ac_sent (snd lg)) rq) = Inr (ra_run_id r)"
        by blast
      from IH ok that obtain kills where "ac_sent (snd lg') = sent @ kills" "kills_confirmed ?X L w c sent rs kills"
        by (auto simp: sent1)
      with rq show ?thesis by (intro exI [of _ "rq # kills"]) simp
    qed
    from e steps confirmed IH show ?case by (cases ok) auto
  qed simp
  then show "extends C lg lg'"
    "\<exists>steps. fst lg' = fst lg @ steps \<and> map (\<lambda>s. (sp_step s, sp_target s)) steps = map (\<lambda>r. (''kill_run'', ra_run_id r)) rs"
    "k' + f' = k + f + length rs \<and> k \<le> k'"
    "f' = f \<Longrightarrow> \<exists>kills. ac_sent (snd lg') = ac_sent (snd lg) @ kills
      \<and> kills_confirmed (be_lib (dk_bus_env (cx_desk C))) L w c (ac_sent (snd lg)) rs kills"
    "f \<le> f'" by simp_all
qed

lemma cloud_runs_sends:
  "cloud_runs L w c sent = (sent', r) \<Longrightarrow> sent' = sent @ [get_request c ''/v1/runs'']
     \<and> r = parse_response L (cl_runs L) (cw_send w sent (get_request c ''/v1/runs''))"
  by (auto simp: cloud_runs_def get_json_def send_def)

lemma stop_runs_effect:
  assumes "stop_runs C L w money subject lg = (lg', open_runs, killed, failed, over)"
  shows "extends C lg lg'"
    and "\<exists>steps. fst lg' = fst lg @ steps \<and> (\<exists>n \<le> MAX_RUNS_PER_STOP. map sp_step steps = ''list_runs'' # replicate n ''kill_run'')"
    and "open_runs = Some killed \<Longrightarrow> \<exists>mc runs kills. money = Ready mc
      \<and> ac_sent (snd lg') = ac_sent (snd lg) @ get_request (mc_client mc) ''/v1/runs'' # kills
      \<and> parse_response L (cl_runs L) (cw_send w (ac_sent (snd lg)) (get_request (mc_client mc) ''/v1/runs'')) = Inr runs
      \<and> kills_confirmed (be_lib (dk_bus_env (cx_desk C))) L w (mc_client mc)
          (ac_sent (snd lg) @ [get_request (mc_client mc) ''/v1/runs'']) (open_runs_of subject runs) kills
      \<and> length (open_runs_of subject runs) = killed \<and> killed \<le> MAX_RUNS_PER_STOP"
    and "(open_runs = None \<longrightarrow> killed = 0) \<and> (\<forall>n. open_runs = Some n \<longrightarrow> killed \<le> n \<and> (n \<noteq> killed \<longrightarrow> 0 < failed \<or> 0 < over))"
proof -
  let ?X = "be_lib (dk_bus_env (cx_desk C))"
  let ?req = "\<lambda>mc. get_request (mc_client mc) ''/v1/runs''"
  have "extends C lg lg'
    \<and> (\<exists>steps. fst lg' = fst lg @ steps \<and> (\<exists>n \<le> MAX_RUNS_PER_STOP. map sp_step steps = ''list_runs'' # replicate n ''kill_run''))
    \<and> (open_runs = Some killed \<longrightarrow> (\<exists>mc runs kills. money = Ready mc
      \<and> ac_sent (snd lg') = ac_sent (snd lg) @ ?req mc # kills
      \<and> parse_response L (cl_runs L) (cw_send w (ac_sent (snd lg)) (?req mc)) = Inr runs
      \<and> kills_confirmed ?X L w (mc_client mc) (ac_sent (snd lg) @ [?req mc]) (open_runs_of subject runs) kills
      \<and> length (open_runs_of subject runs) = killed \<and> killed \<le> MAX_RUNS_PER_STOP))
    \<and> (open_runs = None \<longrightarrow> killed = 0)
    \<and> (\<forall>n. open_runs = Some n \<longrightarrow> killed \<le> n \<and> (n \<noteq> killed \<longrightarrow> 0 < failed \<or> 0 < over))"
  proof (cases "\<exists>c sent runs. stop_cloud_client money = Inr c \<and> cloud_runs L w c (ac_sent (snd lg)) = (sent, Inr runs)")
    case False
    have "\<exists>ok http verify sent. lg' = record_step C ''list_runs'' subject ok http verify (set_sent sent lg)
        \<and> open_runs = None \<and> killed = 0"
    proof (cases "stop_cloud_client money")
      case (Inl why)
      with assms have "lg' = record_step C ''list_runs'' subject False 0 (''error: '' @ why) (set_sent (ac_sent (snd lg)) lg)
          \<and> open_runs = None \<and> killed = 0"
        by (auto simp: stop_runs_def set_sent_def)
      then show ?thesis by blast
    next
      case (Inr c)
      obtain sent r where "cloud_runs L w c (ac_sent (snd lg)) = (sent, r)" by fastforce
      with False Inr obtain e where "cloud_runs L w c (ac_sent (snd lg)) = (sent, Inl e)" by (cases r) auto
      with assms Inr show ?thesis by (auto simp: stop_runs_def)
    qed
    then obtain ok http verify sent where no: "open_runs = None" "killed = 0"
        and lg': "lg' = record_step C ''list_runs'' subject ok http verify (set_sent sent lg)" by blast
    obtain s where "fst lg' = fst lg @ [s]" "sp_step s = ''list_runs''"
      using record_step_effect(1) [of C "''list_runs''" subject ok http verify "set_sent sent lg"]
      by (auto simp: lg' is_step_def set_sent_def)
    then have "\<exists>steps. fst lg' = fst lg @ steps \<and> (\<exists>n \<le> MAX_RUNS_PER_STOP. map sp_step steps = ''list_runs'' # replicate n ''kill_run'')"
      by (intro exI [of _ "[s]"]) (auto intro: exI [of _ "0 :: nat"])
    moreover have "extends C lg lg'" by (simp add: lg')
    ultimately show ?thesis by (simp add: no)
  next
    case True
    then obtain c sent runs where c: "stop_cloud_client money = Inr c" "cloud_runs L w c (ac_sent (snd lg)) = (sent, Inr runs)"
      by blast
    from c(1) obtain mc where mc: "money = Ready mc" "c = mc_client mc"
      by (auto simp: stop_cloud_client_def split: money_state.splits)
    define os where "os = open_runs_of subject runs"
    define lg1 where "lg1 = record_step C ''list_runs'' subject True 200 (''listed:'' @ dec (length os) @ '' open'') (set_sent sent lg)"
    from assms c have kr: "kill_runs C L w c (take MAX_RUNS_PER_STOP os) lg1 0 0 = (lg', killed, failed)"
      and counts: "open_runs = Some (length os)" "over = length os - MAX_RUNS_PER_STOP"
      by (auto simp: stop_runs_def os_def lg1_def Let_def split: prod.splits)
    note kill = kill_runs_effect [OF kr]
    have sent: "sent = ac_sent (snd lg) @ [?req mc]"
        "parse_response L (cl_runs L) (cw_send w (ac_sent (snd lg)) (?req mc)) = Inr runs"
      using cloud_runs_sends [OF c(2)] mc(2) by auto
    have lg1: "ac_sent (snd lg1) = sent" "extends C lg lg1"
      by (simp_all add: lg1_def record_step_effect(2)) (simp add: set_sent_def)
    obtain s where s: "fst lg1 = fst lg @ [s]" "sp_step s = ''list_runs''"
      using record_step_effect(1) [of C "''list_runs''" subject True 200 "''listed:'' @ dec (length os) @ '' open''" "set_sent sent lg"]
      by (auto simp: lg1_def is_step_def set_sent_def)
    from kill(2) obtain steps where steps: "fst lg' = fst lg1 @ steps"
        "map (\<lambda>s. (sp_step s, sp_target s)) steps = map (\<lambda>r. (''kill_run'', ra_run_id r)) (take MAX_RUNS_PER_STOP os)" by blast
    from arg_cong [OF steps(2), of "map fst"] have "map sp_step steps = replicate (length (take MAX_RUNS_PER_STOP os)) ''kill_run''"
      by (simp add: comp_def map_replicate_const)
    with s steps(1) have shape: "\<exists>steps. fst lg' = fst lg @ steps
        \<and> (\<exists>n \<le> MAX_RUNS_PER_STOP. map sp_step steps = ''list_runs'' # replicate n ''kill_run'')"
      by (intro exI [of _ "s # steps"]) auto
    have confirmed: "\<exists>mc runs kills. money = Ready mc \<and> ac_sent (snd lg') = ac_sent (snd lg) @ ?req mc # kills
        \<and> parse_response L (cl_runs L) (cw_send w (ac_sent (snd lg)) (?req mc)) = Inr runs
        \<and> kills_confirmed ?X L w (mc_client mc) (ac_sent (snd lg) @ [?req mc]) (open_runs_of subject runs) kills
        \<and> length (open_runs_of subject runs) = killed \<and> killed \<le> MAX_RUNS_PER_STOP" if all: "open_runs = Some killed"
    proof -
      have "failed = 0" "length os \<le> MAX_RUNS_PER_STOP" "length os = killed" using kill(3) counts all by auto
      with kill(4) obtain kills where "ac_sent (snd lg') = sent @ kills" "kills_confirmed ?X L w c sent os kills"
        by (auto simp: lg1)
      with sent mc \<open>length os \<le> _\<close> \<open>length os = killed\<close> show ?thesis
        by (intro exI [of _ mc] exI [of _ runs] exI [of _ kills]) (simp add: os_def)
    qed
    from extends_trans [OF lg1(2) kill(1)] shape confirmed kill(3) counts show ?thesis by auto
  qed
  then show "extends C lg lg'"
    "\<exists>steps. fst lg' = fst lg @ steps \<and> (\<exists>n \<le> MAX_RUNS_PER_STOP. map sp_step steps = ''list_runs'' # replicate n ''kill_run'')"
    "open_runs = Some killed \<Longrightarrow> \<exists>mc runs kills. money = Ready mc
      \<and> ac_sent (snd lg') = ac_sent (snd lg) @ ?req mc # kills
      \<and> parse_response L (cl_runs L) (cw_send w (ac_sent (snd lg)) (?req mc)) = Inr runs
      \<and> kills_confirmed ?X L w (mc_client mc) (ac_sent (snd lg) @ [?req mc]) (open_runs_of subject runs) kills
      \<and> length (open_runs_of subject runs) = killed \<and> killed \<le> MAX_RUNS_PER_STOP"
    "(open_runs = None \<longrightarrow> killed = 0) \<and> (\<forall>n. open_runs = Some n \<longrightarrow> killed \<le> n \<and> (n \<noteq> killed \<longrightarrow> 0 < failed \<or> 0 < over))"
    by simp_all
qed

definition outcome_of :: "stop_error + stop_outcome \<Rightarrow> stop_outcome option" where
  "outcome_of r = (case r of Inr out \<Rightarrow> Some out | Inl (NotStopped out) \<Rightarrow> Some out | _ \<Rightarrow> None)"

text \<open>The parts of one stop.\<close>

lemma agent_stop_parts:
  assumes "agent_stop D V L w config money subject0 reason0 a = (a', r)" and "outcome_of r = Some out"
  shows "\<exists>reason C verify sent ban lg1 lg2 lg3 open_runs killed failed over stopped verdict.
     validate_stop subject0 reason0 = Inr (subject0, reason)
   \<and> C = \<lparr>cx_desk = D, cx_action = ''console.stop_agent'', cx_reason = reason\<rparr>
   \<and> lg1 = record_step C ''ceremony'' subject0 True 0 verify ([], a)
   \<and> ban_at_vouchryx (be_lib (dk_bus_env D)) V config subject0 (desk_actor D) reason (ac_sent a) = (sent, ban)
   \<and> lg2 = record_step C ''ban'' subject0 (an_ok ban) (an_http_status ban) (an_verify ban) (set_sent sent lg1)
   \<and> stop_runs C L w money subject0 lg2 = (lg3, open_runs, killed, failed, over)
   \<and> stop_verdict ban open_runs killed failed over = (stopped, verdict)
   \<and> (so_steps out, a') = record_step C ''verdict'' subject0 stopped 0 verdict lg3
   \<and> so_subject out = subject0 \<and> so_stopped out = stopped \<and> so_ban_durable out = an_durable ban
   \<and> so_open_runs out = open_runs \<and> so_runs_killed out = killed \<and> (stopped \<longleftrightarrow> (\<exists>x. r = Inr x))"
proof -
  from assms(2) obtain reason where v: "validate_stop subject0 reason0 = Inr (subject0, reason)"
    using assms(1) by (auto simp: agent_stop_def validate_stop_def outcome_of_def split: sum.splits if_splits)
  define C where "C = \<lparr>cx_desk = D, cx_action = ''console.stop_agent'', cx_reason = reason\<rparr>"
  obtain lg1 warnings where c: "record_ceremony C subject0 ([], a) = (lg1, warnings)" by fastforce
  obtain verify where lg1: "lg1 = record_step C ''ceremony'' subject0 True 0 verify ([], a)"
    using record_ceremony_step [OF c] by blast
  have sent1: "ac_sent (snd lg1) = ac_sent a" unfolding lg1 by (simp add: record_step_effect(2))
  obtain sent ban where b: "ban_at_vouchryx (be_lib (dk_bus_env D)) V config subject0 (desk_actor D) reason (ac_sent a) = (sent, ban)"
    by fastforce
  define lg2 where "lg2 = record_step C ''ban'' subject0 (an_ok ban) (an_http_status ban) (an_verify ban) (set_sent sent lg1)"
  obtain lg3 open_runs killed failed over where sr: "stop_runs C L w money subject0 lg2 = (lg3, open_runs, killed, failed, over)"
    by (metis prod_cases5)
  obtain stopped verdict where sv: "stop_verdict ban open_runs killed failed over = (stopped, verdict)" by fastforce
  have "(so_steps out, a') = record_step C ''verdict'' subject0 stopped 0 verdict lg3
      \<and> so_subject out = subject0 \<and> so_stopped out = stopped \<and> so_ban_durable out = an_durable ban
      \<and> so_open_runs out = open_runs \<and> so_runs_killed out = killed \<and> (stopped \<longleftrightarrow> (\<exists>x. r = Inr x))"
    using assms v c b sr sv
    by (auto simp: agent_stop_def outcome_of_def sent1 C_def [symmetric] lg2_def Let_def split: if_splits)
  with v c lg1 b lg2_def sr sv C_def show ?thesis by blast
qed

subsection \<open>What vouchryx said\<close>

text \<open>A request it answered with a body, of which the console read all.\<close>

definition vx_answered :: "ingest_lib \<Rightarrow> vouchryx \<Rightarrow> request list \<Rightarrow> request \<Rightarrow> nat \<Rightarrow> json \<Rightarrow> bool" where
  "vx_answered X V sent rq status answer \<longleftrightarrow> (\<exists>chunks bytes.
     vx_post V sent rq = Answer status chunks \<and> read_capped_body [] chunks = Inr bytes \<and> answer = parsed_or_text X bytes)"

lemma post_cappedD:
  assumes "post_capped X V url key body sent = (sent', Inr (status, answer))"
  shows "\<exists>rq. sent' = sent @ [rq] \<and> rq_url rq = url \<and> rq_bearer rq = Some key \<and> rq_body rq = json_text X body
    \<and> vx_answered X V sent rq status answer"
  using assms
  by (auto simp: post_capped_def Let_def vx_answered_def split: option.splits chunked.splits sum.splits)

lemma ask_confirmed:
  assumes "ask_vouchryx X V config route body confirmed sent = (sent', ans)" and "an_ok ans"
  shows "\<exists>url key rq answer. config = Configured url key \<and> sent' = sent @ [rq] \<and> rq_url rq = url @ route
    \<and> rq_bearer rq = Some key \<and> rq_body rq = json_text X body \<and> vx_answered X V sent rq 200 answer
    \<and> ans = confirmed answer"
proof (cases config)
  case NotConfigured
  with assms show ?thesis by (auto simp: ask_vouchryx_def not_configured_answer_def)
next
  case (Configured url key)
  obtain sent1 r where p: "post_capped X V (url @ route) key body sent = (sent1, r)" by fastforce
  with assms Configured obtain answer where r: "r = Inr (200, answer)" "sent' = sent1" "ans = confirmed answer"
    by (auto simp: ask_vouchryx_def unreachable_answer_def refused_answer_def split: sum.splits if_splits)
  from post_cappedD [OF p [unfolded r(1)]] r Configured show ?thesis by blast
qed

lemma read_capped_body_exact:
  "read_capped_body buf cs = Inr b \<Longrightarrow> length buf \<le> MAX_RESPONSE_BYTES \<Longrightarrow>
     length b \<le> MAX_RESPONSE_BYTES \<and> (\<exists>parts. cs = map Inr parts \<and> b = buf @ concat parts)"
proof (induction buf cs rule: read_capped_body.induct)
  case (1 buf)
  then show ?case by (auto intro: exI [of _ "[]"])
next
  case (3 buf chunk cs)
  then obtain parts where "length b \<le> MAX_RESPONSE_BYTES" "cs = map Inr parts" "b = (buf @ chunk) @ concat parts"
    by (auto split: if_splits)
  then show ?case by (intro conjI exI [of _ "chunk # parts"]) simp_all
qed simp

subsection \<open>The properties\<close>



lemma trim_not_blank: "checked_reason reason = Inr t \<Longrightarrow> t = trim reason \<and> trim reason \<noteq> [] \<and> length (chars t) \<le> MAX_REASON_LEN"
  by (auto simp: checked_reason_def Let_def split: if_splits)

lemma call_vouchryx_ok:
  "call_vouchryx X V url key body sent = (sent', Inr answer) \<longleftrightarrow>
     (\<exists>rq. post_capped X V (url @ ''/v1/revoke'') key body sent = (sent', Inr (200, answer)) \<and> sent' = sent @ [rq]
        \<and> vx_answered X V sent rq 200 answer) \<and> says ''revoked'' answer"
proof -
  obtain sent1 r where p: "post_capped X V (url @ ''/v1/revoke'') key body sent = (sent1, r)" by fastforce
  show ?thesis
  proof (cases r)
    case (Inr sa)
    obtain status ans where sa: "sa = (status, ans)" by fastforce
    from post_cappedD [OF p [unfolded Inr sa]] p Inr sa show ?thesis
      by (auto simp: call_vouchryx_def split: if_splits)
  qed (use p in \<open>auto simp: call_vouchryx_def\<close>)
qed

text \<open>A revocation is reported as it was answered, and is on the record. Arguments that do not name one target with a
  reason, and a console without vouchryx, send nothing and record nothing. Otherwise success is answered exactly
  when vouchryx answered the one request with 200 and a body saying revoked; whatever it answered, one row is
  added when the store takes it, under break glass, with the words for that answer.\<close>

theorem revocation_reported_as_answered:
  assumes "delegation_revoke D V config subject jti reason a = (a', r)"
    and "dk_bus D \<noteq> None" and "be_store_error (dk_bus_env D) (ac_attempts a) = None"
    and "jw_row_error (be_world (dk_bus_env D) (ac_attempts a)) = None"
  shows "case (validate_args subject jti reason, config) of
      (Inl e, _) \<Rightarrow> a' = a \<and> r = Inl e
    | (Inr _, NotConfigured) \<Rightarrow> a' = a \<and> r = Inl NotConfiguredError
    | (Inr (target, trimmed), Configured url key) \<Rightarrow>
        \<exists>sent outcome. call_vouchryx (be_lib (dk_bus_env D)) V url key (revoke_request target (desk_actor D) trimmed) (ac_sent a) = (sent, outcome)
        \<and> ac_sent a' = sent
        \<and> ((\<exists>out. r = Inr out) \<longleftrightarrow> (\<exists>rq answer. sent = ac_sent a @ [rq]
              \<and> vx_answered (be_lib (dk_bus_env D)) V (ac_sent a) rq 200 answer \<and> says ''revoked'' answer \<and> outcome = Inr answer))
        \<and> (\<exists>rec. cj_rows (ac_journal a') = cj_rows (ac_journal a)
                @ [row_of_command (be_lib (dk_bus_env D)) rec (jw_ts (be_world (dk_bus_env D) (ac_attempts a)))]
            \<and> rec_decision rec = ''break_glass'' \<and> rec_operator rec = desk_actor D
            \<and> rec_target rec = (case target of Jti j \<Rightarrow> ''jti:'' @ j | Subject s \<Rightarrow> s)
            \<and> rec_params rec = json_object [(''reason'', JString (trim reason))]
            \<and> (case revoke_verdict outcome of (status, words, _) \<Rightarrow> rec_http_status rec = status \<and> rec_verify_result rec = words))"
proof (cases "validate_args subject jti reason")
  case (Inl e)
  with assms(1) show ?thesis by (simp add: delegation_revoke_def)
next
  case ok: (Inr tt)
  obtain target trimmed where tt: "tt = (target, trimmed)" by fastforce
  from ok have reason: "trimmed = trim reason" "trim reason \<noteq> []"
    by (auto simp: validate_args_def tt dest: trim_not_blank split: sum.splits option.splits if_splits)
  show ?thesis
  proof (cases config)
    case NotConfigured
    with assms(1) ok tt show ?thesis by (simp add: delegation_revoke_def)
  next
    case (Configured url key)
    let ?X = "be_lib (dk_bus_env D)"
    let ?body = "revoke_request target (desk_actor D) trimmed"
    obtain sent outcome where call: "call_vouchryx ?X V url key ?body (ac_sent a) = (sent, outcome)" by fastforce
    obtain http words resp err where v: "revoke_verdict outcome = (http, words, resp, err)" by (metis prod_cases4)
    define rec where "rec = delegation_record D ''console.revoke_delegation''
        (case target of Jti j \<Rightarrow> ''jti:'' @ j | Subject s \<Rightarrow> s) (json_object [(''reason'', JString trimmed)]) http words"
    obtain a1 j je where jr: "desk_journal D rec (a\<lparr>ac_sent := sent\<rparr>) = (a1, j, je)" by (metis prod_cases3)
    define out where "out = \<lparr>ro_http_status = http, ro_verify_result = words, ro_response = resp, ro_bus_recorded = j, ro_bus_error = je\<rparr>"
    have res: "delegation_revoke D V config subject jti reason a = (a1, case err of Some e \<Rightarrow> Inl e | None \<Rightarrow> Inr out)"
      by (simp add: delegation_revoke_def ok tt Configured call v rec_def [symmetric] jr out_def split: option.split)
    have "require_break_glass_reason rec = Inr ()"
      unfolding reason_given by (simp add: rec_def delegation_record_def json_get_object reason)
    then have rows: "cj_rows (ac_journal a1) = cj_rows (ac_journal a)
        @ [row_of_command ?X rec (jw_ts (be_world (dk_bus_env D) (ac_attempts a)))]"
      using journal_row [OF jr [unfolded desk_journal_def]] assms(2-4) by simp
    have sent: "ac_sent a1 = sent" using journal_effect(1) [OF jr [unfolded desk_journal_def]] by simp
    have "err = None \<longleftrightarrow> (\<exists>answer. outcome = Inr answer)"
      using v by (cases outcome; cases "projl outcome") (auto simp: revoke_verdict_def split: if_splits)
    moreover have "(\<exists>answer. outcome = Inr answer) \<longleftrightarrow> (\<exists>rq answer. sent = ac_sent a @ [rq]
        \<and> vx_answered ?X V (ac_sent a) rq 200 answer \<and> says ''revoked'' answer \<and> outcome = Inr answer)"
      using call call_vouchryx_ok [of ?X V url key ?body "ac_sent a" sent] by (cases outcome) auto
    ultimately have "(\<exists>out'. r = Inr out') \<longleftrightarrow> (\<exists>rq answer. sent = ac_sent a @ [rq]
        \<and> vx_answered ?X V (ac_sent a) rq 200 answer \<and> says ''revoked'' answer \<and> outcome = Inr answer)"
      using assms(1) res by (auto split: option.splits)
    then show ?thesis
      using rows sent assms(1) res reason call v
      by (simp add: ok tt Configured) (rule exI [of _ rec], simp add: rec_def delegation_record_def)
  qed
qed

lemma trim_end_slashes_suffix [simp]: "\<not> suffix ''/'' (trim_end_slashes s)"
proof
  assume "suffix ''/'' (trim_end_slashes s)"
  then obtain t where "trim_end_slashes s = t @ ''/''" by (auto simp: suffix_def)
  then have drop: "dropWhile (\<lambda>c. c = CHR ''/'') (rev s) = CHR ''/'' # rev t"
    by (simp add: trim_end_slashes_def rev_swap)
  then have "hd (dropWhile (\<lambda>c. c = CHR ''/'') (rev s)) \<noteq> CHR ''/''"
    using hd_dropWhile [of "\<lambda>c. c = CHR ''/''" "rev s"] by simp
  with drop show False by simp
qed

text \<open>Half a configuration never starts. Vouchryx is called only when both variables are set and not blank, at an
  HTTP address without a trailing slash and with a key that is not blank; with neither it is not
  configured, and with one of them the console does not start.\<close>

theorem revocation_configured_whole:
  "case resolve_from read url key_file of
     Inr NotConfigured \<Rightarrow> non_blank url = None \<and> non_blank key_file = None
   | Inr (Configured u key) \<Rightarrow> (\<exists>u0 path content. url = Some u0 \<and> key_file = Some path \<and> read path = Inr content
       \<and> (prefix ''http://'' (trim u0) \<or> prefix ''https://'' (trim u0)) \<and> u = trim_end_slashes (trim u0)
       \<and> \<not> suffix ''/'' u \<and> key = trim content \<and> key \<noteq> [])
   | Inl _ \<Rightarrow> (non_blank url, non_blank key_file) \<noteq> (None, None)"
proof (cases "non_blank url"; cases "non_blank key_file")
  fix u path
  assume "non_blank url = Some u" and "non_blank key_file = Some path"
  then show ?thesis
    by (cases "validate_url u"; cases "read path")
      (auto simp: resolve_from_def non_blank_def validate_url_def read_key_file_def Let_def split: option.splits if_splits)
qed (simp_all add: resolve_from_def)

end
