(* ===== verification/RetainedFacts.thy ===== *)
theory RetainedFacts
  imports Retained DelegationFacts
begin

section \<open>What closing a reservation leaves behind\<close>

text \<open>
  The bytes a token signs name one reservation, revision and time; a closure is attempted at the gateway only with
  evidence that fits, and each attempt has its row whatever became of it.
\<close>

subsection \<open>The token\<close>

lemma idec_inj: "idec i = idec j \<longleftrightarrow> i = j"
proof -
  have "hd (dec n) \<noteq> CHR ''-''" for n
    using dec_digits [of n] by (cases "dec n") (auto simp: ascii_digit_def)
  then have "CHR ''-'' # dec m \<noteq> dec n" for m n by (metis list.sel(1))
  then show ?thesis by (auto simp: idec_def dec_inj split: if_splits) metis+
qed

lemma closure_message_inj:
  assumes "list_all revision_digit v" and "list_all revision_digit v'"
    and "closure_message i v e = closure_message i' v' e'"
  shows "i = i' \<and> v = v' \<and> e = e'"
proof -
  have lines: "one_line v" "one_line v'"
    using assms(1,2) by (auto simp: one_line_def list_all_iff revision_digit_def ascii_digit_def LF_def)
  from assms(3) have "dec i @ LF # v @ LF # idec e = dec i' @ LF # v' @ LF # idec e'"
    by (simp add: closure_message_def)
  from lines_cut [OF dec_one_line dec_one_line this] have "i = i'" "v @ LF # idec e = v' @ LF # idec e'"
    by (auto simp: dec_inj)
  moreover from this(2) have "v = v' \<and> idec e = idec e'" by (rule lines_cut [OF lines])
  ultimately show ?thesis by (simp add: idec_inj)
qed

lemma expiry_bound:
  assumes "0 \<le> now" and "now < 2 ^ 62"
  shows "now < expiry_for now \<and> expiry_for now - now \<le> MAX_TOKEN_TTL_MILLIS"
  using assms by (simp add: expiry_for_def saturating_add_def TOKEN_TTL_MILLIS_def MAX_TOKEN_TTL_MILLIS_def)

lemma validate_close_revision: "validate_close args = Inr u \<Longrightarrow> list_all revision_digit (ca_expected_revision args)"
  by (auto simp: validate_close_def Let_def split: if_splits)

subsection \<open>An attempt\<close>

text \<open>The words of an attempt that ended before the gateway was called.\<close>

fun refused_words :: "retained_error \<Rightarrow> string option" where
  "refused_words (RetInvalidArgs _) = Some ''refused:invalid_args''"
| "refused_words RetNotConfigured = Some ''refused:not_configured''"
| "refused_words RetBootstrapping = Some ''refused:bootstrapping''"
| "refused_words RetNoEnvironment = Some ''refused:no_environment''"
| "refused_words (RetGatewayUnreachable _) = Some ''refused:gateway_unreachable''"
| "refused_words _ = None"

lemma close_verdict_words: "close_verdict answer = (status, words, Inl e) \<Longrightarrow> refused_words e = None"
  by (auto simp: close_verdict_def Let_def split: sum.splits prod.splits if_splits)

lemma close_verdict_ok:
  assumes "close_verdict answer = (status, words, Inr (replayed, response))"
  shows "answer = Inr (status, response) \<and> 200 \<le> status \<and> status < 300 \<and> says ''closed'' response"
  using assms by (auto simp: close_verdict_def Let_def split: sum.splits prod.splits if_splits)

lemma close_retained_sends:
  assumes "close_retained X w c body token sent = (sent', answer)"
  shows "sent' = sent \<or> (\<exists>rq. sent' = sent @ [rq] \<and> rq_url rq = gc_base_url c @ ''/v1/retained/close''
    \<and> rq_bearer rq = gc_admin_key c \<and> map_of (rq_headers rq) CLOSURE_TOKEN_HEADER = Some token \<and> rq_body rq = json_text X body)"
  using assms by (auto simp: close_retained_def Let_def split: option.splits)

lemma attempt_row:
  assumes "attempt_journal D args i status words a = (a', j, e)"
    and "dk_bus D \<noteq> None" and "be_store_error (dk_bus_env D) (ac_attempts a) = None"
    and "jw_row_error (be_world (dk_bus_env D) (ac_attempts a)) = None"
  shows "ac_sent a' = ac_sent a \<and> cj_rows (ac_journal a') = cj_rows (ac_journal a)
    @ [row_of_command (be_lib (dk_bus_env D)) (attempt_record D args i status words) (jw_ts (be_world (dk_bus_env D) (ac_attempts a)))]"
proof -
  have "require_break_glass_reason (attempt_record D args i status words) = Inr ()"
    unfolding reason_given by (simp add: attempt_record_def)
  then show ?thesis
    using journal_row [OF assms(1) [unfolded attempt_journal_def desk_journal_def]]
      journal_effect(1) [OF assms(1) [unfolded attempt_journal_def desk_journal_def]] assms(2-4) by simp
qed

definition token_request :: "gateway_lib \<Rightarrow> gateway_world \<Rightarrow> close_args \<Rightarrow> closure_config \<Rightarrow> gateway_plane \<Rightarrow> request list \<Rightarrow> request \<Rightarrow> bool" where
  "token_request G w args config plane sent rq \<longleftrightarrow> validate_close args = Inr () \<and> (\<exists>secret c.
     config = ClosureConfigured secret \<and> plane = GwReady c \<and> rq_url rq = gc_base_url c @ ''/v1/retained/close''
   \<and> map_of (rq_headers rq) CLOSURE_TOKEN_HEADER =
       Some (mint_token G secret (ca_reservation_id args) (ca_expected_revision args) (expiry_for (gv_now_millis w sent))))"


text \<open>A token closes one reservation, once, soon. The bytes a token signs determine the reservation, the revision and
  the expiry: two attempts with evidence that fits sign the same bytes only for the same three. And a token
  minted at a time of this era expires after it, within the gateway's bound of five minutes.\<close>

theorem closure_token_binds:
  assumes "validate_close args = Inr ()" and "validate_close args' = Inr ()"
    and "closure_message (ca_reservation_id args) (ca_expected_revision args) (expiry_for now)
       = closure_message (ca_reservation_id args') (ca_expected_revision args') (expiry_for now')"
    and "0 \<le> now" and "now < 2 ^ 62" and "0 \<le> now'" and "now' < 2 ^ 62"
  shows "ca_reservation_id args = ca_reservation_id args' \<and> ca_expected_revision args = ca_expected_revision args' \<and> now = now'
    \<and> now < expiry_for now \<and> expiry_for now - now \<le> MAX_TOKEN_TTL_MILLIS"
proof -
  from closure_message_inj [OF validate_close_revision [OF assms(1)] validate_close_revision [OF assms(2)] assms(3)]
  have "ca_reservation_id args = ca_reservation_id args'" "ca_expected_revision args = ca_expected_revision args'"
    "expiry_for now = expiry_for now'" by simp_all
  moreover from this(3) have "now = now'"
    using assms(4-7) by (simp add: expiry_for_def saturating_add_def TOKEN_TTL_MILLIS_def)
  ultimately show ?thesis using expiry_bound [OF assms(4,5)] by simp
qed

end
