(* ===== verification/JournalDemo.thy ===== *)
theory JournalDemo
  imports JournalFacts "HOL-Library.Code_Target_Nat"
begin

section \<open>A concrete journal\<close>

text \<open>
  Two commands on one file. The printer writes the action and whether there is a link, the parser knows the
  lines it can have written, and the hash is constant.
\<close>

definition demo_record :: "string \<Rightarrow> string \<Rightarrow> command_record" where
  "demo_record action decision =
     \<lparr>rec_operator = ''user://acme/alice'', rec_env = ''local'', rec_action = action, rec_target = ''r-1'',
      rec_params = JObject [(''reason'', JString ''runaway'')], rec_decision = decision, rec_sig_alg = ''es256'',
      rec_sig_fpr = ''ab'', rec_http_status = 200, rec_verify_result = ''ok''\<rparr>"

definition calm :: journal_world where
  "calm = \<lparr>jw_ts = ''t'', jw_row_error = None, jw_dir_error = None, jw_open_error = None, jw_written = None\<rparr>"

definition demo_call :: "string \<Rightarrow> string \<Rightarrow> journal_world \<Rightarrow> journal_call" where
  "demo_call path action w =
     \<lparr>jc_path = path, jc_org = ''acme'', jc_host = ''Box 1'', jc_rec = demo_record action ''break_glass'', jc_world = w\<rparr>"

definition demo_value :: "string \<Rightarrow> string option \<Rightarrow> json" where
  "demo_value action prev = console_command_value ''acme'' ''Box 1'' (demo_record action ''break_glass'') ''t'' prev"

definition journal_lib :: ingest_lib where
  "journal_lib =
     \<lparr>parse_json = (\<lambda>l. if l = ''{kill}'' then Inr (demo_value ''kill'' None)
                        else if l = ''{kill+}'' then Inr (demo_value ''kill'' (Some ''sha256:00''))
                        else if l = ''{budget}'' then Inr (demo_value ''budget'' None)
                        else if l = ''{budget+}'' then Inr (demo_value ''budget'' (Some ''sha256:00''))
                        else Inl ''bad''),
      schema_valid = (\<lambda>_ _. True), schema_errors = (\<lambda>_ _. []), decode_event = (\<lambda>_. Inl ''bad''),
      debug_str = (\<lambda>s. s), sha256_hex = (\<lambda>_. ''00''),
      json_text = (\<lambda>v. ''{'' @
        (case Option.bind (Option.bind (json_get v ''data'') (\<lambda>d. json_get d ''action'')) json_str of None \<Rightarrow> [] | Some a \<Rightarrow> a)
        @ (case json_get v ''prev_hash'' of None \<Rightarrow> [] | Some _ \<Rightarrow> ''+'') @ ''}''),
      rfc3339_millis = (\<lambda>_. None)\<rparr>"

text \<open>Two spellings of the directory lead to one file.\<close>

definition demo_paths :: path_lib where
  "demo_paths =
     \<lparr>path_parent = (\<lambda>p. Some (if prefix ''/private'' p then ''/private/tmp'' else ''/tmp'')),
      path_file_name = (\<lambda>_. Some ''e''), path_join = (\<lambda>a b. a @ ''/'' @ b),
      path_canonicalize = (\<lambda>_. Some ''/private/tmp''), path_file = (\<lambda>_. ''inode 7'')\<rparr>"

definition blank_journal :: console_journal where
  "blank_journal = \<lparr>cj_rows = [], cj_files = [], cj_sinks = []\<rparr>"

definition empty_file :: console_journal where
  "empty_file = blank_journal\<lparr>cj_files := [(''inode 7'', [])]\<rparr>"

definition kill_call :: "journal_world \<Rightarrow> journal_call" where
  "kill_call w = demo_call ''/tmp/e'' ''kill'' w"

definition budget_call :: "journal_world \<Rightarrow> journal_call" where
  "budget_call w = demo_call ''/private/tmp/e'' ''budget'' w"

lemma demo_prints:
  "prints journal_lib (demo_value ''kill'' None)" "prints journal_lib (demo_value ''kill'' (Some ''sha256:00''))"
  "prints journal_lib (demo_value ''budget'' None)" "prints journal_lib (demo_value ''budget'' (Some ''sha256:00''))"
  by code_simp+

lemma journal_lib_links: "chain_link journal_lib prev \<longleftrightarrow> prev = None \<or> prev = Some ''sha256:00''"
  by (auto simp: chain_link_def journal_lib_def split: option.splits)

lemma demo_printable:
  "jw_ts w = ''t'' \<Longrightarrow> printable_call journal_lib (kill_call w)"
  "jw_ts w = ''t'' \<Longrightarrow> printable_call journal_lib (budget_call w)"
  using demo_prints
  by (auto simp: printable_call_def journal_lib_links kill_call_def budget_call_def demo_call_def demo_value_def)

lemma demo_names:
  "names_file demo_paths ''/private/tmp/e'' ''inode 7'' (kill_call w)"
  "names_file demo_paths ''/private/tmp/e'' ''inode 7'' (budget_call w)"
  by (simp_all add: names_file_def canonical_key_def demo_paths_def kill_call_def budget_call_def demo_call_def)

text \<open>A kill, a restart, a write that fails before its first byte, and a budget change under the other spelling.\<close>

definition demo_steps :: "journal_step list" where
  "demo_steps = [Call (kill_call calm), Restart, Call (kill_call (calm\<lparr>jw_written := Some 0\<rparr>)), Call (budget_call calm)]"

lemma demo_steps_ok:
  "\<forall>c\<in>set (calls_of demo_steps). names_file demo_paths ''/private/tmp/e'' ''inode 7'' c
     \<and> printable_call journal_lib c \<and> writes_whole_lines c"
proof -
  have "jw_ts (calm\<lparr>jw_written := n\<rparr>) = ''t''" "jw_ts calm = ''t''" for n by (simp_all add: calm_def)
  then show ?thesis by (simp add: demo_steps_def demo_names demo_printable)
    (simp add: writes_whole_lines_def kill_call_def budget_call_def demo_call_def calm_def)
qed

theorem journal_single_chain_witness:
  "str_lines (file_content (fst (journal_run journal_lib demo_paths blank_journal demo_steps)) ''inode 7'') = [''{kill}'', ''{budget+}'']
   \<and> chained journal_lib None [''{kill}'', ''{budget+}'']"
proof -
  let ?run = "journal_run journal_lib demo_paths blank_journal demo_steps"
  have lines: "call_lines journal_lib None (snd ?run) = [''{kill}'', ''{budget+}'']" by code_simp
  have "str_lines (file_content (fst ?run) ''inode 7'') = [] @ call_lines journal_lib (tip journal_lib []) (snd ?run)
      \<and> chained journal_lib None (str_lines (file_content (fst ?run) ''inode 7''))"
    by (rule journal_single_chain [OF _ _ _ _ demo_steps_ok]) (simp_all add: file_content_def blank_journal_def)
  then show ?thesis using lines by (elim conjE) (simp add: tip_def del: chained.simps)
qed

theorem journal_rows_exact_witness:
  "map jr_action (cj_rows (fst (journal_run journal_lib demo_paths blank_journal demo_steps))) = [''kill'', ''kill'', ''budget'']"
proof -
  have "map jc_rec (filter accepted (calls_of demo_steps)) = map jc_rec (calls_of demo_steps)" by code_simp
  moreover have "map (rec_action \<circ> jc_rec) (calls_of demo_steps) = [''kill'', ''kill'', ''budget'']" by code_simp
  ultimately have "map (\<lambda>c. rec_action (jc_rec c)) (filter accepted (calls_of demo_steps)) = [''kill'', ''kill'', ''budget'']"
    by (metis (no_types, lifting) comp_apply list.map_comp map_eq_conv)
  then show ?thesis
    using journal_rows_exact [of journal_lib demo_paths blank_journal demo_steps]
    by (simp add: blank_journal_def row_of_command_def comp_def)
qed

theorem torn_write_swallows_next_witness:
  "str_lines (file_content (fst (journal_run journal_lib demo_paths empty_file
       [Call (kill_call (calm\<lparr>jw_written := Some 3\<rparr>)), Restart, Call (budget_call calm)])) ''inode 7'') = [''{ki{budget}'']"
proof -
  let ?c = "kill_call (calm\<lparr>jw_written := Some 3\<rparr>)"
  have torn: "take 3 (call_line journal_lib (tip journal_lib []) ?c) = ''{ki''" "3 < length (call_line journal_lib (tip journal_lib []) ?c)"
    "trim ''{ki'' \<noteq> []" "call_line journal_lib None (budget_call calm) = ''{budget}''" "opens ?c" "opens (budget_call calm)"
    by code_simp+
  have "(case journal_run journal_lib demo_paths empty_file [Call ?c, Call (budget_call calm)] of (st', out) \<Rightarrow> out = [budget_call calm] \<and>
      str_lines (file_content st' ''inode 7'') = [] @ [take 3 (call_line journal_lib (tip journal_lib []) ?c) @ call_line journal_lib (tip journal_lib []) (budget_call calm)])
    \<and> (case journal_run journal_lib demo_paths empty_file [Call ?c, Restart, Call (budget_call calm)] of (st', out) \<Rightarrow> out = [budget_call calm] \<and>
      str_lines (file_content st' ''inode 7'') = [] @ [take 3 (call_line journal_lib (tip journal_lib []) ?c) @ call_line journal_lib None (budget_call calm)])"
    by (rule torn_write_swallows_next [OF _ _ _ _ _ demo_names torn(5,6) demo_printable])
      (simp_all add: torn file_content_def empty_file_def blank_journal_def,
       simp_all add: kill_call_def budget_call_def demo_call_def calm_def journal_lib_def hm_get_def)
  then show ?thesis by (auto simp: torn split: prod.splits)
qed

definition alice_scope :: console_scope where
  "alice_scope = \<lparr>sc_actor = Some ''alice'', sc_signature = Some (''webauthn-es256'', ''cred-1'')\<rparr>"



end
