(* ===== verification/ActionsDemo.thy ===== *)
theory ActionsDemo
  imports RetainedFacts JournalDemo
begin

section \<open>Concrete actions\<close>

text \<open>
  Stopping an agent with two open runs, revoking a delegation, killing a run and closing a reservation, on a network
  that answers as the services do when all is well.
\<close>

definition actions_lib :: ingest_lib where
  "actions_lib = journal_lib\<lparr>parse_json := (\<lambda>s.
     if s = ''banned'' then Inr (JObject [(''revoked'', JBool True), (''banned'', JBool True), (''durable'', JBool True)])
     else if s = ''closed'' then Inr (JObject [(''closed'', JBool True)])
     else Inl ''bad'')\<rparr>"

definition actions_bus :: bus_env where
  "actions_bus =
     \<lparr>be_lib = actions_lib, be_paths = demo_paths, be_scope = \<lparr>sc_actor = Some ''alice'', sc_signature = Some (''webauthn-es256'', ''c1'')\<rparr>,
      be_store_error = (\<lambda>_. None), be_world = (\<lambda>_. calm)\<rparr>"

definition demo_desk :: desk where
  "demo_desk = \<lparr>dk_bus_env = actions_bus, dk_org_env = Some ''acme'', dk_host_env = None, dk_bus = Some ''/tmp/e''\<rparr>"

definition no_actions :: actions where
  "no_actions = \<lparr>ac_sent = [], ac_journal = blank_journal, ac_attempts = 0\<rparr>"

definition demo_vouchryx :: vouchryx where
  "demo_vouchryx = \<lparr>vx_build_error = (\<lambda>_. None), vx_post = (\<lambda>_ _. Answer 200 [Inr ''ban'', Inr ''ned''])\<rparr>"

definition demo_run :: "string \<Rightarrow> string \<Rightarrow> int \<Rightarrow> bool \<Rightarrow> run_agg" where
  "demo_run i agent seen killed =
     \<lparr>ra_run_id = i, ra_model = ''m'', ra_agent_id = agent, ra_unit = [], ra_owner = [], ra_spent_microusd = 0, ra_calls = 0,
      ra_cache_hits = 0, ra_steps = 0, ra_last_seen_millis = seen, ra_killed = killed, ra_site = None, ra_blocked = None,
      ra_last_decision = None, ra_last_decision_millis = None, ra_fallback_calls = None, ra_basis_unreported_calls = None,
      ra_identity_warned = None, ra_last_identity_reason = None, ra_models = None, ra_model_switches = None,
      ra_pii_calls = None\<rparr>"

definition demo_cloud_lib :: cloud_lib where
  "demo_cloud_lib =
     \<lparr>cl_base64 = (\<lambda>s. s), cl_plan_required = (\<lambda>_. None), cl_error = (\<lambda>_. None), cl_kill = Inr,
      cl_budget = (\<lambda>_. Inl ''no''), cl_unit_budget = (\<lambda>_. Inl ''no''), cl_ack = Inr, cl_pair_new = Inr,
      cl_pair = (\<lambda>_. Inl ''no''), cl_summary = (\<lambda>_. Inl ''no''),
      cl_runs = (\<lambda>_. Inr [demo_run ''r1'' ''agent://acme/bot'' 5 False, demo_run ''r2'' ''agent://acme/bot'' 9 False,
                         demo_run ''r3'' ''agent://acme/bot'' 7 True, demo_run ''r4'' ''agent://acme/cat'' 7 False]),
      cl_savings = (\<lambda>_. Inl ''no''), cl_incidents = (\<lambda>_. Inl ''no''), cl_alerts = (\<lambda>_. Inl ''no''), cl_owners = (\<lambda>_. Inl ''no''),
      cl_budgets = (\<lambda>_. Inl ''no''), cl_spend = (\<lambda>_. Inl ''no''), cl_units = (\<lambda>_. Inl ''no''),
      cl_unit_budgets = (\<lambda>_. Inl ''no''), cl_gateways = (\<lambda>_. Inl ''no'')\<rparr>"

definition demo_cloud_world :: cloud_world where
  "demo_cloud_world =
     \<lparr>cw_clock = (\<lambda>_. Some 7), cw_random = (\<lambda>_. Inr ''ab''),
      cw_send = (\<lambda>_ rq. Reply 200 (Inr (if rq_url rq = ''http://c/v1/runs/r1/kill'' then ''r1'' else ''r2'')))\<rparr>"

definition demo_client :: cloud_client where
  "demo_client =
     \<lparr>cc_base_url = ''http://c'', cc_bearer_token = ''t'',
      cc_device = Some \<lparr>pd_device_id = ''d'', pd_device_token = ''dt'',
        pd_signer = \<lparr>sg_assurance = SoftwareP256, sg_public_key_x963 = Inr ''pk'', sg_sign_raw = (\<lambda>m. Inr ''sig'')\<rparr>\<rparr>\<rparr>"

definition demo_money :: money_client where
  "demo_money =
     \<lparr>mc_client = demo_client, mc_source = EnvFallback, mc_cloud_url = ''http://c'', mc_org_domain = ''acme'',
      mc_operator = ''user://acme/os'', mc_host = ''box'', mc_sig_fpr = ''software-signed'', mc_bus = Some ''/tmp/e''\<rparr>"

text \<open>A stop that succeeds, on a console without a bus,, one step of a stop on a console with one.\<close>

definition demo_stop :: "actions \<times> (stop_error + stop_outcome)" where
  "demo_stop = agent_stop (demo_desk\<lparr>dk_bus := None\<rparr>) demo_vouchryx demo_cloud_lib demo_cloud_world
     (Configured ''http://v'' ''k'') (Ready demo_money) ''agent://acme/bot'' '' runaway '' no_actions"

lemma demo_stop_result:
  "case snd demo_stop of Inr out \<Rightarrow> so_runs_killed out = 2 \<and> length (so_steps out) = 6 | Inl _ \<Rightarrow> False"
  "map rq_url (ac_sent (fst demo_stop)) =
     [''http://v/v1/revoke'', ''http://c/v1/runs'', ''http://c/v1/runs/r2/kill'', ''http://c/v1/runs/r1/kill'']"
  by code_simp+

lemma demo_stop_ok: "\<exists>out. snd demo_stop = Inr out \<and> length (so_steps out) = 6"
  using demo_stop_result(1) by (cases "snd demo_stop") auto



definition demo_money_lib :: money_lib where
  "demo_money_lib =
     \<lparr>ml_usd = (\<lambda>i. JNum (idec i)), ml_rank = (\<lambda>_. 0), ml_ratio = (\<lambda>_ _. JNull), ml_near = (\<lambda>x y. 4 * y \<le> 5 * x),
      ml_negative = (\<lambda>_. False), ml_display = (\<lambda>_. ''0''), ml_display4 = (\<lambda>_. ''0.0000''), ml_iso = (\<lambda>_. None)\<rparr>"

text \<open>A revocation, a kill and a closure.\<close>

theorem revocation_reported_as_answered_witness:
  "\<exists>rec. cj_rows (ac_journal (fst (delegation_revoke demo_desk demo_vouchryx (Configured ''http://v'' ''k'') None (Some ''j1'') ''leak'' no_actions)))
       = [row_of_command actions_lib rec ''t''] \<and> rec_target rec = ''jti:j1'' \<and> rec_operator rec = ''user://acme/alice''"
proof -
  let ?call = "delegation_revoke demo_desk demo_vouchryx (Configured ''http://v'' ''k'') None (Some ''j1'') ''leak'' no_actions"
  have valid: "validate_args None (Some ''j1'') ''leak'' = Inr (Jti ''j1'', ''leak'')" by code_simp
  have desk: "dk_bus demo_desk \<noteq> None" "be_store_error (dk_bus_env demo_desk) (ac_attempts no_actions) = None"
    "jw_row_error (be_world (dk_bus_env demo_desk) (ac_attempts no_actions)) = None"
    "be_lib (dk_bus_env demo_desk) = actions_lib" "jw_ts (be_world (dk_bus_env demo_desk) k) = ''t''" for k
    by (simp_all add: demo_desk_def actions_bus_def calm_def)
  have actor: "desk_actor demo_desk = ''user://acme/alice''" by code_simp
  have "?call = (fst ?call, snd ?call)" by simp
  from revocation_reported_as_answered [OF this desk(1-3)] show ?thesis
    by (auto simp: valid desk actor no_actions_def blank_journal_def)
qed


definition demo_close :: close_args where
  "demo_close =
     \<lparr>ca_reservation_id = 7, ca_expected_revision = ''00000000000000ab'', ca_evidence_kind = NoCharge,
      ca_observed_microusd = None, ca_evidence_ref = ''ticket 12''\<rparr>"

definition demo_gateway_lib :: gateway_lib where
  "demo_gateway_lib = \<lparr>gl_hmac_sha256 = (\<lambda>_ _. ''m''), gl_retained = (\<lambda>_. Inl ''no''), gl_i64 = (\<lambda>_. None)\<rparr>"

definition demo_gateway :: gateway_world where
  "demo_gateway =
     \<lparr>gv_get = (\<lambda>_ _. NoReply ''no''), gv_build_error = (\<lambda>_. None), gv_post = (\<lambda>_ _. Answer 200 [Inr ''closed'']),
      gv_now_millis = (\<lambda>_. 1000)\<rparr>"

lemma demo_close_valid: "validate_close demo_close = Inr ()"
  by code_simp


theorem closure_token_binds_witness:
  "1000 < expiry_for 1000 \<and> expiry_for 1000 - 1000 \<le> MAX_TOKEN_TTL_MILLIS"
  using closure_token_binds [OF demo_close_valid demo_close_valid refl] by simp

theorem signature_names_one_mutation_witness:
  "\<not> canonical_request ''POST'' (mutation_path (KillRun ''r1'')) (body_sha256_hex actions_lib (mutation_body actions_lib (KillRun ''r1''))) (dec 7) ''n''
     = canonical_request ''POST'' (mutation_path (KillRun ''r1/budget'')) (body_sha256_hex actions_lib (mutation_body actions_lib (KillRun ''r1/budget''))) (dec 7) ''n''"
proof
  assume same: "canonical_request ''POST'' (mutation_path (KillRun ''r1'')) (body_sha256_hex actions_lib (mutation_body actions_lib (KillRun ''r1''))) (dec 7) ''n''
     = canonical_request ''POST'' (mutation_path (KillRun ''r1/budget'')) (body_sha256_hex actions_lib (mutation_body actions_lib (KillRun ''r1/budget''))) (dec 7) ''n''"
  have "one_line (sha256_hex actions_lib s)" for s by (simp add: actions_lib_def journal_lib_def one_line_def LF_def)
  from signature_names_one_mutation [OF this same] show False by simp
qed

end
