(* ===== verification/Throttle.thy ===== *)
theory Throttle
  imports Prelude
begin

section \<open>The sign-in throttle (\<open>crates/web/src/throttle.rs\<close>)\<close>

text \<open>
  Failed password sign-ins are counted per key in a fixed window. The model has the table
  (\<open>windows\<close>), its three operations (\<open>check\<close>, \<open>record_failure\<close>, \<open>record_success\<close>) and the eviction
  that keeps it bounded (\<open>make_room\<close>). The lemmas show that the table never outgrows its bound
  whatever the order of the operations, that a key's counter is exact while there is room, that
  the only key a full table gives up is the one with the oldest window, and that the wait a held
  key is told is exactly how long it stays held.
\<close>

record window =
  started :: time
  failures :: u32

record login_throttle =
  limit :: u32
  window_len :: time
  max_keys :: nat
  windows :: "(string, window) hmap"

definition ACCOUNT_LIMIT :: u32 where "ACCOUNT_LIMIT = 10"
definition ADDRESS_LIMIT :: u32 where "ADDRESS_LIMIT = 30"
definition WINDOW :: time where "WINDOW = 15 * 60 * 1000000000"
definition MAX_KEYS :: nat where "MAX_KEYS = 4096"
definition MAX_KEY_CHARS :: nat where "MAX_KEY_CHARS = 128"

definition new_throttle :: "u32 \<Rightarrow> time \<Rightarrow> nat \<Rightarrow> login_throttle" where
  "new_throttle lim win keys =
     \<lparr>limit = lim, window_len = win, max_keys = keys, windows = []\<rparr>"

definition window_live :: "login_throttle \<Rightarrow> window \<Rightarrow> time \<Rightarrow> bool" where
  "window_live t w now \<longleftrightarrow> now - started w < window_len t"

definition check :: "login_throttle \<Rightarrow> string \<Rightarrow> time \<Rightarrow> time + unit" where
  "check t key now =
     (case hm_get (windows t) key of
        Some w \<Rightarrow>
          if limit t \<le> failures w \<and> window_live t w now
          then Inl (window_len t - (now - started w)) else Inr ()
      | None \<Rightarrow> Inr ())"

definition make_room :: "login_throttle \<Rightarrow> (string, window) hmap \<Rightarrow> time \<Rightarrow> (string, window) hmap" where
  "make_room t table now =
     (let kept = hm_retain (\<lambda>w. window_live t w now) table in
      if length kept < max_keys t then kept
      else (case min_by_key (\<lambda>(_, w). started w) kept of
              Some (k, _) \<Rightarrow> hm_remove k kept
            | None \<Rightarrow> kept))"

definition record_failure :: "login_throttle \<Rightarrow> string \<Rightarrow> time \<Rightarrow> login_throttle" where
  "record_failure t key now =
     (case hm_get (windows t) key of
        Some w \<Rightarrow>
          t\<lparr>windows := hm_insert key
             (if window_live t w now then w\<lparr>failures := sat_add32 (failures w) 1\<rparr>
              else \<lparr>started = now, failures = 1\<rparr>) (windows t)\<rparr>
      | None \<Rightarrow>
          (let table = (if max_keys t \<le> length (windows t) then make_room t (windows t) now
                        else windows t)
           in t\<lparr>windows := hm_insert key \<lparr>started = now, failures = 1\<rparr> table\<rparr>))"

definition record_success :: "login_throttle \<Rightarrow> string \<Rightarrow> login_throttle" where
  "record_success t key = t\<lparr>windows := hm_remove key (windows t)\<rparr>"

definition login_key :: "string \<Rightarrow> string \<Rightarrow> string" where
  "login_key kind v = kind @ '':'' @ take_chars MAX_KEY_CHARS v"

lemmas throttle_defs = check_def make_room_def record_failure_def record_success_def
  window_live_def new_throttle_def

text \<open>The operations as a machine, in whatever order the requests arrive.\<close>

datatype throttle_op = Check string time | Failure string time | Success string

fun throttle_step :: "login_throttle \<Rightarrow> throttle_op \<Rightarrow> login_throttle \<times> (time + unit)" where
  "throttle_step t (Check k now) = (t, check t k now)"
| "throttle_step t (Failure k now) = (record_failure t k now, Inr ())"
| "throttle_step t (Success k) = (record_success t k, Inr ())"

subsection \<open>The configuration never changes\<close>

lemma record_failure_config [simp]:
  "limit (record_failure t k now) = limit t"
  "window_len (record_failure t k now) = window_len t"
  "max_keys (record_failure t k now) = max_keys t"
  by (auto simp: record_failure_def Let_def split: option.splits)

lemma record_success_config [simp]:
  "limit (record_success t k) = limit t"
  "window_len (record_success t k) = window_len t"
  "max_keys (record_success t k) = max_keys t"
  by (auto simp: record_success_def)

subsection \<open>The table is bounded\<close>

definition throttle_inv :: "login_throttle \<Rightarrow> bool" where
  "throttle_inv t \<longleftrightarrow> hm_wf (windows t) \<and> 0 < max_keys t \<and> length (windows t) \<le> max_keys t"

lemma hm_wf_make_room [intro]: "hm_wf m \<Longrightarrow> hm_wf (make_room t m now)"
  by (auto simp: make_room_def Let_def split: option.splits)

text \<open>Making room in a table that holds at most its bound leaves a free place.\<close>

lemma make_room_length:
  assumes "hm_wf m" and "0 < max_keys t" and "length m \<le> max_keys t"
  shows "length (make_room t m now) < max_keys t"
proof -
  define kept where "kept = hm_retain (\<lambda>w. window_live t w now) m"
  have wf: "hm_wf kept" and len: "length kept \<le> max_keys t"
    using assms length_hm_retain_le [of _ m] by (auto simp: kept_def intro: order_trans)
  show ?thesis
  proof (cases "length kept < max_keys t")
    case True
    then show ?thesis by (simp add: make_room_def kept_def)
  next
    case False
    with assms(2) have "kept \<noteq> []" by auto
    then obtain k w where kw: "min_by_key (\<lambda>(_, w). started w) kept = Some (k, w)"
      by (metis min_by_key_None_iff option.exhaust surj_pair)
    then have "(k, w) \<in> set kept" by (blast dest: min_by_key_Some)
    then have "hm_get kept k = Some w" using wf by (simp add: hm_get_in_set)
    then have "length (hm_remove k kept) < length kept" by (rule length_hm_remove_present)
    with False kw len show ?thesis by (simp add: make_room_def flip: kept_def)
  qed
qed

lemma make_room_get:
  assumes "hm_wf m" and "hm_get (make_room t m now) k = Some w"
  shows "hm_get m k = Some w"
  using assms
  by (auto simp: make_room_def Let_def hm_get_retain hm_get_remove hm_wf_retain
      split: option.splits if_splits)

text \<open>The table a new key is put into has a free place and does not hold the key.\<close>

definition room_for :: "login_throttle \<Rightarrow> time \<Rightarrow> (string, window) hmap" where
  "room_for t now =
     (if max_keys t \<le> length (windows t) then make_room t (windows t) now else windows t)"

lemma record_failure_new:
  "hm_get (windows t) k = None \<Longrightarrow>
   record_failure t k now = t\<lparr>windows := hm_insert k \<lparr>started = now, failures = 1\<rparr> (room_for t now)\<rparr>"
  by (simp add: record_failure_def room_for_def Let_def)

lemma room_for_facts:
  assumes "throttle_inv t"
  shows "hm_wf (room_for t now)" and "length (room_for t now) < max_keys t"
    and "hm_get (room_for t now) k = Some w \<Longrightarrow> hm_get (windows t) k = Some w"
  using assms make_room_length [of "windows t" t now] make_room_get [of "windows t" t now]
  by (auto simp: throttle_inv_def room_for_def split: if_splits)

lemma throttle_inv_failure:
  assumes "throttle_inv t"
  shows "throttle_inv (record_failure t k now)"
proof (cases "hm_get (windows t) k")
  case None
  then have "hm_get (room_for t now) k = None"
    using room_for_facts(3) [OF assms, of now k] by (cases "hm_get (room_for t now) k") auto
  with assms room_for_facts(1,2) [OF assms, of now] show ?thesis
    by (simp add: throttle_inv_def record_failure_new [OF None] hm_wf_insert length_hm_insert_new)
next
  case (Some w)
  with assms show ?thesis
    by (simp add: throttle_inv_def record_failure_def hm_wf_insert length_hm_insert_old)
qed

lemma throttle_inv_success: "throttle_inv t \<Longrightarrow> throttle_inv (record_success t k)"
  using length_hm_remove_le [of k "windows t"]
  by (auto simp: throttle_inv_def record_success_def)

interpretation throttle_machine: invariant_machine throttle_step throttle_inv
proof
  fix t e assume "throttle_inv t"
  then show "throttle_inv (fst (throttle_step t e))"
    by (cases e) (auto simp: throttle_inv_failure throttle_inv_success)
qed

lemma throttle_inv_new: "0 < keys \<Longrightarrow> throttle_inv (new_throttle lim win keys)"
  by (simp add: throttle_inv_def new_throttle_def)

lemma throttle_step_max_keys: "max_keys (fst (throttle_step t e)) = max_keys t"
  by (cases e) auto

lemma throttle_run_max_keys: "max_keys (fst (run throttle_step t es)) = max_keys t"
proof (induction es arbitrary: t)
  case (Cons e es)
  then show ?case by (simp only: run_Cons) (simp add: throttle_step_max_keys)
qed simp

text \<open>However sign-in attempts are ordered and whatever keys they name, a throttle built for
  \<open>keys\<close> keys never holds more than \<open>keys\<close> of them: a flood of distinct names cannot grow it.\<close>

theorem throttle_bounded:
  assumes "0 < keys"
  shows "length (windows (fst (run throttle_step (new_throttle lim win keys) ops))) \<le> keys"
proof -
  have "throttle_inv (fst (run throttle_step (new_throttle lim win keys) ops))"
    using assms by (intro throttle_machine.inv_run throttle_inv_new)
  then show ?thesis
    by (simp add: throttle_inv_def throttle_run_max_keys) (simp add: new_throttle_def)
qed

theorem throttle_bounded_witness:
  "length (windows (fst (run throttle_step (new_throttle 10 900 2)
     [Failure ''a'' 0, Failure ''b'' 1, Failure ''c'' 2]))) \<le> 2"
  by (rule throttle_bounded) simp

subsection \<open>Waiting\<close>

text \<open>The wait a held key is told is exact: at every instant before it has passed the key is
  still held and is told the rest of it, and when it has passed the key is admitted.\<close>

theorem check_wait_exact:
  assumes "check t k now = Inl d" and "hm_get (windows t) k = Some w" and "started w \<le> now"
  shows "0 < d \<and> d \<le> window_len t \<and> (\<forall>d' < d. check t k (now + d') = Inl (d - d'))
    \<and> (\<forall>d' \<ge> d. check t k (now + d') = Inr ())"
  using assms by (auto simp: check_def window_live_def split: if_splits)

theorem check_wait_exact_witness:
  "let t = \<lparr>limit = 2, window_len = 900, max_keys = 8,
             windows = [(''user:root'', \<lparr>started = 100, failures = 2\<rparr>)]\<rparr>
   in check t ''user:root'' 400 = Inl 600 \<and> check t ''user:root'' 1000 = Inr ()"
proof -
  define t where "t = \<lparr>limit = 2, window_len = 900, max_keys = 8,
             windows = [(''user:root'', \<lparr>started = 100, failures = 2\<rparr>)]\<rparr>"
  have h: "check t ''user:root'' 400 = Inl 600"
    by (simp add: t_def check_def window_live_def hm_get_def)
  have w: "hm_get (windows t) ''user:root'' = Some \<lparr>started = 100, failures = 2\<rparr>"
    by (simp add: t_def hm_get_def)
  have "\<forall>d' \<ge> 600. check t ''user:root'' (400 + d') = Inr ()"
    using check_wait_exact [OF h w] by simp
  from this [rule_format, of 600] have "check t ''user:root'' 1000 = Inr ()" by simp
  with h show ?thesis by (simp add: t_def [symmetric])
qed

subsection \<open>Counting while there is room\<close>

definition fail_all :: "login_throttle \<Rightarrow> (string \<times> time) list \<Rightarrow> login_throttle" where
  "fail_all t fs = foldl (\<lambda>t (k, now). record_failure t k now) t fs"

lemma fail_all_simps [simp]:
  "fail_all t [] = t"
  "fail_all t ((k, now) # fs) = fail_all (record_failure t k now) fs"
  by (simp_all add: fail_all_def)

lemma fail_all_config [simp]:
  "limit (fail_all t fs) = limit t" "window_len (fail_all t fs) = window_len t"
  by (induction fs arbitrary: t) auto

definition all_keys :: "login_throttle \<Rightarrow> (string \<times> time) list \<Rightarrow> string set" where
  "all_keys t fs = fst ` set (windows t) \<union> fst ` set fs"

lemma finite_all_keys [simp]: "finite (all_keys t fs)"
  by (simp add: all_keys_def)

text \<open>A new key with a free place in the table disturbs no other key.\<close>

lemma record_failure_room:
  assumes "throttle_inv t" and "card (all_keys t ((k, now) # fs)) \<le> max_keys t"
  shows "hm_get (windows (record_failure t k now)) k' =
     (if k' = k then
        (case hm_get (windows t) k of
           Some w \<Rightarrow> Some (if window_live t w now then w\<lparr>failures := sat_add32 (failures w) 1\<rparr>
                           else \<lparr>started = now, failures = 1\<rparr>)
         | None \<Rightarrow> Some \<lparr>started = now, failures = 1\<rparr>)
      else hm_get (windows t) k')"
    and "fst ` set (windows (record_failure t k now)) = insert k (fst ` set (windows t))"
proof -
  have room: "room_for t now = windows t" if "hm_get (windows t) k = None"
  proof -
    have k: "k \<notin> fst ` set (windows t)" using that by (simp add: hm_get_None_iff)
    have "length (windows t) = card (fst ` set (windows t))"
      using assms(1) by (intro length_hm_keys) (simp add: throttle_inv_def)
    also have "\<dots> < card (insert k (fst ` set (windows t)))" using k by simp
    also have "\<dots> \<le> card (all_keys t ((k, now) # fs))"
      by (intro card_mono) (auto simp: all_keys_def)
    finally show ?thesis using assms(2) by (simp add: room_for_def)
  qed
  show "fst ` set (windows (record_failure t k now)) = insert k (fst ` set (windows t))"
    by (cases "hm_get (windows t) k")
      (simp_all add: record_failure_new room keys_hm_insert, simp add: record_failure_def keys_hm_insert)
  show "hm_get (windows (record_failure t k now)) k' =
     (if k' = k then
        (case hm_get (windows t) k of
           Some w \<Rightarrow> Some (if window_live t w now then w\<lparr>failures := sat_add32 (failures w) 1\<rparr>
                           else \<lparr>started = now, failures = 1\<rparr>)
         | None \<Rightarrow> Some \<lparr>started = now, failures = 1\<rparr>)
      else hm_get (windows t) k')"
    by (cases "hm_get (windows t) k")
      (simp_all add: record_failure_new room hm_get_insert, simp add: record_failure_def hm_get_insert)
qed

lemma all_keys_record_failure:
  assumes "throttle_inv t" and "card (all_keys t ((k, now) # fs)) \<le> max_keys t"
  shows "all_keys (record_failure t k now) fs = all_keys t ((k, now) # fs)"
  using record_failure_room(2) [OF assms] by (auto simp: all_keys_def)

text \<open>The counter of a key inside its window, with the failures of any other keys in between.\<close>

lemma fail_all_counts:
  assumes "throttle_inv t" and "card (all_keys t fs) \<le> max_keys t"
    and "hm_get (windows t) k = Some w"
    and "\<forall>now. (k, now) \<in> set fs \<longrightarrow> window_live t w now"
  shows "\<exists>w'. hm_get (windows (fail_all t fs)) k = Some w' \<and> started w' = started w \<and>
     unat (failures w') =
       min (unat (failures w) + length (filter (\<lambda>f. fst f = k) fs)) (2 ^ 32 - 1)"
  using assms
proof (induction fs arbitrary: t w)
  case Nil
  have "unat (failures w) < 2 ^ 32" by (rule order.strict_trans2 [OF unsigned_less]) simp
  with Nil show ?case by auto
next
  case (Cons f fs)
  obtain k1 now where f: "f = (k1, now)" by (cases f)
  let ?t = "record_failure t k1 now"
  let ?w = "if k1 = k then w\<lparr>failures := sat_add32 (failures w) 1\<rparr> else w"
  note room = record_failure_room [OF Cons.prems(1) Cons.prems(2) [unfolded f]]
  have get: "hm_get (windows ?t) k = Some ?w"
    using room(1) [of k] Cons.prems(3,4) f by auto
  have inv: "throttle_inv ?t" using Cons.prems(1) by (rule throttle_inv_failure)
  have card: "card (all_keys ?t fs) \<le> max_keys ?t"
    using all_keys_record_failure [OF Cons.prems(1) Cons.prems(2) [unfolded f]] Cons.prems(2) f
    by simp
  have live: "\<forall>now. (k, now) \<in> set fs \<longrightarrow> window_live ?t ?w now"
    using Cons.prems(4) f by (auto simp: window_live_def)
  obtain w' where w': "hm_get (windows (fail_all ?t fs)) k = Some w'" "started w' = started ?w"
    "unat (failures w') = min (unat (failures ?w) + length (filter (\<lambda>f. fst f = k) fs)) (2 ^ 32 - 1)"
    using Cons.IH [OF inv card get live] by blast
  then show ?case using f by (auto simp: unat_sat_add32 min_def)
qed

text \<open>Lockout is exact while the table has room: \<open>n\<close> failures against a fresh key, spread
  over its window and interleaved with the failures of any other keys, hold the key exactly when
  they reach the limit.\<close>

theorem lockout_exact:
  assumes "throttle_inv t" and "hm_get (windows t) k = None"
    and "card (all_keys t ((k, t0) # fs)) \<le> max_keys t"
    and "\<forall>now. (k, now) \<in> set fs \<longrightarrow> t0 \<le> now \<and> now < t0 + window_len t"
    and "t0 \<le> now" and "now < t0 + window_len t"
    and "Suc (length (filter (\<lambda>f. fst f = k) fs)) < 2 ^ 32"
  shows "(\<exists>d. check (fail_all t ((k, t0) # fs)) k now = Inl d)
    \<longleftrightarrow> unat (limit t) \<le> Suc (length (filter (\<lambda>f. fst f = k) fs))"
proof -
  let ?t = "record_failure t k t0" and ?w = "\<lparr>started = t0, failures = 1 :: u32\<rparr>"
  have get: "hm_get (windows ?t) k = Some ?w"
    using record_failure_room(1) [OF assms(1,3), of k] assms(2) by simp
  have card: "card (all_keys ?t fs) \<le> max_keys ?t"
    using all_keys_record_failure [OF assms(1,3)] assms(3) by simp
  have live: "\<forall>now. (k, now) \<in> set fs \<longrightarrow> window_live ?t ?w now"
    using assms(4) by (auto simp: window_live_def)
  obtain w' where w': "hm_get (windows (fail_all ?t fs)) k = Some w'" "started w' = t0"
    "unat (failures w') = min (Suc (length (filter (\<lambda>f. fst f = k) fs))) (2 ^ 32 - 1)"
    using fail_all_counts [OF throttle_inv_failure [OF assms(1)] card get live] by auto
  show ?thesis
    using w' assms(5-7)
    by (auto simp: check_def window_live_def word_le_nat_alt)
qed

theorem lockout_exact_witness:
  "\<exists>d. check (fail_all (new_throttle 2 900 4)
     [(''user:root'', 0), (''user:eve'', 5), (''user:root'', 10)]) ''user:root'' 20 = Inl d"
proof -
  let ?fs = "[(''user:eve'', 5 :: time), (''user:root'', 10)]"
  have "all_keys (new_throttle 2 900 4) ((''user:root'', 0) # ?fs) = {''user:root'', ''user:eve''}"
    by (auto simp: all_keys_def new_throttle_def)
  then show ?thesis
    using lockout_exact [of "new_throttle 2 900 4" "''user:root''" 0 ?fs 20]
    by (simp add: throttle_inv_new) (simp add: new_throttle_def)
qed

subsection \<open>What a full table forgets\<close>

lemma make_room_evicts:
  assumes "hm_wf m" and "hm_get m k = Some w" and "window_live t w now"
    and "hm_get (make_room t m now) k = None"
  shows "\<forall>k' w'. hm_get m k' = Some w' \<and> window_live t w' now \<longrightarrow> started w \<le> started w'"
proof -
  define kept where "kept = hm_retain (\<lambda>w. window_live t w now) m"
  have wf: "hm_wf kept" using assms(1) by (auto simp: kept_def)
  have kw: "hm_get kept k = Some w" using assms(1-3) by (simp add: kept_def hm_get_retain)
  then have "kept \<noteq> []" by auto
  then obtain k0 w0 where min: "min_by_key (\<lambda>(_, w). started w) kept = Some (k0, w0)"
    by (metis min_by_key_None_iff option.exhaust surj_pair)
  then have least: "\<forall>x\<in>set kept. started w0 \<le> started (snd x)" and in0: "(k0, w0) \<in> set kept"
    by (auto dest!: min_by_key_Some)
  have "k = k0"
    using assms(4) kw min
    by (auto simp: make_room_def hm_get_remove simp flip: kept_def split: if_splits)
  then have "w0 = w" using in0 kw wf hm_get_in_set by fastforce
  show ?thesis
  proof (intro allI impI)
    fix k' w' assume a: "hm_get m k' = Some w' \<and> window_live t w' now"
    then have "hm_get kept k' = Some w'" using assms(1) by (simp add: kept_def hm_get_retain)
    then have "(k', w') \<in> set kept" by (rule hm_get_Some_set)
    with least \<open>w0 = w\<close> show "started w \<le> started w'" by auto
  qed
qed

text \<open>A failure under one key forgets a live window of another key only when the table is full
  and the failing key is new to it, and the window it forgets is the oldest live one.\<close>

theorem eviction_is_oldest:
  assumes "throttle_inv t" and "hm_get (windows t) k = Some w" and "window_live t w now"
    and "k' \<noteq> k" and "hm_get (windows (record_failure t k' now)) k \<noteq> Some w"
  shows "length (windows t) = max_keys t \<and> hm_get (windows t) k' = None \<and>
    (\<forall>k2 w2. hm_get (windows t) k2 = Some w2 \<and> window_live t w2 now \<longrightarrow> started w \<le> started w2)"
proof -
  have new: "hm_get (windows t) k' = None"
    using assms(2,4,5)
    by (cases "hm_get (windows t) k'") (auto simp: record_failure_def hm_get_insert)
  have gone: "hm_get (room_for t now) k \<noteq> Some w"
    using assms(4,5) by (simp add: record_failure_new [OF new] hm_get_insert)
  then have full: "max_keys t \<le> length (windows t)"
    using assms(2) by (auto simp: room_for_def split: if_splits)
  have wf: "hm_wf (windows t)" using assms(1) by (simp add: throttle_inv_def)
  have none: "hm_get (make_room t (windows t) now) k = None"
    using gone full assms(2) make_room_get [OF wf, of t now k]
    by (cases "hm_get (make_room t (windows t) now) k") (auto simp: room_for_def)
  show ?thesis
    using full new assms(1) make_room_evicts [OF wf assms(2,3) none] by (simp add: throttle_inv_def)
qed

theorem eviction_is_oldest_witness:
  "let t = \<lparr>limit = 1, window_len = 900, max_keys = 1,
             windows = [(''user:root'', \<lparr>started = 100, failures = 2\<rparr>)]\<rparr>
   in hm_get (windows (record_failure t ''user:x'' 200)) ''user:root'' = None
      \<and> length (windows t) = max_keys t"
proof -
  define t where "t = \<lparr>limit = 1, window_len = 900, max_keys = 1,
             windows = [(''user:root'', \<lparr>started = 100, failures = 2 :: u32\<rparr>)]\<rparr>"
  have "throttle_inv t"
    and "hm_get (windows t) ''user:root'' = Some \<lparr>started = 100, failures = 2\<rparr>"
    and "window_live t \<lparr>started = 100, failures = 2\<rparr> 200"
    and gone: "hm_get (windows (record_failure t ''user:x'' 200)) ''user:root'' = None"
    by (simp_all add: t_def throttle_inv_def hm_wf_def hm_get_def throttle_defs hm_retain_def
        hm_remove_def hm_insert_def)
  then have "length (windows t) = max_keys t"
    using eviction_is_oldest [of t "''user:root''" _ 200 "''user:x''"] by force
  with gone show ?thesis unfolding t_def Let_def by blast
qed

interpretation throttle_windows: expiring_table "\<lambda>now w. window_live t w now" for t
  by unfold_locales (auto simp: window_live_def)

text \<open>Sweeping the passed windows changes no answer from that instant on.\<close>

lemma check_view:
  "check t k now =
     (case throttle_windows.view t now (windows t) k of
        Some w \<Rightarrow> if limit t \<le> failures w then Inl (window_len t - (now - started w)) else Inr ()
      | None \<Rightarrow> Inr ())"
  by (auto simp: check_def throttle_windows.view_def split: option.splits)

lemma check_after_sweep:
  assumes "hm_wf (windows t)" and "now \<le> later"
  shows "check (t\<lparr>windows := hm_retain (\<lambda>w. window_live t w now) (windows t)\<rparr>) k later = check t k later"
proof -
  have "window_live (t\<lparr>windows := m\<rparr>) = window_live t" for m
    by (auto simp: window_live_def fun_eq_iff)
  then show ?thesis
    using throttle_windows.view_sweep [OF assms, of t k]
    by (simp add: check_view throttle_windows.view_def cong: option.case_cong if_cong)
qed

end
