(* ===== verification/Roles.thy ===== *)
theory Roles
  imports Prelude
begin

section \<open>Roles and the command table (\<open>crates/web/src/roles.rs\<close>)\<close>

text \<open>
  The three roles, least privilege first, and the table that places every command the console can
  dispatch: the least role that may run it and whether a run needs a passkey ceremony. The lemmas
  show that the gate fails closed on names outside the table, that the table places every command
  once, that no command with a ceremony is open to a viewer, and which commands carry one.
\<close>

datatype role = Viewer | Approver | Admin

fun role_rank :: "role \<Rightarrow> nat" where
  "role_rank Viewer = 0"
| "role_rank Approver = 1"
| "role_rank Admin = 2"

lemma role_rank_inj: "role_rank a = role_rank b \<Longrightarrow> a = b"
  by (cases a; cases b) auto

instantiation role :: linorder
begin

definition less_eq_role :: "role \<Rightarrow> role \<Rightarrow> bool" where
  "less_eq_role a b \<longleftrightarrow> role_rank a \<le> role_rank b"

definition less_role :: "role \<Rightarrow> role \<Rightarrow> bool" where
  "less_role a b \<longleftrightarrow> role_rank a < role_rank b"

instance
  by standard (auto simp: less_eq_role_def less_role_def intro: role_rank_inj)

end

lemmas role_order = less_eq_role_def less_role_def

fun role_str :: "role \<Rightarrow> string" where
  "role_str Viewer = ''viewer''"
| "role_str Approver = ''approver''"
| "role_str Admin = ''admin''"

record gate_row =
  gate_name :: string
  gate_role :: role
  gate_ceremony :: bool

definition gate :: "string \<Rightarrow> role \<Rightarrow> bool \<Rightarrow> gate_row" where
  "gate n r c = \<lparr>gate_name = n, gate_role = r, gate_ceremony = c\<rparr>"

definition COMMANDS :: "gate_row list" where
  "COMMANDS = [
    gate ''admission_check'' Viewer False,
    gate ''admission_status'' Viewer False,
    gate ''agent_events'' Viewer False,
    gate ''agent_profile'' Viewer False,
    gate ''agent_stops'' Viewer False,
    gate ''agent_graph'' Viewer False,
    gate ''agent_slice'' Viewer False,
    gate ''bus_quarantine'' Viewer False,
    gate ''bus_status'' Viewer False,
    gate ''case_file'' Viewer False,
    gate ''copilot_ask'' Viewer False,
    gate ''copilot_explain'' Viewer False,
    gate ''copilot_explain_case'' Viewer False,
    gate ''copilot_status'' Viewer False,
    gate ''credentials_gateway_retained_runs'' Viewer False,
    gate ''credentials_keys'' Viewer False,
    gate ''credentials_posture'' Viewer False,
    gate ''credentials_status'' Viewer False,
    gate ''crypto_scan_cbom'' Viewer False,
    gate ''crypto_scan_evidence'' Viewer False,
    gate ''crypto_scan_ncsc'' Viewer False,
    gate ''crypto_status'' Viewer False,
    gate ''crypto_verify_evidence'' Viewer False,
    gate ''drills_status'' Viewer False,
    gate ''evidence_status'' Viewer False,
    gate ''identity_list_alerts'' Viewer False,
    gate ''identity_list_identities'' Viewer False,
    gate ''identity_list_remediations'' Viewer False,
    gate ''identity_status'' Viewer False,
    gate ''lifecycle_blocks'' Viewer False,
    gate ''memory_recall'' Viewer False,
    gate ''memory_stats'' Viewer False,
    gate ''memory_status'' Viewer False,
    gate ''memory_why'' Viewer False,
    gate ''money_incidents'' Viewer False,
    gate ''money_list_retained'' Viewer False,
    gate ''money_overview'' Viewer False,
    gate ''money_owners'' Viewer False,
    gate ''money_runs'' Viewer False,
    gate ''money_spend_window'' Viewer False,
    gate ''money_savings'' Viewer False,
    gate ''money_units'' Viewer False,
    gate ''money_gateways'' Viewer False,
    gate ''egress_recent'' Viewer False,
    gate ''money_status'' Viewer False,
    gate ''onboard_status'' Viewer False,
    gate ''policy_list_approvals'' Viewer False,
    gate ''policy_list_policies'' Viewer False,
    gate ''policy_status'' Viewer False,
    gate ''policy_proof'' Viewer False,
    gate ''budget_proof'' Viewer False,
    gate ''case_seal'' Approver False,
    gate ''case_pack'' Viewer False,
    gate ''remedy_check'' Viewer False,
    gate ''quality_list_baselines'' Viewer False,
    gate ''quality_list_run_summaries'' Viewer False,
    gate ''quality_run_scores'' Viewer False,
    gate ''quality_status'' Viewer False,
    gate ''policy_enforcement_status'' Viewer False,
    gate ''recent_events'' Viewer False,
    gate ''remote_cloud_list'' Viewer False,
    gate ''remote_operator_wg_peers'' Viewer False,
    gate ''remote_ssh_check_reachable'' Viewer False,
    gate ''remote_status'' Viewer False,
    gate ''routines_history'' Viewer False,
    gate ''routines_status'' Viewer False,
    gate ''run_events'' Viewer False,
    gate ''stats_counts'' Viewer False,
    gate ''policy_decide_approval'' Approver True,
    gate ''money_kill_run'' Admin True,
    gate ''money_set_budget'' Admin True,
    gate ''money_ack_incident'' Admin False,
    gate ''money_close_retained'' Admin True,
    gate ''money_set_unit_budget'' Admin True,
    gate ''agent_block'' Admin False,
    gate ''unit_block'' Admin False,
    gate ''user_block'' Admin False,
    gate ''identity_rescan'' Admin False,
    gate ''drills_run'' Admin False,
    gate ''evidence_build'' Admin False,
    gate ''memory_forget'' Admin False,
    gate ''onboard_generate'' Admin False,
    gate ''onboard_write_passport'' Admin False,
    gate ''admission_baseline'' Admin False,
    gate ''copilot_log_proposal_approved'' Admin False,
    gate ''remote_set_environment'' Admin False,
    gate ''remote_wg_connect'' Admin False,
    gate ''remote_wg_disconnect'' Admin False,
    gate ''remote_ssh_read_file'' Admin False,
    gate ''remote_ssh_tail_start'' Admin False,
    gate ''remote_ssh_tail_stop'' Admin False,
    gate ''remote_operator_wg_config'' Admin True,
    gate ''remote_operator_wg_revoke'' Admin True,
    gate ''remote_hetzner_list'' Admin False,
    gate ''delegation_revoke'' Admin True,
    gate ''agent_stop'' Admin True,
    gate ''agent_lift'' Admin True]"

definition gate_of :: "string \<Rightarrow> gate_row option" where
  "gate_of command = find (\<lambda>g. gate_name g = command) COMMANDS"

definition required_role :: "string \<Rightarrow> role" where
  "required_role command = (case gate_of command of None \<Rightarrow> Admin | Some g \<Rightarrow> gate_role g)"

definition requires_ceremony :: "string \<Rightarrow> bool" where
  "requires_ceremony command = (case gate_of command of None \<Rightarrow> True | Some g \<Rightarrow> gate_ceremony g)"

definition ceremony_commands :: "string list" where
  "ceremony_commands = map gate_name (filter gate_ceremony COMMANDS)"

subsection \<open>The table\<close>

lemma gate_sel [simp]:
  "gate_name (gate n r c) = n" "gate_role (gate n r c) = r" "gate_ceremony (gate n r c) = c"
  by (simp_all add: gate_def)

lemma commands_distinct: "distinct (map gate_name COMMANDS)"
  by code_simp

lemma gate_of_Some: "gate_of c = Some g \<Longrightarrow> g \<in> set COMMANDS \<and> gate_name g = c"
  by (auto simp: gate_of_def find_Some_iff)

lemma gate_of_None: "gate_of c = None \<longleftrightarrow> c \<notin> gate_name ` set COMMANDS"
  by (auto simp: gate_of_def find_None_iff)

text \<open>Each row of the table is the row its own name finds.\<close>

lemma gate_of_row:
  assumes "g \<in> set COMMANDS"
  shows "gate_of (gate_name g) = Some g"
proof -
  obtain g' where g': "gate_of (gate_name g) = Some g'"
    using assms gate_of_None [of "gate_name g"] by (cases "gate_of (gate_name g)") auto
  then have "g' \<in> set COMMANDS" "gate_name g' = gate_name g" by (auto dest: gate_of_Some)
  with assms commands_distinct g' show ?thesis
    by (auto simp: distinct_map inj_on_def)
qed

lemma gate_of_iff: "gate_of c = Some g \<longleftrightarrow> g \<in> set COMMANDS \<and> gate_name g = c"
  using gate_of_Some gate_of_row by blast

lemma ceremony_rows_not_viewer:
  "list_all (\<lambda>g. gate_ceremony g \<longrightarrow> gate_role g \<noteq> Viewer) COMMANDS"
  by code_simp

lemma requires_ceremony_iff:
  "requires_ceremony c \<longleftrightarrow> c \<in> set ceremony_commands \<or> c \<notin> gate_name ` set COMMANDS"
proof (cases "gate_of c")
  case None
  then have "c \<notin> gate_name ` set COMMANDS" by (simp add: gate_of_None)
  with None show ?thesis by (simp add: requires_ceremony_def)
next
  case (Some g)
  have "gate_ceremony g" if cer: "c \<in> set ceremony_commands"
  proof -
    obtain x where "x \<in> set COMMANDS" "gate_ceremony x" "gate_name x = c"
      using cer by (auto simp: ceremony_commands_def)
    with Some gate_of_row [of x] show ?thesis by simp
  qed
  moreover have "c \<in> set ceremony_commands" if "gate_ceremony g"
    using that gate_of_Some [OF Some] by (auto simp: ceremony_commands_def)
  moreover have "c \<in> gate_name ` set COMMANDS" using Some by (auto simp: gate_of_iff)
  ultimately show ?thesis using Some unfolding requires_ceremony_def by auto
qed

text \<open>The gate fails closed: a name outside the command table needs the admin role and a
  ceremony, and the role and ceremony of a name inside it are those of its own row.\<close>

theorem gate_fails_closed:
  "(c \<notin> gate_name ` set COMMANDS \<longrightarrow> required_role c = Admin \<and> requires_ceremony c) \<and>
   (\<forall>g\<in>set COMMANDS. required_role (gate_name g) = gate_role g
                    \<and> requires_ceremony (gate_name g) = gate_ceremony g)"
proof
  show "c \<notin> gate_name ` set COMMANDS \<longrightarrow> required_role c = Admin \<and> requires_ceremony c"
    by (auto simp: required_role_def requires_ceremony_def gate_of_None [THEN iffD2])
  show "\<forall>g\<in>set COMMANDS. required_role (gate_name g) = gate_role g
                    \<and> requires_ceremony (gate_name g) = gate_ceremony g"
    using gate_of_row by (simp add: required_role_def requires_ceremony_def)
qed

theorem gate_fails_closed_witness:
  "required_role ''no_such_command'' = Admin \<and> requires_ceremony ''no_such_command''"
proof -
  have "''no_such_command'' \<notin> set (map gate_name COMMANDS)" by code_simp
  then have "''no_such_command'' \<notin> gate_name ` set COMMANDS" by (simp only: set_map not_False_eq_True)
  then show ?thesis using gate_fails_closed [of "''no_such_command''"] by blast
qed

text \<open>Exactly these ten commands of the table carry the passkey ceremony, and whatever name
  needs a ceremony is closed to a viewer.\<close>

theorem ceremony_commands_exact:
  "ceremony_commands = [''policy_decide_approval'', ''money_kill_run'', ''money_set_budget'',
     ''money_close_retained'', ''money_set_unit_budget'', ''remote_operator_wg_config'',
     ''remote_operator_wg_revoke'', ''delegation_revoke'', ''agent_stop'',
     ''agent_lift'']
   \<and> (\<forall>c. requires_ceremony c \<longrightarrow> Viewer < required_role c)"
proof
  show "ceremony_commands = [''policy_decide_approval'', ''money_kill_run'', ''money_set_budget'',
     ''money_close_retained'', ''money_set_unit_budget'', ''remote_operator_wg_config'',
     ''remote_operator_wg_revoke'', ''delegation_revoke'', ''agent_stop'',
     ''agent_lift'']"
    by code_simp
  show "\<forall>c. requires_ceremony c \<longrightarrow> Viewer < required_role c"
  proof (intro allI impI)
    fix c assume c: "requires_ceremony c"
    show "Viewer < required_role c"
    proof (cases "gate_of c")
      case None
      then show ?thesis by (simp add: required_role_def role_order)
    next
      case (Some g)
      then have "gate_role g \<noteq> Viewer"
        using c ceremony_rows_not_viewer
        by (auto simp: requires_ceremony_def list_all_iff dest: gate_of_Some)
      with Some show ?thesis
        by (cases "gate_role g") (auto simp: required_role_def role_order)
    qed
  qed
qed

theorem ceremony_commands_exact_witness: "Viewer < required_role ''money_kill_run''"
proof -
  have "requires_ceremony ''money_kill_run''"
    unfolding requires_ceremony_iff ceremony_commands_exact [THEN conjunct1] by simp
  then show ?thesis using ceremony_commands_exact by blast
qed

end
