(* ===== verification/Sessions.thy ===== *)
theory Sessions
  imports Roles
begin

section \<open>The session table (\<open>crates/web/src/auth.rs\<close>)\<close>

text \<open>
  Sessions live in memory, under a random id, with two clocks: one that every use refreshes and one
  that nothing refreshes. The clock readings inside one critical section are one instant \<open>now\<close>; the
  random bytes of a new id are an argument. The lemmas show what a session id can be worth: a
  resolved id was minted by a sign-in with that user, role and method, within both limits, and has
  not been revoked since.
\<close>

datatype auth_method = Local | Oidc

fun method_str :: "auth_method \<Rightarrow> string" where
  "method_str Local = ''local''"
| "method_str Oidc = ''oidc''"

record session_info =
  info_user :: string
  info_role :: role
  info_method :: auth_method

record session =
  sess_user :: string
  sess_role :: role
  sess_method :: auth_method
  last_seen :: time
  created :: time

record sessions =
  sess_inner :: "(string, session) hmap"
  idle_timeout :: time
  absolute_lifetime :: time

definition IDLE_TIMEOUT :: time where "IDLE_TIMEOUT = 12 * 60 * 60 * 1000000000"
definition ABSOLUTE_LIFETIME :: time where "ABSOLUTE_LIFETIME = 24 * 60 * 60 * 1000000000"

definition with_limits :: "time \<Rightarrow> time \<Rightarrow> sessions" where
  "with_limits idle absolute =
     \<lparr>sess_inner = [], idle_timeout = idle, absolute_lifetime = absolute\<rparr>"

definition session_live :: "sessions \<Rightarrow> time \<Rightarrow> session \<Rightarrow> bool" where
  "session_live ss now s \<longleftrightarrow>
     now - last_seen s < idle_timeout ss \<and> now - created s < absolute_lifetime ss"

definition info_of :: "session \<Rightarrow> session_info" where
  "info_of s = \<lparr>info_user = sess_user s, info_role = sess_role s, info_method = sess_method s\<rparr>"

definition session_create ::
  "sessions \<Rightarrow> byte list \<Rightarrow> string \<Rightarrow> role \<Rightarrow> auth_method \<Rightarrow> time \<Rightarrow> sessions \<times> string" where
  "session_create ss bytes user role method now =
     (let sid = hex bytes;
          kept = hm_retain (session_live ss now) (sess_inner ss)
      in (ss\<lparr>sess_inner := hm_insert sid
             \<lparr>sess_user = user, sess_role = role, sess_method = method,
              last_seen = now, created = now\<rparr> kept\<rparr>, sid))"

definition session_touch :: "sessions \<Rightarrow> string \<Rightarrow> time \<Rightarrow> sessions \<times> session_info option" where
  "session_touch ss sid now =
     (case hm_get (sess_inner ss) sid of
        Some s \<Rightarrow>
          if now - last_seen s < idle_timeout ss \<and> now - created s < absolute_lifetime ss
          then (ss\<lparr>sess_inner := hm_insert sid (s\<lparr>last_seen := now\<rparr>) (sess_inner ss)\<rparr>,
                Some (info_of s))
          else (ss\<lparr>sess_inner := hm_remove sid (sess_inner ss)\<rparr>, None)
      | None \<Rightarrow> (ss, None))"

definition session_revoke :: "sessions \<Rightarrow> string \<Rightarrow> sessions" where
  "session_revoke ss sid = ss\<lparr>sess_inner := hm_remove sid (sess_inner ss)\<rparr>"

lemmas session_defs = session_create_def session_touch_def session_revoke_def session_live_def

subsection \<open>The limits and the well-formedness of the table are kept\<close>

definition sessions_wf :: "sessions \<Rightarrow> bool" where
  "sessions_wf ss \<longleftrightarrow> hm_wf (sess_inner ss)"

lemma session_create_frame [simp]:
  "idle_timeout (fst (session_create ss bs u r m now)) = idle_timeout ss"
  "absolute_lifetime (fst (session_create ss bs u r m now)) = absolute_lifetime ss"
  "snd (session_create ss bs u r m now) = hex bs"
  by (simp_all add: session_create_def Let_def)

lemma session_touch_frame [simp]:
  "idle_timeout (fst (session_touch ss i now)) = idle_timeout ss"
  "absolute_lifetime (fst (session_touch ss i now)) = absolute_lifetime ss"
  by (auto simp: session_touch_def split: option.splits)

lemma session_revoke_frame [simp]:
  "idle_timeout (session_revoke ss i) = idle_timeout ss"
  "absolute_lifetime (session_revoke ss i) = absolute_lifetime ss"
  by (simp_all add: session_revoke_def)

lemma sessions_wf_create: "sessions_wf ss \<Longrightarrow> sessions_wf (fst (session_create ss bs u r m now))"
  by (auto simp: sessions_wf_def session_create_def Let_def)

lemma sessions_wf_touch: "sessions_wf ss \<Longrightarrow> sessions_wf (fst (session_touch ss i now))"
  by (auto simp: sessions_wf_def session_touch_def split: option.splits)

lemma sessions_wf_revoke: "sessions_wf ss \<Longrightarrow> sessions_wf (session_revoke ss i)"
  by (auto simp: sessions_wf_def session_revoke_def)

interpretation session_rows: expiring_table "session_live ss" for ss
  by unfold_locales (auto simp: session_live_def)

text \<open>Resolving an sid is a lookup in the live part of the table, so a sweep by somebody else's
  sign-in can never end a session that is still live.\<close>

lemma session_touch_view:
  "snd (session_touch ss sid now) = map_option info_of (session_rows.view ss now (sess_inner ss) sid)"
  by (auto simp: session_touch_def session_live_def session_rows.view_def split: option.splits)

lemma session_create_keeps_others:
  assumes "sessions_wf ss" and "sid \<noteq> hex bs" and "now \<le> later"
  shows "snd (session_touch (fst (session_create ss bs u r m now)) sid later) =
         snd (session_touch ss sid later)"
proof -
  have live: "session_live (fst (session_create ss bs u r m now)) = session_live ss"
    by (auto simp: fun_eq_iff session_live_def)
  have "session_rows.view ss later (sess_inner (fst (session_create ss bs u r m now))) sid =
        session_rows.view ss later (hm_retain (session_live ss now) (sess_inner ss)) sid"
    using assms(2) by (simp add: session_create_def Let_def session_rows.view_def hm_get_insert)
  also have "\<dots> = session_rows.view ss later (sess_inner ss) sid"
    using assms(1,3) by (intro session_rows.view_sweep) (auto simp: sessions_wf_def)
  finally show ?thesis by (simp add: session_touch_view live)
qed

subsection \<open>Every resolved sid goes back to a sign-in\<close>

datatype session_op =
    SCreate "byte list" string role auth_method time
  | STouch string time
  | SRevoke string

fun session_step :: "sessions \<Rightarrow> session_op \<Rightarrow> sessions \<times> session_info option" where
  "session_step ss (SCreate bs u r m now) = (fst (session_create ss bs u r m now), None)"
| "session_step ss (STouch sid now) = session_touch ss sid now"
| "session_step ss (SRevoke sid) = (session_revoke ss sid, None)"

interpretation session_machine: invariant_machine session_step sessions_wf
proof
  fix ss e assume "sessions_wf ss"
  then show "sessions_wf (fst (session_step ss e))"
    by (cases e) (auto simp: sessions_wf_create sessions_wf_touch sessions_wf_revoke)
qed

text \<open>\<open>minted es sid s\<close>: among the operations \<open>es\<close> there is the sign-in that made the session \<open>s\<close> under
  \<open>sid\<close>, and \<open>sid\<close> has not been revoked after it.\<close>

definition minted :: "session_op list \<Rightarrow> string \<Rightarrow> session \<Rightarrow> bool" where
  "minted es sid s \<longleftrightarrow>
     (\<exists>pre post bs. es = pre @ SCreate bs (sess_user s) (sess_role s) (sess_method s) (created s) # post
        \<and> sid = hex bs \<and> SRevoke sid \<notin> set post)"

lemma minted_snoc:
  assumes "minted es sid s" and "e \<noteq> SRevoke sid"
  shows "minted (es @ [e]) sid s"
proof -
  let ?c = "\<lambda>bs. SCreate bs (sess_user s) (sess_role s) (sess_method s) (created s)"
  obtain pre post bs where "es = pre @ ?c bs # post" "sid = hex bs" "SRevoke sid \<notin> set post"
    using assms(1) by (auto simp: minted_def)
  with assms(2) have "es @ [e] = pre @ ?c bs # (post @ [e])" "SRevoke sid \<notin> set (post @ [e])"
    by auto
  with \<open>sid = hex bs\<close> show ?thesis unfolding minted_def by blast
qed

lemma minted_last:
  "sid = hex bs \<Longrightarrow> sess_user s = u \<Longrightarrow> sess_role s = r \<Longrightarrow> sess_method s = m \<Longrightarrow> created s = now \<Longrightarrow>
   minted (es @ [SCreate bs u r m now]) sid s"
  unfolding minted_def by fastforce

lemma minted_cong:
  "minted es sid s \<Longrightarrow> sess_user s' = sess_user s \<Longrightarrow> sess_role s' = sess_role s \<Longrightarrow>
   sess_method s' = sess_method s \<Longrightarrow> created s' = created s \<Longrightarrow> minted es sid s'"
  by (simp add: minted_def)

lemma run_sessions_minted:
  assumes "hm_get (sess_inner (fst (run session_step (with_limits idle absolute) es))) sid = Some s"
  shows "minted es sid s"
  using assms
proof (induction es arbitrary: s rule: rev_induct)
  case Nil
  then show ?case by (simp add: with_limits_def)
next
  case (snoc e es)
  define ss where "ss = fst (run session_step (with_limits idle absolute) es)"
  have wf: "hm_wf (sess_inner ss)"
    using session_machine.inv_run [of "with_limits idle absolute" es]
    by (simp add: ss_def sessions_wf_def with_limits_def)
  have IH: "hm_get (sess_inner ss) sid = Some s \<Longrightarrow> minted es sid s" for s
    using snoc.IH by (simp add: ss_def)
  have s: "hm_get (sess_inner (fst (session_step ss e))) sid = Some s"
    using snoc.prems by (simp add: run_snoc ss_def)
  show ?case
  proof (cases e)
    case (SCreate bs u r m now)
    show ?thesis
    proof (cases "sid = hex bs")
      case True
      with s SCreate show ?thesis
        by (auto simp: session_create_def Let_def hm_get_insert intro!: minted_last)
    next
      case False
      with s SCreate wf have "hm_get (sess_inner ss) sid = Some s"
        by (auto simp: session_create_def Let_def hm_get_insert hm_get_retain
            split: option.splits if_splits)
      with IH SCreate show ?thesis by (auto intro: minted_snoc)
    qed
  next
    case (STouch i now)
    then obtain s0 where "hm_get (sess_inner ss) sid = Some s0" "s = s0 \<or> s = s0\<lparr>last_seen := now\<rparr>"
      using s by (auto simp: session_touch_def hm_get_insert hm_get_remove split: option.splits if_splits)
    with IH STouch show ?thesis by (auto intro!: minted_snoc intro: minted_cong)
  next
    case (SRevoke i)
    with s have "hm_get (sess_inner ss) sid = Some s" "i \<noteq> sid"
      by (auto simp: session_revoke_def hm_get_remove split: if_splits)
    with IH SRevoke show ?thesis by (auto intro: minted_snoc)
  qed
qed



text \<open>Use keeps a session alive up to the absolute limit and no further: resolving it refreshes
  the idle clock and only that, so the next use within the idle limit resolves to the same person
  exactly while the session is younger than its absolute lifetime.\<close>

theorem session_use_refreshes_idle_only:
  assumes "hm_get (sess_inner ss) sid = Some s" and "session_live ss now s"
    and "now \<le> later" and "later - now < idle_timeout ss"
  shows "snd (session_touch (fst (session_touch ss sid now)) sid later) =
    (if later - created s < absolute_lifetime ss then Some (info_of s) else None)"
  using assms by (auto simp: session_touch_def session_live_def hm_get_insert info_of_def)

theorem session_use_refreshes_idle_only_witness:
  "let ss = fst (session_create (with_limits 50 100) [1] ''ann'' Admin Local 0)
   in snd (session_touch (fst (session_touch ss ''01'' 40)) ''01'' 80) =
        Some \<lparr>info_user = ''ann'', info_role = Admin, info_method = Local\<rparr>
      \<and> snd (session_touch (fst (session_touch ss ''01'' 49)) ''01'' 98) \<noteq> None"
proof -
  define ss where "ss = fst (session_create (with_limits 50 100) [1] ''ann'' Admin Local 0)"
  define s where "s = \<lparr>sess_user = ''ann'', sess_role = Admin, sess_method = Local,
    last_seen = 0, created = 0\<rparr>"
  have h: "hm_get (sess_inner ss) ''01'' = Some s" "session_live ss 40 s" "session_live ss 49 s"
    and [simp]: "idle_timeout ss = 50" "absolute_lifetime ss = 100"
    by (simp_all add: ss_def s_def with_limits_def session_defs hex_def hex_byte_def hex_digits_def
        hm_get_def hm_insert_def hm_retain_def Let_def)
  show ?thesis
    using session_use_refreshes_idle_only [OF h(1,2), of 80] session_use_refreshes_idle_only [OF h(1,3), of 98]
    unfolding Let_def ss_def [symmetric] by (simp add: s_def info_of_def)
qed

end
