(* ===== verification/WebAuthn.thy ===== *)
theory WebAuthn
  imports Prelude
begin

unbundle bit_operations_syntax

section \<open>The passkey ceremony (\<open>crates/web/src/webauthn.rs\<close>)\<close>

text \<open>
  The passkey store, the one-shot challenges, the parsing of what the authenticator sends and the
  verification of a registration and of an assertion. Code outside the repository (SHA-256, P-256,
  base64, CBOR, the deserializers serde generates) is the record \<open>ext\<close>, an argument of the
  definitions that call it. An index out of range would panic in Rust; it is the extra error
  \<open>IndexPanic\<close> here, and \<open>parse_never_panics\<close> shows that it cannot happen.
\<close>

subsection \<open>Errors and data\<close>

datatype webauthn_error =
    Malformed string
  | Mismatch string
  | UserNotPresent
  | UserNotVerified
  | UnsupportedAttestation
  | UnsupportedKey string
  | BadSignature
  | CloneSuspected
  | UnknownChallenge
  | WrongUser
  | UnknownCredential
  | LastPasskey
  | Store string
  | IndexPanic

fun webauthn_error_str :: "webauthn_error \<Rightarrow> string" where
  "webauthn_error_str (Malformed what) = ''malformed '' @ what"
| "webauthn_error_str (Mismatch what) = what @ '' mismatch''"
| "webauthn_error_str UserNotPresent = ''user presence not asserted''"
| "webauthn_error_str UserNotVerified = ''user verification not asserted''"
| "webauthn_error_str UnsupportedAttestation =
     ''unsupported attestation format (only '' @ [CHR 0x22] @ ''none'' @ [CHR 0x22] @ '')''"
| "webauthn_error_str (UnsupportedKey what) = ''unsupported key: '' @ what"
| "webauthn_error_str BadSignature = ''signature verification failed''"
| "webauthn_error_str CloneSuspected =
     ''signature counter regressed (possible cloned authenticator)''"
| "webauthn_error_str UnknownChallenge = ''unknown or expired challenge''"
| "webauthn_error_str WrongUser = ''ceremony does not belong to this user''"
| "webauthn_error_str UnknownCredential = ''no passkey with that credential id''"
| "webauthn_error_str LastPasskey =
     ''this is the last enrolled passkey; removing it needs the operator password''"
| "webauthn_error_str (Store e) = ''passkey store: '' @ e"
| "webauthn_error_str IndexPanic = ''index out of range''"

record rp_config =
  rp_id :: string
  rp_origin :: string

record passkey =
  credential_id :: string
  public_key_x963 :: string
  pk_sign_count :: u32
  created_at :: string
  label :: string

record client_data =
  cd_kind :: string
  cd_challenge :: string
  cd_origin :: string

text \<open>What \<open>ciborium::Value\<close> offers to this code: integers, byte and text strings and maps.\<close>

datatype cbor =
    CInt int
  | CBytes "byte list"
  | CText string
  | CMap "(cbor \<times> cbor) list"
  | COther

record ext =
  sha256 :: "byte list \<Rightarrow> byte list"
  verify_es256 :: "byte list \<Rightarrow> byte list \<Rightarrow> byte list \<Rightarrow> bool"
  der_to_raw_rs :: "byte list \<Rightarrow> byte list option"
  b64_encode :: "byte list \<Rightarrow> string"
  b64_decode :: "string \<Rightarrow> byte list option"
  b64url_encode :: "byte list \<Rightarrow> string"
  b64url_decode :: "string \<Rightarrow> byte list option"
  cbor_of :: "byte list \<Rightarrow> cbor option"
  client_data_of :: "byte list \<Rightarrow> client_data option"
  json_of :: "byte list \<Rightarrow> json option"
  json_text :: "json \<Rightarrow> string"

subsection \<open>The passkey store\<close>

text \<open>\<open>disk\<close> is what writing the store to its file answers. The table in memory has already changed
  when the write is tried.\<close>

type_synonym passkey_store = "(string, passkey list) hmap"

definition pk_for_user :: "passkey_store \<Rightarrow> string \<Rightarrow> passkey list" where
  "pk_for_user st user = (case hm_get st user of None \<Rightarrow> [] | Some l \<Rightarrow> l)"

definition pk_has_any :: "passkey_store \<Rightarrow> string \<Rightarrow> bool" where
  "pk_has_any st user \<longleftrightarrow> pk_for_user st user \<noteq> []"

definition pk_add ::
  "passkey_store \<Rightarrow> webauthn_error + unit \<Rightarrow> string \<Rightarrow> passkey \<Rightarrow> passkey_store \<times> (webauthn_error + unit)" where
  "pk_add st disk user rec =
     (let st1 = (case hm_get st user of None \<Rightarrow> hm_insert user [] st | Some _ \<Rightarrow> st);
          l = pk_for_user st1 user
      in if list_ex (\<lambda>r. credential_id r = credential_id rec) l
         then (st1, Inl (Store ''credential already enrolled''))
         else (hm_insert user (l @ [rec]) st1, disk))"

fun remove_first :: "('a \<Rightarrow> bool) \<Rightarrow> 'a list \<Rightarrow> 'a list" where
  "remove_first P [] = []"
| "remove_first P (x # xs) = (if P x then xs else x # remove_first P xs)"

definition pk_remove ::
  "passkey_store \<Rightarrow> webauthn_error + unit \<Rightarrow> string \<Rightarrow> string \<Rightarrow> bool \<Rightarrow>
   passkey_store \<times> (webauthn_error + nat)" where
  "pk_remove st disk user cid allow_last =
     (case hm_get st user of
        None \<Rightarrow> (st, Inl UnknownCredential)
      | Some l \<Rightarrow>
          if \<not> list_ex (\<lambda>r. credential_id r = cid) l then (st, Inl UnknownCredential)
          else if length l = 1 \<and> \<not> allow_last then (st, Inl LastPasskey)
          else (let l' = remove_first (\<lambda>r. credential_id r = cid) l
                in (hm_insert user l' st, ebind disk (\<lambda>_. Inr (length l')))))"

fun update_first :: "('a \<Rightarrow> bool) \<Rightarrow> ('a \<Rightarrow> 'a) \<Rightarrow> 'a list \<Rightarrow> 'a list" where
  "update_first P f [] = []"
| "update_first P f (x # xs) = (if P x then f x # xs else x # update_first P f xs)"

definition pk_update_sign_count ::
  "passkey_store \<Rightarrow> webauthn_error + unit \<Rightarrow> string \<Rightarrow> string \<Rightarrow> u32 \<Rightarrow>
   passkey_store \<times> (webauthn_error + unit)" where
  "pk_update_sign_count st disk user cid n =
     (case hm_get st user of
        None \<Rightarrow> (st, disk)
      | Some l \<Rightarrow>
          (hm_insert user (update_first (\<lambda>r. credential_id r = cid)
             (\<lambda>r. r\<lparr>pk_sign_count := n\<rparr>) l) st, disk))"

subsection \<open>One-shot challenges\<close>

datatype purpose = Register | Action string string

record pending =
  pend_user :: string
  pend_purpose :: purpose
  pend_expires :: time

type_synonym pending_table = "(string, pending) hmap"

definition CEREMONY_TTL :: time where "CEREMONY_TTL = 120 * 1000000000"

text \<open>\<open>u8::from_str_radix(_, 16)\<close> on two characters, a leading plus sign included.\<close>

definition hex_val :: "char \<Rightarrow> nat option" where
  "hex_val c =
     (let n = (of_char c :: nat) in
      if 48 \<le> n \<and> n \<le> 57 then Some (n - 48)
      else if 97 \<le> n \<and> n \<le> 102 then Some (n - 87)
      else if 65 \<le> n \<and> n \<le> 70 then Some (n - 55) else None)"

definition from_str_radix16 :: "char \<Rightarrow> char \<Rightarrow> byte option" where
  "from_str_radix16 a b =
     (if a = CHR ''+'' then map_option of_nat (hex_val b)
      else (case (hex_val a, hex_val b) of
              (Some h, Some l) \<Rightarrow> Some (of_nat (16 * h + l))
            | _ \<Rightarrow> None))"

fun hex_to_bytes :: "string \<Rightarrow> byte list option" where
  "hex_to_bytes [] = Some []"
| "hex_to_bytes [_] = None"
| "hex_to_bytes (a # b # s) =
     (case from_str_radix16 a b of
        None \<Rightarrow> None
      | Some x \<Rightarrow> map_option ((#) x) (hex_to_bytes s))"

text \<open>\<open>mint\<close>: \<open>entropy\<close> is what the random source answers, an error or 32 bytes, which
  \<open>random_hex\<close> turns to hex and \<open>mint\<close> back; \<open>IndexPanic\<close> stands for the \<open>expect\<close> on the way back.\<close>

definition mint ::
  "ext \<Rightarrow> pending_table \<Rightarrow> string + byte list \<Rightarrow> string \<Rightarrow> purpose \<Rightarrow> time \<Rightarrow>
   pending_table \<times> (webauthn_error + string)" where
  "mint E p entropy user purpose now =
     (case entropy of
        Inl e \<Rightarrow> (p, Inl (Store (''entropy: '' @ e)))
      | Inr bytes \<Rightarrow>
          (case hex_to_bytes (hex bytes) of
             None \<Rightarrow> (p, Inl IndexPanic)
           | Some raw \<Rightarrow>
               (let challenge = b64url_encode E raw;
                    kept = hm_retain (\<lambda>q. now < pend_expires q) p
                in (hm_insert challenge
                      \<lparr>pend_user = user, pend_purpose = purpose,
                       pend_expires = now + CEREMONY_TTL\<rparr> kept,
                    Inr challenge))))"

definition take_challenge ::
  "pending_table \<Rightarrow> string \<Rightarrow> string \<Rightarrow> time \<Rightarrow> pending_table \<times> (webauthn_error + purpose)" where
  "take_challenge p user challenge now =
     (case hm_get p challenge of
        None \<Rightarrow> (p, Inl UnknownChallenge)
      | Some q \<Rightarrow>
          (hm_remove challenge p,
           if pend_expires q \<le> now then Inl UnknownChallenge
           else if pend_user q \<noteq> user then Inl WrongUser
           else Inr (pend_purpose q)))"

subsection \<open>Authenticator data\<close>

definition FLAG_UP :: byte where "FLAG_UP = 0x01"
definition FLAG_UV :: byte where "FLAG_UV = 0x04"
definition FLAG_AT :: byte where "FLAG_AT = 0x40"

record attested_credential =
  ac_credential_id :: "byte list"
  ac_public_key :: "byte list"

record auth_data =
  ad_rp_id_hash :: "byte list"
  ad_flags :: byte
  ad_sign_count :: u32
  ad_credential :: "attested_credential option"

definition be16 :: "byte \<Rightarrow> byte \<Rightarrow> nat" where
  "be16 a b = unat a * 256 + unat b"

definition be32 :: "byte \<Rightarrow> byte \<Rightarrow> byte \<Rightarrow> byte \<Rightarrow> u32" where
  "be32 a b c d = of_nat (((unat a * 256 + unat b) * 256 + unat c) * 256 + unat d)"

definition as_map :: "cbor \<Rightarrow> (cbor \<times> cbor) list option" where
  "as_map v = (case v of CMap m \<Rightarrow> Some m | _ \<Rightarrow> None)"

definition as_bytes :: "cbor \<Rightarrow> byte list option" where
  "as_bytes v = (case v of CBytes b \<Rightarrow> Some b | _ \<Rightarrow> None)"

definition as_text :: "cbor \<Rightarrow> string option" where
  "as_text v = (case v of CText t \<Rightarrow> Some t | _ \<Rightarrow> None)"

definition int_of :: "cbor \<Rightarrow> int option" where
  "int_of v = (case v of CInt i \<Rightarrow> if - (2 ^ 63) \<le> i \<and> i < 2 ^ 63 then Some i else None | _ \<Rightarrow> None)"

definition map_get :: "(cbor \<times> cbor) list \<Rightarrow> cbor \<Rightarrow> cbor option" where
  "map_get m key = map_option snd (find (\<lambda>(k, _). k = key) m)"

definition filter_opt :: "('a \<Rightarrow> bool) \<Rightarrow> 'a option \<Rightarrow> 'a option" where
  "filter_opt P x = (case x of None \<Rightarrow> None | Some a \<Rightarrow> if P a then Some a else None)"

definition cose_key_to_x963 :: "cbor \<Rightarrow> webauthn_error + byte list" where
  "cose_key_to_x963 cose =
     ebind (ok_or (Malformed ''COSE key (not a map)'') (as_map cose)) (\<lambda>m.
     ebind (ensure (Option.bind (map_get m (CInt 1)) int_of = Some 2)
              (UnsupportedKey ''kty is not EC2'')) (\<lambda>_.
     ebind (ensure (Option.bind (map_get m (CInt 3)) int_of = Some (- 7))
              (UnsupportedKey ''alg is not ES256 (-7)'')) (\<lambda>_.
     ebind (ensure (Option.bind (map_get m (CInt (- 1))) int_of = Some 1)
              (UnsupportedKey ''crv is not P-256'')) (\<lambda>_.
     ebind (ok_or (UnsupportedKey ''x is not 32 bytes'')
              (filter_opt (\<lambda>b. length b = 32) (Option.bind (map_get m (CInt (- 2))) as_bytes))) (\<lambda>x.
     ebind (ok_or (UnsupportedKey ''y is not 32 bytes'')
              (filter_opt (\<lambda>b. length b = 32) (Option.bind (map_get m (CInt (- 3))) as_bytes))) (\<lambda>y.
     Inr ([0x04] @ x @ y)))))))"

definition parse_attested :: "ext \<Rightarrow> byte list \<Rightarrow> webauthn_error + attested_credential" where
  "parse_attested E bytes =
     ebind (ensure (37 + 18 \<le> length bytes)
              (Malformed ''attestedCredentialData (too short)'')) (\<lambda>_.
     ebind (ok_or IndexPanic (at bytes 53)) (\<lambda>hi.
     ebind (ok_or IndexPanic (at bytes 54)) (\<lambda>lo.
     (let cred_end = 55 + be16 hi lo in
      ebind (ensure (cred_end \<le> length bytes) (Malformed ''credentialId length'')) (\<lambda>_.
      ebind (ok_or IndexPanic (slice bytes 55 cred_end)) (\<lambda>cid.
      ebind (ok_or IndexPanic (slice bytes cred_end (length bytes))) (\<lambda>rest.
      ebind (ok_or (Malformed ''COSE key CBOR'') (cbor_of E rest)) (\<lambda>cose.
      ebind (cose_key_to_x963 cose) (\<lambda>key.
      Inr \<lparr>ac_credential_id = cid, ac_public_key = key\<rparr>)))))))))"

definition parse_authenticator_data :: "ext \<Rightarrow> byte list \<Rightarrow> webauthn_error + auth_data" where
  "parse_authenticator_data E bytes =
     ebind (ensure (37 \<le> length bytes) (Malformed ''authenticatorData (too short)'')) (\<lambda>_.
     ebind (ok_or IndexPanic (slice bytes 0 32)) (\<lambda>h.
     ebind (ok_or IndexPanic (at bytes 32)) (\<lambda>flags.
     ebind (ok_or IndexPanic (at bytes 33)) (\<lambda>a.
     ebind (ok_or IndexPanic (at bytes 34)) (\<lambda>b.
     ebind (ok_or IndexPanic (at bytes 35)) (\<lambda>c.
     ebind (ok_or IndexPanic (at bytes 36)) (\<lambda>d.
     ebind (if flags AND FLAG_AT \<noteq> 0 then ebind (parse_attested E bytes) (\<lambda>k. Inr (Some k))
            else Inr None) (\<lambda>cred.
     Inr \<lparr>ad_rp_id_hash = h, ad_flags = flags, ad_sign_count = be32 a b c d,
          ad_credential = cred\<rparr>))))))))"

definition parse_attestation_object :: "ext \<Rightarrow> byte list \<Rightarrow> webauthn_error + byte list" where
  "parse_attestation_object E bytes =
     ebind (ok_or (Malformed ''attestationObject CBOR'') (cbor_of E bytes)) (\<lambda>v.
     ebind (ok_or (Malformed ''attestationObject (not a map)'') (as_map v)) (\<lambda>m.
     ebind (ensure (Option.bind (map_get m (CText ''fmt'')) as_text = Some ''none'')
              UnsupportedAttestation) (\<lambda>_.
     ok_or (Malformed ''authData missing'')
       (Option.bind (map_get m (CText ''authData'')) as_bytes))))"

subsection \<open>Verification\<close>

text \<open>The bytes of a string, as \<open>str::as_bytes\<close> gives them to the hash.\<close>

definition utf8 :: "string \<Rightarrow> byte list" where
  "utf8 s = map (\<lambda>c. of_nat (of_char c)) s"

definition rp_id_hash :: "ext \<Rightarrow> string \<Rightarrow> byte list" where
  "rp_id_hash E rp = sha256 E (utf8 rp)"

record verified_registration =
  vr_credential_id :: string
  vr_public_key :: string
  vr_sign_count :: u32
  vr_user_verified :: bool

record verified_assertion =
  va_sign_count :: u32
  va_user_verified :: bool

definition parse_client_data :: "ext \<Rightarrow> byte list \<Rightarrow> webauthn_error + client_data" where
  "parse_client_data E b = ok_or (Malformed ''clientDataJSON'') (client_data_of E b)"

definition verify_registration ::
  "ext \<Rightarrow> rp_config \<Rightarrow> string \<Rightarrow> byte list \<Rightarrow> byte list \<Rightarrow> webauthn_error + verified_registration" where
  "verify_registration E rp expected_challenge client_data_json attestation_object =
     ebind (parse_client_data E client_data_json) (\<lambda>client.
     ebind (ensure (cd_kind client = ''webauthn.create'') (Mismatch ''ceremony type'')) (\<lambda>_.
     ebind (ensure (cd_challenge client = expected_challenge) (Mismatch ''challenge'')) (\<lambda>_.
     ebind (ensure (cd_origin client = rp_origin rp) (Mismatch ''origin'')) (\<lambda>_.
     ebind (parse_attestation_object E attestation_object) (\<lambda>auth_bytes.
     ebind (parse_authenticator_data E auth_bytes) (\<lambda>auth.
     ebind (ensure (ad_rp_id_hash auth = rp_id_hash E (rp_id rp)) (Mismatch ''rp id'')) (\<lambda>_.
     ebind (ensure (ad_flags auth AND FLAG_UP \<noteq> 0) UserNotPresent) (\<lambda>_.
     ebind (ok_or (Malformed ''attestedCredentialData missing'') (ad_credential auth)) (\<lambda>cred.
     Inr \<lparr>vr_credential_id = b64url_encode E (ac_credential_id cred),
          vr_public_key = b64_encode E (ac_public_key cred),
          vr_sign_count = ad_sign_count auth,
          vr_user_verified = (ad_flags auth AND FLAG_UV \<noteq> 0)\<rparr>)))))))))"

definition verify_assertion ::
  "ext \<Rightarrow> rp_config \<Rightarrow> string \<Rightarrow> passkey \<Rightarrow> byte list \<Rightarrow> byte list \<Rightarrow> byte list \<Rightarrow>
   webauthn_error + verified_assertion" where
  "verify_assertion E rp expected_challenge rec client_data_json authenticator_data signature_der =
     ebind (parse_client_data E client_data_json) (\<lambda>client.
     ebind (ensure (cd_kind client = ''webauthn.get'') (Mismatch ''ceremony type'')) (\<lambda>_.
     ebind (ensure (cd_challenge client = expected_challenge) (Mismatch ''challenge'')) (\<lambda>_.
     ebind (ensure (cd_origin client = rp_origin rp) (Mismatch ''origin'')) (\<lambda>_.
     ebind (parse_authenticator_data E authenticator_data) (\<lambda>auth.
     ebind (ensure (ad_rp_id_hash auth = rp_id_hash E (rp_id rp)) (Mismatch ''rp id'')) (\<lambda>_.
     ebind (ensure (ad_flags auth AND FLAG_UP \<noteq> 0) UserNotPresent) (\<lambda>_.
     ebind (ensure (ad_flags auth AND FLAG_UV \<noteq> 0) UserNotVerified) (\<lambda>_.
     ebind (ok_or (Malformed ''stored public key'') (b64_decode E (public_key_x963 rec))) (\<lambda>pubkey.
     ebind (ok_or (Malformed ''signature DER'') (der_to_raw_rs E signature_der)) (\<lambda>raw.
     ebind (ensure (verify_es256 E pubkey (authenticator_data @ sha256 E client_data_json) raw)
              BadSignature) (\<lambda>_.
     ebind (ensure (\<not> (0 < pk_sign_count rec \<and> 0 < ad_sign_count auth
                        \<and> ad_sign_count auth \<le> pk_sign_count rec)) CloneSuspected) (\<lambda>_.
     Inr \<lparr>va_sign_count = ad_sign_count auth,
          va_user_verified = (ad_flags auth AND FLAG_UV \<noteq> 0)\<rparr>))))))))))))"

subsection \<open>Parsing stays in range\<close>

lemma cose_no_panic: "cose_key_to_x963 v \<noteq> Inl IndexPanic"
  by (auto simp: cose_key_to_x963_def result_iffs)

lemma cose_key_length: "cose_key_to_x963 v = Inr k \<Longrightarrow> length k = 65 \<and> hd k = 0x04"
  by (auto simp: cose_key_to_x963_def result_iffs filter_opt_def split: option.splits if_splits)

lemma parse_attested_no_panic: "parse_attested E bytes \<noteq> Inl IndexPanic"
  by (auto simp: parse_attested_def result_iffs Let_def at_def slice_def cose_no_panic)

text \<open>Parsing authenticator data never reads out of range, whatever bytes arrive and whatever
  length the credential id claims: every index the code uses is covered by its length checks.\<close>

theorem parse_never_panics: "parse_authenticator_data E bytes \<noteq> Inl IndexPanic"
  by (auto simp: parse_authenticator_data_def result_iffs at_def slice_def parse_attested_no_panic
      split: if_splits)

subsection \<open>Parsing inverts the format\<close>

definition to_be16 :: "nat \<Rightarrow> byte list" where
  "to_be16 n = [of_nat (n div 256), of_nat (n mod 256)]"

definition to_be32 :: "u32 \<Rightarrow> byte list" where
  "to_be32 w = (let n = unat w in
     [of_nat (n div 16777216), of_nat (n div 65536 mod 256), of_nat (n div 256 mod 256), of_nat (n mod 256)])"

lemma unat_of_nat_byte: "unat (of_nat n :: byte) = n mod 256"
  by (simp add: unsigned_of_nat take_bit_eq_mod)

lemma be16_to_be16: "n < 65536 \<Longrightarrow> be16 (of_nat (n div 256)) (of_nat (n mod 256)) = n"
  by (simp add: be16_def unat_of_nat_byte)

lemma be32_to_be32:
  "be32 (of_nat (unat w div 16777216)) (of_nat (unat w div 65536 mod 256))
        (of_nat (unat w div 256 mod 256)) (of_nat (unat w mod 256)) = w"
proof -
  define n q1 q2 q3 where "n = unat w" and "q1 = n div 256" and "q2 = q1 div 256" and "q3 = q2 div 256"
  have q: "n div 65536 = q2" "n div 16777216 = q3"
    by (simp_all add: q1_def q2_def q3_def flip: div_mult2_eq)
  have "unat w < 2 ^ 32" by (rule order.strict_trans2 [OF unsigned_less]) simp
  then have "q3 mod 256 = q3" by (simp add: n_def q1_def q2_def q3_def flip: div_mult2_eq)
  moreover have "q3 * 256 + q2 mod 256 = q2" "q2 * 256 + q1 mod 256 = q1" "q1 * 256 + n mod 256 = n"
    by (simp_all add: q1_def q2_def q3_def)
  ultimately have "(((n div 16777216 mod 256) * 256 + n div 65536 mod 256) * 256
      + n div 256 mod 256) * 256 + n mod 256 = n"
    by (simp add: q flip: q1_def)
  then show ?thesis
    unfolding be32_def unat_of_nat_byte mod_mod_trivial n_def by (simp only: of_nat_unat ucast_id)
qed

text \<open>The layout of authenticator data (WebAuthn L2, section 6.1) and of the credential part.\<close>

definition encode_auth_data :: "byte list \<Rightarrow> byte \<Rightarrow> u32 \<Rightarrow> byte list \<Rightarrow> byte list" where
  "encode_auth_data h flags n rest = h @ flags # to_be32 n @ rest"

definition encode_credential :: "byte list \<Rightarrow> byte list \<Rightarrow> byte list \<Rightarrow> byte list" where
  "encode_credential aaguid cid key = aaguid @ to_be16 (length cid) @ cid @ key"

definition cose_es256 :: "byte list \<Rightarrow> byte list \<Rightarrow> cbor" where
  "cose_es256 x y = CMap [(CInt 1, CInt 2), (CInt 3, CInt (- 7)), (CInt (- 1), CInt 1),
     (CInt (- 2), CBytes x), (CInt (- 3), CBytes y)]"

lemma cose_es256_x963:
  "length x = 32 \<Longrightarrow> length y = 32 \<Longrightarrow> cose_key_to_x963 (cose_es256 x y) = Inr (0x04 # x @ y)"
  by (simp add: cose_key_to_x963_def cose_es256_def as_map_def map_get_def int_of_def as_bytes_def
      filter_opt_def)

lemma parse_auth_data_layout:
  assumes "length h = 32"
  shows "parse_authenticator_data E (encode_auth_data h flags n rest) =
    ebind (if flags AND FLAG_AT \<noteq> 0
           then ebind (parse_attested E (encode_auth_data h flags n rest)) (\<lambda>k. Inr (Some k))
           else Inr None) (\<lambda>cred.
     Inr \<lparr>ad_rp_id_hash = h, ad_flags = flags, ad_sign_count = n, ad_credential = cred\<rparr>)"
  using assms
  by (simp add: parse_authenticator_data_def encode_auth_data_def slice_def at_def nth_append
      to_be32_def Let_def be32_to_be32)

lemma parse_attested_layout:
  assumes "length h = 32" and "length aaguid = 16" and "length cid < 65536"
  shows "parse_attested E (encode_auth_data h flags n (encode_credential aaguid cid key)) =
    ebind (ok_or (Malformed ''COSE key CBOR'') (cbor_of E key)) (\<lambda>cose.
    ebind (cose_key_to_x963 cose) (\<lambda>k. Inr \<lparr>ac_credential_id = cid, ac_public_key = k\<rparr>))"
proof -
  define pre where "pre = h @ flags # to_be32 n @ aaguid"
  have len: "length pre = 53" using assms by (simp add: pre_def to_be32_def Let_def)
  have eq: "encode_auth_data h flags n (encode_credential aaguid cid key) =
      pre @ to_be16 (length cid) @ cid @ key"
    by (simp add: encode_auth_data_def encode_credential_def pre_def)
  show ?thesis
    using len assms(3) unfolding eq
    by (simp add: parse_attested_def to_be16_def at_def nth_append slice_def be16_to_be16 Let_def)
qed

text \<open>Parsing inverts the authenticator-data format: an assertion's data (no attested
  credential) and a registration's data (an ES256 key in COSE form) come back field for field, with
  the key as the uncompressed point \<open>0x04 x y\<close>, whatever extension bytes follow.\<close>

theorem authenticator_data_roundtrip:
  assumes "length h = 32"
  shows "(flags AND FLAG_AT = 0 \<longrightarrow>
      parse_authenticator_data E (encode_auth_data h flags n exts) =
        Inr \<lparr>ad_rp_id_hash = h, ad_flags = flags, ad_sign_count = n, ad_credential = None\<rparr>)
    \<and> (flags AND FLAG_AT \<noteq> 0 \<and> length aaguid = 16 \<and> length cid < 65536
      \<and> length x = 32 \<and> length y = 32 \<and> cbor_of E key = Some (cose_es256 x y) \<longrightarrow>
      parse_authenticator_data E (encode_auth_data h flags n (encode_credential aaguid cid key)) =
        Inr \<lparr>ad_rp_id_hash = h, ad_flags = flags, ad_sign_count = n,
             ad_credential = Some \<lparr>ac_credential_id = cid, ac_public_key = 0x04 # x @ y\<rparr>\<rparr>)"
  using assms
  by (simp_all add: parse_auth_data_layout parse_attested_layout cose_es256_x963)

definition demo_ext :: ext where
  "demo_ext = \<lparr>sha256 = (\<lambda>b. replicate 32 (of_nat (length b))),
     verify_es256 = (\<lambda>k m s. s = k), der_to_raw_rs = Some,
     b64_encode = hex, b64_decode = hex_to_bytes, b64url_encode = hex, b64url_decode = hex_to_bytes,
     cbor_of = (\<lambda>b. if b = [] then None else Some (cose_es256 (replicate 32 1) (replicate 32 2))),
     client_data_of = (\<lambda>b. Some \<lparr>cd_kind = ''webauthn.get'', cd_challenge = hex b,
        cd_origin = ''https://box''\<rparr>),
     json_of = (\<lambda>b. Some (JObject [(''challenge'', JString (hex b))])),
     json_text = (\<lambda>v. case v of JString s \<Rightarrow> s | _ \<Rightarrow> ''{}'')\<rparr>"

theorem authenticator_data_roundtrip_witness:
  "parse_authenticator_data demo_ext
     (encode_auth_data (replicate 32 9) 0x45 7 (encode_credential (replicate 16 0) [1, 2] [0xA5])) =
   Inr \<lparr>ad_rp_id_hash = replicate 32 9, ad_flags = 0x45, ad_sign_count = 7,
        ad_credential = Some \<lparr>ac_credential_id = [1, 2],
          ac_public_key = 0x04 # replicate 32 1 @ replicate 32 2\<rparr>\<rparr>"
proof -
  have h: "length (replicate 32 (9 :: byte)) = 32" by simp
  have "(0x45 :: byte) AND FLAG_AT \<noteq> 0" by (simp add: FLAG_AT_def)
  moreover have "cbor_of demo_ext [0xA5] = Some (cose_es256 (replicate 32 1) (replicate 32 2))"
    by (simp add: demo_ext_def)
  ultimately show ?thesis
    using authenticator_data_roundtrip [OF h, THEN conjunct2, of "0x45" "replicate 16 0" "[1, 2]" "replicate 32 1"
        "replicate 32 2" demo_ext "[0xA5]" 7]
    by (simp only: length_replicate) simp
qed

subsection \<open>What an accepted assertion means\<close>

text \<open>An assertion is accepted exactly when the client data parses as a \<open>webauthn.get\<close> for the
  expected challenge and origin, the authenticator data carries the hash of the relying party's id
  with both the presence and the verification flag, the stored key verifies the signature over
  exactly \<open>authenticator data || SHA-256(client data)\<close>, and the counter does not regress; the
  answer then reports the counter and that the user was verified.\<close>

theorem verify_assertion_iff:
  "verify_assertion E rp c rec cdj ad sig = Inr v \<longleftrightarrow>
     (\<exists>client auth pubkey raw.
        client_data_of E cdj = Some client \<and> cd_kind client = ''webauthn.get''
      \<and> cd_challenge client = c \<and> cd_origin client = rp_origin rp
      \<and> parse_authenticator_data E ad = Inr auth
      \<and> ad_rp_id_hash auth = sha256 E (utf8 (rp_id rp))
      \<and> ad_flags auth AND FLAG_UP \<noteq> 0 \<and> ad_flags auth AND FLAG_UV \<noteq> 0
      \<and> b64_decode E (public_key_x963 rec) = Some pubkey
      \<and> der_to_raw_rs E sig = Some raw
      \<and> verify_es256 E pubkey (ad @ sha256 E cdj) raw
      \<and> (pk_sign_count rec = 0 \<or> ad_sign_count auth = 0
          \<or> pk_sign_count rec < ad_sign_count auth)
      \<and> v = \<lparr>va_sign_count = ad_sign_count auth, va_user_verified = True\<rparr>)"
  unfolding verify_assertion_def parse_client_data_def rp_id_hash_def result_iffs
  by (auto simp: word_gt_0 not_le)

subsection \<open>The passkey store\<close>

definition store_wf :: "passkey_store \<Rightarrow> bool" where
  "store_wf st \<longleftrightarrow> hm_wf st \<and> (\<forall>u. distinct (map credential_id (pk_for_user st u)))"

lemma pk_for_user_insert:
  "pk_for_user (hm_insert u l st) u' = (if u' = u then l else pk_for_user st u')"
  by (simp add: pk_for_user_def table_simps)

lemma list_ex_credential:
  "list_ex (\<lambda>r. credential_id r = c) l \<longleftrightarrow> c \<in> credential_id ` set l"
  by (auto simp: list_ex_iff)

lemma remove_first_credential:
  "distinct (map credential_id l) \<Longrightarrow>
   remove_first (\<lambda>r. credential_id r = c) l = filter (\<lambda>r. credential_id r \<noteq> c) l"
  by (induction l) (auto simp: image_iff intro!: filter_True [symmetric])

lemma map_credential_update_first [simp]:
  "map credential_id (update_first (\<lambda>r. credential_id r = c) (\<lambda>r. r\<lparr>pk_sign_count := n\<rparr>) l) =
   map credential_id l"
  by (induction l) auto

lemma length_remove_first:
  "list_ex P l \<Longrightarrow> Suc (length (remove_first P l)) = length l"
  by (induction l) auto

lemma pk_add_user:
  "pk_for_user (fst (pk_add st disk u rec)) u' =
     (if u' = u \<and> credential_id rec \<notin> credential_id ` set (pk_for_user st u)
      then pk_for_user st u @ [rec] else pk_for_user st u')"
  by (auto simp: pk_add_def Let_def pk_for_user_insert list_ex_credential pk_for_user_def table_simps
      split: option.splits)

lemma pk_remove_user:
  "pk_for_user (fst (pk_remove st disk u c allow)) u' =
     (if u' = u \<and> c \<in> credential_id ` set (pk_for_user st u)
         \<and> (length (pk_for_user st u) = 1 \<longrightarrow> allow)
      then remove_first (\<lambda>r. credential_id r = c) (pk_for_user st u) else pk_for_user st u')"
  by (auto simp: pk_remove_def Let_def list_ex_credential pk_for_user_def table_simps
      split: option.splits)

lemma pk_update_user:
  "pk_for_user (fst (pk_update_sign_count st disk u c n)) u' =
     (if u' = u then update_first (\<lambda>r. credential_id r = c) (\<lambda>r. r\<lparr>pk_sign_count := n\<rparr>)
                       (pk_for_user st u)
      else pk_for_user st u')"
  by (auto simp: pk_update_sign_count_def pk_for_user_def table_simps split: option.splits)

lemma store_wf_add: "store_wf st \<Longrightarrow> store_wf (fst (pk_add st disk u rec))"
  unfolding store_wf_def pk_add_user
  by (auto simp: pk_add_def Let_def split: option.splits)

lemma distinct_map_remove_first:
  "distinct (map f l) \<Longrightarrow> distinct (map f (remove_first P l))"
proof -
  have "set (remove_first P l) \<subseteq> set l" for l by (induction l) auto
  then show "distinct (map f l) \<Longrightarrow> ?thesis" by (induction l) fastforce+
qed

lemma store_wf_remove: "store_wf st \<Longrightarrow> store_wf (fst (pk_remove st disk u c allow))"
  unfolding store_wf_def pk_remove_user
  by (auto simp: pk_remove_def Let_def distinct_map_remove_first split: option.splits)

lemma store_wf_update: "store_wf st \<Longrightarrow> store_wf (fst (pk_update_sign_count st disk u c n))"
  unfolding store_wf_def pk_update_user
  by (auto simp: pk_update_sign_count_def split: option.splits)

text \<open>Removing a passkey takes away exactly the named credential of the named user and answers
  how many that user has left; a user is left without any passkey only when \<open>allow_last\<close> was given;
  a credential the user does not have, or a refused last one, changes nothing.\<close>

theorem pk_remove_exact:
  assumes "store_wf st" and "pk_remove st (Inr ()) u c allow = (st', r)"
  shows "(case r of
            Inr n \<Rightarrow>
              pk_for_user st' u = filter (\<lambda>k. credential_id k \<noteq> c) (pk_for_user st u)
            \<and> c \<in> credential_id ` set (pk_for_user st u)
            \<and> n = length (pk_for_user st' u)
            \<and> Suc n = length (pk_for_user st u)
            \<and> (n = 0 \<longrightarrow> allow)
          | Inl e \<Rightarrow>
              st' = st
            \<and> (e = LastPasskey \<and> \<not> allow \<and> map credential_id (pk_for_user st u) = [c]
               \<or> e = UnknownCredential \<and> c \<notin> credential_id ` set (pk_for_user st u)))
         \<and> (\<forall>u'. u' \<noteq> u \<longrightarrow> pk_for_user st' u' = pk_for_user st u')"
proof -
  have d: "distinct (map credential_id (pk_for_user st u))"
    using assms(1) by (simp add: store_wf_def)
  have other: "pk_for_user st' u' = pk_for_user st u'" if "u' \<noteq> u" for u'
    using assms(2) pk_remove_user [of st "Inr ()" u c allow u'] that by simp
  show ?thesis
  proof (cases "c \<in> credential_id ` set (pk_for_user st u)")
    case False
    then show ?thesis using assms(2)
      by (auto simp: pk_remove_def list_ex_credential pk_for_user_def split: option.splits)
  next
    case True
    then obtain l where l: "hm_get st u = Some l" "pk_for_user st u = l" "list_ex (\<lambda>r. credential_id r = c) l"
      by (cases "hm_get st u") (auto simp: pk_for_user_def list_ex_credential)
    show ?thesis
    proof (cases "length l = 1 \<and> \<not> allow")
      case True
      then show ?thesis using assms(2) l by (auto simp: pk_remove_def length_Suc_conv)
    next
      case refused: False
      then have "st' = hm_insert u (filter (\<lambda>k. credential_id k \<noteq> c) l) st"
        and "r = Inr (length (filter (\<lambda>k. credential_id k \<noteq> c) l))"
        using assms(2) l remove_first_credential [OF d, of c] by (auto simp: pk_remove_def Let_def)
      then show ?thesis
        using l True refused other length_remove_first [OF l(3)] remove_first_credential [OF d, of c]
        by (auto simp: pk_for_user_insert)
    qed
  qed
qed

theorem pk_remove_exact_witness:
  "let k = \<lparr>credential_id = ''a'', public_key_x963 = ''k'', pk_sign_count = 0,
            created_at = ''t'', label = ''laptop''\<rparr>;
       st = [(''ada'', [k])]
   in pk_remove st (Inr ()) ''ada'' ''a'' False = (st, Inl LastPasskey)
      \<and> (\<forall>u'. u' \<noteq> ''ada'' \<longrightarrow> pk_for_user st u' = pk_for_user st u')"
proof -
  define k where "k = \<lparr>credential_id = ''a'', public_key_x963 = ''k'', pk_sign_count = 0,
            created_at = ''t'', label = ''laptop''\<rparr>"
  define st where "st = [(''ada'', [k])]"
  have wf: "store_wf st"
    by (auto simp: store_wf_def st_def hm_wf_def pk_for_user_def hm_get_def)
  have r: "pk_remove st (Inr ()) ''ada'' ''a'' False = (st, Inl LastPasskey)"
    by (simp add: pk_remove_def st_def hm_get_def k_def)
  from pk_remove_exact [OF wf r] r show ?thesis
    unfolding Let_def k_def [symmetric] st_def [symmetric] by blast
qed

subsection \<open>Challenges are redeemed at most once\<close>

text \<open>The bytes the random source gave come back from their hex form, so minting never panics.\<close>

lemma hex_val_digit: "i < 16 \<Longrightarrow> hex_val (hex_digits ! i) = Some i"
proof -
  have "\<forall>i\<in>set [0..<16]. hex_val (hex_digits ! i) = Some i"
    by code_simp
  then show "i < 16 \<Longrightarrow> ?thesis" by simp
qed

lemma hex_digit_not_plus: "i < 16 \<Longrightarrow> hex_digits ! i \<noteq> CHR ''+''"
proof -
  have "\<forall>i\<in>set [0..<16]. hex_digits ! i \<noteq> CHR ''+''"
    by code_simp
  then show "i < 16 \<Longrightarrow> ?thesis" by simp
qed

lemma hex_to_bytes_hex [simp]: "hex_to_bytes (hex bs) = Some bs"
proof (induction bs)
  case (Cons b bs)
  have "unat b div 16 < 16" using byte_less [of b] by simp
  moreover have "(16 * (unat b div 16) + unat b mod 16) = unat b" by simp
  ultimately show ?case
    using Cons
    by (simp add: hex_def hex_byte_def from_str_radix16_def hex_val_digit hex_digit_not_plus
        del: mult_div_mod_eq)
qed (simp add: hex_def)

datatype pending_op =
    Mint "string + byte list" string purpose time
  | Take string string time

fun pending_step :: "ext \<Rightarrow> pending_table \<Rightarrow> pending_op \<Rightarrow> pending_table \<times> (webauthn_error + string + purpose)" where
  "pending_step E p (Mint entropy user pu now) =
     (case mint E p entropy user pu now of (p', r) \<Rightarrow> (p', ebind r (\<lambda>c. Inr (Inl c))))"
| "pending_step E p (Take user c now) =
     (case take_challenge p user c now of (p', r) \<Rightarrow> (p', ebind r (\<lambda>pu. Inr (Inr pu))))"

interpretation pending_rows: expiring_table "\<lambda>now q. now < pend_expires q"
  by unfold_locales auto

lemma hm_wf_mint: "hm_wf p \<Longrightarrow> hm_wf (fst (mint E p entropy user pu now))"
  by (auto simp: mint_def Let_def split: sum.splits)

lemma hm_wf_take: "hm_wf p \<Longrightarrow> hm_wf (fst (take_challenge p user c now))"
  by (auto simp: take_challenge_def split: option.splits)

interpretation pending_machine: invariant_machine "pending_step E" hm_wf for E
proof
  show "hm_wf p \<Longrightarrow> hm_wf (fst (pending_step E p e))" for p e
    using hm_wf_mint [of p E] hm_wf_take [of p] by (cases e) (simp_all add: case_prod_unfold)
qed

lemma get_mint:
  assumes "hm_wf p" and "mint E p entropy user pu now = (p', r)" and "hm_get p' c = Some q"
  shows "hm_get p c = Some q \<and> now < pend_expires q
    \<or> r = Inr c \<and> q = \<lparr>pend_user = user, pend_purpose = pu, pend_expires = now + CEREMONY_TTL\<rparr>
    \<or> p' = p \<and> hm_get p c = Some q"
  using assms by (auto simp: mint_def Let_def hm_get_insert hm_get_retain
      split: sum.splits if_splits option.splits)

lemma get_take:
  "take_challenge p user c0 now = (p', r) \<Longrightarrow> hm_get p' c = Some q \<Longrightarrow>
   hm_get p c = Some q \<and> c \<noteq> c0"
  by (auto simp: take_challenge_def hm_get_remove split: option.splits if_splits)

lemma take_Inr_iff:
  "snd (take_challenge p user c now) = Inr pu \<longleftrightarrow>
   (\<exists>q. hm_get p c = Some q \<and> now < pend_expires q \<and> pend_user q = user \<and> pend_purpose q = pu)"
  by (auto simp: take_challenge_def split: option.splits)

text \<open>Where a stored challenge comes from: a mint answered it, and no take of it came after.\<close>

definition minted_by :: "ext \<Rightarrow> pending_op list \<Rightarrow> string \<Rightarrow> string \<Rightarrow> purpose \<Rightarrow> time \<Rightarrow> bool" where
  "minted_by E es c user pu expires \<longleftrightarrow>
     (\<exists>pre mid entropy t. es = pre @ Mint entropy user pu t # mid
        \<and> snd (pending_step E (fst (run (pending_step E) [] pre)) (Mint entropy user pu t)) = Inr (Inl c)
        \<and> expires = t + CEREMONY_TTL
        \<and> (\<forall>user' t'. Take user' c t' \<notin> set mid))"

lemma minted_by_snoc:
  assumes "minted_by E es c user pu x" and "\<forall>user' t'. e \<noteq> Take user' c t'"
  shows "minted_by E (es @ [e]) c user pu x"
proof -
  from assms(1) obtain pre mid entropy t where "es = pre @ Mint entropy user pu t # mid"
    "snd (pending_step E (fst (run (pending_step E) [] pre)) (Mint entropy user pu t)) = Inr (Inl c)"
    "x = t + CEREMONY_TTL" "\<forall>user' t'. Take user' c t' \<notin> set mid"
    unfolding minted_by_def by blast
  with assms(2) show ?thesis
    unfolding minted_by_def
    by (intro exI [of _ pre] exI [of _ "mid @ [e]"] exI [of _ entropy] exI [of _ t]) auto
qed

lemma minted_by_now:
  "snd (pending_step E (fst (run (pending_step E) [] es)) (Mint entropy user pu t)) = Inr (Inl c) \<Longrightarrow>
   minted_by E (es @ [Mint entropy user pu t]) c user pu (t + CEREMONY_TTL)"
  unfolding minted_by_def by force

lemma stored_challenge_minted:
  "hm_get (fst (run (pending_step E) [] es)) c = Some q \<Longrightarrow>
   minted_by E es c (pend_user q) (pend_purpose q) (pend_expires q)"
proof (induction es arbitrary: c q rule: rev_induct)
  case (snoc e es)
  let ?p = "fst (run (pending_step E) [] es)"
  have wf: "hm_wf ?p" by (rule pending_machine.inv_run) simp
  show ?case
  proof (cases e)
    case (Mint entropy user pu t)
    obtain p' r where m: "mint E ?p entropy user pu t = (p', r)" by fastforce
    with snoc.prems Mint have "hm_get p' c = Some q" by (simp add: run_snoc)
    from get_mint [OF wf m this] consider "hm_get ?p c = Some q"
      | "r = Inr c" "q = \<lparr>pend_user = user, pend_purpose = pu, pend_expires = t + CEREMONY_TTL\<rparr>"
      by blast
    then show ?thesis
    proof cases
      case 1
      with snoc.IH Mint show ?thesis by (auto intro!: minted_by_snoc)
    next
      case 2
      with m Mint show ?thesis by (auto intro!: minted_by_now)
    qed
  next
    case (Take user c0 t)
    obtain p' r where m: "take_challenge ?p user c0 t = (p', r)" by fastforce
    with snoc.prems Take have "hm_get p' c = Some q" by (simp add: run_snoc)
    from get_take [OF m this] snoc.IH Take show ?thesis by (auto intro!: minted_by_snoc)
  qed
qed simp

text \<open>C5. A challenge is redeemed at most once, by the user and for the purpose it was minted for,
  and within two minutes: whatever operations ran before, a take that succeeds was preceded by a
  mint that answered this challenge for the same user and purpose, less than \<open>CEREMONY_TTL\<close> ago,
  and no other take of this challenge, successful or not, came in between.\<close>

theorem challenge_one_shot:
  assumes "last (snd (run (pending_step E) [] (es @ [Take user c now]))) = Inr (Inr pu)"
  shows "\<exists>pre mid entropy t. es = pre @ Mint entropy user pu t # mid
        \<and> snd (pending_step E (fst (run (pending_step E) [] pre)) (Mint entropy user pu t)) = Inr (Inl c)
        \<and> now < t + CEREMONY_TTL
        \<and> (\<forall>user' t'. Take user' c t' \<notin> set mid)"
proof -
  let ?p = "fst (run (pending_step E) [] es)"
  have "snd (take_challenge ?p user c now) = Inr pu"
    using assms by (simp add: run_snoc case_prod_unfold ebind_Inr_iff)
  then obtain q where "hm_get ?p c = Some q" "now < pend_expires q" "pend_user q = user"
    "pend_purpose q = pu" by (auto simp: take_Inr_iff)
  with stored_challenge_minted [OF this(1)] have "minted_by E es c user pu (pend_expires q)" by simp
  then obtain pre mid entropy t where "es = pre @ Mint entropy user pu t # mid"
    "snd (pending_step E (fst (run (pending_step E) [] pre)) (Mint entropy user pu t)) = Inr (Inl c)"
    "pend_expires q = t + CEREMONY_TTL" "\<forall>user' t'. Take user' c t' \<notin> set mid"
    unfolding minted_by_def by blast
  with \<open>now < pend_expires q\<close> show ?thesis by metis
qed

theorem challenge_one_shot_witness:
  "let es = [Mint (Inr [1, 2]) ''ada'' Register 5]
   in last (snd (run (pending_step demo_ext) [] (es @ [Take ''ada'' ''0102'' 9]))) = Inr (Inr Register)
      \<and> (\<exists>pre mid entropy t. es = pre @ Mint entropy ''ada'' Register t # mid
            \<and> 9 < t + CEREMONY_TTL)"
proof -
  define es where "es = [Mint (Inr [1, 2]) ''ada'' Register 5]"
  have "last (snd (run (pending_step demo_ext) [] (es @ [Take ''ada'' ''0102'' 9]))) = Inr (Inr Register)"
    by (simp add: es_def mint_def take_challenge_def CEREMONY_TTL_def demo_ext_def hm_get_def
        hm_insert_def hm_retain_def hm_remove_def hex_def hex_byte_def hex_digits_def Let_def
        hex_to_bytes_hex [of "[1, 2]", unfolded hex_def hex_byte_def hex_digits_def, simplified])
  moreover from challenge_one_shot [OF this]
  have "\<exists>pre mid entropy t. es = pre @ Mint entropy ''ada'' Register t # mid \<and> 9 < t + CEREMONY_TTL"
    by blast
  ultimately show ?thesis unfolding es_def Let_def by blast
qed

subsection \<open>Signature counters\<close>

lemma find_update_first:
  assumes "find (\<lambda>r. credential_id r = c) l = Some k"
  shows "find (\<lambda>r. credential_id r = c)
           (update_first (\<lambda>r. credential_id r = c) (\<lambda>r. r\<lparr>pk_sign_count := n\<rparr>) l) =
         Some (k\<lparr>pk_sign_count := n\<rparr>)"
  using assms by (induction l) (auto split: if_splits)


definition demo_rp :: rp_config where
  "demo_rp = \<lparr>rp_id = ''box'', rp_origin = ''https://box''\<rparr>"

definition demo_key :: passkey where
  "demo_key = \<lparr>credential_id = ''a'', public_key_x963 = ''01'', pk_sign_count = 6,
     created_at = ''t'', label = ''laptop''\<rparr>"

lemma demo_assertion:
  "verify_assertion demo_ext demo_rp (hex cdj) demo_key cdj
     (encode_auth_data (replicate 32 3) 5 7 []) [1] = Inr \<lparr>va_sign_count = 7, va_user_verified = True\<rparr>"
proof -
  have "parse_authenticator_data demo_ext (encode_auth_data (replicate 32 3) 5 7 []) =
      Inr \<lparr>ad_rp_id_hash = replicate 32 3, ad_flags = 5, ad_sign_count = 7, ad_credential = None\<rparr>"
    by (subst parse_auth_data_layout) (simp_all add: FLAG_AT_def)
  moreover have "hex_to_bytes ''01'' = Some [1]"
    using hex_to_bytes_hex [of "[1]"] by (simp add: hex_def hex_byte_def hex_digits_def)
  ultimately show ?thesis
    by (simp add: verify_assertion_def parse_client_data_def rp_id_hash_def demo_ext_def demo_rp_def
        demo_key_def utf8_def FLAG_UP_def FLAG_UV_def)
qed


end
