(* ===== verification/Oidc.thy ===== *)
theory Oidc
  imports Roles
begin

section \<open>Organization sign-in (\<open>crates/web/src/oidc.rs\<close>)\<close>

text \<open>
  Verification of an OIDC ID token against a static key set or against a live one that is fetched
  and cached. The crate \<open>jsonwebtoken\<close>, the JSON parser and the network are the record \<open>oidc_ext\<close>
  and explicit arguments (what the clock reads, what the fetch answers). A call that may fetch
  answers, next to its result, the instant of the fetch it made.
\<close>

subsection \<open>Data\<close>

datatype algorithm_parameters = RSA | EllipticCurve | OctetKey | OctetKeyPair

record jwk =
  jwk_kid :: "string option"
  jwk_algorithm :: algorithm_parameters
  jwk_material :: string

type_synonym jwk_set = "jwk list"

datatype algorithm = HS256 | RS256 | RS384 | RS512 | ES256 | ES384 | OtherAlg string

record validation =
  val_algorithms :: "algorithm list"
  validate_exp :: bool
  required_spec_claims :: "string list"
  val_iss :: "string list"
  val_aud :: "string list"

type_synonym claims = "(string, json) hmap"

record oidc_ext =
  decode_header :: "string \<Rightarrow> string option option"
  jwk_find :: "jwk_set \<Rightarrow> string \<Rightarrow> jwk option"
  decoding_key :: "jwk \<Rightarrow> string option"
  decode :: "string \<Rightarrow> string \<Rightarrow> validation \<Rightarrow> claims option"
  jwks_of_str :: "string \<Rightarrow> jwk_set option"
  jwks_of_value :: "json \<Rightarrow> jwk_set option"
  json_of_bytes :: "byte list \<Rightarrow> json option"

definition DEFAULT_SUB_CLAIM :: string where "DEFAULT_SUB_CLAIM = ''sub''"
definition DEFAULT_ROLES_CLAIM :: string where "DEFAULT_ROLES_CLAIM = ''roles''"
definition DEFAULT_ADMIN_ROLE :: string where "DEFAULT_ADMIN_ROLE = ''genaryx-admin''"
definition DEFAULT_APPROVER_ROLE :: string where "DEFAULT_APPROVER_ROLE = ''genaryx-approver''"
definition MAX_AGE :: time where "MAX_AGE = 60 * 60 * 1000000000"
definition COOLDOWN :: time where "COOLDOWN = 5 * 60 * 1000000000"
definition MAX_JWKS_BODY_BYTES :: nat where "MAX_JWKS_BODY_BYTES = 1024 * 1024"

definition FORBIDDEN_PRIVATE_MEMBERS :: "string list" where
  "FORBIDDEN_PRIVATE_MEMBERS = [''d'', ''p'', ''q'', ''dp'', ''dq'', ''qi'', ''k'']"

record live_state =
  ls_keys :: jwk_set
  fetched_at :: "time option"
  last_attempt :: "time option"
  warned_this_streak :: bool

definition live_state_empty :: live_state where
  "live_state_empty = \<lparr>ls_keys = [], fetched_at = None, last_attempt = None, warned_this_streak = False\<rparr>"

datatype key_source = StaticKeys jwk_set | LiveKeys string live_state

record oidc_config =
  issuer :: string
  audience :: string
  keys_of :: key_source
  sub_claim :: string
  roles_claim :: string
  admin_role :: string
  approver_role :: string

record verified =
  v_username :: string
  v_role :: role

subsection \<open>Configuration\<close>

definition non_empty :: "string \<Rightarrow> string \<Rightarrow> string" where
  "non_empty value dflt = (if trim value = [] then dflt else value)"

definition oidc_finish ::
  "string \<Rightarrow> string \<Rightarrow> key_source \<Rightarrow> string \<Rightarrow> string \<Rightarrow> string \<Rightarrow> string \<Rightarrow> oidc_config" where
  "oidc_finish iss aud ks sub roles admin approver =
     \<lparr>issuer = iss, audience = aud, keys_of = ks,
      sub_claim = non_empty sub DEFAULT_SUB_CLAIM,
      roles_claim = non_empty roles DEFAULT_ROLES_CLAIM,
      admin_role = non_empty admin DEFAULT_ADMIN_ROLE,
      approver_role = non_empty approver DEFAULT_APPROVER_ROLE\<rparr>"

definition oidc_new ::
  "oidc_ext \<Rightarrow> string \<Rightarrow> string \<Rightarrow> string \<Rightarrow> string \<Rightarrow> string \<Rightarrow> string \<Rightarrow> string \<Rightarrow> oidc_config option" where
  "oidc_new X iss aud jwks_json sub roles admin approver =
     (if iss = [] \<or> aud = [] then None
      else (case jwks_of_str X jwks_json of
              None \<Rightarrow> None
            | Some jwks \<Rightarrow>
                if jwks = [] then None
                else Some (oidc_finish iss aud (StaticKeys jwks) sub roles admin approver)))"

datatype startup_refusal = BothJwksSourcesSet | JwksUrlNotHttps string

datatype key_source_choice = Unconfigured | StaticChoice string | LiveUrl string

definition resolve_jwks_source ::
  "string option \<Rightarrow> string option \<Rightarrow> startup_refusal + key_source_choice" where
  "resolve_jwks_source jwks_static jwks_url =
     (case (jwks_static, jwks_url) of
        (Some _, Some _) \<Rightarrow> Inl BothJwksSourcesSet
      | (None, None) \<Rightarrow> Inr Unconfigured
      | (Some raw, None) \<Rightarrow> Inr (StaticChoice raw)
      | (None, Some url) \<Rightarrow>
          if prefix ''https://'' url then Inr (LiveUrl url) else Inl (JwksUrlNotHttps url))"

definition env_nonempty :: "(string \<Rightarrow> string option) \<Rightarrow> string \<Rightarrow> string option" where
  "env_nonempty env key =
     (case env key of None \<Rightarrow> None | Some v \<Rightarrow> if trim v = [] then None else Some v)"

definition unwrap_or_default :: "string option \<Rightarrow> string" where
  "unwrap_or_default s = (case s of None \<Rightarrow> [] | Some v \<Rightarrow> v)"

definition load_jwks :: "(string \<Rightarrow> string option) \<Rightarrow> string \<Rightarrow> string option" where
  "load_jwks read_file raw =
     (let trimmed = trim raw in if prefix ''{'' trimmed then Some trimmed else read_file trimmed)"

text \<open>\<open>from_env\<close>: the environment and the file system are arguments, \<open>Inl\<close> is the refusal to start.\<close>

definition oidc_from_env ::
  "oidc_ext \<Rightarrow> (string \<Rightarrow> string option) \<Rightarrow> (string \<Rightarrow> string option) \<Rightarrow> startup_refusal + oidc_config option" where
  "oidc_from_env X env read_file =
     (case env_nonempty env ''GENARYX_WEB_OIDC_ISSUER'' of
        None \<Rightarrow> Inr None
      | Some iss \<Rightarrow>
     (case env_nonempty env ''GENARYX_WEB_OIDC_AUDIENCE'' of
        None \<Rightarrow> Inr None
      | Some aud \<Rightarrow>
     (let sub = unwrap_or_default (env ''GENARYX_WEB_OIDC_SUB_CLAIM'');
          roles = unwrap_or_default (env ''GENARYX_WEB_OIDC_ROLES_CLAIM'');
          admin = unwrap_or_default (env ''GENARYX_WEB_OIDC_ADMIN_ROLE'');
          approver = unwrap_or_default (env ''GENARYX_WEB_OIDC_APPROVER_ROLE'')
      in ebind (resolve_jwks_source (env_nonempty env ''GENARYX_WEB_OIDC_JWKS'')
                                    (env_nonempty env ''GENARYX_WEB_OIDC_JWKS_URL'')) (\<lambda>choice.
         case choice of
           Unconfigured \<Rightarrow> Inr None
         | StaticChoice raw \<Rightarrow>
             (case load_jwks read_file raw of
                None \<Rightarrow> Inr None
              | Some jwks_json \<Rightarrow> Inr (oidc_new X iss aud jwks_json sub roles admin approver))
         | LiveUrl url \<Rightarrow>
             Inr (Some (oidc_finish iss aud (LiveKeys url live_state_empty) sub roles admin approver))))))"

subsection \<open>The fetch and the validation of what it brings\<close>

datatype fetch_error = Transport string | NonSuccess nat | Redirected | TooLarge

fun read_body :: "byte list \<Rightarrow> (string + byte list) list \<Rightarrow> fetch_error + byte list" where
  "read_body body [] = Inr body"
| "read_body body (Inl e # _) = Inl (Transport e)"
| "read_body body (Inr chunk # chunks) =
     (if MAX_JWKS_BODY_BYTES < length body + length chunk then Inl TooLarge
      else read_body (body @ chunk) chunks)"

text \<open>\<open>ReqwestFetcher::fetch\<close> on what the HTTP client answers: an error, or a status and the chunks
  of the body.\<close>

definition reqwest_fetch :: "string + nat \<times> (string + byte list) list \<Rightarrow> fetch_error + byte list" where
  "reqwest_fetch resp =
     (case resp of
        Inl e \<Rightarrow> Inl (Transport e)
      | Inr (status, chunks) \<Rightarrow>
          if 300 \<le> status \<and> status < 400 then Inl Redirected
          else if \<not> (200 \<le> status \<and> status < 300) then Inl (NonSuccess status)
          else read_body [] chunks)"

datatype refused_set =
    InvalidJson
  | NotAnObject
  | KeysMissingOrNotArray
  | EmptyKeys
  | KeyNotAnObject
  | UnsupportedKeyType string
  | PrivateKeyMember "string option" string

definition as_object :: "json \<Rightarrow> (string \<times> json) list option" where
  "as_object v = (case v of JObject ms \<Rightarrow> Some ms | _ \<Rightarrow> None)"

definition str_member :: "(string \<times> json) list \<Rightarrow> string \<Rightarrow> string option" where
  "str_member ms key = Option.bind (map_of ms key) json_str"

fun scan_keys :: "json list \<Rightarrow> json list \<Rightarrow> refused_set + json list" where
  "scan_keys kept [] = Inr kept"
| "scan_keys kept (key # keys) =
     (case as_object key of
        None \<Rightarrow> Inl KeyNotAnObject
      | Some obj \<Rightarrow>
     (case find (\<lambda>m. map_of obj m \<noteq> None) FORBIDDEN_PRIVATE_MEMBERS of
        Some m \<Rightarrow> Inl (PrivateKeyMember (str_member obj ''kid'') m)
      | None \<Rightarrow>
     (let kty = unwrap_or_default (str_member obj ''kty'') in
      if kty = ''RSA'' \<or> kty = ''EC'' then scan_keys (kept @ [key]) keys
      else if kty = ''oct'' then Inl (UnsupportedKeyType kty)
      else scan_keys kept keys)))"

definition validate_jwks_bytes :: "oidc_ext \<Rightarrow> byte list \<Rightarrow> refused_set + jwk_set" where
  "validate_jwks_bytes X body =
     ebind (ok_or InvalidJson (json_of_bytes X body)) (\<lambda>raw.
     ebind (ok_or NotAnObject (as_object raw)) (\<lambda>obj.
     ebind (case map_of obj ''keys'' of Some (JArray a) \<Rightarrow> Inr a | _ \<Rightarrow> Inl KeysMissingOrNotArray) (\<lambda>keys.
     ebind (ensure (keys \<noteq> []) EmptyKeys) (\<lambda>_.
     ebind (scan_keys [] keys) (\<lambda>kept.
     ebind (ensure (kept \<noteq> []) EmptyKeys) (\<lambda>_.
     ok_or InvalidJson (jwks_of_value X (JObject (AList.update ''keys'' (JArray kept) obj)))))))))"

subsection \<open>The live key set\<close>

definition attempt_locked ::
  "oidc_ext \<Rightarrow> live_state \<Rightarrow> time \<Rightarrow> fetch_error + byte list \<Rightarrow> live_state" where
  "attempt_locked X s now response =
     (let s1 = s\<lparr>last_attempt := Some now\<rparr>;
          outcome = (case response of
                       Inr body \<Rightarrow> (case validate_jwks_bytes X body of Inr k \<Rightarrow> Some k | Inl _ \<Rightarrow> None)
                     | Inl _ \<Rightarrow> None)
      in case outcome of
           Some keys \<Rightarrow> s1\<lparr>ls_keys := keys, fetched_at := Some now, warned_this_streak := False\<rparr>
         | None \<Rightarrow> s1\<lparr>warned_this_streak := True\<rparr>)"

definition live_warm_up ::
  "oidc_ext \<Rightarrow> live_state \<Rightarrow> time \<Rightarrow> fetch_error + byte list \<Rightarrow> live_state \<times> time option" where
  "live_warm_up X s now response =
     (if fetched_at s = None then (attempt_locked X s now response, Some now) else (s, None))"

text \<open>\<open>LiveJwks::find\<close>: \<open>now\<close> is what \<open>find\<close> reads, \<open>now'\<close> what \<open>attempt_locked\<close> reads after it.\<close>

definition live_find ::
  "oidc_ext \<Rightarrow> live_state \<Rightarrow> string \<Rightarrow> time \<Rightarrow> time \<Rightarrow> fetch_error + byte list \<Rightarrow>
   live_state \<times> jwk option \<times> time option" where
  "live_find X s kid now now' response =
     (let due_by_age = (case fetched_at s of None \<Rightarrow> True | Some t \<Rightarrow> MAX_AGE \<le> now - t);
          due_by_kid = (jwk_find X (ls_keys s) kid = None);
          cooled_down = (case last_attempt s of None \<Rightarrow> True | Some t \<Rightarrow> COOLDOWN \<le> now - t);
          (s', fetched) = (if (due_by_age \<or> due_by_kid) \<and> cooled_down
                           then (attempt_locked X s now' response, Some now') else (s, None))
      in (s', jwk_find X (ls_keys s') kid, fetched))"

definition source_find ::
  "oidc_ext \<Rightarrow> key_source \<Rightarrow> string \<Rightarrow> time \<Rightarrow> time \<Rightarrow> fetch_error + byte list \<Rightarrow>
   key_source \<times> jwk option" where
  "source_find X ks kid now now' response =
     (case ks of
        StaticKeys jwks \<Rightarrow> (ks, jwk_find X jwks kid)
      | LiveKeys url s \<Rightarrow>
          (case live_find X s kid now now' response of (s', j, _) \<Rightarrow> (LiveKeys url s', j)))"

definition oidc_warm_up ::
  "oidc_ext \<Rightarrow> oidc_config \<Rightarrow> time \<Rightarrow> fetch_error + byte list \<Rightarrow> oidc_config" where
  "oidc_warm_up X cfg now response =
     (case keys_of cfg of
        StaticKeys _ \<Rightarrow> cfg
      | LiveKeys url s \<Rightarrow> cfg\<lparr>keys_of := LiveKeys url (fst (live_warm_up X s now response))\<rparr>)"

subsection \<open>Verification of a token\<close>

definition claims_string :: "claims \<Rightarrow> string \<Rightarrow> string option" where
  "claims_string c key =
     (case hm_get c key of Some (JString s) \<Rightarrow> if s \<noteq> [] then Some s else None | _ \<Rightarrow> None)"

definition has_role :: "claims \<Rightarrow> string \<Rightarrow> string \<Rightarrow> bool" where
  "has_role c key r =
     (case hm_get c key of
        Some (JArray items) \<Rightarrow> list_ex (\<lambda>v. json_str v = Some r) items
      | Some (JString s) \<Rightarrow> r \<in> set (split_whitespace s)
      | _ \<Rightarrow> False)"

definition algorithms_of :: "algorithm_parameters \<Rightarrow> algorithm list option" where
  "algorithms_of p =
     (case p of RSA \<Rightarrow> Some [RS256, RS384, RS512] | EllipticCurve \<Rightarrow> Some [ES256, ES384] | _ \<Rightarrow> None)"

definition validation_of :: "oidc_config \<Rightarrow> algorithm list \<Rightarrow> validation" where
  "validation_of cfg algs =
     \<lparr>val_algorithms = algs, validate_exp = True, required_spec_claims = [''exp'', ''iss'', ''aud''],
      val_iss = [issuer cfg], val_aud = [audience cfg]\<rparr>"

definition role_of_claims :: "oidc_config \<Rightarrow> claims \<Rightarrow> role" where
  "role_of_claims cfg c =
     (if has_role c (roles_claim cfg) (admin_role cfg) then Admin
      else if has_role c (roles_claim cfg) (approver_role cfg) then Approver
      else Viewer)"

definition verify_with_key :: "oidc_ext \<Rightarrow> oidc_config \<Rightarrow> string \<Rightarrow> jwk \<Rightarrow> verified option" where
  "verify_with_key X cfg token j =
     Option.bind (algorithms_of (jwk_algorithm j)) (\<lambda>algs.
     Option.bind (decoding_key X j) (\<lambda>key.
     Option.bind (decode X token key (validation_of cfg algs)) (\<lambda>c.
     Option.bind (claims_string c (sub_claim cfg)) (\<lambda>user.
     Some \<lparr>v_username = user, v_role = role_of_claims cfg c\<rparr>))))"

definition oidc_verify ::
  "oidc_ext \<Rightarrow> oidc_config \<Rightarrow> string \<Rightarrow> time \<Rightarrow> time \<Rightarrow> fetch_error + byte list \<Rightarrow>
   oidc_config \<times> verified option" where
  "oidc_verify X cfg token now now' response =
     (case decode_header X token of
        Some (Some kid) \<Rightarrow>
          (case source_find X (keys_of cfg) kid now now' response of
             (ks, j) \<Rightarrow> (cfg\<lparr>keys_of := ks\<rparr>, Option.bind j (verify_with_key X cfg token)))
      | _ \<Rightarrow> (cfg, None))"

subsection \<open>What a fetch can bring\<close>

lemma read_body_bound:
  "read_body body chunks = Inr out \<Longrightarrow> length body \<le> MAX_JWKS_BODY_BYTES \<Longrightarrow>
   length out \<le> MAX_JWKS_BODY_BYTES"
  by (induction body chunks rule: read_body.induct) (auto split: if_splits)

lemma reqwest_fetch_bound: "reqwest_fetch resp = Inr body \<Longrightarrow> length body \<le> MAX_JWKS_BODY_BYTES"
  by (auto simp: reqwest_fetch_def dest!: read_body_bound split: sum.splits if_splits)

definition key_admissible :: "json \<Rightarrow> bool" where
  "key_admissible key \<longleftrightarrow>
     (\<exists>obj. key = JObject obj \<and> (\<forall>m\<in>set FORBIDDEN_PRIVATE_MEMBERS. map_of obj m = None)
            \<and> str_member obj ''kty'' \<noteq> Some ''oct'')"

definition key_usable :: "json \<Rightarrow> bool" where
  "key_usable key \<longleftrightarrow> (\<exists>obj. key = JObject obj \<and> str_member obj ''kty'' \<in> {Some ''RSA'', Some ''EC''})"

lemma find_None_ball: "find P xs = None \<longleftrightarrow> (\<forall>x\<in>set xs. \<not> P x)"
  by (auto simp: find_None_iff)

lemma as_object_Some: "as_object v = Some ms \<longleftrightarrow> v = JObject ms"
  by (cases v) (auto simp: as_object_def)

lemma unwrap_or_default_eq: "s \<noteq> [] \<Longrightarrow> unwrap_or_default x = s \<longleftrightarrow> x = Some s"
  by (auto simp: unwrap_or_default_def split: option.splits)

lemma key_admissible_object:
  "key_admissible (JObject obj) \<longleftrightarrow>
     find (\<lambda>m. map_of obj m \<noteq> None) FORBIDDEN_PRIVATE_MEMBERS = None \<and> str_member obj ''kty'' \<noteq> Some ''oct''"
  by (auto simp: key_admissible_def find_None_iff)

lemma key_usable_object:
  "key_usable (JObject obj) \<longleftrightarrow> str_member obj ''kty'' = Some ''RSA'' \<or> str_member obj ''kty'' = Some ''EC''"
  by (simp add: key_usable_def)

lemma key_admissible_no_object: "as_object key = None \<Longrightarrow> \<not> key_admissible key"
  by (auto simp: key_admissible_def as_object_def)

lemma scan_keys_Inr:
  "scan_keys kept keys = Inr out \<longleftrightarrow>
     (\<forall>k\<in>set keys. key_admissible k) \<and> out = kept @ filter key_usable keys"
proof (induction keys arbitrary: kept)
  case (Cons key keys)
  show ?case
  proof (cases "as_object key")
    case None
    then show ?thesis by (simp add: key_admissible_no_object)
  next
    case (Some obj)
    then have key: "key = JObject obj" by (simp add: as_object_Some)
    show ?thesis
    proof (cases "find (\<lambda>m. map_of obj m \<noteq> None) FORBIDDEN_PRIVATE_MEMBERS")
      case None
      then have "scan_keys kept (key # keys) =
          (if key_usable key then scan_keys (kept @ [key]) keys
           else if str_member obj ''kty'' = Some ''oct'' then Inl (UnsupportedKeyType ''oct'')
           else scan_keys kept keys)"
        using Some by (auto simp: Let_def unwrap_or_default_eq key key_usable_object)
      moreover have "key_admissible key \<longleftrightarrow> str_member obj ''kty'' \<noteq> Some ''oct''"
        using None by (simp add: key key_admissible_object)
      moreover have "key_usable key \<Longrightarrow> str_member obj ''kty'' \<noteq> Some ''oct''"
        by (auto simp: key key_usable_object)
      ultimately show ?thesis by (auto simp: Cons.IH)
    next
      case (Some m)
      then show ?thesis by (simp add: key key_admissible_object as_object_def)
    qed
  qed
qed auto

lemma keys_array_Inr:
  "(case x of Some (JArray a) \<Rightarrow> Inr a | _ \<Rightarrow> Inl e) = Inr keys \<longleftrightarrow> x = Some (JArray keys)"
  by (auto split: option.splits json.splits)

text \<open>A fetched body becomes the key set exactly when it is a JSON object whose \<open>keys\<close> is an array
  of objects none of which carries a private member or is symmetric; the set is then the typed
  parse of the RSA and EC keys alone, of which there is at least one. One leaked private key or one
  symmetric key refuses the whole set; a key of another type is only left out.\<close>

theorem validate_jwks_iff:
  "validate_jwks_bytes X body = Inr jwks \<longleftrightarrow>
     (\<exists>obj keys. json_of_bytes X body = Some (JObject obj) \<and> map_of obj ''keys'' = Some (JArray keys)
        \<and> list_all key_admissible keys \<and> list_ex key_usable keys
        \<and> jwks_of_value X (JObject (AList.update ''keys'' (JArray (filter key_usable keys)) obj)) = Some jwks)"
  unfolding validate_jwks_bytes_def result_iffs scan_keys_Inr as_object_Some keys_array_Inr
  by (auto simp: filter_empty_conv list_all_iff list_ex_iff)


subsection \<open>Fetches are bounded by the cooldown\<close>

datatype live_op =
    Find string time time "fetch_error + byte list"
  | WarmUp time "fetch_error + byte list"

fun live_step :: "oidc_ext \<Rightarrow> live_state \<Rightarrow> live_op \<Rightarrow> live_state \<times> jwk option \<times> time option" where
  "live_step X s (Find kid now now' r) = live_find X s kid now now' r"
| "live_step X s (WarmUp now r) = (case live_warm_up X s now r of (s', f) \<Rightarrow> (s', None, f))"

fun clock_readings :: "live_op \<Rightarrow> time list" where
  "clock_readings (Find _ now now' _) = [now, now']"
| "clock_readings (WarmUp now _) = [now]"

fun is_Find :: "live_op \<Rightarrow> bool" where
  "is_Find (Find _ _ _ _) = True"
| "is_Find (WarmUp _ _) = False"

lemma last_attempt_attempt [simp]: "last_attempt (attempt_locked X s now r) = Some now"
  by (simp add: attempt_locked_def Let_def split: option.splits)

lemma live_step_attempt:
  "live_step X s e = (s', j, f) \<Longrightarrow>
     last_attempt s' = (case f of None \<Rightarrow> last_attempt s | Some t \<Rightarrow> Some t)
   \<and> (\<forall>t. f = Some t \<longrightarrow> t \<in> set (clock_readings e))"
  by (cases e) (auto simp: live_find_def live_warm_up_def Let_def split: if_splits option.splits)

lemma live_step_cooldown:
  assumes "live_step X s e = (s', j, Some t)" and "is_Find e" and "sorted (clock_readings e)"
    and "last_attempt s = Some t0" and "\<forall>x\<in>set (clock_readings e). t0 \<le> x"
  shows "t0 + COOLDOWN \<le> t"
  using assms
  by (cases e) (auto simp: live_find_def Let_def split: if_splits option.splits)

lemma run_last_attempt:
  assumes "sorted (concat (map clock_readings es))" and "i < length es"
    and "snd (snd (run (live_step X) s es) ! i) = Some t"
  shows "\<exists>t'. last_attempt (fst (run (live_step X) s es)) = Some t' \<and> t \<le> t'
           \<and> t' \<in> set (concat (map clock_readings es))"
  using assms
proof (induction es arbitrary: i t rule: rev_induct)
  case (snoc e es)
  let ?r = "run (live_step X) s es"
  obtain s' j f where st: "live_step X (fst ?r) e = (s', j, f)" by (metis surj_pair)
  note att = live_step_attempt [OF st]
  have le: "x \<le> y" if "x \<in> set (concat (map clock_readings es))" "y \<in> set (clock_readings e)" for x y
    using snoc.prems(1) that by (auto simp: sorted_append)
  have run: "run (live_step X) s (es @ [e]) = (s', snd ?r @ [(j, f)])"
    by (simp add: run_snoc st)
  show ?case
  proof (cases "i < length es")
    case True
    have "sorted (concat (map clock_readings es))" using snoc.prems(1) by (simp add: sorted_append)
    from snoc.IH [OF this True] snoc.prems(3) True
    obtain t' where "last_attempt (fst ?r) = Some t'" "t \<le> t'"
      "t' \<in> set (concat (map clock_readings es))"
      by (auto simp: run nth_append)
    then show ?thesis using att le by (cases f) (fastforce simp: run)+
  next
    case False
    then have "f = Some t" using snoc.prems(2,3) by (simp add: run nth_append)
    then show ?thesis using att by (auto simp: run)
  qed
qed simp

text \<open>However many tokens arrive, and whatever key ids they name, two fetches are at least
  \<open>COOLDOWN\<close> apart when a token causes the later one: for every sequence of lookups and warm-ups
  under a clock that does not run backwards, also across failed fetches and before the first
  success.\<close>

theorem fetches_cooled_down:
  assumes "sorted (concat (map clock_readings es))" and "i < j" and "j < length es" and "is_Find (es ! j)"
    and "snd (snd (run (live_step X) s es) ! i) = Some t"
    and "snd (snd (run (live_step X) s es) ! j) = Some t'"
  shows "t + COOLDOWN \<le> t'"
proof -
  define pre post where "pre = take j es" and "post = drop (Suc j) es"
  have es: "es = pre @ es ! j # post" and len: "length pre = j"
    using assms(3) by (simp_all add: pre_def post_def id_take_nth_drop [symmetric])
  let ?r = "run (live_step X) s pre"
  have out: "snd (run (live_step X) s es) = snd ?r @ snd (run (live_step X) (fst ?r) (es ! j # post))"
    by (subst es) (simp only: run_append snd_conv)
  have sorted: "sorted (concat (map clock_readings pre))" "sorted (clock_readings (es ! j))"
    "\<forall>x\<in>set (concat (map clock_readings pre)). \<forall>y\<in>set (clock_readings (es ! j)). x \<le> y"
    using assms(1) by (subst (asm) es, simp add: sorted_append)+
  have "snd (snd ?r ! i) = Some t" using assms(2,5) len by (simp add: out nth_append)
  from run_last_attempt [OF sorted(1) _ this] assms(2) len
  obtain t0 where t0: "last_attempt (fst ?r) = Some t0" "t \<le> t0"
    "t0 \<in> set (concat (map clock_readings pre))" by auto
  obtain s' k where "live_step X (fst ?r) (es ! j) = (s', k, Some t')"
    using assms(6) len
    by (cases "live_step X (fst ?r) (es ! j)") (auto simp: out nth_append Let_def case_prod_unfold)
  from live_step_cooldown [OF this assms(4) sorted(2) t0(1)] sorted(3) t0(2,3)
  show ?thesis by fastforce
qed

theorem fetches_cooled_down_witness:
  "let X = \<lparr>decode_header = \<lambda>_. None, jwk_find = \<lambda>_ _. None, decoding_key = \<lambda>_. None,
            decode = \<lambda>_ _ _. None, jwks_of_str = \<lambda>_. None, jwks_of_value = \<lambda>_. None,
            json_of_bytes = \<lambda>_. None\<rparr>;
       es = [Find ''k1'' 7 8 (Inl Redirected), Find ''k2'' 9 9 (Inl Redirected),
             Find ''k3'' (8 + COOLDOWN) (9 + COOLDOWN) (Inl Redirected)];
       outs = map snd (snd (run (live_step X) live_state_empty es))
   in outs = [Some 8, None, Some (9 + COOLDOWN)] \<and> 8 + COOLDOWN \<le> 9 + COOLDOWN"
proof -
  define X :: oidc_ext where "X = \<lparr>decode_header = \<lambda>_. None, jwk_find = \<lambda>_ _. None, decoding_key = \<lambda>_. None,
            decode = \<lambda>_ _ _. None, jwks_of_str = \<lambda>_. None, jwks_of_value = \<lambda>_. None,
            json_of_bytes = \<lambda>_. None\<rparr>"
  define es where "es = [Find ''k1'' 7 8 (Inl Redirected), Find ''k2'' 9 9 (Inl Redirected),
             Find ''k3'' (8 + COOLDOWN) (9 + COOLDOWN) (Inl Redirected)]"
  have outs: "snd (run (live_step X) live_state_empty es) =
      [(None, Some 8), (None, None), (None, Some (9 + COOLDOWN))]"
    by (simp add: es_def X_def live_find_def attempt_locked_def live_state_empty_def COOLDOWN_def Let_def)
  have len: "2 < length es" "is_Find (es ! 2)" and sorted: "sorted (concat (map clock_readings es))"
    by (simp_all add: es_def COOLDOWN_def)
  have "8 + COOLDOWN \<le> 9 + COOLDOWN"
    by (rule fetches_cooled_down [OF sorted _ len, of 0 X live_state_empty]) (simp_all add: outs)
  with outs show ?thesis unfolding X_def [symmetric] es_def [symmetric] Let_def by simp
qed

subsection \<open>Keys come from validated sets only\<close>

fun response_of :: "live_op \<Rightarrow> fetch_error + byte list" where
  "response_of (Find _ _ _ r) = r"
| "response_of (WarmUp _ r) = r"

lemma attempt_keys:
  "ls_keys (attempt_locked X s now r) =
     (case r of Inr body \<Rightarrow> (case validate_jwks_bytes X body of Inr k \<Rightarrow> k | Inl _ \<Rightarrow> ls_keys s)
      | Inl _ \<Rightarrow> ls_keys s)"
  by (auto simp: attempt_locked_def Let_def split: option.splits sum.splits)

lemma live_step_keys:
  "ls_keys (fst (live_step X s e)) = ls_keys s \<or>
   (\<exists>body. response_of e = Inr body \<and> validate_jwks_bytes X body = Inr (ls_keys (fst (live_step X s e))))"
  by (cases e) (auto simp: live_find_def live_warm_up_def Let_def attempt_keys split: sum.splits)

text \<open>The live key set is only ever replaced by a set that passed the validation: after any
  sequence of lookups and warm-ups the keys in use are those it started with, or the validated
  content of a body that one of the fetches answered. A failed fetch or a refused set leaves the
  keys as they were.\<close>

theorem live_keys_validated:
  "ls_keys (fst (run (live_step X) s es)) = ls_keys s \<or>
   (\<exists>e body. e \<in> set es \<and> response_of e = Inr body
      \<and> validate_jwks_bytes X body = Inr (ls_keys (fst (run (live_step X) s es))))"
proof (induction es rule: rev_induct)
  case (snoc e es)
  then show ?case
    using live_step_keys [of X "fst (run (live_step X) s es)" e]
    by (simp only: run_snoc fst_conv set_append) (metis Un_iff list.set_intros(1))
qed simp

subsection \<open>What an accepted token means\<close>

lemma claims_string_Some: "claims_string c key = Some s \<longleftrightarrow> hm_get c key = Some (JString s) \<and> s \<noteq> []"
  by (auto simp: claims_string_def split: option.splits json.splits if_splits)

lemma algorithms_of_Some:
  "algorithms_of p = Some algs \<longleftrightarrow>
     p = RSA \<and> algs = [RS256, RS384, RS512] \<or> p = EllipticCurve \<and> algs = [ES256, ES384]"
  by (cases p) (auto simp: algorithms_of_def)

lemma snd_oidc_verify:
  "snd (oidc_verify X cfg token now now' r) = Some v \<longleftrightarrow>
     (\<exists>kid j. decode_header X token = Some (Some kid)
        \<and> snd (source_find X (keys_of cfg) kid now now' r) = Some j \<and> verify_with_key X cfg token j = Some v)"
  by (auto simp: oidc_verify_def bind_eq_Some_conv split: option.splits prod.splits)

text \<open>A token is accepted exactly when its header names a key of the current set, that key is RSA or
  EC, and the library's decoding succeeds under a validation whose algorithms come from the type of
  that key (never a symmetric one, never the token's own choice), with expiry checked, \<open>exp\<close>, \<open>iss\<close>
  and \<open>aud\<close> all required and only this box's issuer and audience allowed, and the subject claim is a
  non-empty string, which becomes the username. The role is the least one the roles claim
  justifies.\<close>

theorem oidc_verify_iff:
  "snd (oidc_verify X cfg token now now' r) = Some v \<longleftrightarrow>
     (\<exists>kid j algs key c.
        decode_header X token = Some (Some kid)
      \<and> snd (source_find X (keys_of cfg) kid now now' r) = Some j
      \<and> (jwk_algorithm j = RSA \<and> algs = [RS256, RS384, RS512]
          \<or> jwk_algorithm j = EllipticCurve \<and> algs = [ES256, ES384])
      \<and> decoding_key X j = Some key
      \<and> decode X token key
          \<lparr>val_algorithms = algs, validate_exp = True, required_spec_claims = [''exp'', ''iss'', ''aud''],
           val_iss = [issuer cfg], val_aud = [audience cfg]\<rparr> = Some c
      \<and> hm_get c (sub_claim cfg) = Some (JString (v_username v)) \<and> v_username v \<noteq> []
      \<and> v_role v = (if has_role c (roles_claim cfg) (admin_role cfg) then Admin
                    else if has_role c (roles_claim cfg) (approver_role cfg) then Approver else Viewer))"
  unfolding snd_oidc_verify verify_with_key_def bind_eq_Some_conv algorithms_of_Some claims_string_Some
    validation_of_def role_of_claims_def
  by (cases v) force


end
