(* ===== verification/Console.thy ===== *)
theory Console
  imports Throttle Sessions WebAuthn Oidc
begin

section \<open>The request handlers (\<open>crates/web/src/main.rs\<close>)\<close>

text \<open>
  The handlers behind sign-in, the passkey lifecycle and the command chokepoint, over the state they
  share. Each handler is a function of that state, of what the request carries and of what the
  outside answers during the request (record \<open>outside\<close>: the clock, the random source, the disk,
  the identity provider, the operator file). A handler runs at one instant and as one step; the
  steps of a server are any list of requests. What the command chokepoint hands to the dispatcher
  (actor, signature, name, arguments) is the answer \<open>Dispatch\<close>; the dispatcher itself is not part of
  this theory.
\<close>

subsection \<open>State, requests and answers\<close>

record operator =
  op_username :: string
  op_phc :: string

record lib =
  crypto :: ext
  jwt :: oidc_ext
  phc_parses :: "string \<Rightarrow> bool"
  argon2_ok :: "string \<Rightarrow> string \<Rightarrow> bool"
  header_to_str :: "string \<Rightarrow> string option"
  envelope_of :: "byte list \<Rightarrow> (string \<times> string \<times> string \<times> string) option"

record ctx =
  c_sessions :: sessions
  sign_in_accounts :: login_throttle
  sign_in_addresses :: login_throttle
  c_operator :: "operator option"
  c_oidc :: "oidc_config option"
  passkeys :: "string + passkey_store"
  webauthn_pending :: pending_table
  webauthn_rp :: rp_config
  require_passkey :: bool
  secure_cookies :: bool

record outside =
  w_now :: time
  w_now_after :: time
  w_session_bytes :: "byte list"
  w_entropy :: "string + byte list"
  w_disk :: "webauthn_error + unit"
  w_wall_clock :: string
  w_operator_file :: "operator option"
  w_jwks_response :: "fetch_error + byte list"
  w_peer :: "string option"

datatype cookie = SetCookie string bool bool string bool | RemoveCookie string bool

record response =
  status :: nat
  retry_after :: "string option"
  set_cookie :: "cookie option"
  body :: json

record signature =
  sig_alg :: string
  sig_fpr :: string

datatype answer =
    Answer response
  | Dispatch string "signature option" string json

record credentials =
  cr_username :: "string option"
  cr_password :: "string option"
  cr_id_token :: "string option"

record register_finish_body =
  rf_label :: string
  rf_credential_id :: string
  rf_client_data_json :: string
  rf_attestation_object :: string

definition json_response :: "nat \<Rightarrow> json \<Rightarrow> response" where
  "json_response code b = \<lparr>status = code, retry_after = None, set_cookie = None, body = b\<rparr>"

definition error_json :: "string \<Rightarrow> json" where
  "error_json msg = JObject [(''error'', JString msg)]"

definition error_tagged :: "string \<Rightarrow> string \<Rightarrow> json" where
  "error_tagged msg tag = JObject [(''error'', JString msg), (''webauthn'', JString tag)]"

definition opt_str :: "string option \<Rightarrow> json" where
  "opt_str s = (case s of None \<Rightarrow> JNull | Some v \<Rightarrow> JString v)"

definition store_unavailable :: "string \<Rightarrow> response" where
  "store_unavailable why = json_response 503 (error_json (''passkey store unavailable: '' @ why))"

definition bad_request :: "string \<Rightarrow> response" where
  "bad_request msg = json_response 400 (error_json msg)"

definition ceremony_refused :: "webauthn_error \<Rightarrow> response" where
  "ceremony_refused e = json_response 403 (error_json (''webauthn: '' @ webauthn_error_str e))"

subsection \<open>Configuration\<close>

definition parse_switch_on :: "string \<Rightarrow> bool" where
  "parse_switch_on raw \<longleftrightarrow> to_ascii_lowercase (trim raw) \<in> set [''1'', ''true'', ''yes'', ''on'']"

definition require_passkey_from_switch :: "string \<Rightarrow> bool" where
  "require_passkey_from_switch raw \<longleftrightarrow> \<not> parse_switch_on raw"

definition cookie_is_secure :: "bool \<Rightarrow> string \<Rightarrow> bool" where
  "cookie_is_secure explicit origin \<longleftrightarrow> explicit \<or> prefix ''https://'' origin"

subsection \<open>The operator account\<close>

definition verify_operator :: "lib \<Rightarrow> operator \<Rightarrow> string \<Rightarrow> string \<Rightarrow> bool" where
  "verify_operator L op username password =
     (if \<not> phc_parses L (op_phc op) then False
      else (let password_ok = argon2_ok L password (op_phc op);
                user_ok = (op_username op = username)
            in password_ok \<and> user_ok))"

definition load_operator :: "ctx \<Rightarrow> outside \<Rightarrow> ctx \<times> operator option" where
  "load_operator c w =
     (case c_operator c of
        Some op \<Rightarrow> (c, Some op)
      | None \<Rightarrow>
          (case w_operator_file w of
             None \<Rightarrow> (c, None)
           | Some found \<Rightarrow> (c\<lparr>c_operator := Some found\<rparr>, Some found)))"

text \<open>\<open>set_operator\<close>: \<open>hash\<close> is what Argon2 answers, \<open>mkdir\<close> and \<open>write\<close> what the file system answers;
  the new record is what the file then holds.\<close>

definition set_operator ::
  "(string \<Rightarrow> string + string) \<Rightarrow> (string + unit) \<Rightarrow> (string + unit) \<Rightarrow> string \<Rightarrow> string \<Rightarrow> string + operator" where
  "set_operator hash mkdir wrote username password =
     ebind (ensure (trim username \<noteq> []) ''username must not be empty'') (\<lambda>_.
     ebind (ensure (12 \<le> length (chars password)) ''password must be at least 12 characters'') (\<lambda>_.
     ebind (case hash password of Inl e \<Rightarrow> Inl (''hashing failed: '' @ e) | Inr phc \<Rightarrow> Inr phc) (\<lambda>phc.
     ebind mkdir (\<lambda>_. ebind wrote (\<lambda>_. Inr \<lparr>op_username = username, op_phc = phc\<rparr>)))))"

subsection \<open>Sessions\<close>

definition touch_cookie :: "ctx \<Rightarrow> outside \<Rightarrow> string option \<Rightarrow> ctx \<times> session_info option" where
  "touch_cookie c w jar =
     (case jar of
        None \<Rightarrow> (c, None)
      | Some sid \<Rightarrow>
          (case session_touch (c_sessions c) sid (w_now w) of
             (ss, info) \<Rightarrow> (c\<lparr>c_sessions := ss\<rparr>, info)))"

definition session_handler :: "lib \<Rightarrow> ctx \<Rightarrow> outside \<Rightarrow> string option \<Rightarrow> ctx \<times> response" where
  "session_handler L c w jar =
     (let (c1, op) = load_operator c w;
          (c2, info) = touch_cookie c1 w jar
      in (c2, json_response 200 (JObject
           [(''configured'', JBool (op \<noteq> None)),
            (''signed_in'', JBool (info \<noteq> None)),
            (''user'', opt_str (map_option info_user info)),
            (''role'', opt_str (map_option (\<lambda>i. role_str (info_role i)) info)),
            (''method'', opt_str (map_option (\<lambda>i. method_str (info_method i)) info)),
            (''oidc_available'', JBool (c_oidc c2 \<noteq> None))])))"

definition too_many_sign_ins :: "time \<Rightarrow> response" where
  "too_many_sign_ins wait =
     (let secs = max (wait div 1000000000) 1 in
      \<lparr>status = 429, retry_after = Some (dec secs), set_cookie = None,
       body = JObject [(''error'', JString ''too many failed sign-ins; wait before trying again''),
                       (''retry_after'', JNum (dec secs))]\<rparr>)"

text \<open>The local half of \<open>login\<close>: \<open>Inl\<close> is the early return, \<open>Inr\<close> who signed in.\<close>

definition held_wait :: "ctx \<Rightarrow> string \<Rightarrow> string \<Rightarrow> time \<Rightarrow> time option" where
  "held_wait c account address t =
     (let waits = List.map_filter (\<lambda>r. case r of Inl w \<Rightarrow> Some w | Inr _ \<Rightarrow> None)
                    [check (sign_in_accounts c) account t, check (sign_in_addresses c) address t]
      in if waits = [] then None else Some (Max (set waits)))"

definition login_local ::
  "lib \<Rightarrow> ctx \<Rightarrow> outside \<Rightarrow> credentials \<Rightarrow> ctx \<times> (response + string \<times> role \<times> auth_method)" where
  "login_local L c w cr =
     (case load_operator c w of
        (c1, None) \<Rightarrow> (c1, Inl (json_response 503 (error_json ''no operator account on this box yet'')))
      | (c1, Some op) \<Rightarrow>
          (let username = unwrap_or_default (cr_username cr);
               password = unwrap_or_default (cr_password cr);
               account = login_key ''user'' username;
               address = login_key ''addr'' (case w_peer w of None \<Rightarrow> ''unknown'' | Some ip \<Rightarrow> ip)
           in case held_wait c1 account address (w_now w) of
                Some wait \<Rightarrow> (c1, Inl (too_many_sign_ins wait))
              | None \<Rightarrow>
                  if \<not> verify_operator L op username password then
                    (c1\<lparr>sign_in_accounts := record_failure (sign_in_accounts c1) account (w_now w),
                        sign_in_addresses := record_failure (sign_in_addresses c1) address (w_now w)\<rparr>,
                     Inl (json_response 401 (error_json ''wrong username or password'')))
                  else
                    (c1\<lparr>sign_in_accounts := record_success (sign_in_accounts c1) account,
                        sign_in_addresses := record_success (sign_in_addresses c1) address\<rparr>,
                     Inr (op_username op, Admin, Local))))"

definition login_oidc ::
  "lib \<Rightarrow> ctx \<Rightarrow> outside \<Rightarrow> string \<Rightarrow> ctx \<times> (response + string \<times> role \<times> auth_method)" where
  "login_oidc L c w token =
     (case c_oidc c of
        None \<Rightarrow> (c, Inl (json_response 503 (error_json ''OIDC is not configured on this box'')))
      | Some cfg \<Rightarrow>
          (case oidc_verify (jwt L) cfg token (w_now w) (w_now_after w) (w_jwks_response w) of
             (cfg', Some v) \<Rightarrow> (c\<lparr>c_oidc := Some cfg'\<rparr>, Inr (v_username v, v_role v, Oidc))
           | (cfg', None) \<Rightarrow>
               (c\<lparr>c_oidc := Some cfg'\<rparr>,
                Inl (json_response 401 (error_json ''the ID token was not accepted'')))))"

definition login :: "lib \<Rightarrow> ctx \<Rightarrow> outside \<Rightarrow> credentials \<Rightarrow> ctx \<times> response" where
  "login L c w cr =
     (case (case filter_opt (\<lambda>t. trim t \<noteq> []) (cr_id_token cr) of
              Some token \<Rightarrow> login_oidc L c w token
            | None \<Rightarrow> login_local L c w cr) of
        (c1, Inl r) \<Rightarrow> (c1, r)
      | (c1, Inr (user, role, method)) \<Rightarrow>
          (case session_create (c_sessions c1) (w_session_bytes w) user role method (w_now w) of
             (ss, sid) \<Rightarrow>
               (c1\<lparr>c_sessions := ss\<rparr>,
                \<lparr>status = 200, retry_after = None,
                 set_cookie = Some (SetCookie sid True True ''/''
                   (cookie_is_secure (secure_cookies c1) (rp_origin (webauthn_rp c1)))),
                 body = JObject [(''signed_in'', JBool True), (''user'', JString user),
                   (''role'', JString (role_str role)), (''method'', JString (method_str method))]\<rparr>)))"

definition logout :: "ctx \<Rightarrow> string option \<Rightarrow> ctx \<times> response" where
  "logout c jar =
     (let c1 = (case jar of
                  None \<Rightarrow> c
                | Some sid \<Rightarrow> c\<lparr>c_sessions := session_revoke (c_sessions c) sid\<rparr>)
      in (c1, \<lparr>status = 200, retry_after = None,
               set_cookie = Some (RemoveCookie ''/''
                 (cookie_is_secure (secure_cookies c1) (rp_origin (webauthn_rp c1)))),
               body = JObject [(''signed_in'', JBool False)]\<rparr>))"

definition guard :: "ctx \<Rightarrow> outside \<Rightarrow> string option \<Rightarrow> ctx \<times> (response + session_info)" where
  "guard c w jar =
     (case touch_cookie c w jar of
        (c1, None) \<Rightarrow> (c1, Inl (json_response 401 (error_json ''not signed in'')))
      | (c1, Some s) \<Rightarrow> (c1, Inr s))"

subsection \<open>The passkey lifecycle\<close>

definition REMOVE_PASSKEY_CEREMONY :: string where
  "REMOVE_PASSKEY_CEREMONY = ''webauthn_remove_passkey''"

definition ENROLL_PASSKEY_CEREMONY :: string where
  "ENROLL_PASSKEY_CEREMONY = ''webauthn_enroll_passkey''"

definition canonical_args :: "lib \<Rightarrow> json \<Rightarrow> string" where
  "canonical_args L args = json_text (crypto L) args"

definition body_sha256_hex :: "lib \<Rightarrow> byte list \<Rightarrow> string" where
  "body_sha256_hex L b = hex (sha256 (crypto L) b)"

definition args_hash :: "lib \<Rightarrow> json \<Rightarrow> string" where
  "args_hash L args = body_sha256_hex L (utf8 (canonical_args L args))"

definition challenge_of :: "lib \<Rightarrow> byte list \<Rightarrow> string option" where
  "challenge_of L client_data =
     Option.bind (json_of (crypto L) client_data) (\<lambda>v.
     Option.bind (json_get v ''challenge'') json_str)"

definition operator_password_ok :: "lib \<Rightarrow> ctx \<Rightarrow> outside \<Rightarrow> string \<Rightarrow> ctx \<times> (response + unit)" where
  "operator_password_ok L c w password =
     (case load_operator c w of
        (c1, None) \<Rightarrow> (c1, Inl (json_response 403 (error_tagged
          (''this box has no operator account, so there is no password to prove: '' @
           ''run `genaryx-web set-password --username <name>` on the box first'')
          ''no_operator_account'')))
      | (c1, Some op) \<Rightarrow>
          if \<not> verify_operator L op (op_username op) password then
            (c1, Inl (json_response 403 (error_json ''the operator password was not accepted'')))
          else (c1, Inr ()))"

text \<open>The cryptographic middle of the gate: the header is decoded, the challenge it answers is taken
  (and is gone, whatever follows), its binding is compared, and the signature is verified against
  the named key of the session's own user.\<close>

definition decode_envelope :: "lib \<Rightarrow> string \<Rightarrow> (string \<times> string \<times> string \<times> string) option" where
  "decode_envelope L header =
     Option.bind (header_to_str L header) (\<lambda>s.
     Option.bind (b64url_decode (crypto L) s) (envelope_of L))"

definition verify_assertion_header ::
  "lib \<Rightarrow> ctx \<Rightarrow> outside \<Rightarrow> session_info \<Rightarrow> passkey_store \<Rightarrow> string \<Rightarrow> json \<Rightarrow> string \<Rightarrow>
   ctx \<times> (response + passkey)" where
  "verify_assertion_header L c w s st bound_to args header =
     (let E = crypto L in
      case decode_envelope L header of
        None \<Rightarrow> (c, Inl (bad_request ''x-genaryx-webauthn is not base64url(JSON)''))
      | Some (cid, cdj, ad, sg) \<Rightarrow>
     (case b64url_decode E cdj of
        None \<Rightarrow> (c, Inl (bad_request ''client_data_json is not base64url''))
      | Some client_data \<Rightarrow>
     (case b64url_decode E ad of
        None \<Rightarrow> (c, Inl (bad_request ''authenticator_data is not base64url''))
      | Some auth_data \<Rightarrow>
     (case b64url_decode E sg of
        None \<Rightarrow> (c, Inl (bad_request ''signature is not base64url''))
      | Some signature \<Rightarrow>
     (case challenge_of L client_data of
        None \<Rightarrow> (c, Inl (bad_request ''clientDataJSON carries no challenge''))
      | Some challenge \<Rightarrow>
     (case take_challenge (webauthn_pending c) (info_user s) challenge (w_now w) of
        (p, taken) \<Rightarrow>
     (let c1 = c\<lparr>webauthn_pending := p\<rparr> in
      case taken of
        Inl e \<Rightarrow> (c1, Inl (ceremony_refused e))
      | Inr Register \<Rightarrow> (c1, Inl (ceremony_refused (Mismatch ''ceremony purpose'')))
      | Inr (Action command args_sha256) \<Rightarrow>
          if command \<noteq> bound_to then (c1, Inl (ceremony_refused (Mismatch ''bound command'')))
          else if args_sha256 \<noteq> args_hash L args then
            (c1, Inl (ceremony_refused (Mismatch ''bound arguments'')))
          else
     (case find (\<lambda>k. credential_id k = cid) (pk_for_user st (info_user s)) of
        None \<Rightarrow> (c1, Inl (ceremony_refused WrongUser))
      | Some rec \<Rightarrow>
     (case verify_assertion E (webauthn_rp c) challenge rec client_data auth_data signature of
        Inl e \<Rightarrow> (c1, Inl (ceremony_refused e))
      | Inr v \<Rightarrow>
          (c1\<lparr>passkeys := Inr (fst (pk_update_sign_count st (w_disk w) (info_user s)
                (credential_id rec) (va_sign_count v)))\<rparr>, Inr rec))))))))))"

definition webauthn_list :: "ctx \<Rightarrow> outside \<Rightarrow> string option \<Rightarrow> ctx \<times> response" where
  "webauthn_list c w jar =
     (case guard c w jar of
        (c1, Inl r) \<Rightarrow> (c1, r)
      | (c1, Inr s) \<Rightarrow>
     (case passkeys c1 of
        Inl e \<Rightarrow> (c1, store_unavailable e)
      | Inr st \<Rightarrow>
          (let keys = map (\<lambda>k. JObject [(''credential_id'', JString (credential_id k)),
                                (''label'', JString (label k)), (''created_at'', JString (created_at k))])
                        (pk_for_user st (info_user s))
           in (c1, json_response 200 (JObject
                [(''passkeys'', JArray keys), (''webauthn_required'', JBool (keys \<noteq> [])),
                 (''policy_requires_passkey'', JBool (require_passkey c1))])))))"

definition register_options :: "lib \<Rightarrow> rp_config \<Rightarrow> string \<Rightarrow> string \<Rightarrow> json" where
  "register_options L rp user challenge = JObject
     [(''challenge'', JString challenge),
      (''rp'', JObject [(''id'', JString (rp_id rp)), (''name'', JString ''Genaryx'')]),
      (''user'', JObject [(''id'', JString (b64url_encode (crypto L) (utf8 user))),
                          (''name'', JString user), (''displayName'', JString user)]),
      (''pubKeyCredParams'', JArray [JObject [(''type'', JString ''public-key''), (''alg'', JNum ''-7'')]]),
      (''timeout'', JNum ''120000''),
      (''attestation'', JString ''none''),
      (''authenticatorSelection'', JObject [(''userVerification'', JString ''preferred'')])]"

text \<open>The factor that \<open>register/start\<close> asks for before it mints anything.\<close>

definition register_factor ::
  "lib \<Rightarrow> ctx \<Rightarrow> outside \<Rightarrow> session_info \<Rightarrow> passkey_store \<Rightarrow> string option \<Rightarrow> string option \<Rightarrow>
   ctx \<times> (response + unit)" where
  "register_factor L c w s st header password =
     (if pk_has_any st (info_user s) then
        (case header of
           None \<Rightarrow> (c, Inl (json_response 403 (error_tagged
             (''you already have an enrolled passkey: confirm with it before '' @
              ''enrolling another, so a session on its own cannot add one'') ''assertion_required'')))
         | Some h \<Rightarrow>
             (case verify_assertion_header L c w s st ENROLL_PASSKEY_CEREMONY (JObject []) h of
                (c1, Inl r) \<Rightarrow> (c1, Inl r)
              | (c1, Inr _) \<Rightarrow> (c1, Inr ())))
      else
        (case password of
           None \<Rightarrow> (c, Inl (json_response 403 (error_tagged
             (''enrolling the first passkey needs the operator password (the one '' @
              ''`genaryx-web set-password` set): a session alone is what the '' @
              ''ceremony exists to defend against, so it cannot mint the key that '' @
              ''would satisfy it'') ''password_required'')))
         | Some pw \<Rightarrow> operator_password_ok L c w pw))"

definition webauthn_register_start ::
  "lib \<Rightarrow> ctx \<Rightarrow> outside \<Rightarrow> string option \<Rightarrow> string option \<Rightarrow> string option \<Rightarrow> ctx \<times> response" where
  "webauthn_register_start L c w jar header password =
     (case guard c w jar of
        (c1, Inl r) \<Rightarrow> (c1, r)
      | (c1, Inr s) \<Rightarrow>
     (case passkeys c1 of
        Inl e \<Rightarrow> (c1, store_unavailable e)
      | Inr st \<Rightarrow>
     (case register_factor L c1 w s st header password of
        (c2, Inl r) \<Rightarrow> (c2, r)
      | (c2, Inr _) \<Rightarrow>
     (case mint (crypto L) (webauthn_pending c2) (w_entropy w) (info_user s) Register (w_now w) of
        (p, Inl e) \<Rightarrow> (c2\<lparr>webauthn_pending := p\<rparr>, ceremony_refused e)
      | (p, Inr challenge) \<Rightarrow>
          (c2\<lparr>webauthn_pending := p\<rparr>,
           json_response 200 (register_options L (webauthn_rp c2) (info_user s) challenge))))))"

text \<open>\<open>register/finish\<close> decodes what was sent, takes the challenge, verifies the registration and
  enrols the key.\<close>

definition finish_inputs ::
  "lib \<Rightarrow> register_finish_body \<Rightarrow> response + byte list \<times> byte list \<times> string" where
  "finish_inputs L b =
     ebind (ok_or (bad_request ''client_data_json is not base64url'')
              (b64url_decode (crypto L) (rf_client_data_json b))) (\<lambda>client_data.
     ebind (ok_or (bad_request ''attestation_object is not base64url'')
              (b64url_decode (crypto L) (rf_attestation_object b))) (\<lambda>attestation.
     ebind (ok_or (bad_request ''clientDataJSON carries no challenge'')
              (challenge_of L client_data)) (\<lambda>challenge.
     Inr (client_data, attestation, challenge))))"

definition finish_verified ::
  "lib \<Rightarrow> rp_config \<Rightarrow> outside \<Rightarrow> register_finish_body \<Rightarrow> byte list \<times> byte list \<times> string \<Rightarrow> response + passkey" where
  "finish_verified L rp w b inputs =
     (case inputs of (client_data, attestation, challenge) \<Rightarrow>
      case verify_registration (crypto L) rp challenge client_data attestation of
        Inl e \<Rightarrow> Inl (ceremony_refused e)
      | Inr v \<Rightarrow>
          if vr_credential_id v \<noteq> rf_credential_id b then
            Inl (ceremony_refused (Mismatch ''credential id''))
          else Inr \<lparr>credential_id = vr_credential_id v, public_key_x963 = vr_public_key v,
                 pk_sign_count = vr_sign_count v, created_at = w_wall_clock w,
                 label = (if trim (rf_label b) = [] then ''passkey'' else trim (rf_label b))\<rparr>)"

definition webauthn_register_finish ::
  "lib \<Rightarrow> ctx \<Rightarrow> outside \<Rightarrow> string option \<Rightarrow> register_finish_body \<Rightarrow> ctx \<times> response" where
  "webauthn_register_finish L c w jar b =
     (case guard c w jar of
        (c1, Inl r) \<Rightarrow> (c1, r)
      | (c1, Inr s) \<Rightarrow>
     (case passkeys c1 of
        Inl e \<Rightarrow> (c1, store_unavailable e)
      | Inr st \<Rightarrow>
     (case finish_inputs L b of
        Inl r \<Rightarrow> (c1, r)
      | Inr inputs \<Rightarrow>
     (case take_challenge (webauthn_pending c1) (info_user s) (snd (snd inputs)) (w_now w) of
        (p, Inl e) \<Rightarrow> (c1\<lparr>webauthn_pending := p\<rparr>, ceremony_refused e)
      | (p, Inr (Action _ _)) \<Rightarrow>
          (c1\<lparr>webauthn_pending := p\<rparr>, ceremony_refused (Mismatch ''ceremony purpose''))
      | (p, Inr Register) \<Rightarrow>
     (case finish_verified L (webauthn_rp c1) w b inputs of
        Inl r \<Rightarrow> (c1\<lparr>webauthn_pending := p\<rparr>, r)
      | Inr rec \<Rightarrow>
     (case pk_add st (w_disk w) (info_user s) rec of
        (st', Inl e) \<Rightarrow> (c1\<lparr>webauthn_pending := p, passkeys := Inr st'\<rparr>, ceremony_refused e)
      | (st', Inr _) \<Rightarrow>
          (c1\<lparr>webauthn_pending := p, passkeys := Inr st'\<rparr>,
           json_response 200 (JObject [(''enrolled'', JBool True),
             (''credential_id'', JString (credential_id rec))]))))))))"

text \<open>The factor a removal asks for: \<open>Inr True\<close> when the operator password was proven, \<open>Inr False\<close> when
  an enrolled key confirmed this very removal.\<close>

definition remove_factor ::
  "lib \<Rightarrow> ctx \<Rightarrow> outside \<Rightarrow> session_info \<Rightarrow> passkey_store \<Rightarrow> string option \<Rightarrow> string \<Rightarrow> string option \<Rightarrow>
   ctx \<times> (response + bool)" where
  "remove_factor L c w s st header cid password =
     (let is_last = (length (pk_for_user st (info_user s)) = 1) in
      case password of
        Some pw \<Rightarrow>
          (case operator_password_ok L c w pw of
             (c1, Inl r) \<Rightarrow> (c1, Inl r)
           | (c1, Inr _) \<Rightarrow> (c1, Inr True))
      | None \<Rightarrow>
          if is_last then
            (c, Inl (json_response 403 (error_tagged
              (''this is the last enrolled passkey: removing it needs the operator '' @
               ''password (the one `genaryx-web set-password` set), because it is what '' @
               ''takes this console back to session-only'') ''password_required'')))
          else
            (case header of
               None \<Rightarrow> (c, Inl (json_response 403 (error_tagged
                 (''removing a passkey needs a fresh confirmation from an enrolled '' @
                  ''passkey, or the operator password: a session alone cannot take the '' @
                  ''ceremony away'') ''assertion_required'')))
             | Some h \<Rightarrow>
                 (case verify_assertion_header L c w s st REMOVE_PASSKEY_CEREMONY
                         (JObject [(''credential_id'', JString cid)]) h of
                    (c1, Inl r) \<Rightarrow> (c1, Inl r)
                  | (c1, Inr _) \<Rightarrow> (c1, Inr False))))"

definition webauthn_remove ::
  "lib \<Rightarrow> ctx \<Rightarrow> outside \<Rightarrow> string option \<Rightarrow> string option \<Rightarrow> string \<Rightarrow> string option \<Rightarrow> ctx \<times> response" where
  "webauthn_remove L c w jar header cid password =
     (case guard c w jar of
        (c1, Inl r) \<Rightarrow> (c1, r)
      | (c1, Inr s) \<Rightarrow>
     (case passkeys c1 of
        Inl e \<Rightarrow> (c1, store_unavailable e)
      | Inr st \<Rightarrow>
          if \<not> list_ex (\<lambda>k. credential_id k = cid) (pk_for_user st (info_user s)) then
            (c1, json_response 404 (error_json (''webauthn: '' @ webauthn_error_str UnknownCredential)))
          else
     (case remove_factor L c1 w s st header cid password of
        (c2, Inl r) \<Rightarrow> (c2, r)
      | (c2, Inr password_ok) \<Rightarrow>
     (case passkeys c2 of
        Inl e \<Rightarrow> (c2, store_unavailable e)
      | Inr st2 \<Rightarrow>
     (case pk_remove st2 (w_disk w) (info_user s) cid password_ok of
        (st3, Inl e) \<Rightarrow> (c2\<lparr>passkeys := Inr st3\<rparr>, ceremony_refused e)
      | (st3, Inr remaining) \<Rightarrow>
          (c2\<lparr>passkeys := Inr st3\<rparr>,
           json_response 200 (JObject [(''removed'', JBool True), (''credential_id'', JString cid),
             (''remaining'', JNum (dec remaining))])))))))"

definition ceremonial :: "string \<Rightarrow> bool" where
  "ceremonial name \<longleftrightarrow>
     list_ex (\<lambda>n. n = name) ceremony_commands \<or> name = REMOVE_PASSKEY_CEREMONY
     \<or> name = ENROLL_PASSKEY_CEREMONY"

definition webauthn_action_start ::
  "lib \<Rightarrow> ctx \<Rightarrow> outside \<Rightarrow> string option \<Rightarrow> string \<Rightarrow> json \<Rightarrow> ctx \<times> response" where
  "webauthn_action_start L c w jar command args =
     (case guard c w jar of
        (c1, Inl r) \<Rightarrow> (c1, r)
      | (c1, Inr s) \<Rightarrow>
     (case passkeys c1 of
        Inl e \<Rightarrow> (c1, store_unavailable e)
      | Inr st \<Rightarrow>
     (let keys = pk_for_user st (info_user s) in
      if keys = [] then
        (c1, bad_request ''no passkey enrolled; enroll one before starting an action ceremony'')
      else if \<not> ceremonial command then
        (c1, bad_request ''this command carries no webauthn ceremony'')
      else
     (case mint (crypto L) (webauthn_pending c1) (w_entropy w) (info_user s)
             (Action command (args_hash L args)) (w_now w) of
        (p, Inl e) \<Rightarrow> (c1\<lparr>webauthn_pending := p\<rparr>, ceremony_refused e)
      | (p, Inr challenge) \<Rightarrow>
          (c1\<lparr>webauthn_pending := p\<rparr>,
           json_response 200 (JObject
             [(''challenge'', JString challenge),
              (''rp_id'', JString (rp_id (webauthn_rp c1))),
              (''timeout'', JNum ''120000''),
              (''user_verification'', JString ''required''),
              (''allow_credentials'',
                 JArray (map (\<lambda>k. JObject [(''type'', JString ''public-key''),
                                           (''id'', JString (credential_id k))]) keys))]))))))"

subsection \<open>The command chokepoint\<close>

definition webauthn_gate ::
  "lib \<Rightarrow> ctx \<Rightarrow> outside \<Rightarrow> session_info \<Rightarrow> string \<Rightarrow> json \<Rightarrow> string option \<Rightarrow>
   ctx \<times> (response + signature option)" where
  "webauthn_gate L c w s name args header =
     (case passkeys c of
        Inl e \<Rightarrow> (c, Inl (store_unavailable e))
      | Inr st \<Rightarrow>
          if \<not> pk_has_any st (info_user s) then
            (if require_passkey c then
               (c, Inl (json_response 403 (error_tagged
                 (''this console requires a passkey for '' @ name @ '', and you have none '' @
                  ''enrolled: enrol one under Session > Passkeys, then run this again'')
                 ''enrollment_required'')))
             else (c, Inr None))
          else
            (case header of
               None \<Rightarrow> (c, Inl (json_response 428 (error_tagged
                 ''a webauthn assertion is required for this command'' ''required'')))
             | Some h \<Rightarrow>
                 (case verify_assertion_header L c w s st name args h of
                    (c1, Inl r) \<Rightarrow> (c1, Inl r)
                  | (c1, Inr rec) \<Rightarrow>
                      (c1, Inr (Some \<lparr>sig_alg = ''webauthn-es256'', sig_fpr = credential_id rec\<rparr>)))))"

definition command ::
  "lib \<Rightarrow> ctx \<Rightarrow> outside \<Rightarrow> string option \<Rightarrow> string \<Rightarrow> string option \<Rightarrow> json option \<Rightarrow> ctx \<times> answer" where
  "command L c w jar name header payload =
     (case guard c w jar of
        (c1, Inl r) \<Rightarrow> (c1, Answer r)
      | (c1, Inr s) \<Rightarrow>
     (let need = required_role name in
      if info_role s < need then
        (c1, Answer (json_response 403 (error_json (''role '' @ role_str need @ '' required''))))
      else
     (let args = (case payload of None \<Rightarrow> JObject [] | Some v \<Rightarrow> v) in
      if requires_ceremony name then
        (case webauthn_gate L c1 w s name args header of
           (c2, Inl r) \<Rightarrow> (c2, Answer r)
         | (c2, Inr sig) \<Rightarrow> (c2, Dispatch (info_user s) sig name args))
      else (c1, Dispatch (info_user s) None name args))))"

subsection \<open>The server as a machine\<close>

datatype request =
    GetSession
  | Login credentials
  | Logout
  | ListPasskeys
  | RegisterStart "string option" "string option"
  | RegisterFinish register_finish_body
  | RemovePasskey "string option" string "string option"
  | ActionStart string json
  | Command string "string option" "json option"

text \<open>A request comes with its cookie and with what the outside answers while it is served.\<close>

type_synonym event = "outside \<times> string option \<times> request"

definition answered :: "ctx \<times> response \<Rightarrow> ctx \<times> answer" where
  "answered r = (fst r, Answer (snd r))"

fun serve :: "lib \<Rightarrow> ctx \<Rightarrow> event \<Rightarrow> ctx \<times> answer" where
  "serve L c (w, jar, GetSession) = answered (session_handler L c w jar)"
| "serve L c (w, jar, Login cr) = answered (login L c w cr)"
| "serve L c (w, jar, Logout) = answered (logout c jar)"
| "serve L c (w, jar, ListPasskeys) = answered (webauthn_list c w jar)"
| "serve L c (w, jar, RegisterStart header password) =
     answered (webauthn_register_start L c w jar header password)"
| "serve L c (w, jar, RegisterFinish b) = answered (webauthn_register_finish L c w jar b)"
| "serve L c (w, jar, RemovePasskey header cid password) =
     answered (webauthn_remove L c w jar header cid password)"
| "serve L c (w, jar, ActionStart name args) = answered (webauthn_action_start L c w jar name args)"
| "serve L c (w, jar, Command name header args) = command L c w jar name header args"

lemmas split_results = prod.splits sum.splits option.splits if_splits purpose.splits

subsection \<open>What a handler leaves alone\<close>

definition settings :: "ctx \<Rightarrow> bool \<times> bool \<times> rp_config" where
  "settings c = (require_passkey c, secure_cookies c, webauthn_rp c)"

lemma load_operator_frame:
  "load_operator c w = (c1, op) \<Longrightarrow>
   settings c1 = settings c \<and> c_sessions c1 = c_sessions c \<and> passkeys c1 = passkeys c
   \<and> webauthn_pending c1 = webauthn_pending c \<and> sign_in_accounts c1 = sign_in_accounts c
   \<and> sign_in_addresses c1 = sign_in_addresses c \<and> c_oidc c1 = c_oidc c"
  by (auto simp: load_operator_def settings_def split: option.splits)

lemma touch_cookie_frame:
  "touch_cookie c w jar = (c1, i) \<Longrightarrow>
   settings c1 = settings c \<and> passkeys c1 = passkeys c \<and> webauthn_pending c1 = webauthn_pending c
   \<and> sign_in_accounts c1 = sign_in_accounts c \<and> sign_in_addresses c1 = sign_in_addresses c
   \<and> c_oidc c1 = c_oidc c \<and> c_operator c1 = c_operator c"
  by (auto simp: touch_cookie_def settings_def split: option.splits prod.splits)

lemma guard_frame:
  "guard c w jar = (c1, r) \<Longrightarrow>
   settings c1 = settings c \<and> passkeys c1 = passkeys c \<and> webauthn_pending c1 = webauthn_pending c
   \<and> sign_in_accounts c1 = sign_in_accounts c \<and> sign_in_addresses c1 = sign_in_addresses c
   \<and> c_oidc c1 = c_oidc c \<and> c_operator c1 = c_operator c"
  by (auto simp: guard_def dest!: touch_cookie_frame split: option.splits prod.splits)

lemma operator_password_frame:
  "operator_password_ok L c w pw = (c1, r) \<Longrightarrow>
   settings c1 = settings c \<and> c_sessions c1 = c_sessions c \<and> passkeys c1 = passkeys c
   \<and> webauthn_pending c1 = webauthn_pending c \<and> sign_in_accounts c1 = sign_in_accounts c
   \<and> sign_in_addresses c1 = sign_in_addresses c \<and> c_oidc c1 = c_oidc c"
  by (auto simp: operator_password_ok_def dest!: load_operator_frame split: option.splits prod.splits if_splits)

lemma take_challenge_table:
  "take_challenge p u ch t = (p1, r) \<Longrightarrow> p1 = p \<or> p1 = hm_remove ch p"
  by (auto simp: take_challenge_def split: option.splits)

lemma verify_assertion_header_frame:
  "verify_assertion_header L c w s st name args h = (c1, r) \<Longrightarrow>
   settings c1 = settings c \<and> c_sessions c1 = c_sessions c \<and> sign_in_accounts c1 = sign_in_accounts c
   \<and> sign_in_addresses c1 = sign_in_addresses c \<and> c_oidc c1 = c_oidc c \<and> c_operator c1 = c_operator c
   \<and> (webauthn_pending c1 = webauthn_pending c
      \<or> (\<exists>ch. webauthn_pending c1 = hm_remove ch (webauthn_pending c)))"
  by (auto simp: verify_assertion_header_def Let_def settings_def dest!: take_challenge_table
      split: split_results)

subsection \<open>What a confirmation is\<close>

text \<open>
  \<open>confirmed L c w user st name args header challenge rec\<close>: the header answers a challenge that is
  pending for this user, for exactly this name and these arguments, and not expired, with a
  signature that verifies under an enrolled key \<open>rec\<close> of this user.
\<close>

definition confirmed ::
  "lib \<Rightarrow> ctx \<Rightarrow> outside \<Rightarrow> string \<Rightarrow> passkey_store \<Rightarrow> string \<Rightarrow> json \<Rightarrow> string \<Rightarrow> string \<Rightarrow> passkey \<Rightarrow> bool" where
  "confirmed L c w user st name args header challenge rec \<longleftrightarrow>
     (\<exists>cid cdj ad sg client_data auth_data sig v q.
        decode_envelope L header = Some (cid, cdj, ad, sg)
      \<and> b64url_decode (crypto L) cdj = Some client_data
      \<and> b64url_decode (crypto L) ad = Some auth_data
      \<and> b64url_decode (crypto L) sg = Some sig
      \<and> challenge_of L client_data = Some challenge
      \<and> hm_get (webauthn_pending c) challenge = Some q
      \<and> w_now w < pend_expires q \<and> pend_user q = user
      \<and> pend_purpose q = Action name (args_hash L args)
      \<and> find (\<lambda>k. credential_id k = cid) (pk_for_user st user) = Some rec
      \<and> verify_assertion (crypto L) (webauthn_rp c) challenge rec client_data auth_data sig = Inr v)"

lemma take_challenge_Inr:
  "take_challenge p u ch t = (p1, Inr pu) \<longleftrightarrow>
   (\<exists>q. hm_get p ch = Some q \<and> t < pend_expires q \<and> pend_user q = u \<and> pend_purpose q = pu
        \<and> p1 = hm_remove ch p)"
  by (auto simp: take_challenge_def split: option.splits if_splits)

lemma verify_assertion_header_Inr:
  assumes "verify_assertion_header L c w s st name args h = (c1, Inr rec)"
  shows "\<exists>ch v. confirmed L c w (info_user s) st name args h ch rec
     \<and> webauthn_pending c1 = hm_remove ch (webauthn_pending c)
     \<and> passkeys c1 = Inr (fst (pk_update_sign_count st (w_disk w) (info_user s) (credential_id rec) v))"
  using assms unfolding verify_assertion_header_def confirmed_def Let_def
  by (fastforce simp: take_challenge_Inr split: split_results)

lemma verify_assertion_header_Inl:
  "verify_assertion_header L c w s st name args h = (c1, Inl r) \<Longrightarrow> passkeys c1 = passkeys c"
  by (auto simp: verify_assertion_header_def Let_def split: split_results)

lemma confirmed_enrolled:
  "confirmed L c w user st name args h ch rec \<Longrightarrow>
   rec \<in> set (pk_for_user st user)"
  by (auto simp: confirmed_def find_Some_iff)

lemma guard_Inr:
  "guard c w jar = (c1, Inr s) \<longleftrightarrow>
   (\<exists>sid ss. jar = Some sid \<and> session_touch (c_sessions c) sid (w_now w) = (ss, Some s)
      \<and> c1 = c\<lparr>c_sessions := ss\<rparr>)"
  by (auto simp: guard_def touch_cookie_def split: option.splits prod.splits)

lemma operator_password_Inr:
  "operator_password_ok L c w pw = (c1, Inr ()) \<longleftrightarrow>
   (\<exists>op. load_operator c w = (c1, Some op) \<and> phc_parses L (op_phc op) \<and> argon2_ok L pw (op_phc op))"
  by (auto simp: operator_password_ok_def verify_operator_def Let_def split: split_results)

text \<open>The credential ids of a user, which only enrolling and removing change.\<close>

definition enrolled :: "ctx \<Rightarrow> string \<Rightarrow> string set" where
  "enrolled c user = (case passkeys c of Inl _ \<Rightarrow> {} | Inr st \<Rightarrow> credential_id ` set (pk_for_user st user))"

lemma enrolled_update_sign_count:
  "passkeys c = Inr st \<Longrightarrow>
   passkeys c1 = Inr (fst (pk_update_sign_count st d u cid n)) \<Longrightarrow> enrolled c1 user = enrolled c user"
  unfolding enrolled_def by (simp add: pk_update_user) (metis list.set_map map_credential_update_first)

lemma verify_assertion_header_enrolled:
  assumes "verify_assertion_header L c w s st name args h = (c1, r)" and "passkeys c = Inr st"
  shows "enrolled c1 user = enrolled c user"
proof (cases r)
  case (Inl e)
  with assms verify_assertion_header_Inl have "passkeys c1 = passkeys c" by blast
  then show ?thesis by (simp add: enrolled_def)
next
  case (Inr rec)
  with assms verify_assertion_header_Inr
  obtain v where "passkeys c1 = Inr (fst (pk_update_sign_count st (w_disk w) (info_user s) (credential_id rec) v))"
    by blast
  with assms(2) show ?thesis by (rule enrolled_update_sign_count)
qed

subsection \<open>Effects of the handlers, table by table\<close>

lemma guard_sessions: "guard c w jar = (c1, r) \<Longrightarrow> c_sessions c1 = c_sessions (fst (touch_cookie c w jar))"
  by (auto simp: guard_def split: option.splits prod.splits)

lemma register_factor_frame:
  "register_factor L c w s st header pw = (c1, r) \<Longrightarrow>
   settings c1 = settings c \<and> c_sessions c1 = c_sessions c \<and> sign_in_accounts c1 = sign_in_accounts c
   \<and> sign_in_addresses c1 = sign_in_addresses c
   \<and> (webauthn_pending c1 = webauthn_pending c
      \<or> (\<exists>ch. webauthn_pending c1 = hm_remove ch (webauthn_pending c)))"
  by (auto simp: register_factor_def dest!: operator_password_frame verify_assertion_header_frame
      split: split_results)

lemma remove_factor_frame:
  "remove_factor L c w s st header cid pw = (c1, r) \<Longrightarrow>
   settings c1 = settings c \<and> c_sessions c1 = c_sessions c \<and> sign_in_accounts c1 = sign_in_accounts c
   \<and> sign_in_addresses c1 = sign_in_addresses c
   \<and> (webauthn_pending c1 = webauthn_pending c
      \<or> (\<exists>ch. webauthn_pending c1 = hm_remove ch (webauthn_pending c)))"
  by (auto simp: remove_factor_def Let_def dest!: operator_password_frame verify_assertion_header_frame
      split: split_results)

lemma webauthn_gate_frame:
  "webauthn_gate L c w s name args header = (c1, r) \<Longrightarrow>
   settings c1 = settings c \<and> c_sessions c1 = c_sessions c \<and> sign_in_accounts c1 = sign_in_accounts c
   \<and> sign_in_addresses c1 = sign_in_addresses c
   \<and> (webauthn_pending c1 = webauthn_pending c
      \<or> (\<exists>ch. webauthn_pending c1 = hm_remove ch (webauthn_pending c)))"
  by (auto simp: webauthn_gate_def dest!: verify_assertion_header_frame split: split_results)

lemma register_factor_enrolled:
  "register_factor L c w s st header pw = (c1, r) \<Longrightarrow> passkeys c = Inr st \<Longrightarrow>
   enrolled c1 user = enrolled c user"
  by (auto simp: register_factor_def enrolled_def dest!: operator_password_frame
      verify_assertion_header_enrolled [unfolded enrolled_def, where user = user] split: split_results)

lemma remove_factor_enrolled:
  "remove_factor L c w s st header cid pw = (c1, r) \<Longrightarrow> passkeys c = Inr st \<Longrightarrow>
   enrolled c1 user = enrolled c user"
  by (auto simp: remove_factor_def enrolled_def Let_def dest!: operator_password_frame
      verify_assertion_header_enrolled [unfolded enrolled_def, where user = user] split: split_results)

lemma webauthn_gate_enrolled:
  "webauthn_gate L c w s name args header = (c1, r) \<Longrightarrow> enrolled c1 user = enrolled c user"
  by (auto simp: webauthn_gate_def enrolled_def
      dest!: verify_assertion_header_enrolled [unfolded enrolled_def, where user = user] split: split_results)

text \<open>A step that the session guard opens: its effect on the sessions is that of the guard, its
  effect on the sign-in throttles and on the settings is none.\<close>

definition guarded :: "ctx \<Rightarrow> outside \<Rightarrow> string option \<Rightarrow> ctx \<Rightarrow> bool" where
  "guarded c w jar c' \<longleftrightarrow>
     settings c' = settings c \<and> c_sessions c' = c_sessions (fst (touch_cookie c w jar))
     \<and> sign_in_accounts c' = sign_in_accounts c \<and> sign_in_addresses c' = sign_in_addresses c"

lemma guarded_guard: "guard c w jar = (c1, r) \<Longrightarrow> guarded c w jar c1"
  using guard_frame guard_sessions unfolding guarded_def by blast

lemma guarded_updates [simp]:
  "guarded c w jar (c1\<lparr>webauthn_pending := p\<rparr>) = guarded c w jar c1"
  "guarded c w jar (c1\<lparr>passkeys := k\<rparr>) = guarded c w jar c1"
  by (simp_all add: guarded_def settings_def)

lemma guarded_list: "guarded c w jar (fst (webauthn_list c w jar))"
  by (auto simp: webauthn_list_def dest!: guarded_guard split: split_results)

lemma guarded_action_start: "guarded c w jar (fst (webauthn_action_start L c w jar name args))"
  by (auto simp: webauthn_action_start_def Let_def guarded_def settings_def
      dest!: guarded_guard split: split_results)

lemma guarded_register_start: "guarded c w jar (fst (webauthn_register_start L c w jar header pw))"
  by (auto simp: webauthn_register_start_def guarded_def settings_def
      dest!: guarded_guard register_factor_frame split: split_results)

lemma guarded_register_finish: "guarded c w jar (fst (webauthn_register_finish L c w jar b))"
  by (auto simp: webauthn_register_finish_def dest!: guarded_guard split: split_results)

lemma guarded_remove: "guarded c w jar (fst (webauthn_remove L c w jar header cid pw))"
  by (auto simp: webauthn_remove_def guarded_def settings_def
      dest!: guarded_guard remove_factor_frame split: split_results)

lemma guarded_command: "guarded c w jar (fst (command L c w jar name header payload))"
  by (auto simp: command_def Let_def guarded_def settings_def
      dest!: guarded_guard webauthn_gate_frame split: split_results)

lemmas guarded_handlers = guarded_list guarded_action_start guarded_register_start
  guarded_register_finish guarded_remove guarded_command

text \<open>The pending challenges: which event puts one there, and that no other event does.\<close>

definition begins :: "lib \<Rightarrow> ctx \<Rightarrow> event \<Rightarrow> string \<Rightarrow> pending \<Rightarrow> bool" where
  "begins L c e ch q \<longleftrightarrow>
     (case e of (w, jar, req) \<Rightarrow>
        (\<exists>c1 s st. guard c w jar = (c1, Inr s) \<and> passkeys c1 = Inr st
          \<and> pend_user q = info_user s \<and> pend_expires q = w_now w + CEREMONY_TTL
          \<and> (case req of
               ActionStart name args \<Rightarrow>
                 pend_purpose q = Action name (args_hash L args) \<and> ceremonial name
             | RegisterStart header pw \<Rightarrow>
                 pend_purpose q = Register \<and> snd (register_factor L c1 w s st header pw) = Inr ()
             | _ \<Rightarrow> False)))
     \<and> (\<exists>r. snd (serve L c e) = Answer r \<and> json_get (body r) ''challenge'' = Some (JString ch))"

abbreviation pend :: "ctx \<Rightarrow> string \<Rightarrow> pending option" where
  "pend c ch \<equiv> hm_get (webauthn_pending c) ch"

lemma hm_get_removed: "hm_get (hm_remove ch' p) ch = Some q \<Longrightarrow> hm_get p ch = Some q"
  by (auto simp: hm_get_remove split: if_splits)

lemma take_challenge_get:
  "take_challenge p u ch' t = (p1, r) \<Longrightarrow> hm_get p1 ch = Some q \<Longrightarrow> hm_get p ch = Some q"
  by (auto dest!: take_challenge_table hm_get_removed)

lemma pend_shrinks:
  "p1 = p \<or> (\<exists>x. p1 = hm_remove x p) \<Longrightarrow> hm_get p1 ch = Some q \<Longrightarrow> hm_get p ch = Some q"
  by (auto dest: hm_get_removed)

lemma pend_command:
  "pend (fst (command L c w jar name header payload)) ch = Some q \<Longrightarrow> pend c ch = Some q"
  by (auto simp: command_def Let_def dest!: guard_frame webauthn_gate_frame hm_get_removed
      split: split_results)

lemma pend_remove:
  "pend (fst (webauthn_remove L c w jar header cid pw)) ch = Some q \<Longrightarrow> pend c ch = Some q"
  by (auto simp: webauthn_remove_def dest!: guard_frame remove_factor_frame hm_get_removed
      split: split_results)

lemma pend_register_finish:
  "pend (fst (webauthn_register_finish L c w jar b)) ch = Some q \<Longrightarrow> pend c ch = Some q"
  by (auto simp: webauthn_register_finish_def dest!: guard_frame take_challenge_get
      split: split_results)

lemma pend_list: "webauthn_pending (fst (webauthn_list c w jar)) = webauthn_pending c"
  by (auto simp: webauthn_list_def Let_def dest!: guard_frame split: split_results)

lemma pend_session: "webauthn_pending (fst (session_handler L c w jar)) = webauthn_pending c"
  by (auto simp: session_handler_def Let_def dest!: load_operator_frame touch_cookie_frame
      split: split_results)

lemma pend_logout: "webauthn_pending (fst (logout c jar)) = webauthn_pending c"
  by (auto simp: logout_def Let_def split: split_results)

lemma login_local_frame:
  "login_local L c w cr = (c1, r) \<Longrightarrow>
   settings c1 = settings c \<and> c_sessions c1 = c_sessions c \<and> passkeys c1 = passkeys c
   \<and> webauthn_pending c1 = webauthn_pending c \<and> c_oidc c1 = c_oidc c"
  by (auto simp: login_local_def Let_def settings_def dest!: load_operator_frame split: split_results)

lemma login_oidc_frame:
  "login_oidc L c w tok = (c1, r) \<Longrightarrow>
   settings c1 = settings c \<and> c_sessions c1 = c_sessions c \<and> passkeys c1 = passkeys c
   \<and> webauthn_pending c1 = webauthn_pending c \<and> c_operator c1 = c_operator c
   \<and> sign_in_accounts c1 = sign_in_accounts c \<and> sign_in_addresses c1 = sign_in_addresses c"
  by (auto simp: login_oidc_def settings_def split: split_results)

lemma pend_login: "webauthn_pending (fst (login L c w cr)) = webauthn_pending c"
  by (auto simp: login_def dest!: login_local_frame login_oidc_frame split: split_results)

lemma json_get_Cons [simp]:
  "json_get (JObject ((k, v) # ms)) key = (if key = k then Some v else json_get (JObject ms) key)"
  by (simp add: json_get_def)

lemma begins_ActionStart:
  assumes "hm_wf (webauthn_pending c)"
    and "pend (fst (webauthn_action_start L c w jar name args)) ch = Some q"
  shows "pend c ch = Some q \<or> begins L c (w, jar, ActionStart name args) ch q"
proof (cases "pend c ch = Some q")
  case False
  obtain c1 g where g: "guard c w jar = (c1, g)" by fastforce
  from guard_frame [OF this] have p: "webauthn_pending c1 = webauthn_pending c" by simp
  with assms(2) False g obtain s where s: "g = Inr s"
    by (cases g) (auto simp: webauthn_action_start_def)
  with assms(2) False g p obtain st where st: "passkeys c1 = Inr st"
    by (cases "passkeys c1") (auto simp: webauthn_action_start_def)
  obtain p' r where m: "mint (crypto L) (webauthn_pending c) (w_entropy w) (info_user s)
      (Action name (args_hash L args)) (w_now w) = (p', r)" by fastforce
  from assms(2) False have opens: "pk_for_user st (info_user s) \<noteq> []" "ceremonial name"
    by (auto simp: webauthn_action_start_def g s st p Let_def split: if_splits)
  then have "hm_get p' ch = Some q"
    using assms(2) m by (auto simp: webauthn_action_start_def g s st p Let_def split: sum.splits)
  from get_mint [OF assms(1) m this] False have "r = Inr ch"
    and "q = \<lparr>pend_user = info_user s, pend_purpose = Action name (args_hash L args),
              pend_expires = w_now w + CEREMONY_TTL\<rparr>" by auto
  with opens m have "begins L c (w, jar, ActionStart name args) ch q"
    by (auto simp: begins_def g s st answered_def webauthn_action_start_def p Let_def json_response_def)
  then show ?thesis ..
qed simp

lemma begins_RegisterStart:
  assumes "hm_wf (webauthn_pending c)"
    and "pend (fst (webauthn_register_start L c w jar header pw)) ch = Some q"
  shows "pend c ch = Some q \<or> begins L c (w, jar, RegisterStart header pw) ch q"
proof (cases "pend c ch = Some q")
  case False
  obtain c1 g where g: "guard c w jar = (c1, g)" by fastforce
  from guard_frame [OF this] have p: "webauthn_pending c1 = webauthn_pending c" by simp
  with assms(2) False g obtain s where s: "g = Inr s"
    by (cases g) (auto simp: webauthn_register_start_def)
  with assms(2) False g p obtain st where st: "passkeys c1 = Inr st"
    by (cases "passkeys c1") (auto simp: webauthn_register_start_def)
  obtain c2 f where f: "register_factor L c1 w s st header pw = (c2, f)" by fastforce
  then have sh: "webauthn_pending c2 = webauthn_pending c \<or> (\<exists>x. webauthn_pending c2 = hm_remove x (webauthn_pending c))"
    using register_factor_frame p by metis
  then have wf: "hm_wf (webauthn_pending c2)" using assms(1) by auto
  have gone: "hm_get (webauthn_pending c2) ch \<noteq> Some q"
    using pend_shrinks [OF sh] False by blast
  with assms(2) g s st f have ok: "f = Inr ()"
    by (cases f) (auto simp: webauthn_register_start_def)
  obtain p' r where m: "mint (crypto L) (webauthn_pending c2) (w_entropy w) (info_user s)
      Register (w_now w) = (p', r)" by fastforce
  then have "hm_get p' ch = Some q"
    using assms(2) by (auto simp: webauthn_register_start_def g s st f ok split: sum.splits)
  from get_mint [OF wf m this] gone have "r = Inr ch"
    and "q = \<lparr>pend_user = info_user s, pend_purpose = Register,
              pend_expires = w_now w + CEREMONY_TTL\<rparr>" by auto
  with m have "begins L c (w, jar, RegisterStart header pw) ch q"
    by (auto simp: begins_def g s st f ok answered_def webauthn_register_start_def json_response_def
        register_options_def)
  then show ?thesis ..
qed simp

lemma serve_pend:
  assumes "hm_wf (webauthn_pending c)" and "pend (fst (serve L c e)) ch = Some q"
  shows "pend c ch = Some q \<or> begins L c e ch q"
  using assms(2)
  by (cases "(L, c, e)" rule: serve.cases)
    (auto simp: answered_def pend_session pend_login pend_logout pend_list
      dest: pend_command pend_remove pend_register_finish begins_ActionStart [OF assms(1)]
        begins_RegisterStart [OF assms(1)])

subsection \<open>The invariant of the server\<close>

definition store_ok :: "ctx \<Rightarrow> bool" where
  "store_ok c \<longleftrightarrow> (case passkeys c of Inl _ \<Rightarrow> True | Inr st \<Rightarrow> store_wf st)"

definition console_wf :: "ctx \<Rightarrow> bool" where
  "console_wf c \<longleftrightarrow> sessions_wf (c_sessions c) \<and> hm_wf (webauthn_pending c) \<and> store_ok c"

lemma wf_pending_shrinks:
  "hm_wf p \<Longrightarrow> p1 = p \<or> (\<exists>x. p1 = hm_remove x p) \<Longrightarrow> hm_wf p1"
  by auto

lemma hm_wf_mint_eq: "mint E p ent u pu t = (p1, r) \<Longrightarrow> hm_wf p \<Longrightarrow> hm_wf p1"
  using hm_wf_mint [of p E ent u pu t] by simp

lemma hm_wf_take_eq: "take_challenge p u ch t = (p1, r) \<Longrightarrow> hm_wf p \<Longrightarrow> hm_wf p1"
  using hm_wf_take [of p u ch t] by simp

lemma serve_wf_pending:
  assumes "hm_wf (webauthn_pending c)"
  shows "hm_wf (webauthn_pending (fst (serve L c e)))"
proof -
  have "hm_wf (webauthn_pending (fst (command L c w jar name header payload)))" for w jar name header payload
    using assms by (auto simp: command_def Let_def dest!: guard_frame webauthn_gate_frame split: split_results)
  moreover have "hm_wf (webauthn_pending (fst (webauthn_remove L c w jar header cid pw)))" for w jar header cid pw
    using assms by (auto simp: webauthn_remove_def dest!: guard_frame remove_factor_frame split: split_results)
  moreover have "hm_wf (webauthn_pending (fst (webauthn_register_finish L c w jar b)))" for w jar b
    using assms by (auto simp: webauthn_register_finish_def dest!: guard_frame hm_wf_take_eq split: split_results)
  moreover have "hm_wf (webauthn_pending (fst (webauthn_register_start L c w jar header pw)))" for w jar header pw
    using assms by (auto simp: webauthn_register_start_def
        dest!: guard_frame register_factor_frame hm_wf_mint_eq split: split_results)
  moreover have "hm_wf (webauthn_pending (fst (webauthn_action_start L c w jar name args)))" for w jar name args
    using assms by (auto simp: webauthn_action_start_def Let_def dest!: guard_frame hm_wf_mint_eq split: split_results)
  ultimately show ?thesis
    using assms by (cases "(L, c, e)" rule: serve.cases)
      (simp_all add: answered_def pend_session pend_login pend_logout pend_list)
qed

text \<open>The store: a confirmation only moves a counter, so the well-formedness survives every handler.\<close>

definition store_moves :: "ctx \<Rightarrow> ctx \<Rightarrow> bool" where
  "store_moves c c1 \<longleftrightarrow>
     passkeys c1 = passkeys c \<or>
     (\<exists>st d u cid n. passkeys c = Inr st \<and> passkeys c1 = Inr (fst (pk_update_sign_count st d u cid n)))"

lemma store_moves_same: "passkeys c1 = passkeys c \<Longrightarrow> store_moves c c1"
  by (simp add: store_moves_def)

lemma store_moves_ok: "store_moves c c1 \<Longrightarrow> store_ok c \<Longrightarrow> store_ok c1"
  by (auto simp: store_moves_def store_ok_def store_wf_update)

lemma store_moves_store: "store_moves c c1 \<Longrightarrow> passkeys c = Inr st \<Longrightarrow> \<exists>st1. passkeys c1 = Inr st1"
  by (auto simp: store_moves_def)

lemma store_moves_assertion:
  assumes "verify_assertion_header L c w s st name args h = (c1, r)" and "passkeys c = Inr st"
  shows "store_moves c c1"
proof (cases r)
  case Inl
  with assms verify_assertion_header_Inl show ?thesis by (blast intro: store_moves_same)
next
  case (Inr rec)
  from verify_assertion_header_Inr [OF assms(1) [unfolded Inr]] assms(2) show ?thesis
    unfolding store_moves_def by blast
qed

lemma store_moves_password: "operator_password_ok L c w pw = (c1, r) \<Longrightarrow> store_moves c c1"
  by (drule operator_password_frame) (simp add: store_moves_same)

lemma store_moves_factor:
  "register_factor L c w s st header pw = (c1, r) \<Longrightarrow> passkeys c = Inr st \<Longrightarrow> store_moves c c1"
  by (auto simp: register_factor_def intro: store_moves_same store_moves_password store_moves_assertion
      split: split_results)

lemma store_moves_remove_factor:
  "remove_factor L c w s st header cid pw = (c1, r) \<Longrightarrow> passkeys c = Inr st \<Longrightarrow> store_moves c c1"
  by (auto simp: remove_factor_def Let_def
      intro: store_moves_same store_moves_password store_moves_assertion split: split_results)

lemma store_moves_gate: "webauthn_gate L c w s name args header = (c1, r) \<Longrightarrow> store_moves c c1"
  by (auto simp: webauthn_gate_def intro: store_moves_same store_moves_assertion split: split_results)

lemma store_moves_pending [simp]: "store_moves c (c1\<lparr>webauthn_pending := p\<rparr>) = store_moves c c1"
  by (simp add: store_moves_def)

lemma guard_passkeys: "guard c w jar = (c1, r) \<Longrightarrow> passkeys c1 = passkeys c"
  by (simp add: guard_frame)

lemma store_moves_guard: "guard c w jar = (c1, r) \<Longrightarrow> store_moves c1 c2 = store_moves c c2"
  by (simp add: store_moves_def guard_passkeys)

lemma store_moves_guarded: "guard c w jar = (c1, r) \<Longrightarrow> store_moves c c1"
  by (simp add: store_moves_def guard_passkeys)

lemma store_moves_session: "store_moves c (fst (session_handler L c w jar))"
  by (auto simp: session_handler_def Let_def store_moves_def dest!: load_operator_frame touch_cookie_frame
      split: prod.splits)

lemma store_moves_login: "store_moves c (fst (login L c w cr))"
  by (auto simp: login_def store_moves_def dest!: login_local_frame login_oidc_frame split: split_results)

lemma store_moves_logout: "store_moves c (fst (logout c jar))"
  by (auto simp: logout_def Let_def store_moves_def split: option.splits)

lemma store_moves_list: "store_moves c (fst (webauthn_list c w jar))"
  by (auto simp: webauthn_list_def Let_def intro: store_moves_guarded split: split_results)

lemma store_moves_action_start: "store_moves c (fst (webauthn_action_start L c w jar name args))"
  by (auto simp: webauthn_action_start_def Let_def intro: store_moves_guarded split: split_results)

lemma store_moves_command: "store_moves c (fst (command L c w jar name header payload))"
  by (auto simp: command_def Let_def store_moves_guard [symmetric] store_moves_guarded
      intro: store_moves_gate store_moves_same split: split_results)

lemma store_moves_register_start: "store_moves c (fst (webauthn_register_start L c w jar header pw))"
  by (auto simp: webauthn_register_start_def store_moves_guard [symmetric]
      intro: store_moves_factor store_moves_same split: split_results)

lemmas store_moves_handlers = store_moves_session store_moves_login store_moves_logout store_moves_list
  store_moves_action_start store_moves_command store_moves_register_start

text \<open>The two handlers that change which credentials are enrolled, and when they do.\<close>

definition enrols :: "lib \<Rightarrow> ctx \<Rightarrow> event \<Rightarrow> string \<Rightarrow> passkey \<Rightarrow> string \<Rightarrow> bool" where
  "enrols L c e user rec ch \<longleftrightarrow>
     (\<exists>w jar b c1 s cd att q. e = (w, jar, RegisterFinish b) \<and> guard c w jar = (c1, Inr s) \<and> user = info_user s
        \<and> finish_inputs L b = Inr (cd, att, ch)
        \<and> pend c ch = Some q \<and> w_now w < pend_expires q \<and> pend_user q = user \<and> pend_purpose q = Register
        \<and> finish_verified L (webauthn_rp c) w b (cd, att, ch) = Inr rec)"

definition drops :: "lib \<Rightarrow> ctx \<Rightarrow> event \<Rightarrow> string \<Rightarrow> string \<Rightarrow> bool \<Rightarrow> bool" where
  "drops L c e user cid password_ok \<longleftrightarrow>
     (\<exists>w jar header pw c1 s st c2. e = (w, jar, RemovePasskey header cid pw)
        \<and> guard c w jar = (c1, Inr s) \<and> user = info_user s \<and> passkeys c = Inr st
        \<and> remove_factor L c1 w s st header cid pw = (c2, Inr password_ok))"

lemma guard_rp: "guard c w jar = (c1, r) \<Longrightarrow> webauthn_rp c1 = webauthn_rp c"
  by (drule guard_frame) (simp add: settings_def)

lemma guard_pending: "guard c w jar = (c1, r) \<Longrightarrow> webauthn_pending c1 = webauthn_pending c"
  by (simp add: guard_frame)

lemma register_finish_store:
  "store_moves c (fst (webauthn_register_finish L c w jar b)) \<or>
   (\<exists>u rec ch st. enrols L c (w, jar, RegisterFinish b) u rec ch \<and> passkeys c = Inr st
      \<and> passkeys (fst (webauthn_register_finish L c w jar b)) = Inr (fst (pk_add st (w_disk w) u rec)))"
proof (cases "guard c w jar")
  case (Pair c1 g)
  note frame = guard_rp [OF Pair] guard_pending [OF Pair] guard_passkeys [OF Pair] store_moves_guarded [OF Pair]
  show ?thesis
  proof (cases "\<exists>s st inputs p rec. g = Inr s \<and> passkeys c = Inr st \<and> finish_inputs L b = Inr inputs
      \<and> take_challenge (webauthn_pending c) (info_user s) (snd (snd inputs)) (w_now w) = (p, Inr Register)
      \<and> finish_verified L (webauthn_rp c) w b inputs = Inr rec")
    case False
    then have "store_moves c (fst (webauthn_register_finish L c w jar b))"
      using frame by (auto simp: webauthn_register_finish_def Pair split: split_results)
    then show ?thesis ..
  next
    case True
    then obtain s st inputs p rec where r: "g = Inr s" "passkeys c = Inr st" "finish_inputs L b = Inr inputs"
      "take_challenge (webauthn_pending c) (info_user s) (snd (snd inputs)) (w_now w) = (p, Inr Register)"
      "finish_verified L (webauthn_rp c) w b inputs = Inr rec" by blast
    obtain cd att ch where i: "inputs = (cd, att, ch)" by (cases inputs)
    have "passkeys (fst (webauthn_register_finish L c w jar b)) =
        Inr (fst (pk_add st (w_disk w) (info_user s) rec))"
      using r i frame by (auto simp: webauthn_register_finish_def Pair split: sum.splits prod.splits)
    moreover have "enrols L c (w, jar, RegisterFinish b) (info_user s) rec ch"
      using r Pair unfolding enrols_def i by (fastforce simp: take_challenge_Inr)
    ultimately show ?thesis using r(2) by blast
  qed
qed

lemma remove_store:
  "store_moves c (fst (webauthn_remove L c w jar header cid pw)) \<or>
   (\<exists>u st st2 c2 pwok. drops L c (w, jar, RemovePasskey header cid pw) u cid pwok
      \<and> passkeys c = Inr st \<and> store_moves c c2 \<and> passkeys c2 = Inr st2
      \<and> passkeys (fst (webauthn_remove L c w jar header cid pw)) =
          Inr (fst (pk_remove st2 (w_disk w) u cid pwok)))"
proof (cases "guard c w jar")
  case (Pair c1 g)
  note frame = guard_passkeys [OF Pair] store_moves_guarded [OF Pair] store_moves_guard [OF Pair]
  show ?thesis
  proof (cases "\<exists>s st. g = Inr s \<and> passkeys c = Inr st
      \<and> list_ex (\<lambda>k. credential_id k = cid) (pk_for_user st (info_user s))")
    case False
    then have "store_moves c (fst (webauthn_remove L c w jar header cid pw))"
      using frame by (auto simp: webauthn_remove_def Pair split: split_results)
    then show ?thesis ..
  next
    case True
    then obtain s st where r: "g = Inr s" "passkeys c = Inr st" "passkeys c1 = Inr st"
      "list_ex (\<lambda>k. credential_id k = cid) (pk_for_user st (info_user s))" using frame by auto
    obtain c2 f where f: "remove_factor L c1 w s st header cid pw = (c2, f)" by fastforce
    from store_moves_remove_factor [OF f r(3)] frame have m: "store_moves c c2" by simp
    from store_moves_store [OF m r(2)] obtain st2 where st2: "passkeys c2 = Inr st2" ..
    show ?thesis
    proof (cases f)
      case (Inl e)
      then show ?thesis using r Pair f m by (simp add: webauthn_remove_def)
    next
      case (Inr pwok)
      then have "passkeys (fst (webauthn_remove L c w jar header cid pw)) =
          Inr (fst (pk_remove st2 (w_disk w) (info_user s) cid pwok))"
        using r Pair f st2 by (simp add: webauthn_remove_def split: sum.splits prod.splits)
      moreover have "drops L c (w, jar, RemovePasskey header cid pw) (info_user s) cid pwok"
        using r Pair f Inr unfolding drops_def by blast
      ultimately show ?thesis using r(2) m st2 by blast
    qed
  qed
qed

end
