(* ===== verification/ConsoleTraces.thy ===== *)
theory ConsoleTraces
  imports Console
begin

section \<open>What any sequence of requests can do to the console\<close>

text \<open>
  The server of theory \<open>Console\<close> runs on any list of requests. Three tables inside its state are
  instances of the interface \<open>provenance\<close>: sessions, pending challenges and enrolled credentials.
  Every entry of one of them has an origin among the requests so far, and that is what turns the
  checks of the single handlers into statements about everything a client can do.
\<close>

subsection \<open>The invariant\<close>

lemma store_ok_register_finish:
  assumes "store_ok c"
  shows "store_ok (fst (webauthn_register_finish L c w jar b))"
proof -
  have "store_wf (fst (pk_add st (w_disk w) u rec))" if "passkeys c = Inr st" for st u rec
    using assms that by (auto simp: store_ok_def intro: store_wf_add)
  then show ?thesis
    using register_finish_store [of c L w jar b] store_moves_ok [OF _ assms]
    by (fastforce simp: store_ok_def)
qed

lemma store_ok_remove:
  assumes "store_ok c"
  shows "store_ok (fst (webauthn_remove L c w jar header cid pw))"
proof -
  have "store_wf (fst (pk_remove st2 (w_disk w) u cid pwok))"
    if "store_moves c c2" "passkeys c2 = Inr st2" for c2 st2 u pwok
    using store_moves_ok [OF that(1) assms] that(2) by (auto simp: store_ok_def intro: store_wf_remove)
  then show ?thesis
    using remove_store [of c L w jar header cid pw] store_moves_ok [OF _ assms]
    by (fastforce simp: store_ok_def)
qed

lemma serve_store_ok: "store_ok c \<Longrightarrow> store_ok (fst (serve L c e))"
  by (cases "(L, c, e)" rule: serve.cases)
    (simp_all add: answered_def store_ok_register_finish store_ok_remove
      store_moves_ok [OF store_moves_handlers(1)] store_moves_ok [OF store_moves_handlers(2)]
      store_moves_ok [OF store_moves_handlers(3)] store_moves_ok [OF store_moves_handlers(4)]
      store_moves_ok [OF store_moves_handlers(5)] store_moves_ok [OF store_moves_handlers(6)]
      store_moves_ok [OF store_moves_handlers(7)])

lemma touch_cookie_sessions:
  "c_sessions (fst (touch_cookie c w jar)) =
     (case jar of None \<Rightarrow> c_sessions c | Some sid \<Rightarrow> fst (session_touch (c_sessions c) sid (w_now w)))"
  by (auto simp: touch_cookie_def split: option.splits prod.splits)

lemma guarded_sessions: "guarded c w jar c' \<Longrightarrow> c_sessions c' = c_sessions (fst (touch_cookie c w jar))"
  by (simp add: guarded_def)

lemma session_handler_guarded: "guarded c w jar (fst (session_handler L c w jar))"
proof -
  obtain c1 op where o: "load_operator c w = (c1, op)" by fastforce
  obtain c2 i where t: "touch_cookie c1 w jar = (c2, i)" by fastforce
  have "c_sessions (fst (touch_cookie c1 w jar)) = c_sessions (fst (touch_cookie c w jar))"
    using load_operator_frame [OF o] by (simp add: touch_cookie_sessions split: option.splits)
  with o t load_operator_frame [OF o] touch_cookie_frame [OF t] show ?thesis
    by (simp add: session_handler_def Let_def guarded_def)
qed

lemma login_sessions:
  "c_sessions (fst (login L c w cr)) = c_sessions c \<or>
   (\<exists>u r m. c_sessions (fst (login L c w cr)) = fst (session_create (c_sessions c) (w_session_bytes w) u r m (w_now w)))"
  by (auto simp: login_def dest!: login_local_frame login_oidc_frame split: split_results) (metis fst_conv)+

lemma serve_sessions_wf:
  assumes "sessions_wf (c_sessions c)"
  shows "sessions_wf (c_sessions (fst (serve L c e)))"
proof -
  have t: "sessions_wf (c_sessions (fst (touch_cookie c w jar)))" for w jar
    using assms sessions_wf_touch by (auto simp: touch_cookie_sessions split: option.splits)
  have "sessions_wf (c_sessions (fst (logout c jar)))" for jar
    using assms by (auto simp: logout_def Let_def sessions_wf_revoke split: option.splits)
  moreover have "sessions_wf (c_sessions (fst (login L c w cr)))" for w cr
    using login_sessions [of L c w cr] assms sessions_wf_create by metis
  ultimately show ?thesis
    by (cases "(L, c, e)" rule: serve.cases)
      (simp_all add: answered_def t guarded_sessions [OF session_handler_guarded]
        guarded_sessions [OF guarded_list] guarded_sessions [OF guarded_action_start]
        guarded_sessions [OF guarded_register_start] guarded_sessions [OF guarded_register_finish]
        guarded_sessions [OF guarded_remove] guarded_sessions [OF guarded_command])
qed

lemma serve_console_wf: "console_wf c \<Longrightarrow> console_wf (fst (serve L c e))"
  by (simp add: console_wf_def serve_sessions_wf serve_wf_pending serve_store_ok)

lemma serve_settings: "settings (fst (serve L c e)) = settings c"
proof -
  have "settings (fst (login L c w cr)) = settings c" for w cr
    by (auto simp: login_def settings_def dest!: login_local_frame [unfolded settings_def]
        login_oidc_frame [unfolded settings_def] split: split_results)
  moreover have "settings (fst (logout c jar)) = settings c" for jar
    by (auto simp: logout_def settings_def split: option.splits)
  ultimately show ?thesis
    using session_handler_guarded guarded_handlers
    by (cases "(L, c, e)" rule: serve.cases) (auto simp: answered_def guarded_def)
qed

interpretation console: invariant_machine "serve L" console_wf for L
  by unfold_locales (rule serve_console_wf)

interpretation pending_origin: provenance "serve L" console_wf pend "begins L" for L
  by unfold_locales (rule serve_pend, auto simp: console_wf_def)

lemma settings_at: "settings (state_at (serve L) c es n) = settings c"
proof (induction n)
  case (Suc n)
  then show ?case
    by (cases "n < length es") (simp_all add: state_at_Suc serve_settings, simp add: state_at_def)
qed simp

subsection \<open>What reaches the dispatcher\<close>

lemma command_Dispatch:
  assumes "command L c w jar name header payload = (c', Dispatch u sig n a)"
  shows "\<exists>c1 s. guard c w jar = (c1, Inr s) \<and> u = info_user s \<and> n = name
    \<and> a = (case payload of None \<Rightarrow> JObject [] | Some v \<Rightarrow> v) \<and> required_role name \<le> info_role s
    \<and> (if requires_ceremony name then webauthn_gate L c1 w s name a header = (c', Inr sig)
       else sig = None \<and> c' = c1)"
proof -
  obtain c1 g where g: "guard c w jar = (c1, g)" by fastforce
  with assms obtain s where s: "g = Inr s" by (cases g) (auto simp: command_def)
  from assms g s have "required_role name \<le> info_role s"
    by (auto simp: command_def Let_def not_less split: if_splits)
  with assms g s show ?thesis
    by (auto simp: command_def Let_def split: if_splits sum.splits prod.splits)
qed

lemma webauthn_gate_Inr:
  assumes "webauthn_gate L c w s name args header = (c1, Inr sig)"
  shows "\<exists>st. passkeys c = Inr st \<and>
    (\<not> pk_has_any st (info_user s) \<and> \<not> require_passkey c \<and> sig = None \<and> c1 = c
     \<or> (\<exists>h ch rec. header = Some h \<and> confirmed L c w (info_user s) st name args h ch rec
          \<and> sig = Some \<lparr>sig_alg = ''webauthn-es256'', sig_fpr = credential_id rec\<rparr>
          \<and> webauthn_pending c1 = hm_remove ch (webauthn_pending c)))"
  using assms
  by (auto simp: webauthn_gate_def split: split_results) (metis verify_assertion_header_Inr)

lemma confirmed_guard:
  "guard c w jar = (c1, r) \<Longrightarrow> confirmed L c1 w' u st n a h ch rec = confirmed L c w' u st n a h ch rec"
  by (simp add: confirmed_def guard_rp guard_pending)

lemma begins_Action:
  assumes "begins L c e ch q" and "pend_purpose q = Action name ah"
  shows "\<exists>w jar args c1 s. e = (w, jar, ActionStart name args) \<and> ah = args_hash L args
    \<and> guard c w jar = (c1, Inr s) \<and> info_user s = pend_user q \<and> pend_expires q = w_now w + CEREMONY_TTL"
proof -
  obtain w jar req where e: "e = (w, jar, req)" by (cases e)
  with assms show ?thesis by (cases req) (auto simp: begins_def)
qed

text \<open>A command that needs a ceremony, when it was dispatched from a server that requires passkeys.\<close>

lemma ceremony_dispatch:
  assumes "command L c w jar name header payload = (c', Dispatch u sig n a)"
    and "requires_ceremony name" and "require_passkey c"
  shows "\<exists>c1 s st h ch rec. guard c w jar = (c1, Inr s) \<and> info_user s = u \<and> passkeys c = Inr st
    \<and> header = Some h \<and> confirmed L c w u st name a h ch rec
    \<and> sig = Some \<lparr>sig_alg = ''webauthn-es256'', sig_fpr = credential_id rec\<rparr> \<and> pend c' ch = None"
proof -
  from command_Dispatch [OF assms(1)] assms(2) obtain c1 s where
    g: "guard c w jar = (c1, Inr s)" and u: "u = info_user s"
    and gate: "webauthn_gate L c1 w s name a header = (c', Inr sig)" by auto
  from guard_frame [OF g] assms(3) have "require_passkey c1" by (simp add: settings_def)
  with webauthn_gate_Inr [OF gate] obtain st h ch rec where "passkeys c1 = Inr st" "header = Some h"
    "confirmed L c1 w (info_user s) st name a h ch rec"
    "sig = Some \<lparr>sig_alg = ''webauthn-es256'', sig_fpr = credential_id rec\<rparr>"
    "webauthn_pending c' = hm_remove ch (webauthn_pending c1)" by auto
  with g u show ?thesis
    by (auto simp: guard_passkeys [OF g] confirmed_guard [OF g] hm_get_remove)
qed

text \<open>C1. On a console that requires passkeys, a command whose row carries the ceremony reaches the
  dispatcher only with a fresh confirmation. Whatever requests came before: the header carries a
  signature that verifies under a key enrolled for the session's own user; the challenge it answers
  was minted by an earlier \<open>action/start\<close> of the same user for the same command and the same
  argument hash, less than \<open>CEREMONY_TTL\<close> ago; the challenge was pending from then until now, so
  nothing else redeemed it, and it is gone afterwards. The journal signature names that key.\<close>

theorem ceremony_dispatch_confirmed:
  assumes "console_wf c" and "webauthn_pending c = []" and "require_passkey c"
    and "j < length es" and "es ! j = (w, jar, Command name header payload)"
    and "requires_ceremony name"
    and "snd (run (serve L) c es) ! j = Dispatch user sig name' args"
  shows "\<exists>i w0 jar0 args0 c1 s h ch st rec.
      i < j \<and> es ! i = (w0, jar0, ActionStart name args0) \<and> args_hash L args0 = args_hash L args
    \<and> guard (state_at (serve L) c es i) w0 jar0 = (c1, Inr s) \<and> info_user s = user
    \<and> w_now w < w_now w0 + CEREMONY_TTL
    \<and> passkeys (state_at (serve L) c es j) = Inr st
    \<and> header = Some h \<and> confirmed L (state_at (serve L) c es j) w user st name args h ch rec
    \<and> sig = Some \<lparr>sig_alg = ''webauthn-es256'', sig_fpr = credential_id rec\<rparr>
    \<and> (\<forall>k. i < k \<and> k \<le> j \<longrightarrow> pend (state_at (serve L) c es k) ch \<noteq> None)
    \<and> pend (state_at (serve L) c es (Suc j)) ch = None"
proof -
  let ?at = "state_at (serve L) c es"
  obtain c' where "command L (?at j) w jar name header payload = (c', Dispatch user sig name' args)"
    and c': "?at (Suc j) = c'"
    using assms(4,5,7) by (cases "command L (?at j) w jar name header payload") (auto simp: run_nth state_at_Suc)
  moreover have "require_passkey (?at j)" using settings_at [of L c es j] assms(3) by (simp add: settings_def)
  ultimately obtain st h ch rec where d: "passkeys (?at j) = Inr st" "header = Some h"
    "confirmed L (?at j) w user st name args h ch rec"
    "sig = Some \<lparr>sig_alg = ''webauthn-es256'', sig_fpr = credential_id rec\<rparr>" "pend c' ch = None"
    using ceremony_dispatch [OF _ assms(6)] by blast
  then obtain q where q: "pend (?at j) ch = Some q" "w_now w < pend_expires q" "pend_user q = user"
    "pend_purpose q = Action name (args_hash L args)" unfolding confirmed_def by blast
  have "pend c ch = None" using assms(2) by simp
  from pending_origin.entry_origin [OF assms(1) _ q(1) this] assms(4)
  obtain i where i: "i < j" "begins L (?at i) (es ! i) ch q" "\<forall>k. i < k \<and> k \<le> j \<longrightarrow> pend (?at k) ch = Some q"
    by auto
  from begins_Action [OF i(2) q(4)] obtain w0 jar0 args0 c1 s where
    "es ! i = (w0, jar0, ActionStart name args0)" "args_hash L args = args_hash L args0"
    "guard (?at i) w0 jar0 = (c1, Inr s)" "info_user s = user" "pend_expires q = w_now w0 + CEREMONY_TTL"
    using q(3) by blast
  with i d q(2) c' show ?thesis by (intro exI conjI) (assumption | simp)+
qed

text \<open>A concrete server: one signed-in operator with one enrolled key, who starts a ceremony for a
  kill and then sends the kill with the assertion.\<close>

definition demo_lib :: lib where
  "demo_lib = \<lparr>crypto = demo_ext,
     jwt = \<lparr>decode_header = \<lambda>_. None, jwk_find = \<lambda>_ _. None, decoding_key = \<lambda>_. None,
            decode = \<lambda>_ _ _. None, jwks_of_str = \<lambda>_. None, jwks_of_value = \<lambda>_. None,
            json_of_bytes = \<lambda>_. None\<rparr>,
     phc_parses = \<lambda>_. True, argon2_ok = \<lambda>pw phc. pw = phc, header_to_str = Some,
     envelope_of = \<lambda>b. Some (''a'', hex b, hex (encode_auth_data (replicate 32 3) 5 7 []), hex [1])\<rparr>"

definition demo_ctx :: ctx where
  "demo_ctx = \<lparr>c_sessions = \<lparr>sess_inner = [(''sid'', \<lparr>sess_user = ''ada'', sess_role = Admin,
       sess_method = Local, last_seen = 0, created = 0\<rparr>)], idle_timeout = 100, absolute_lifetime = 200\<rparr>,
     sign_in_accounts = new_throttle 10 100 4, sign_in_addresses = new_throttle 30 100 4,
     c_operator = Some \<lparr>op_username = ''ada'', op_phc = ''pw''\<rparr>, c_oidc = None,
     passkeys = Inr [(''ada'', [demo_key])], webauthn_pending = [], webauthn_rp = demo_rp,
     require_passkey = True, secure_cookies = True\<rparr>"

definition demo_outside :: "time \<Rightarrow> outside" where
  "demo_outside t = \<lparr>w_now = t, w_now_after = t, w_session_bytes = [9], w_entropy = Inr [7], w_disk = Inr (),
     w_wall_clock = ''t'', w_operator_file = None, w_jwks_response = Inl Redirected, w_peer = None\<rparr>"

definition demo_session :: session_info where
  "demo_session = \<lparr>info_user = ''ada'', info_role = Admin, info_method = Local\<rparr>"

definition demo_events :: "event list" where
  "demo_events = [(demo_outside 5, Some ''sid'', ActionStart ''money_kill_run'' JNull),
     (demo_outside 6, Some ''sid'', Command ''money_kill_run'' (Some (hex [7])) (Some JNull))]"

definition demo_touched :: "time \<Rightarrow> ctx" where
  "demo_touched t = demo_ctx\<lparr>c_sessions := (c_sessions demo_ctx)
     \<lparr>sess_inner := [(''sid'', \<lparr>sess_user = ''ada'', sess_role = Admin,
       sess_method = Local, last_seen = t, created = 0\<rparr>)]\<rparr>\<rparr>"

definition demo_q :: pending where
  "demo_q = \<lparr>pend_user = ''ada'', pend_purpose = Action ''money_kill_run'' (args_hash demo_lib JNull),
     pend_expires = 5 + CEREMONY_TTL\<rparr>"

lemma demo_sel [simp]:
  "w_now (demo_outside t) = t" "w_entropy (demo_outside t) = Inr [7]" "w_disk (demo_outside t) = Inr ()"
  "crypto demo_lib = demo_ext" "info_user demo_session = ''ada''" "info_role demo_session = Admin"
  by (simp_all add: demo_outside_def demo_lib_def demo_session_def)

lemma demo_guard:
  "guard demo_ctx (demo_outside 5) (Some ''sid'') = (demo_touched 5, Inr demo_session)"
  "guard ((demo_touched 5)\<lparr>webauthn_pending := p\<rparr>) (demo_outside 6) (Some ''sid'') =
     ((demo_touched 6)\<lparr>webauthn_pending := p\<rparr>, Inr demo_session)"
  by (simp_all add: guard_def touch_cookie_def session_touch_def demo_ctx_def demo_touched_def
      demo_outside_def hm_get_def hm_insert_def info_of_def demo_session_def)

lemma demo_kill: "requires_ceremony ''money_kill_run''" "ceremonial ''money_kill_run''"
  by code_simp+

lemma demo_passkeys [simp]: "passkeys (demo_touched t) = Inr [(''ada'', [demo_key])]"
  "webauthn_pending (demo_touched t) = []" "webauthn_rp (demo_touched t) = demo_rp"
  by (simp_all add: demo_touched_def demo_ctx_def)

lemma demo_key_id: "credential_id demo_key = ''a''"
  by (simp add: demo_key_def)

lemma demo_start:
  "webauthn_action_start demo_lib demo_ctx (demo_outside 5) (Some ''sid'') ''money_kill_run'' JNull =
     ((demo_touched 5)\<lparr>webauthn_pending := [(hex [7], demo_q)]\<rparr>,
      snd (webauthn_action_start demo_lib demo_ctx (demo_outside 5) (Some ''sid'') ''money_kill_run'' JNull))"
proof -
  have "mint demo_ext [] (Inr [7]) ''ada'' (Action ''money_kill_run'' (args_hash demo_lib JNull)) 5 =
      ([(hex [7], demo_q)], Inr (hex [7]))"
    by (simp add: mint_def Let_def hm_retain_def hm_insert_def demo_q_def) (simp add: demo_ext_def)
  then show ?thesis
    by (simp add: webauthn_action_start_def demo_guard demo_kill pk_for_user_def hm_get_def Let_def)
qed

lemma demo_header:
  "\<exists>c1. verify_assertion_header demo_lib ((demo_touched 6)\<lparr>webauthn_pending := [(hex [7], demo_q)]\<rparr>)
     (demo_outside 6) demo_session [(''ada'', [demo_key])] ''money_kill_run'' JNull (hex [7]) = (c1, Inr demo_key)"
proof -
  have "decode_envelope demo_lib (hex [7]) =
      Some (''a'', hex [7], hex (encode_auth_data (replicate 32 3) 5 7 []), hex [1])"
    by (simp add: decode_envelope_def demo_lib_def demo_ext_def)
  moreover have "challenge_of demo_lib [7] = Some (hex [7])"
    by (simp add: challenge_of_def demo_lib_def demo_ext_def)
  moreover have "b64url_decode demo_ext = hex_to_bytes"
    by (simp add: demo_ext_def)
  moreover have "take_challenge [(hex [7], demo_q)] ''ada'' (hex [7]) 6 =
      ([], Inr (Action ''money_kill_run'' (args_hash demo_lib JNull)))"
    by (simp add: take_challenge_def hm_get_def hm_remove_def demo_q_def CEREMONY_TTL_def)
  ultimately show ?thesis
    using demo_assertion [of "[7]"]
    by (simp add: verify_assertion_header_def pk_for_user_def hm_get_def demo_key_id)
qed

lemma demo_run:
  "snd (run (serve demo_lib) demo_ctx demo_events) ! 1 =
     Dispatch ''ada'' (Some \<lparr>sig_alg = ''webauthn-es256'', sig_fpr = ''a''\<rparr>) ''money_kill_run'' JNull"
proof -
  have "\<exists>c1. webauthn_gate demo_lib ((demo_touched 6)\<lparr>webauthn_pending := [(hex [7], demo_q)]\<rparr>)
      (demo_outside 6) demo_session ''money_kill_run'' JNull (Some (hex [7])) =
      (c1, Inr (Some \<lparr>sig_alg = ''webauthn-es256'', sig_fpr = ''a''\<rparr>))"
    using demo_header by (auto simp: webauthn_gate_def pk_has_any_def pk_for_user_def hm_get_def demo_key_id)
  moreover have "\<not> Admin < required_role ''money_kill_run''"
    by (cases "required_role ''money_kill_run''") (auto simp: role_order)
  ultimately have "snd (command demo_lib ((demo_touched 5)\<lparr>webauthn_pending := [(hex [7], demo_q)]\<rparr>)
      (demo_outside 6) (Some ''sid'') ''money_kill_run'' (Some (hex [7])) (Some JNull)) =
      Dispatch ''ada'' (Some \<lparr>sig_alg = ''webauthn-es256'', sig_fpr = ''a''\<rparr>) ''money_kill_run'' JNull"
    by (auto simp: command_def demo_guard demo_kill Let_def)
  moreover have "fst (webauthn_action_start demo_lib demo_ctx (demo_outside 5) (Some ''sid'') ''money_kill_run'' JNull)
      = (demo_touched 5)\<lparr>webauthn_pending := [(hex [7], demo_q)]\<rparr>"
    using demo_start by (metis fst_conv)
  ultimately show ?thesis
    by (simp add: demo_events_def answered_def case_prod_unfold)
qed

theorem ceremony_dispatch_confirmed_witness:
  "\<exists>i w0 jar0 args0. i < 1 \<and> demo_events ! i = (w0, jar0, ActionStart ''money_kill_run'' args0)
     \<and> args_hash demo_lib args0 = args_hash demo_lib JNull"
proof -
  have wf: "console_wf demo_ctx"
    by (simp add: console_wf_def demo_ctx_def sessions_wf_def hm_wf_def store_ok_def store_wf_def
        pk_for_user_def hm_get_def)
  have e: "demo_events ! 1 = (demo_outside 6, Some ''sid'', Command ''money_kill_run'' (Some (hex [7])) (Some JNull))"
    by (simp add: demo_events_def)
  have d: "webauthn_pending demo_ctx = []" "require_passkey demo_ctx" "1 < length demo_events"
    by (simp_all add: demo_ctx_def demo_events_def)
  from ceremony_dispatch_confirmed [OF wf d e demo_kill(1) demo_run] show ?thesis by blast
qed

subsection \<open>Where sessions come from\<close>

definition proves_identity ::
  "lib \<Rightarrow> ctx \<Rightarrow> outside \<Rightarrow> credentials \<Rightarrow> string \<Rightarrow> role \<Rightarrow> auth_method \<Rightarrow> bool" where
  "proves_identity L c w cr u r m \<longleftrightarrow>
     (case m of
        Local \<Rightarrow> r = Admin
          \<and> (\<exists>op c1. load_operator c w = (c1, Some op) \<and> u = op_username op
              \<and> unwrap_or_default (cr_username cr) = u
              \<and> phc_parses L (op_phc op) \<and> argon2_ok L (unwrap_or_default (cr_password cr)) (op_phc op)
              \<and> held_wait c1 (login_key ''user'' u)
                  (login_key ''addr'' (case w_peer w of None \<Rightarrow> ''unknown'' | Some ip \<Rightarrow> ip)) (w_now w) = None)
      | Oidc \<Rightarrow>
          (\<exists>cfg token v. cr_id_token cr = Some token \<and> c_oidc c = Some cfg
              \<and> snd (oidc_verify (jwt L) cfg token (w_now w) (w_now_after w) (w_jwks_response w)) = Some v
              \<and> u = v_username v \<and> r = v_role v))"

definition signs_in :: "lib \<Rightarrow> ctx \<Rightarrow> event \<Rightarrow> string \<Rightarrow> string \<times> role \<times> auth_method \<times> time \<Rightarrow> bool" where
  "signs_in L c e sid v \<longleftrightarrow>
     (\<exists>w jar cr u r m. e = (w, jar, Login cr) \<and> sid = hex (w_session_bytes w) \<and> v = (u, r, m, w_now w)
        \<and> proves_identity L c w cr u r m)"

definition sess_row :: "ctx \<Rightarrow> string \<Rightarrow> (string \<times> role \<times> auth_method \<times> time) option" where
  "sess_row c sid = map_option (\<lambda>s. (sess_user s, sess_role s, sess_method s, created s))
     (hm_get (sess_inner (c_sessions c)) sid)"

lemma login_local_Inr:
  "login_local L c w cr = (c1, Inr (u, r, m)) \<Longrightarrow>
   proves_identity L c w cr u r m"
  by (auto simp: login_local_def proves_identity_def verify_operator_def Let_def split: split_results)

lemma login_oidc_Inr:
  "login_oidc L c w token = (c1, Inr (u, r, m)) \<Longrightarrow> cr_id_token cr = Some token \<Longrightarrow>
   proves_identity L c w cr u r m"
  by (auto simp: login_oidc_def proves_identity_def split: split_results)

lemma filter_opt_Some: "filter_opt P x = Some a \<longleftrightarrow> x = Some a \<and> P a"
  by (auto simp: filter_opt_def split: option.splits)

lemma login_creates:
  "c_sessions (fst (login L c w cr)) = c_sessions c \<or>
   (\<exists>u r m. proves_identity L c w cr u r m \<and>
     c_sessions (fst (login L c w cr)) = fst (session_create (c_sessions c) (w_session_bytes w) u r m (w_now w)))"
proof -
  obtain c1 x where x: "(case filter_opt (\<lambda>t. trim t \<noteq> []) (cr_id_token cr) of
      Some token \<Rightarrow> login_oidc L c w token | None \<Rightarrow> login_local L c w cr) = (c1, x)" by fastforce
  have same: "c_sessions c1 = c_sessions c"
    using x by (auto dest!: login_local_frame login_oidc_frame split: option.splits)
  show ?thesis
  proof (cases x)
    case (Inl r)
    with x same show ?thesis by (simp add: login_def)
  next
    case (Inr who)
    obtain u r m where who: "who = (u, r, m)" by (cases who)
    have "proves_identity L c w cr u r m"
      using x Inr who by (auto simp: filter_opt_Some dest: login_local_Inr login_oidc_Inr split: option.splits)
    moreover have "c_sessions (fst (login L c w cr)) =
        fst (session_create (c_sessions c) (w_session_bytes w) u r m (w_now w))"
      using x Inr who same by (simp add: login_def split: prod.splits)
    ultimately show ?thesis by blast
  qed
qed

lemma sess_row_create:
  assumes "sessions_wf ss" and "hm_get (sess_inner (fst (session_create ss bs u r m t))) sid = Some s"
  shows "hm_get (sess_inner ss) sid = Some s
    \<or> sid = hex bs \<and> s = \<lparr>sess_user = u, sess_role = r, sess_method = m, last_seen = t, created = t\<rparr>"
  using assms by (auto simp: session_create_def Let_def hm_get_insert hm_get_retain sessions_wf_def
      split: if_splits option.splits)

lemma sess_row_touch:
  "hm_get (sess_inner (fst (session_touch ss sid0 t))) sid = Some s \<Longrightarrow>
   \<exists>s0. hm_get (sess_inner ss) sid = Some s0 \<and> sess_user s0 = sess_user s \<and> sess_role s0 = sess_role s
     \<and> sess_method s0 = sess_method s \<and> created s0 = created s"
  by (auto simp: session_touch_def hm_get_insert hm_get_remove split: option.splits if_splits)

lemma sess_row_guarded:
  assumes "guarded c w jar c'" and "sess_row c' sid = Some v"
  shows "sess_row c sid = Some v"
  using assms(2) unfolding sess_row_def guarded_sessions [OF assms(1)] touch_cookie_sessions
  by (cases jar) (auto dest!: sess_row_touch)

lemma sess_row_origin:
  assumes "console_wf c" and "sess_row (fst (serve L c e)) sid = Some v"
  shows "sess_row c sid = Some v \<or> signs_in L c e sid v"
proof -
  have wf: "sessions_wf (c_sessions c)" using assms(1) by (simp add: console_wf_def)
  have li: "sess_row c sid = Some v \<or> signs_in L c (w, jar, Login cr) sid v"
    if "sess_row (fst (login L c w cr)) sid = Some v" for w jar cr
    using login_creates [of L c w cr]
  proof (elim disjE exE conjE)
    assume "c_sessions (fst (login L c w cr)) = c_sessions c"
    with that show ?thesis by (simp add: sess_row_def)
  next
    fix u r m
    assume id: "proves_identity L c w cr u r m" and s: "c_sessions (fst (login L c w cr)) =
      fst (session_create (c_sessions c) (w_session_bytes w) u r m (w_now w))"
    from that obtain x where "hm_get (sess_inner (c_sessions (fst (login L c w cr)))) sid = Some x"
      "v = (sess_user x, sess_role x, sess_method x, created x)" by (auto simp: sess_row_def)
    with sess_row_create [OF wf, of "w_session_bytes w" u r m "w_now w" sid x] id s show ?thesis
      by (auto simp: sess_row_def signs_in_def)
  qed
  have lo: "sess_row c sid = Some v" if "sess_row (fst (logout c jar)) sid = Some v" for jar
    using that by (auto simp: logout_def Let_def sess_row_def session_revoke_def hm_get_remove
        split: option.splits if_splits)
  show ?thesis
    using assms(2)
    by (cases "(L, c, e)" rule: serve.cases)
      (auto simp: answered_def dest: li lo sess_row_guarded [OF session_handler_guarded]
        sess_row_guarded [OF guarded_list] sess_row_guarded [OF guarded_action_start]
        sess_row_guarded [OF guarded_register_start] sess_row_guarded [OF guarded_register_finish]
        sess_row_guarded [OF guarded_remove] sess_row_guarded [OF guarded_command])
qed

interpretation session_origin: provenance "serve L" console_wf sess_row "signs_in L" for L
  by unfold_locales (rule sess_row_origin)

lemma limits_step:
  "idle_timeout (c_sessions (fst (serve L c e))) = idle_timeout (c_sessions c)
   \<and> absolute_lifetime (c_sessions (fst (serve L c e))) = absolute_lifetime (c_sessions c)"
proof -
  have t: "idle_timeout (c_sessions (fst (touch_cookie c w jar))) = idle_timeout (c_sessions c)
     \<and> absolute_lifetime (c_sessions (fst (touch_cookie c w jar))) = absolute_lifetime (c_sessions c)" for w jar
    by (simp add: touch_cookie_sessions split: option.splits)
  have g: "idle_timeout (c_sessions c') = idle_timeout (c_sessions c)
     \<and> absolute_lifetime (c_sessions c') = absolute_lifetime (c_sessions c)" if "guarded c w jar c'" for w jar c'
    using t [of w jar] guarded_sessions [OF that] by simp
  have li: "idle_timeout (c_sessions (fst (login L c w cr))) = idle_timeout (c_sessions c)
     \<and> absolute_lifetime (c_sessions (fst (login L c w cr))) = absolute_lifetime (c_sessions c)" for w cr
    using login_creates [of L c w cr] by auto
  have lo: "idle_timeout (c_sessions (fst (logout c jar))) = idle_timeout (c_sessions c)
     \<and> absolute_lifetime (c_sessions (fst (logout c jar))) = absolute_lifetime (c_sessions c)" for jar
    by (simp add: logout_def Let_def split: option.splits)
  show ?thesis
    by (cases "(L, c, e)" rule: serve.cases)
      (simp_all add: answered_def li lo g [OF session_handler_guarded] g [OF guarded_list]
        g [OF guarded_action_start] g [OF guarded_register_start] g [OF guarded_register_finish]
        g [OF guarded_remove] g [OF guarded_command])
qed

lemma limits_at:
  "idle_timeout (c_sessions (state_at (serve L) c es n)) = idle_timeout (c_sessions c)
   \<and> absolute_lifetime (c_sessions (state_at (serve L) c es n)) = absolute_lifetime (c_sessions c)"
proof (induction n)
  case (Suc n)
  then show ?case
    by (cases "n < length es") (simp_all add: state_at_Suc limits_step, simp add: state_at_def)
qed simp

lemma guard_row:
  assumes "guard c w jar = (c1, Inr s)"
  shows "\<exists>sid m t. jar = Some sid \<and> sess_row c sid = Some (info_user s, info_role s, info_method s, t)
    \<and> w_now w - t < absolute_lifetime (c_sessions c)"
  using assms by (auto simp: guard_Inr session_touch_def sess_row_def info_of_def split: option.splits if_splits)

lemma logout_drops: "sess_row (fst (logout c (Some sid))) sid = None"
  by (simp add: logout_def sess_row_def session_revoke_def hm_get_remove)

text \<open>C2. Nothing is dispatched without a sign-in behind it. Whatever requests came before, the actor
  of a dispatched command is the user of an earlier sign-in that was answered with this very cookie
  and that proved the identity (the operator's password past both throttles, or an accepted
  organization token); the role of that sign-in reaches the command's required role; the sign-in is
  younger than the absolute lifetime; and nobody signed out with this cookie in between.\<close>

theorem dispatch_needs_signin:
  assumes "console_wf c" and "sess_inner (c_sessions c) = []"
    and "j < length es" and "es ! j = (w, jar, Command name header payload)"
    and "snd (run (serve L) c es) ! j = Dispatch user sig name' args"
  shows "\<exists>i w0 jar0 cr r m sid.
      i < j \<and> es ! i = (w0, jar0, Login cr) \<and> jar = Some sid \<and> sid = hex (w_session_bytes w0)
    \<and> proves_identity L (state_at (serve L) c es i) w0 cr user r m
    \<and> required_role name' \<le> r
    \<and> w_now w - w_now w0 < absolute_lifetime (c_sessions c)
    \<and> (\<forall>k w1. i < k \<and> k < j \<longrightarrow> es ! k \<noteq> (w1, Some sid, Logout))"
proof -
  let ?at = "state_at (serve L) c es"
  obtain c' where "command L (?at j) w jar name header payload = (c', Dispatch user sig name' args)"
    using assms(3,4,5) by (cases "command L (?at j) w jar name header payload") (auto simp: run_nth)
  from command_Dispatch [OF this] obtain c1 s where
    s: "guard (?at j) w jar = (c1, Inr s)" "user = info_user s" "name' = name" "required_role name \<le> info_role s"
    by blast
  from guard_row [OF s(1)] limits_at [of L c es j] obtain sid t where
    row: "jar = Some sid" "sess_row (?at j) sid = Some (user, info_role s, info_method s, t)"
      "w_now w - t < absolute_lifetime (c_sessions c)" using s(2) by auto
  have "sess_row c sid = None" using assms(2) by (simp add: sess_row_def)
  from session_origin.entry_origin [OF assms(1) _ row(2) this] assms(3)
  obtain i where i: "i < j" "signs_in L (?at i) (es ! i) sid (user, info_role s, info_method s, t)"
    "\<forall>k. i < k \<and> k \<le> j \<longrightarrow> sess_row (?at k) sid = Some (user, info_role s, info_method s, t)" by auto
  have "es ! k \<noteq> (w1, Some sid, Logout)" if k: "i < k" "k < j" for k w1
  proof
    assume "es ! k = (w1, Some sid, Logout)"
    then have "sess_row (?at (Suc k)) sid = None"
      using k assms(3) by (simp add: state_at_Suc answered_def logout_drops)
    moreover have "sess_row (?at (Suc k)) sid = Some (user, info_role s, info_method s, t)"
      using i(3) k by (metis Suc_leI less_SucI)
    ultimately show False by simp
  qed
  with i(1,2) row(1,3) s(3,4) show ?thesis unfolding signs_in_def by blast
qed

definition demo_empty :: ctx where
  "demo_empty = demo_ctx\<lparr>c_sessions := with_limits 100 200\<rparr>"

definition demo_credentials :: credentials where
  "demo_credentials = \<lparr>cr_username = Some ''ada'', cr_password = Some ''pw'', cr_id_token = None\<rparr>"

definition demo_signed_in :: ctx where
  "demo_signed_in = demo_ctx\<lparr>c_sessions := (with_limits 100 200)
     \<lparr>sess_inner := [(hex [9], \<lparr>sess_user = ''ada'', sess_role = Admin,
       sess_method = Local, last_seen = 3, created = 3\<rparr>)]\<rparr>\<rparr>"

lemma demo_login: "fst (login demo_lib demo_empty (demo_outside 3) demo_credentials) = demo_signed_in"
proof -
  have w: "w_peer (demo_outside 3) = None" "w_session_bytes (demo_outside 3) = [9]" by (simp_all add: demo_outside_def)
  have c: "check (new_throttle n 100 4) k t = Inr ()" for n k t
    by (simp add: check_def new_throttle_def)
  have s: "record_success (new_throttle n 100 4) k = new_throttle n 100 4" for n k
    by (simp add: record_success_def new_throttle_def hm_remove_def)
  have v: "verify_operator demo_lib \<lparr>op_username = ''ada'', op_phc = ''pw''\<rparr> ''ada'' ''pw''"
    by (simp add: verify_operator_def demo_lib_def)
  have "login_local demo_lib demo_empty (demo_outside 3) demo_credentials = (demo_empty, Inr (''ada'', Admin, Local))"
    by (simp add: login_local_def load_operator_def demo_empty_def demo_ctx_def demo_credentials_def
        held_wait_def c s v w Let_def unwrap_or_default_def List.map_filter_simps)
  then show ?thesis
    by (simp add: login_def demo_credentials_def filter_opt_def session_create_def Let_def w)
      (simp add: demo_empty_def demo_signed_in_def with_limits_def hm_retain_def hm_insert_def demo_ctx_def)
qed

theorem dispatch_needs_signin_witness:
  "let es = [(demo_outside 3, None, Login demo_credentials),
             (demo_outside 4, Some (hex [9]), Command ''agent_events'' None None)]
   in snd (run (serve demo_lib) demo_empty es) ! 1 = Dispatch ''ada'' None ''agent_events'' (JObject [])
    \<and> (\<exists>i w0 jar0 cr r m. i < 1 \<and> es ! i = (w0, jar0, Login cr)
         \<and> proves_identity demo_lib (state_at (serve demo_lib) demo_empty es i) w0 cr ''ada'' r m)"
proof -
  define es where "es = [(demo_outside 3, None, Login demo_credentials),
             (demo_outside 4, Some (hex [9]), Command ''agent_events'' None None)]"
  have r: "\<not> requires_ceremony ''agent_events''" by code_simp
  have a: "\<not> Admin < required_role ''agent_events''"
    by (cases "required_role ''agent_events''") (auto simp: role_order)
  have g: "\<exists>c1. guard demo_signed_in (demo_outside 4) (Some (hex [9])) = (c1, Inr demo_session)"
    by (simp add: guard_def touch_cookie_def session_touch_def demo_signed_in_def with_limits_def
        hm_get_def info_of_def demo_session_def)
  then have "snd (command demo_lib demo_signed_in (demo_outside 4) (Some (hex [9])) ''agent_events'' None None) =
      Dispatch ''ada'' None ''agent_events'' (JObject [])"
    using r a by (auto simp: command_def Let_def)
  then have d: "snd (run (serve demo_lib) demo_empty es) ! 1 = Dispatch ''ada'' None ''agent_events'' (JObject [])"
    by (simp add: es_def answered_def case_prod_unfold demo_login)
  have wf: "console_wf demo_empty"
    by (simp add: console_wf_def demo_empty_def demo_ctx_def sessions_wf_def with_limits_def hm_wf_def
        store_ok_def store_wf_def pk_for_user_def hm_get_def)
  have i: "sess_inner (c_sessions demo_empty) = []" "1 < length es"
    "es ! 1 = (demo_outside 4, Some (hex [9]), Command ''agent_events'' None None)"
    by (simp_all add: demo_empty_def with_limits_def es_def)
  from dispatch_needs_signin [OF wf i d] obtain n w0 jar0 cr r m where
    "n < 1" "es ! n = (w0, jar0, Login cr)"
    "proves_identity demo_lib (state_at (serve demo_lib) demo_empty es n) w0 cr ''ada'' r m" by metis
  then have "\<exists>i w0 jar0 cr r m. i < 1 \<and> es ! i = (w0, jar0, Login cr)
      \<and> proves_identity demo_lib (state_at (serve demo_lib) demo_empty es i) w0 cr ''ada'' r m"
    by (intro exI conjI)
  with d show ?thesis
    unfolding es_def [symmetric] Let_def by (rule conjI)
qed

end
