(* ===== verification/ConsolePasskeys.thy ===== *)
theory ConsolePasskeys
  imports ConsoleTraces
begin

section \<open>Who can change the enrolled passkeys\<close>

text \<open>
  Enrolled credentials are the third table with an origin. A credential enters a user's set only at
  the end of a registration that the same user began with a factor the session does not carry, and
  leaves it only through a removal that proved such a factor.
\<close>

lemma enrolled_moves: "store_moves c c1 \<Longrightarrow> enrolled c1 u = enrolled c u"
  unfolding store_moves_def
  by (elim disjE exE conjE) (simp add: enrolled_def, rule enrolled_update_sign_count)

lemma enrolled_grows:
  assumes "cid \<in> enrolled (fst (serve L c e)) u" and "cid \<notin> enrolled c u"
  shows "\<exists>rec ch. enrols L c e u rec ch \<and> credential_id rec = cid"
proof -
  have moved: "\<not> store_moves c (fst (serve L c e))" using assms enrolled_moves by blast
  then consider w jar b where "e = (w, jar, RegisterFinish b)"
    | w jar header cid' pw where "e = (w, jar, RemovePasskey header cid' pw)"
    using store_moves_handlers by (cases "(L, c, e)" rule: serve.cases) (auto simp: answered_def)
  then show ?thesis
  proof cases
    case 1
    with moved register_finish_store [of c L w jar b] obtain u' rec ch st where
      r: "enrols L c e u' rec ch" "passkeys c = Inr st"
        "passkeys (fst (serve L c e)) = Inr (fst (pk_add st (w_disk w) u' rec))"
      by (auto simp: answered_def)
    with assms have "u' = u \<and> credential_id rec = cid"
      by (auto simp: enrolled_def pk_add_user split: if_splits)
    with r(1) show ?thesis by blast
  next
    case 2
    with moved remove_store [of c L w jar header cid' pw] obtain u' st st2 c2 pwok where
      r: "passkeys c = Inr st" "store_moves c c2" "passkeys c2 = Inr st2"
        "passkeys (fst (serve L c e)) = Inr (fst (pk_remove st2 (w_disk w) u' cid' pwok))"
      by (auto simp: answered_def)
    have sub: "set (remove_first P l) \<subseteq> set l" for P and l :: "passkey list" by (induction l) auto
    from r(4) have "enrolled (fst (serve L c e)) u \<subseteq> enrolled c2 u"
      using sub by (auto simp: enrolled_def r(3) pk_remove_user split: if_splits)
    with assms enrolled_moves [OF r(2)] show ?thesis by blast
  qed
qed

lemma enrolled_shrinks:
  assumes "cid \<in> enrolled c u" and "cid \<notin> enrolled (fst (serve L c e)) u" and "console_wf c"
  shows "\<exists>pwok. drops L c e u cid pwok \<and> enrolled (fst (serve L c e)) u = enrolled c u - {cid}
    \<and> (enrolled c u = {cid} \<longrightarrow> pwok)"
proof -
  have moved: "\<not> store_moves c (fst (serve L c e))" using assms enrolled_moves by blast
  then consider w jar b where "e = (w, jar, RegisterFinish b)"
    | w jar header cid' pw where "e = (w, jar, RemovePasskey header cid' pw)"
    using store_moves_handlers by (cases "(L, c, e)" rule: serve.cases) (auto simp: answered_def)
  then show ?thesis
  proof cases
    case 1
    with moved register_finish_store [of c L w jar b] obtain u' rec st where
      r: "passkeys c = Inr st" "passkeys (fst (serve L c e)) = Inr (fst (pk_add st (w_disk w) u' rec))"
      by (auto simp: answered_def)
    with assms(1,2) have False by (auto simp: enrolled_def pk_add_user split: if_splits)
    then show ?thesis ..
  next
    case 2
    with moved remove_store [of c L w jar header cid' pw] obtain u' st st2 c2 pwok where
      r: "drops L c e u' cid' pwok" "store_moves c c2" "passkeys c2 = Inr st2"
        "passkeys (fst (serve L c e)) = Inr (fst (pk_remove st2 (w_disk w) u' cid' pwok))"
      by (auto simp: answered_def)
    have same: "enrolled c u = credential_id ` set (pk_for_user st2 u)"
      using enrolled_moves [OF r(2)] by (simp add: enrolled_def r(3))
    have "store_ok c2" using store_moves_ok [OF r(2)] assms(3) by (simp add: console_wf_def)
    then have d: "distinct (map credential_id (pk_for_user st2 u))"
      using r(3) by (simp add: store_ok_def store_wf_def)
    have gone: "enrolled (fst (serve L c e)) u =
        credential_id ` set (pk_for_user (fst (pk_remove st2 (w_disk w) u' cid' pwok)) u)"
      by (simp add: enrolled_def r(4))
    with assms(1,2) same have u: "u = u'" and one: "length (pk_for_user st2 u) = 1 \<longrightarrow> pwok"
      and "cid' \<in> credential_id ` set (pk_for_user st2 u)"
      by (auto simp: pk_remove_user split: if_splits)
    with gone remove_first_credential [OF d, of cid']
    have e: "enrolled (fst (serve L c e)) u = enrolled c u - {cid'}"
      unfolding same by (auto simp: pk_remove_user u)
    with assms(1,2) have cid: "cid' = cid" by blast
    have "pwok" if "enrolled c u = {cid}"
    proof -
      have "length (pk_for_user st2 u) = card (credential_id ` set (pk_for_user st2 u))"
        using d by (metis distinct_card length_map list.set_map)
      with that same one show ?thesis by simp
    qed
    with r(1) u e cid show ?thesis by blast
  qed
qed

lemma enrols_register_purpose:
  "enrols L c e u rec ch \<Longrightarrow> \<exists>q w jar b. e = (w, jar, RegisterFinish b) \<and> pend c ch = Some q
     \<and> w_now w < pend_expires q \<and> pend_user q = u \<and> pend_purpose q = Register"
  unfolding enrols_def by blast

lemma begins_Register:
  assumes "begins L c e ch q" and "pend_purpose q = Register"
  shows "\<exists>w jar header pw c1 s st. e = (w, jar, RegisterStart header pw)
    \<and> guard c w jar = (c1, Inr s) \<and> passkeys c = Inr st \<and> info_user s = pend_user q
    \<and> pend_expires q = w_now w + CEREMONY_TTL
    \<and> snd (register_factor L c1 w s st header pw) = Inr ()"
proof -
  obtain w jar req where e: "e = (w, jar, req)" by (cases e)
  with assms show ?thesis by (cases req) (auto simp: begins_def guard_passkeys)
qed

text \<open>What the factor of a registration proves.\<close>

definition operator_proven :: "lib \<Rightarrow> ctx \<Rightarrow> outside \<Rightarrow> string \<Rightarrow> bool" where
  "operator_proven L c w pw \<longleftrightarrow>
     (\<exists>op c1. load_operator c w = (c1, Some op) \<and> phc_parses L (op_phc op) \<and> argon2_ok L pw (op_phc op))"

lemma operator_password_proven:
  assumes "operator_password_ok L c1 w pw = (c2, Inr ())" and "guard c w jar = (c1, r)"
  shows "operator_proven L c w pw"
proof -
  from assms(1) obtain op where "load_operator c1 w = (c2, Some op)" "phc_parses L (op_phc op)"
    "argon2_ok L pw (op_phc op)" unfolding operator_password_Inr by blast
  moreover from this(1) guard_frame [OF assms(2)] have "\<exists>c3. load_operator c w = (c3, Some op)"
    by (auto simp: load_operator_def split: option.splits)
  ultimately show ?thesis unfolding operator_proven_def by blast
qed

lemma register_factor_proven:
  assumes "snd (register_factor L c1 w s st header pw) = Inr ()" and "guard c w jar = (c1, r)"
  shows "if pk_has_any st (info_user s)
    then \<exists>h ch rec. header = Some h
           \<and> confirmed L c w (info_user s) st ENROLL_PASSKEY_CEREMONY (JObject []) h ch rec
    else \<exists>p. pw = Some p \<and> operator_proven L c w p"
proof (cases "pk_has_any st (info_user s)")
  case True
  with assms(1) obtain h c2 rec where "header = Some h"
    "verify_assertion_header L c1 w s st ENROLL_PASSKEY_CEREMONY (JObject []) h = (c2, Inr rec)"
    by (auto simp: register_factor_def split: split_results)
  with verify_assertion_header_Inr [OF this(2)] True show ?thesis
    by (auto simp: confirmed_guard [OF assms(2)])
next
  case False
  with assms(1) obtain p where "pw = Some p" "snd (operator_password_ok L c1 w p) = Inr ()"
    by (auto simp: register_factor_def split: option.splits)
  with False operator_password_proven [OF _ assms(2)] show ?thesis by (metis prod.collapse)
qed

text \<open>C3. A session alone cannot enrol a passkey. Whenever a request adds a credential to a user's
  set, it is a \<open>register/finish\<close> of that user, it redeems a challenge that an earlier
  \<open>register/start\<close> of the same user minted less than \<open>CEREMONY_TTL\<close> ago, and that start proved a
  factor the session does not carry: with a key enrolled already, a signature of such a key bound to
  enrolling; with none, the operator's password.\<close>

theorem enrollment_needs_factor:
  assumes "console_wf c" and "webauthn_pending c = []" and "j < length es"
    and "cid \<in> enrolled (state_at (serve L) c es (Suc j)) u"
    and "cid \<notin> enrolled (state_at (serve L) c es j) u"
  shows "\<exists>i w jar b w0 jar0 header pw c1 s st.
      es ! j = (w, jar, RegisterFinish b)
    \<and> i < j \<and> es ! i = (w0, jar0, RegisterStart header pw)
    \<and> guard (state_at (serve L) c es i) w0 jar0 = (c1, Inr s) \<and> info_user s = u
    \<and> w_now w < w_now w0 + CEREMONY_TTL
    \<and> passkeys (state_at (serve L) c es i) = Inr st
    \<and> (if pk_has_any st u
       then \<exists>h ch rec. header = Some h
              \<and> confirmed L (state_at (serve L) c es i) w0 u st ENROLL_PASSKEY_CEREMONY (JObject []) h ch rec
       else \<exists>p. pw = Some p \<and> operator_proven L (state_at (serve L) c es i) w0 p)"
proof -
  let ?at = "state_at (serve L) c es"
  from assms(3-5) obtain rec ch where "enrols L (?at j) (es ! j) u rec ch"
    using enrolled_grows by (metis state_at_Suc)
  from enrols_register_purpose [OF this] obtain q w jar b where
    e: "es ! j = (w, jar, RegisterFinish b)" and q: "pend (?at j) ch = Some q" "w_now w < pend_expires q"
      "pend_user q = u" "pend_purpose q = Register" by blast
  have "pend c ch = None" using assms(2) by simp
  from pending_origin.entry_origin [OF assms(1) _ q(1) this] assms(3)
  obtain i where i: "i < j" "begins L (?at i) (es ! i) ch q" by auto
  from begins_Register [OF i(2) q(4)] obtain w0 jar0 header pw c1 s st where
    b: "es ! i = (w0, jar0, RegisterStart header pw)" "guard (?at i) w0 jar0 = (c1, Inr s)"
      "passkeys (?at i) = Inr st" "info_user s = u" "pend_expires q = w_now w0 + CEREMONY_TTL"
      "snd (register_factor L c1 w0 s st header pw) = Inr ()" using q(3) by blast
  note f = register_factor_proven [OF b(6) b(2), unfolded b(4)]
  have "w_now w < w_now w0 + CEREMONY_TTL" using q(2) b(5) by simp
  with e i(1) b f show ?thesis by (intro exI conjI)
qed

subsection \<open>Removals\<close>

lemma remove_factor_proven:
  assumes "remove_factor L c1 w s st header cid pw = (c2, Inr ok)" and "guard c w jar = (c1, r)"
  shows "(ok \<and> (\<exists>p. pw = Some p \<and> operator_proven L c w p)) \<or>
    (\<not> ok \<and> (\<exists>h ch rec. header = Some h \<and> confirmed L c w (info_user s) st REMOVE_PASSKEY_CEREMONY
        (JObject [(''credential_id'', JString cid)]) h ch rec))"
proof (cases pw)
  case (Some p)
  with assms(1) have "operator_password_ok L c1 w p = (c2, Inr ())" "ok"
    by (auto simp: remove_factor_def split: split_results)
  with Some operator_password_proven [OF this(1) assms(2)] show ?thesis by blast
next
  case None
  with assms(1) obtain h rec where "header = Some h" "\<not> ok"
    "verify_assertion_header L c1 w s st REMOVE_PASSKEY_CEREMONY
       (JObject [(''credential_id'', JString cid)]) h = (c2, Inr rec)"
    by (auto simp: remove_factor_def Let_def split: split_results)
  with verify_assertion_header_Inr [OF this(3)] show ?thesis
    by (auto simp: confirmed_guard [OF assms(2)])
qed

text \<open>A session alone cannot take a passkey away. Whenever a request removes a credential from a
  user's set, it is a removal by that user of exactly that credential, no other one leaves with it,
  and either the operator's password was proven, or another key remains and a key of the user
  signed a challenge bound to removing this very credential.\<close>

theorem removal_needs_factor:
  assumes "console_wf c" and "cid \<in> enrolled c u" and "cid \<notin> enrolled (fst (serve L c e)) u"
  shows "\<exists>w jar header pw c1 s st.
      e = (w, jar, RemovePasskey header cid pw) \<and> guard c w jar = (c1, Inr s) \<and> info_user s = u
    \<and> passkeys c = Inr st
    \<and> enrolled (fst (serve L c e)) u = enrolled c u - {cid}
    \<and> ((\<exists>p. pw = Some p \<and> operator_proven L c w p)
       \<or> enrolled c u \<noteq> {cid} \<and>
         (\<exists>h ch rec. header = Some h \<and> confirmed L c w u st REMOVE_PASSKEY_CEREMONY
            (JObject [(''credential_id'', JString cid)]) h ch rec))"
proof -
  from enrolled_shrinks [OF assms(2,3,1)] obtain ok where d: "drops L c e u cid ok"
    and r: "enrolled (fst (serve L c e)) u = enrolled c u - {cid}" "enrolled c u = {cid} \<longrightarrow> ok" by blast
  from d obtain w jar header pw c1 s st c2 where x: "e = (w, jar, RemovePasskey header cid pw)"
    "guard c w jar = (c1, Inr s)" "u = info_user s" "passkeys c = Inr st"
    "remove_factor L c1 w s st header cid pw = (c2, Inr ok)" unfolding drops_def by blast
  from remove_factor_proven [OF x(5) x(2)] r(2) x(3) have
    "(\<exists>p. pw = Some p \<and> operator_proven L c w p)
       \<or> enrolled c u \<noteq> {cid} \<and>
         (\<exists>h ch rec. header = Some h \<and> confirmed L c w u st REMOVE_PASSKEY_CEREMONY
            (JObject [(''credential_id'', JString cid)]) h ch rec)" by auto
  with x r(1) show ?thesis by metis
qed

theorem removal_needs_factor_witness:
  "\<exists>w jar header pw. (demo_outside 5, Some ''sid'', RemovePasskey None ''a'' (Some ''pw'')) =
       (w, jar, RemovePasskey header ''a'' pw)
    \<and> (\<exists>p. pw = Some p \<and> operator_proven demo_lib demo_ctx w p)"
proof -
  have wf: "console_wf demo_ctx"
    by (simp add: console_wf_def demo_ctx_def sessions_wf_def hm_wf_def store_ok_def store_wf_def
        pk_for_user_def hm_get_def)
  have e: "enrolled demo_ctx ''ada'' = {''a''}"
    by (simp add: enrolled_def demo_ctx_def pk_for_user_def hm_get_def demo_key_id)
  have "operator_password_ok demo_lib (demo_touched 5) (demo_outside 5) ''pw'' = (demo_touched 5, Inr ())"
    by (simp add: operator_password_ok_def load_operator_def demo_touched_def demo_ctx_def
        verify_operator_def demo_lib_def)
  then have "passkeys (fst (serve demo_lib demo_ctx
      (demo_outside 5, Some ''sid'', RemovePasskey None ''a'' (Some ''pw'')))) = Inr [(''ada'', [])]"
    by (simp add: answered_def webauthn_remove_def demo_guard pk_for_user_def hm_get_def demo_key_id
        remove_factor_def pk_remove_def hm_insert_def)
  then have "''a'' \<notin> enrolled (fst (serve demo_lib demo_ctx
      (demo_outside 5, Some ''sid'', RemovePasskey None ''a'' (Some ''pw'')))) ''ada''"
    by (simp add: enrolled_def pk_for_user_def hm_get_def)
  from removal_needs_factor [OF wf _ this] e show ?thesis by auto
qed

subsection \<open>A concrete enrolment\<close>

definition enrol_lib :: lib where
  "enrol_lib = demo_lib\<lparr>crypto := demo_ext
     \<lparr>client_data_of := \<lambda>b. Some \<lparr>cd_kind = ''webauthn.create'', cd_challenge = hex b, cd_origin = ''https://box''\<rparr>,
      cbor_of := \<lambda>b. if b = [0xA5] then Some (cose_es256 (replicate 32 1) (replicate 32 2))
        else Some (CMap [(CText ''fmt'', CText ''none''), (CText ''authData'', CBytes
          (encode_auth_data (replicate 32 3) 0x45 1 (encode_credential (replicate 16 0) [12] [0xA5])))])\<rparr>\<rparr>"

definition enrol_ctx :: ctx where
  "enrol_ctx = demo_ctx\<lparr>passkeys := Inr []\<rparr>"

definition enrol_body :: register_finish_body where
  "enrol_body = \<lparr>rf_label = ''desk'', rf_credential_id = hex [12], rf_client_data_json = hex [7],
     rf_attestation_object = hex [0]\<rparr>"

definition enrol_events :: "event list" where
  "enrol_events = [(demo_outside 5, Some ''sid'', RegisterStart None (Some ''pw'')),
     (demo_outside 6, Some ''sid'', RegisterFinish enrol_body)]"

definition enrol_q :: pending where
  "enrol_q = \<lparr>pend_user = ''ada'', pend_purpose = Register, pend_expires = 5 + CEREMONY_TTL\<rparr>"

lemma enrol_lib_sel [simp]:
  "b64url_decode (crypto enrol_lib) = hex_to_bytes" "b64url_encode (crypto enrol_lib) = hex"
  "b64_encode (crypto enrol_lib) = hex"
  "sha256 (crypto enrol_lib) = (\<lambda>b. replicate 32 (of_nat (length b)))"
  "client_data_of (crypto enrol_lib) b =
     Some \<lparr>cd_kind = ''webauthn.create'', cd_challenge = hex b, cd_origin = ''https://box''\<rparr>"
  "challenge_of enrol_lib b = Some (hex b)"
  "cbor_of (crypto enrol_lib) [0xA5] = Some (cose_es256 (replicate 32 1) (replicate 32 2))"
  by (simp_all add: enrol_lib_def demo_lib_def demo_ext_def challenge_of_def)

lemma enrol_guard:
  "guard enrol_ctx (demo_outside 5) (Some ''sid'') = ((demo_touched 5)\<lparr>passkeys := Inr []\<rparr>, Inr demo_session)"
  "guard ((demo_touched 5)\<lparr>passkeys := Inr [], webauthn_pending := p\<rparr>) (demo_outside 6) (Some ''sid'') =
     ((demo_touched 6)\<lparr>passkeys := Inr [], webauthn_pending := p\<rparr>, Inr demo_session)"
  by (simp_all add: guard_def touch_cookie_def session_touch_def enrol_ctx_def demo_ctx_def demo_touched_def
      demo_outside_def hm_get_def hm_insert_def info_of_def demo_session_def)

lemma enrol_start:
  "fst (webauthn_register_start enrol_lib enrol_ctx (demo_outside 5) (Some ''sid'') None (Some ''pw'')) =
     (demo_touched 5)\<lparr>passkeys := Inr [], webauthn_pending := [(hex [7], enrol_q)]\<rparr>"
proof -
  have "operator_password_ok enrol_lib ((demo_touched 5)\<lparr>passkeys := Inr []\<rparr>) (demo_outside 5) ''pw'' =
      ((demo_touched 5)\<lparr>passkeys := Inr []\<rparr>, Inr ())"
    by (simp add: operator_password_ok_def load_operator_def demo_touched_def demo_ctx_def
        verify_operator_def enrol_lib_def demo_lib_def)
  moreover have "mint (crypto enrol_lib) [] (Inr [7]) ''ada'' Register 5 = ([(hex [7], enrol_q)], Inr (hex [7]))"
    by (simp add: mint_def Let_def hm_retain_def hm_insert_def enrol_q_def)
  ultimately show ?thesis
    by (simp add: webauthn_register_start_def enrol_guard register_factor_def pk_has_any_def pk_for_user_def)
qed

lemma enrol_verified:
  "\<exists>rec. finish_verified enrol_lib demo_rp w enrol_body ([7], [0], hex [7]) = Inr rec \<and> credential_id rec = hex [12]"
proof -
  have "parse_attestation_object (crypto enrol_lib) [0] = Inr (encode_auth_data (replicate 32 3) 0x45 1
      (encode_credential (replicate 16 0) [12] [0xA5]))"
    by (simp add: parse_attestation_object_def enrol_lib_def as_map_def map_get_def as_text_def as_bytes_def)
  moreover have "parse_authenticator_data (crypto enrol_lib) (encode_auth_data (replicate 32 3) 0x45 1
      (encode_credential (replicate 16 0) [12] [0xA5])) =
      Inr \<lparr>ad_rp_id_hash = replicate 32 3, ad_flags = 0x45, ad_sign_count = 1,
           ad_credential = Some \<lparr>ac_credential_id = [12], ac_public_key = 0x04 # replicate 32 1 @ replicate 32 2\<rparr>\<rparr>"
    by (simp add: parse_auth_data_layout parse_attested_layout cose_es256_x963 FLAG_AT_def)
  ultimately show ?thesis
    by (simp add: finish_verified_def verify_registration_def parse_client_data_def rp_id_hash_def demo_rp_def
        utf8_def FLAG_UP_def enrol_body_def)
qed

theorem enrollment_needs_factor_witness:
  "\<exists>i w0 jar0 header pw. i < 1 \<and> enrol_events ! i = (w0, jar0, RegisterStart header pw)
    \<and> (\<exists>p. pw = Some p \<and> operator_proven enrol_lib (state_at (serve enrol_lib) enrol_ctx enrol_events i) w0 p)"
proof -
  let ?at = "state_at (serve enrol_lib) enrol_ctx enrol_events"
  have wf: "console_wf enrol_ctx" "webauthn_pending enrol_ctx = []"
    by (simp_all add: console_wf_def enrol_ctx_def demo_ctx_def sessions_wf_def hm_wf_def store_ok_def
        store_wf_def pk_for_user_def)
  have len: "1 < length enrol_events" by (simp add: enrol_events_def)
  have at: "?at (Suc n) = fst (serve enrol_lib (?at n) (enrol_events ! n))" if "n < 2" for n
    using that by (simp add: state_at_Suc enrol_events_def)
  have at1: "?at 1 = (demo_touched 5)\<lparr>passkeys := Inr [], webauthn_pending := [(hex [7], enrol_q)]\<rparr>"
    using at [of 0] enrol_start by (simp add: enrol_events_def answered_def)
  obtain rec where rec: "finish_verified enrol_lib demo_rp (demo_outside 6) enrol_body ([7], [0], hex [7]) = Inr rec"
    "credential_id rec = hex [12]" using enrol_verified by blast
  have "take_challenge [(hex [7], enrol_q)] ''ada'' (hex [7]) 6 = ([], Inr Register)"
    by (simp add: take_challenge_def hm_get_def hm_remove_def enrol_q_def CEREMONY_TTL_def)
  moreover have "finish_inputs enrol_lib enrol_body = Inr ([7], [0], hex [7])"
    by (simp add: finish_inputs_def enrol_body_def)
  ultimately have "passkeys (fst (webauthn_register_finish enrol_lib
      ((demo_touched 5)\<lparr>passkeys := Inr [], webauthn_pending := [(hex [7], enrol_q)]\<rparr>)
      (demo_outside 6) (Some ''sid'') enrol_body)) = Inr [(''ada'', [rec])]"
    using rec by (simp add: webauthn_register_finish_def enrol_guard pk_add_def hm_insert_def
        pk_for_user_def hm_get_def)
  moreover have "enrol_events ! 1 = (demo_outside 6, Some ''sid'', RegisterFinish enrol_body)"
    by (simp add: enrol_events_def)
  ultimately have "passkeys (?at (Suc 1)) = Inr [(''ada'', [rec])]"
    unfolding at [of 1, simplified, folded One_nat_def] at1 by (simp add: answered_def)
  then have new: "hex [12] \<in> enrolled (?at (Suc 1)) ''ada''"
    by (simp add: enrolled_def pk_for_user_def hm_get_def rec(2))
  have old: "hex [12] \<notin> enrolled (?at 1) ''ada''"
    unfolding at1 by (simp add: enrolled_def pk_for_user_def)
  from enrollment_needs_factor [OF wf len new old] obtain i w0 jar0 header pw st where
    i: "i < 1" "enrol_events ! i = (w0, jar0, RegisterStart header pw)" "passkeys (?at i) = Inr st"
      "if pk_has_any st ''ada'' then \<exists>h ch rec. header = Some h
         \<and> confirmed enrol_lib (?at i) w0 ''ada'' st ENROLL_PASSKEY_CEREMONY (JObject []) h ch rec
       else \<exists>p. pw = Some p \<and> operator_proven enrol_lib (?at i) w0 p" by metis
  then have "\<not> pk_has_any st ''ada''" by (simp add: enrol_ctx_def pk_has_any_def pk_for_user_def)
  with i(4) obtain p where "pw = Some p" "operator_proven enrol_lib (?at i) w0 p" by auto
  with i(1,2) show ?thesis by (intro exI conjI)
qed

end
