(* ===== verification/ConsoleLogin.thy ===== *)
theory ConsoleLogin
  imports ConsoleTraces
begin

section \<open>How often a password can be tried\<close>

text \<open>
  The sign-in throttle at the level of requests: how many wrong passwords for one account the server
  evaluates within a window, whatever else is requested in between; and the one place where the
  operator's password is evaluated outside the throttle.
\<close>

definition account_key :: "credentials \<Rightarrow> string" where
  "account_key cr = login_key ''user'' (unwrap_or_default (cr_username cr))"

text \<open>A sign-in that was answered with the refusal of its password, and one that succeeded.\<close>

definition guess :: "string \<Rightarrow> event \<times> answer \<Rightarrow> bool" where
  "guess k ea \<longleftrightarrow> (\<exists>w jar cr. fst ea = (w, jar, Login cr) \<and> account_key cr = k
     \<and> snd ea = Answer (json_response 401 (error_json ''wrong username or password'')))"

definition success :: "string \<Rightarrow> event \<times> answer \<Rightarrow> bool" where
  "success k ea \<longleftrightarrow> (\<exists>w jar cr r. fst ea = (w, jar, Login cr) \<and> account_key cr = k
     \<and> snd ea = Answer r \<and> status r = 200)"

lemma held_wait_None:
  "held_wait c a b t = None \<Longrightarrow> check (sign_in_accounts c) a t = Inr () \<and> check (sign_in_addresses c) b t = Inr ()"
  by (auto simp: held_wait_def Let_def List.map_filter_simps split: sum.splits if_splits)

lemma login_accounts_step:
  fixes L c w cr
  defines "r \<equiv> login L c w cr" and "k \<equiv> account_key cr"
  shows "sign_in_accounts (fst r) = sign_in_accounts c
           \<and> snd r \<noteq> json_response 401 (error_json ''wrong username or password'')
    \<or> sign_in_accounts (fst r) = record_failure (sign_in_accounts c) k (w_now w)
           \<and> check (sign_in_accounts c) k (w_now w) = Inr ()
    \<or> sign_in_accounts (fst r) = record_success (sign_in_accounts c) k \<and> status (snd r) = 200"
proof -
  obtain c1 x where x: "(case filter_opt (\<lambda>t. trim t \<noteq> []) (cr_id_token cr) of
      Some token \<Rightarrow> login_oidc L c w token | None \<Rightarrow> login_local L c w cr) = (c1, x)" by fastforce
  show ?thesis
  proof (cases "filter_opt (\<lambda>t. trim t \<noteq> []) (cr_id_token cr)")
    case (Some token)
    with x have o: "login_oidc L c w token = (c1, x)" by simp
    have "x \<noteq> Inl (json_response 401 (error_json ''wrong username or password''))"
      using o by (auto simp: login_oidc_def json_response_def error_json_def split: split_results)
    with Some x login_oidc_frame [OF o] show ?thesis
      by (auto simp: r_def login_def json_response_def split: sum.splits prod.splits)
  next
    case None
    with x have l: "login_local L c w cr = (c1, x)" by simp
    obtain c0 op where op: "load_operator c w = (c0, op)" by fastforce
    from load_operator_frame [OF op] have same: "sign_in_accounts c0 = sign_in_accounts c" by simp
    consider (out) e where "x = Inl e" "sign_in_accounts c1 = sign_in_accounts c"
        "e \<noteq> json_response 401 (error_json ''wrong username or password'')"
      | (wrong) e where "x = Inl e" "sign_in_accounts c1 = record_failure (sign_in_accounts c) k (w_now w)"
        "check (sign_in_accounts c) k (w_now w) = Inr ()"
      | (ok) who where "x = Inr who" "sign_in_accounts c1 = record_success (sign_in_accounts c) k"
      using l op same unfolding login_local_def
      by (auto simp: Let_def json_response_def error_json_def too_many_sign_ins_def k_def account_key_def
          split: split_results dest: held_wait_None)
    then show ?thesis
    proof cases
      case out
      then show ?thesis using None x by (simp add: r_def login_def)
    next
      case wrong
      then show ?thesis using None x by (simp add: r_def login_def)
    next
      case ok
      then show ?thesis using None x
        by (cases who) (simp add: r_def login_def session_create_def Let_def)
    qed
  qed
qed

lemma serve_accounts_step:
  "sign_in_accounts (fst (serve L c e)) = sign_in_accounts c \<and> (\<forall>k. \<not> guess k (e, snd (serve L c e)))
   \<or> (\<exists>w jar cr. e = (w, jar, Login cr)
       \<and> sign_in_accounts (fst (serve L c e)) = record_failure (sign_in_accounts c) (account_key cr) (w_now w)
       \<and> check (sign_in_accounts c) (account_key cr) (w_now w) = Inr ())
   \<or> (\<exists>w jar cr. e = (w, jar, Login cr)
       \<and> sign_in_accounts (fst (serve L c e)) = record_success (sign_in_accounts c) (account_key cr)
       \<and> success (account_key cr) (e, snd (serve L c e)))"
proof (cases "\<exists>w jar cr. e = (w, jar, Login cr)")
  case True
  then obtain w jar cr where e: "e = (w, jar, Login cr)" by blast
  with login_accounts_step [of L c w cr] show ?thesis
    by (auto simp: answered_def guess_def success_def)
next
  case False
  have logout: "sign_in_accounts (fst (logout c jar)) = sign_in_accounts c" for jar
    by (simp add: logout_def Let_def split: option.splits)
  have "sign_in_accounts (fst (serve L c e)) = sign_in_accounts c"
    using False guarded_handlers session_handler_guarded
    by (cases "(L, c, e)" rule: serve.cases) (auto simp: answered_def logout guarded_def)
  with False show ?thesis by (auto simp: guess_def)
qed

lemma record_failure_get_room:
  assumes "length (windows t) < max_keys t"
  shows "hm_get (windows (record_failure t k now)) k' =
     (if k' = k then
        (case hm_get (windows t) k of
           Some w \<Rightarrow> Some (if window_live t w now then w\<lparr>failures := sat_add32 (failures w) 1\<rparr>
                           else \<lparr>started = now, failures = 1\<rparr>)
         | None \<Rightarrow> Some \<lparr>started = now, failures = 1\<rparr>)
      else hm_get (windows t) k')"
  using assms by (auto simp: record_failure_def Let_def hm_get_insert split: option.splits)

text \<open>The account's window after \<open>m\<close> guesses, all of them inside the window that the first one opened.\<close>

definition counted :: "login_throttle \<Rightarrow> string \<Rightarrow> time \<Rightarrow> nat \<Rightarrow> bool" where
  "counted t k t0 m \<longleftrightarrow> m \<le> unat (limit t) \<and>
     (case hm_get (windows t) k of
        None \<Rightarrow> m = 0
      | Some w \<Rightarrow> t0 \<le> started w \<and> m \<le> unat (failures w))"

lemma counted_failure:
  assumes "counted t k t0 m" and "length (windows t) < max_keys t" and "0 < unat (limit t)"
    and "check t k' now = Inr ()" and "t0 \<le> now" and "now < t0 + window_len t"
  shows "counted (record_failure t k' now) k t0 (if k' = k then Suc m else m)"
proof (cases "k' = k")
  case False
  then show ?thesis using assms(1)
    by (simp add: counted_def record_failure_get_room [OF assms(2)])
next
  case True
  note get = record_failure_get_room [OF assms(2), of k now k]
  show ?thesis
  proof (cases "hm_get (windows t) k")
    case None
    then show ?thesis using assms True by (simp add: counted_def get)
  next
    case (Some w)
    with assms(1) have w: "t0 \<le> started w" "m \<le> unat (failures w)" by (simp_all add: counted_def)
    then have live: "window_live t w now" using assms(5,6) by (simp add: window_live_def)
    with assms(4) Some True have lim: "unat (failures w) < unat (limit t)"
      by (auto simp: check_def word_less_nat_alt not_le split: if_splits)
    have "unat (limit t) < 2 ^ 32" by (rule order.strict_trans2 [OF unsigned_less]) simp
    with lim have "unat (failures w) + 1 < 2 ^ 32" by linarith
    then show ?thesis using Some True w live lim
      by (simp add: counted_def get unat_sat_add32)
  qed
qed

lemma counted_success:
  "counted t k t0 m \<Longrightarrow> k' \<noteq> k \<Longrightarrow> counted (record_success t k') k t0 m"
  by (simp add: counted_def record_success_def hm_get_remove)

lemma zip_run_snoc:
  "zip (es @ [e]) (snd (run step s (es @ [e]))) =
   zip es (snd (run step s es)) @ [(e, snd (step (fst (run step s es)) e))]"
  by (simp add: run_snoc)

lemma serve_accounts_config:
  "limit (sign_in_accounts (fst (serve L c e))) = limit (sign_in_accounts c)
   \<and> window_len (sign_in_accounts (fst (serve L c e))) = window_len (sign_in_accounts c)
   \<and> max_keys (sign_in_accounts (fst (serve L c e))) = max_keys (sign_in_accounts c)"
  using serve_accounts_step [of L c e] by auto

lemma counted_serve:
  assumes "counted (sign_in_accounts c) k t0 m"
    and "length (windows (sign_in_accounts c)) < max_keys (sign_in_accounts c)"
    and "0 < unat (limit (sign_in_accounts c))"
    and "t0 \<le> w_now (fst e)" and "w_now (fst e) < t0 + window_len (sign_in_accounts c)"
    and "\<not> success k (e, snd (serve L c e))"
  shows "counted (sign_in_accounts (fst (serve L c e))) k t0
    (if guess k (e, snd (serve L c e)) then Suc m else m)"
  using serve_accounts_step [of L c e]
proof (elim disjE exE conjE)
  assume "sign_in_accounts (fst (serve L c e)) = sign_in_accounts c" "\<forall>k. \<not> guess k (e, snd (serve L c e))"
  with assms(1) show ?thesis by simp
next
  fix w jar cr
  assume e: "e = (w, jar, Login cr)"
    and f: "sign_in_accounts (fst (serve L c e)) = record_failure (sign_in_accounts c) (account_key cr) (w_now w)"
    and "check (sign_in_accounts c) (account_key cr) (w_now w) = Inr ()"
  from counted_failure [OF assms(1-3) this(3)] assms(4,5) e
  have "counted (record_failure (sign_in_accounts c) (account_key cr) (w_now w)) k t0
      (if account_key cr = k then Suc m else m)" by simp
  moreover have "guess k (e, snd (serve L c e)) \<Longrightarrow> account_key cr = k" using e by (auto simp: guess_def)
  ultimately show ?thesis unfolding f by (auto simp: counted_def split: option.splits if_splits)
next
  fix w jar cr
  assume e: "e = (w, jar, Login cr)"
    and f: "sign_in_accounts (fst (serve L c e)) = record_success (sign_in_accounts c) (account_key cr)"
    and s: "success (account_key cr) (e, snd (serve L c e))"
  with assms(6) have ne: "account_key cr \<noteq> k" by auto
  moreover have "\<not> guess k (e, snd (serve L c e))" using s ne e by (auto simp: guess_def)
  ultimately show ?thesis unfolding f using counted_success [OF assms(1)] by simp
qed


definition wrong_credentials :: credentials where
  "wrong_credentials = \<lparr>cr_username = Some ''ada'', cr_password = Some ''x'', cr_id_token = None\<rparr>"

text \<open>Two wrong passwords against a limit of one: the second is not evaluated.\<close>

definition strict_ctx :: ctx where
  "strict_ctx = demo_ctx\<lparr>sign_in_accounts := new_throttle 1 100 4\<rparr>"

lemma strict_logins:
  fixes es
  defines "es \<equiv> [(demo_outside 5, None, Login wrong_credentials), (demo_outside 6, None, Login wrong_credentials)]"
  shows "fst (run (serve demo_lib) strict_ctx es) = fst (serve demo_lib strict_ctx (demo_outside 5, None, Login wrong_credentials))"
    and "windows (sign_in_accounts (fst (serve demo_lib strict_ctx (demo_outside 5, None, Login wrong_credentials))))
      = [(account_key wrong_credentials, \<lparr>started = 5, failures = 1\<rparr>)]"
    and "map (\<lambda>a. case a of Answer r \<Rightarrow> status r | _ \<Rightarrow> 0) (snd (run (serve demo_lib) strict_ctx es)) = [401, 429]"
proof -
  let ?c1 = "strict_ctx\<lparr>
    sign_in_accounts := record_failure (new_throttle 1 100 4) (account_key wrong_credentials) 5,
    sign_in_addresses := record_failure (new_throttle 30 100 4) (login_key ''addr'' ''unknown'') 5\<rparr>"
  have w: "w_peer (demo_outside t) = None" for t by (simp add: demo_outside_def)
  have fresh: "check (new_throttle n 100 4) k t = Inr ()" for n k t
    by (simp add: check_def new_throttle_def)
  have op: "load_operator c w = (c, Some \<lparr>op_username = ''ada'', op_phc = ''pw''\<rparr>)"
    if "c_operator c = c_operator strict_ctx" for c w
    using that by (simp add: load_operator_def strict_ctx_def demo_ctx_def)
  have v: "\<not> verify_operator demo_lib \<lparr>op_username = ''ada'', op_phc = ''pw''\<rparr> ''ada'' ''x''"
    by (simp add: verify_operator_def demo_lib_def)
  have cr: "cr_id_token wrong_credentials = None" "unwrap_or_default (cr_username wrong_credentials) = ''ada''"
    "unwrap_or_default (cr_password wrong_credentials) = ''x''"
    by (simp_all add: wrong_credentials_def unwrap_or_default_def)
  have k: "login_key ''user'' ''ada'' = account_key wrong_credentials" by (simp add: account_key_def cr)
  have th: "sign_in_accounts strict_ctx = new_throttle 1 100 4" "sign_in_addresses strict_ctx = new_throttle 30 100 4"
    by (simp_all add: strict_ctx_def demo_ctx_def)
  have first: "login demo_lib strict_ctx (demo_outside 5) wrong_credentials =
      (?c1, json_response 401 (error_json ''wrong username or password''))"
    by (simp add: login_def login_local_def filter_opt_def cr op held_wait_def th fresh w v k Let_def
        List.map_filter_simps)
  have win: "windows (record_failure (new_throttle n 100 4) key 5) = [(key, \<lparr>started = 5, failures = 1\<rparr>)]"
    for n key by (simp add: record_failure_def new_throttle_def hm_insert_def)
  have held: "check (record_failure (new_throttle 1 100 4) key 5) key 6 = Inl 99" for key
    by (simp add: check_def win window_live_def record_failure_def new_throttle_def hm_get_def hm_insert_def)
  have free: "check (record_failure (new_throttle 30 100 4) key 5) key 6 = Inr ()" for key
    by (simp add: check_def win window_live_def record_failure_def new_throttle_def hm_get_def hm_insert_def
        word_le_nat_alt)
  have second: "login demo_lib ?c1 (demo_outside 6) wrong_credentials = (?c1, too_many_sign_ins 99)"
    by (simp add: login_def login_local_def filter_opt_def cr op [of ?c1] held_wait_def w k Let_def
        List.map_filter_simps held free)
  show "windows (sign_in_accounts (fst (serve demo_lib strict_ctx (demo_outside 5, None, Login wrong_credentials))))
      = [(account_key wrong_credentials, \<lparr>started = 5, failures = 1\<rparr>)]"
    by (simp add: answered_def first win)
  show "fst (run (serve demo_lib) strict_ctx es) =
      fst (serve demo_lib strict_ctx (demo_outside 5, None, Login wrong_credentials))"
    by (simp add: es_def answered_def first second case_prod_unfold)
  show "map (\<lambda>a. case a of Answer r \<Rightarrow> status r | _ \<Rightarrow> 0) (snd (run (serve demo_lib) strict_ctx es)) = [401, 429]"
    by (simp add: es_def answered_def first second case_prod_unfold too_many_sign_ins_def json_response_def Let_def)
qed


subsection \<open>Where the password is tried without the throttle\<close>

lemma guard_again:
  assumes "guard c w jar = (c1, Inr s)"
  shows "guard c1 w jar = (c1, Inr s)"
proof -
  from assms obtain sid ss where g: "jar = Some sid" "session_touch (c_sessions c) sid (w_now w) = (ss, Some s)"
    "c1 = c\<lparr>c_sessions := ss\<rparr>" by (auto simp: guard_Inr)
  have idem: "hm_insert sid x (hm_insert sid x m) = hm_insert sid x m" for x and m :: "(string, session) hmap"
    by (induction m) (auto simp: hm_insert_def)
  have "session_touch ss sid (w_now w) = (ss, Some s)"
    using g(2) idem by (auto simp: session_touch_def hm_get_insert info_of_def split: option.splits if_splits)
  with g show ?thesis by (auto simp: guard_Inr)
qed

definition try_enrol :: "outside \<Rightarrow> string option \<Rightarrow> string \<Rightarrow> event" where
  "try_enrol w jar pw = (w, jar, RegisterStart None (Some pw))"

text \<open>Enrolling the first passkey evaluates the operator's password outside the sign-in throttle:
  with a live session and nothing enrolled, any number of wrong passwords is answered 403 one by
  one, never 429, neither throttle records any of them, and the right password is still accepted
  after all of them.\<close>

theorem enrolment_password_unthrottled:
  assumes "guard c w jar = (c1, Inr s)" and "passkeys c = Inr st" and "\<not> pk_has_any st (info_user s)"
    and "c_operator c = Some op" and "phc_parses L (op_phc op)" and "w_entropy w = Inr bytes"
    and "\<forall>p\<in>set wrong. \<not> argon2_ok L p (op_phc op)" and "argon2_ok L right (op_phc op)"
  shows "let (c2, answers) = run (serve L) c (map (try_enrol w jar) (wrong @ [right])) in
      map (\<lambda>a. case a of Answer r \<Rightarrow> status r | _ \<Rightarrow> 0) answers = replicate (length wrong) 403 @ [200]
    \<and> sign_in_accounts c2 = sign_in_accounts c \<and> sign_in_addresses c2 = sign_in_addresses c"
proof -
  note fr = guard_frame [OF assms(1)]
  have pk: "passkeys c1 = Inr st" and op: "c_operator c1 = Some op" using fr assms(2,4) by simp_all
  have load: "load_operator c1 w = (c1, Some op)" using op by (simp add: load_operator_def)
  have step: "serve L c' (try_enrol w jar p) = (c1, Answer (json_response 403
      (error_json ''the operator password was not accepted'')))"
    if "guard c' w jar = (c1, Inr s)" "\<not> argon2_ok L p (op_phc op)" for c' p
    using that assms(3) pk load
    by (simp add: try_enrol_def answered_def webauthn_register_start_def register_factor_def
        operator_password_ok_def verify_operator_def)
  have last: "\<exists>p r. serve L c' (try_enrol w jar right) = (c1\<lparr>webauthn_pending := p\<rparr>, Answer r) \<and> status r = 200"
    if "guard c' w jar = (c1, Inr s)" for c'
    using that assms(3,5,6,8) pk load
    by (auto simp: try_enrol_def answered_def webauthn_register_start_def register_factor_def
        operator_password_ok_def verify_operator_def mint_def Let_def json_response_def)
  have "\<exists>p as. run (serve L) c' (map (try_enrol w jar) (wrong @ [right])) = (c1\<lparr>webauthn_pending := p\<rparr>, as)
      \<and> map (\<lambda>a. case a of Answer r \<Rightarrow> status r | _ \<Rightarrow> 0) as = replicate (length wrong) 403 @ [200]"
    if "guard c' w jar = (c1, Inr s)" for c'
    using that assms(7)
  proof (induction wrong arbitrary: c')
    case Nil
    then show ?case using last [of c'] by auto
  next
    case (Cons p ps)
    from Cons.IH [OF guard_again [OF assms(1)]] Cons.prems(2) step [OF Cons.prems(1), of p]
    show ?case by (auto simp: json_response_def)
  qed
  from this [OF assms(1)] fr show ?thesis by auto
qed

theorem enrolment_password_unthrottled_witness:
  "let (c2, answers) = run (serve demo_lib) (demo_ctx\<lparr>passkeys := Inr []\<rparr>)
         (map (try_enrol (demo_outside 5) (Some ''sid'')) [''a'', ''b'', ''c'', ''pw''])
   in map (\<lambda>a. case a of Answer r \<Rightarrow> status r | _ \<Rightarrow> 0) answers = [403, 403, 403, 200]"
proof -
  let ?c = "demo_ctx\<lparr>passkeys := Inr []\<rparr>"
  have g: "guard ?c (demo_outside 5) (Some ''sid'') = ((demo_touched 5)\<lparr>passkeys := Inr []\<rparr>, Inr demo_session)"
    by (simp add: guard_def touch_cookie_def session_touch_def demo_ctx_def demo_touched_def
        demo_outside_def hm_get_def hm_insert_def info_of_def demo_session_def)
  have h: "passkeys ?c = Inr []" "\<not> pk_has_any [] (info_user demo_session)"
    "c_operator ?c = Some \<lparr>op_username = ''ada'', op_phc = ''pw''\<rparr>"
    "phc_parses demo_lib (op_phc \<lparr>op_username = ''ada'', op_phc = ''pw''\<rparr>)"
    "w_entropy (demo_outside 5) = Inr [7]"
    "\<forall>p\<in>set [''a'', ''b'', ''c'']. \<not> argon2_ok demo_lib p (op_phc \<lparr>op_username = ''ada'', op_phc = ''pw''\<rparr>)"
    "argon2_ok demo_lib ''pw'' (op_phc \<lparr>op_username = ''ada'', op_phc = ''pw''\<rparr>)"
    by (simp_all add: pk_has_any_def pk_for_user_def demo_ctx_def demo_lib_def)
  have eq: "[''a'', ''b'', ''c''] @ [''pw''] = [''a'', ''b'', ''c'', ''pw'']"
    "replicate (length [''a'', ''b'', ''c'']) (403 :: nat) @ [200] = [403, 403, 403, 200]"
    by (simp_all add: numeral_3_eq_3)
  from enrolment_password_unthrottled [OF g h] show ?thesis
    unfolding eq by (simp only: Let_def case_prod_unfold)
qed

end
