(* ===== verification/Lifecycle.thy ===== *)
theory Lifecycle
  imports Prelude "HOL-Library.Char_ord" "HOL-Library.List_Lexorder"
begin

section \<open>Operator blocks (\<open>crates/web/src/lifecycle.rs\<close>, \<open>dispatch.rs\<close>)\<close>

text \<open>
  Freezing an agent, stopping a unit, stopping a user. A block writes one deny-all policy per affected
  agent to the policy server and is then reflected in the console's own store; an unblock deletes the
  policies again; a restart rebuilds the store from what the server lists. The policy server is not
  part of the repository: it is the record \<open>pdp\<close> of its three calls over an abstract state, and
  \<open>lawful\<close> states the documented meaning of a successful PUT, DELETE and GET. The amount in dollars
  (an \<open>f64\<close>) is its literal text.
\<close>

subsection \<open>The store\<close>

record lifecycle_store =
  frozen_agents :: "string set"
  stopped_units :: "string set"
  stopped_users :: "string set"
  agent_owners :: "(string, string) hmap"

definition store_default :: lifecycle_store where
  "store_default = \<lparr>frozen_agents = {}, stopped_units = {}, stopped_users = {}, agent_owners = []\<rparr>"

definition team_of :: "string \<Rightarrow> string option" where
  "team_of agent_id =
     Option.bind (strip_prefix ''agent://'' agent_id) (\<lambda>rest.
     Option.bind (split_once (CHR ''/'') rest) (\<lambda>(org, rest2).
     Option.bind (split_once (CHR ''/'') rest2) (\<lambda>(team, nm).
     Some team)))"

definition state_for :: "lifecycle_store \<Rightarrow> string \<Rightarrow> string option" where
  "state_for st agent_id =
     (if agent_id \<in> frozen_agents st then Some ''frozen''
      else if (case team_of agent_id of Some team \<Rightarrow> team \<in> stopped_units st | None \<Rightarrow> False)
      then Some ''stopped''
      else if (case hm_get (agent_owners st) agent_id of Some owner \<Rightarrow> owner \<in> stopped_users st
               | None \<Rightarrow> False)
      then Some ''stopped''
      else None)"

definition store_to_json :: "lifecycle_store \<Rightarrow> json" where
  "store_to_json st = JObject
     [(''agents'', JArray (map JString (sorted_list_of_set (frozen_agents st)))),
      (''units'', JArray (map JString (sorted_list_of_set (stopped_units st)))),
      (''users'', JArray (map JString (sorted_list_of_set (stopped_users st))))]"

subsection \<open>Policies\<close>

record policy =
  pol_name :: string
  pol_target :: string
  deny_tool :: "string list"
  allow_domains :: "string list"
  require_human_above_usd :: string
  deny_above_usd :: string
  max_steps :: int
  deny_if_unattested :: bool

definition ID_PREFIX :: string where "ID_PREFIX = ''console-block-''"
definition BLOCK_DOMAIN_SENTINEL :: string where "BLOCK_DOMAIN_SENTINEL = ''console.blocked.invalid''"

definition sanitize :: "string \<Rightarrow> string" where
  "sanitize key = concat (map (\<lambda>c. if ascii_alphanumeric c then c else ''-'') (chars key))"

definition block_prefix :: "string \<Rightarrow> string \<Rightarrow> string" where
  "block_prefix kind key = ID_PREFIX @ kind @ ''-'' @ sanitize key"

definition block_name :: "string \<Rightarrow> string \<Rightarrow> string" where
  "block_name kind key = ''console-block:'' @ kind @ '':'' @ key"

definition parse_block_name :: "string \<Rightarrow> (string \<times> string) option" where
  "parse_block_name nm =
     Option.bind (strip_prefix ''console-block:'' nm) (\<lambda>rest.
     Option.bind (split_once (CHR '':'') rest) (\<lambda>(kind, key).
     if kind = [] \<or> key = [] then None else Some (kind, key)))"

definition deny_all_policy :: "string \<Rightarrow> string \<Rightarrow> policy" where
  "deny_all_policy nm target =
     \<lparr>pol_name = nm, pol_target = target, deny_tool = [], allow_domains = [BLOCK_DOMAIN_SENTINEL],
      require_human_above_usd = ''0'', deny_above_usd = ''0.001'', max_steps = 1, deny_if_unattested = True\<rparr>"

subsection \<open>The policy server\<close>

datatype wardryx_error = Api nat string | OtherError string

definition error_text :: "wardryx_error \<Rightarrow> string" where
  "error_text e = (case e of Api _ t \<Rightarrow> t | OtherError t \<Rightarrow> t)"

record 's pdp =
  pdp_list :: "'s \<Rightarrow> wardryx_error + (string \<times> policy) list"
  pdp_put :: "'s \<Rightarrow> string \<Rightarrow> policy \<Rightarrow> 's \<times> (wardryx_error + unit)"
  pdp_delete :: "'s \<Rightarrow> string \<Rightarrow> 's \<times> (wardryx_error + unit)"

text \<open>The documented meaning of the three calls: what a successful PUT stores, what a successful DELETE
  removes, that a DELETE answered 404 means the policy is not there, that a failed call leaves the
  rest alone, and that GET lists what is stored, each id once.\<close>

definition lawful :: "'s pdp \<Rightarrow> ('s \<Rightarrow> string \<Rightarrow> policy option) \<Rightarrow> bool" where
  "lawful P holds \<longleftrightarrow>
     (\<forall>s ps. pdp_list P s = Inr ps \<longrightarrow> distinct (map fst ps) \<and> map_of ps = holds s)
   \<and> (\<forall>s i p s'. pdp_put P s i p = (s', Inr ()) \<longrightarrow> holds s' = (holds s)(i \<mapsto> p))
   \<and> (\<forall>s i s'. pdp_delete P s i = (s', Inr ()) \<longrightarrow> holds s' = (holds s)(i := None))
   \<and> (\<forall>s i s' t. pdp_delete P s i = (s', Inl (Api 404 t)) \<longrightarrow> holds s i = None \<and> holds s' = holds s)"

fun block_members ::
  "'s pdp \<Rightarrow> 's \<Rightarrow> string \<Rightarrow> string \<Rightarrow> string \<Rightarrow> nat \<Rightarrow> string list \<Rightarrow> 's \<times> (string + nat)" where
  "block_members P s kind pre nm written [] = (s, Inr written)"
| "block_members P s kind pre nm written (agent # agents) =
     (let i = (if kind = ''agent'' then pre else pre @ ''--'' @ sanitize agent) in
      case pdp_put P s i (deny_all_policy nm agent) of
        (s', Inl e) \<Rightarrow>
          (s', Inl (''wardryx refused the block policy for '' @ agent @ '': '' @ error_text e))
      | (s', Inr _) \<Rightarrow> block_members P s' kind pre nm (written + 1) agents)"

text \<open>\<open>client\<close> is what \<open>admin_client\<close> answers.\<close>

definition block ::
  "'s pdp \<Rightarrow> string + unit \<Rightarrow> 's \<Rightarrow> string \<Rightarrow> string \<Rightarrow> string list \<Rightarrow> 's \<times> (string + nat)" where
  "block P client s kind key agents =
     (if agents = [] then (s, Inl (''nothing to block: no agents resolved for this '' @ kind))
      else (case client of
              Inl e \<Rightarrow> (s, Inl e)
            | Inr _ \<Rightarrow> block_members P s kind (block_prefix kind key) (block_name kind key) 0 agents))"

fun unblock_records ::
  "'s pdp \<Rightarrow> 's \<Rightarrow> string \<Rightarrow> nat \<Rightarrow> (string \<times> policy) list \<Rightarrow> 's \<times> (string + nat)" where
  "unblock_records P s pre removed [] = (s, Inr removed)"
| "unblock_records P s pre removed ((i, p) # rs) =
     (if \<not> prefix pre i then unblock_records P s pre removed rs
      else (case pdp_delete P s i of
              (s', Inr _) \<Rightarrow> unblock_records P s' pre (removed + 1) rs
            | (s', Inl (Api code t)) \<Rightarrow>
                if code = 404 then unblock_records P s' pre removed rs
                else (s', Inl (''wardryx refused to remove '' @ i @ '': '' @ t))
            | (s', Inl (OtherError t)) \<Rightarrow>
                (s', Inl (''wardryx refused to remove '' @ i @ '': '' @ t))))"

definition unblock ::
  "'s pdp \<Rightarrow> string + unit \<Rightarrow> 's \<Rightarrow> string \<Rightarrow> string \<Rightarrow> 's \<times> (string + nat)" where
  "unblock P client s kind key =
     (case client of
        Inl e \<Rightarrow> (s, Inl e)
      | Inr _ \<Rightarrow>
          (case pdp_list P s of
             Inl e \<Rightarrow> (s, Inl (''wardryx would not list policies to unblock: '' @ error_text e))
           | Inr ps \<Rightarrow> unblock_records P s (block_prefix kind key) 0 ps))"

fun rehydrate_record :: "lifecycle_store \<Rightarrow> string \<times> policy \<Rightarrow> lifecycle_store" where
  "rehydrate_record st (i, p) =
     (if \<not> prefix ID_PREFIX i then st
      else (case parse_block_name (pol_name p) of
              None \<Rightarrow> st
            | Some (kind, key) \<Rightarrow>
                if kind = ''agent'' then st\<lparr>frozen_agents := insert key (frozen_agents st)\<rparr>
                else if kind = ''unit'' then st\<lparr>stopped_units := insert key (stopped_units st)\<rparr>
                else if kind = ''user'' then st\<lparr>stopped_users := insert key (stopped_users st)\<rparr>
                else st))"

definition rehydrate :: "'s pdp \<Rightarrow> string + unit \<Rightarrow> 's \<Rightarrow> string + lifecycle_store" where
  "rehydrate P client s =
     (case client of
        Inl e \<Rightarrow> Inl e
      | Inr _ \<Rightarrow>
          (case pdp_list P s of
             Inl e \<Rightarrow> Inl (''wardryx would not list policies: '' @ error_text e)
           | Inr ps \<Rightarrow> Inr (foldl rehydrate_record store_default ps)))"

subsection \<open>The projections\<close>

definition stamp_run :: "lifecycle_store \<Rightarrow> json \<Rightarrow> json" where
  "stamp_run st v =
     (case Option.bind (json_get v ''agent_id'') json_str of
        None \<Rightarrow> v
      | Some agent_id \<Rightarrow>
     (case state_for st agent_id of
        None \<Rightarrow> v
      | Some state \<Rightarrow>
     (case v of
        JObject ms \<Rightarrow>
          JObject (AList.update ''killed'' (JBool True) (AList.update ''lifecycle'' (JString state) ms))
      | _ \<Rightarrow> v)))"

definition project_runs :: "lifecycle_store \<Rightarrow> json \<Rightarrow> json" where
  "project_runs st v = (case v of JArray runs \<Rightarrow> JArray (map (stamp_run st) runs) | _ \<Rightarrow> v)"

definition stamp_node :: "lifecycle_store \<Rightarrow> json \<Rightarrow> json" where
  "stamp_node st v =
     (case Option.bind (json_get v ''id'') json_str of
        None \<Rightarrow> v
      | Some i \<Rightarrow>
     (case state_for st i of
        None \<Rightarrow> v
      | Some state \<Rightarrow>
     (case v of JObject ms \<Rightarrow> JObject (AList.update ''lifecycle'' (JString state) ms) | _ \<Rightarrow> v)))"

definition project_graph :: "lifecycle_store \<Rightarrow> json \<Rightarrow> json" where
  "project_graph st v =
     (case v of
        JObject ms \<Rightarrow>
          (case map_of ms ''nodes'' of
             Some (JArray nodes) \<Rightarrow>
               JObject (AList.update ''nodes'' (JArray (map (stamp_node st) nodes)) ms)
           | _ \<Rightarrow> v)
      | _ \<Rightarrow> v)"

subsection \<open>The toggles (\<open>dispatch.rs\<close>)\<close>

text \<open>The identity and money planes answer with the identities (id and owner) and the agents of the
  known runs, or not at all.\<close>

definition agents_in_unit :: "(string \<times> string) list option \<Rightarrow> string list option \<Rightarrow> string \<Rightarrow> string list" where
  "agents_in_unit identities runs team =
     sorted_list_of_set
       {a \<in> set (map fst (case identities of None \<Rightarrow> [] | Some l \<Rightarrow> l))
            \<union> set (case runs of None \<Rightarrow> [] | Some l \<Rightarrow> l). team_of a = Some team}"

definition owner_matches :: "string \<Rightarrow> string \<Rightarrow> bool" where
  "owner_matches owner user \<longleftrightarrow>
     owner = user \<or> last_part (CHR ''/'') owner = last_part (CHR ''/'') user"

fun cache_owners ::
  "lifecycle_store \<Rightarrow> string \<Rightarrow> string set \<Rightarrow> (string \<times> string) list \<Rightarrow> lifecycle_store \<times> string set" where
  "cache_owners st user owned [] = (st, owned)"
| "cache_owners st user owned ((i, owner) # rest) =
     (if \<not> prefix ''agent://'' i \<or> owner = [] then cache_owners st user owned rest
      else cache_owners (st\<lparr>agent_owners := hm_insert i owner (agent_owners st)\<rparr>) user
             (if owner_matches owner user then insert i owned else owned) rest)"

definition agents_of_user ::
  "lifecycle_store \<Rightarrow> (string \<times> string) list option \<Rightarrow> string \<Rightarrow> lifecycle_store \<times> string list" where
  "agents_of_user st identities user =
     (case identities of
        None \<Rightarrow> (st, [])
      | Some l \<Rightarrow> (case cache_owners st user {} l of (st', owned) \<Rightarrow> (st', sorted_list_of_set owned)))"

definition record_block :: "lifecycle_store \<Rightarrow> string \<Rightarrow> string \<Rightarrow> bool \<Rightarrow> lifecycle_store" where
  "record_block st kind key blocked =
     (let upd = (\<lambda>S. if blocked then insert key S else S - {key}) in
      if kind = ''agent'' then st\<lparr>frozen_agents := upd (frozen_agents st)\<rparr>
      else if kind = ''unit'' then st\<lparr>stopped_units := upd (stopped_units st)\<rparr>
      else st\<lparr>stopped_users := upd (stopped_users st)\<rparr>)"

definition block_action :: "string \<Rightarrow> bool \<Rightarrow> string" where
  "block_action kind blocked =
     (if kind = ''agent'' then (if blocked then ''console.block_agent'' else ''console.unblock_agent'')
      else if kind = ''unit'' then (if blocked then ''console.block_unit'' else ''console.unblock_unit'')
      else (if blocked then ''console.block_user'' else ''console.unblock_user''))"

text \<open>What \<open>record_console_action\<close> puts on the console's bus for a completed block.\<close>

record console_action =
  act_name :: string
  act_target :: string
  act_params :: json
  act_verify_result :: string

definition bool_text :: "bool \<Rightarrow> string" where
  "bool_text b = (if b then ''true'' else ''false'')"

definition journal_block :: "string \<Rightarrow> string \<Rightarrow> bool \<Rightarrow> nat \<Rightarrow> string list \<Rightarrow> console_action" where
  "journal_block kind key blocked affected members =
     \<lparr>act_name = block_action kind blocked, act_target = key,
      act_params = JObject [(''policies'', JNum (dec affected)), (''members'', JArray (map JString members))],
      act_verify_result = ''blocked:'' @ bool_text blocked\<rparr>"

definition apply_block ::
  "'s pdp \<Rightarrow> string + unit \<Rightarrow> 's \<Rightarrow> lifecycle_store \<Rightarrow> string \<Rightarrow> string \<Rightarrow> bool \<Rightarrow> string list \<Rightarrow>
   's \<times> lifecycle_store \<times> console_action list \<times> (json + json)" where
  "apply_block P client s st kind key blocked members =
     (case (if blocked then block P client s kind key members else unblock P client s kind key) of
        (s', Inl e) \<Rightarrow> (s', st, [], Inl (JObject [(''error'', JString e)]))
      | (s', Inr affected) \<Rightarrow>
          (s', record_block st kind key blocked, [journal_block kind key blocked affected members], Inr JNull))"

definition agent_block where
  "agent_block P client s st agent_id blocked = apply_block P client s st ''agent'' agent_id blocked [agent_id]"

definition unit_block where
  "unit_block P client s st identities runs team blocked =
     apply_block P client s st ''unit'' team blocked (agents_in_unit identities runs team)"

definition user_block where
  "user_block P client s st identities user blocked =
     (case agents_of_user st identities user of
        (st', members) \<Rightarrow> apply_block P client s st' ''user'' user blocked members)"

subsection \<open>Names round-trip\<close>

lemma parse_block_name_block_name:
  "kind \<noteq> [] \<Longrightarrow> CHR '':'' \<notin> set kind \<Longrightarrow> key \<noteq> [] \<Longrightarrow>
   parse_block_name (block_name kind key) = Some (kind, key)"
  by (simp add: parse_block_name_def block_name_def strip_prefix_def)

lemma block_kinds:
  "kind \<in> set [''agent'', ''unit'', ''user''] \<Longrightarrow> kind \<noteq> [] \<and> CHR '':'' \<notin> set kind"
  by auto

lemma prefix_block_id: "prefix ID_PREFIX (block_prefix kind key @ rest)"
  by (simp add: block_prefix_def)

subsection \<open>What a restart rebuilds\<close>

text \<open>The entities of one kind that the policies on the server say are blocked.\<close>

definition blocked_in :: "(string \<Rightarrow> policy option) \<Rightarrow> string \<Rightarrow> string set" where
  "blocked_in held kind =
     {key. \<exists>i p. held i = Some p \<and> prefix ID_PREFIX i \<and> parse_block_name (pol_name p) = Some (kind, key)}"

definition named_by :: "string \<Rightarrow> (string \<times> policy) set \<Rightarrow> string set" where
  "named_by kind ps =
     {key. \<exists>i p. (i, p) \<in> ps \<and> prefix ID_PREFIX i \<and> parse_block_name (pol_name p) = Some (kind, key)}"

lemma rehydrate_record_sets:
  "frozen_agents (rehydrate_record st ip) = frozen_agents st \<union> named_by ''agent'' {ip}"
  "stopped_units (rehydrate_record st ip) = stopped_units st \<union> named_by ''unit'' {ip}"
  "stopped_users (rehydrate_record st ip) = stopped_users st \<union> named_by ''user'' {ip}"
  "agent_owners (rehydrate_record st ip) = agent_owners st"
  by (cases ip; auto simp: named_by_def split: option.splits if_splits)+

lemma named_by_insert: "named_by kind (insert ip ps) = named_by kind {ip} \<union> named_by kind ps"
  by (auto simp: named_by_def)

lemma named_by_empty [simp]: "named_by kind {} = {}"
  by (simp add: named_by_def)

lemma foldl_rehydrate:
  "frozen_agents (foldl rehydrate_record st ps) = frozen_agents st \<union> named_by ''agent'' (set ps)
   \<and> stopped_units (foldl rehydrate_record st ps) = stopped_units st \<union> named_by ''unit'' (set ps)
   \<and> stopped_users (foldl rehydrate_record st ps) = stopped_users st \<union> named_by ''user'' (set ps)
   \<and> agent_owners (foldl rehydrate_record st ps) = agent_owners st"
proof (induction ps arbitrary: st)
  case (Cons ip ps)
  show ?case
    unfolding foldl.simps list.set named_by_insert [of _ ip "set ps"]
    using Cons.IH [of "rehydrate_record st ip"] by (simp add: rehydrate_record_sets Un_assoc)
qed simp

lemma lawful_list: "lawful P holds \<Longrightarrow> pdp_list P s = Inr ps \<Longrightarrow> (i, p) \<in> set ps \<longleftrightarrow> holds s i = Some p"
  unfolding lawful_def by (metis map_of_eq_Some_iff)

lemma blocked_in_list:
  assumes "lawful P holds" and "pdp_list P s = Inr ps"
  shows "named_by kind (set ps) = blocked_in (holds s) kind"
  using lawful_list [OF assms] by (auto simp: blocked_in_def named_by_def)

text \<open>C9. A restart rebuilds exactly what the policies on the server record: the store it starts with
  names an agent, a unit or a user as blocked if and only if some policy under the console's id
  prefix carries that entity in its name.\<close>

theorem restart_rebuilds_store:
  assumes "lawful P holds" and "rehydrate P client s = Inr st"
  shows "frozen_agents st = blocked_in (holds s) ''agent''
    \<and> stopped_units st = blocked_in (holds s) ''unit''
    \<and> stopped_users st = blocked_in (holds s) ''user''
    \<and> agent_owners st = []"
proof -
  from assms(2) obtain ps where ps: "pdp_list P s = Inr ps" "st = foldl rehydrate_record store_default ps"
    by (auto simp: rehydrate_def split: sum.splits)
  show ?thesis
    using foldl_rehydrate [of store_default ps]
    unfolding ps(2) blocked_in_list [OF assms(1) ps(1), symmetric] by (simp add: store_default_def)
qed

subsection \<open>What a block writes\<close>

definition member_id :: "string \<Rightarrow> string \<Rightarrow> string \<Rightarrow> string" where
  "member_id kind key agent =
     (if kind = ''agent'' then block_prefix kind key else block_prefix kind key @ ''--'' @ sanitize agent)"

lemma lawful_put: "lawful P holds \<Longrightarrow> pdp_put P s i p = (s', Inr ()) \<Longrightarrow> holds s' = (holds s)(i \<mapsto> p)"
  unfolding lawful_def by blast

lemma block_members_holds:
  assumes "lawful P holds"
  shows "block_members P s kind (block_prefix kind key) nm w agents = (s', Inr n) \<Longrightarrow>
    n = w + length agents \<and>
    holds s' = foldl (\<lambda>h a. h(member_id kind key a \<mapsto> deny_all_policy nm a)) (holds s) agents"
proof (induction agents arbitrary: s w)
  case (Cons a as)
  let ?i = "member_id kind key a"
  obtain s1 r where put: "pdp_put P s ?i (deny_all_policy nm a) = (s1, r)" by fastforce
  with Cons.prems obtain "r = Inr ()"
    and rest: "block_members P s1 kind (block_prefix kind key) nm (w + 1) as = (s', Inr n)"
    by (cases r) (auto simp: member_id_def Let_def)
  with lawful_put [OF assms] put have "holds s1 = (holds s)(?i \<mapsto> deny_all_policy nm a)" by blast
  with Cons.IH [OF rest] show ?case by simp
qed simp

lemma foldl_upd_other:
  "i \<notin> f ` set as \<Longrightarrow> foldl (\<lambda>h a. h(f a \<mapsto> g a)) h as i = h i"
  by (induction as arbitrary: h) auto

lemma foldl_upd_last:
  "a \<in> set as \<Longrightarrow> inj_on f (set as) \<Longrightarrow> foldl (\<lambda>h a. h(f a \<mapsto> g a)) h as (f a) = Some (g a)"
proof (induction as arbitrary: h)
  case (Cons b as)
  show ?case
  proof (cases "a \<in> set as")
    case True
    with Cons show ?thesis by (simp add: inj_on_def)
  next
    case False
    with Cons.prems have a: "a = b" and "f b \<notin> f ` set as" by (auto simp: inj_on_def)
    from foldl_upd_other [OF this(2), of g "h(f b \<mapsto> g b)"] show ?thesis
      unfolding a by (simp only: foldl.simps fun_upd_same)
  qed
qed simp

lemma block_holds:
  assumes "lawful P holds" and "block P client s kind key agents = (s', Inr n)"
  shows "agents \<noteq> [] \<and> n = length agents \<and> holds s' =
    foldl (\<lambda>h a. h(member_id kind key a \<mapsto> deny_all_policy (block_name kind key) a)) (holds s) agents"
  using assms(2) block_members_holds [OF assms(1)]
  by (fastforce simp: block_def split: if_splits sum.splits)

lemma last_member_held:
  "as \<noteq> [] \<Longrightarrow> foldl (\<lambda>h a. h(f a \<mapsto> g a)) h as (f (last as)) = Some (g (last as))"
  by (induction as rule: rev_induct) auto


subsection \<open>What an unblock removes\<close>

lemma lawful_delete:
  assumes "lawful P holds"
  shows "pdp_delete P s i = (s', Inr ()) \<Longrightarrow> holds s' = (holds s)(i := None)"
    and "pdp_delete P s i = (s', Inl (Api 404 t)) \<Longrightarrow> holds s' = (holds s)(i := None)"
  using assms unfolding lawful_def by (blast, metis fun_upd_triv)

lemma unblock_records_holds:
  assumes "lawful P holds"
  shows "unblock_records P s pre r rs = (s', Inr n) \<Longrightarrow>
    holds s' = (\<lambda>i. if prefix pre i \<and> i \<in> fst ` set rs then None else holds s i)"
proof (induction rs arbitrary: s r)
  case (Cons ip rs)
  obtain i p where ip: "ip = (i, p)" by (cases ip)
  show ?case
  proof (cases "prefix pre i")
    case False
    with Cons.IH [of s r] Cons.prems ip show ?thesis by auto
  next
    case True
    obtain s1 x where del: "pdp_delete P s i = (s1, x)" by fastforce
    with True Cons.prems ip have "\<exists>r'. unblock_records P s1 pre r' rs = (s', Inr n)"
      and "x = Inr () \<or> (\<exists>t. x = Inl (Api 404 t))"
      by (auto split: sum.splits wardryx_error.splits if_splits)
    then obtain r' where r: "unblock_records P s1 pre r' rs = (s', Inr n)"
      and "holds s1 = (holds s)(i := None)" using del lawful_delete [OF assms] by auto
    with Cons.IH [OF r] show ?thesis by (auto simp: fun_eq_iff ip True)
  qed
qed simp

text \<open>An unblock that succeeded leaves no policy under the entity's id prefix and every other policy
  as it was, whatever membership the block had expanded to, also when policies had already gone.\<close>

theorem unblock_clears_prefix:
  assumes "lawful P holds" and "unblock P client s kind key = (s', Inr n)"
  shows "holds s' = (\<lambda>i. if prefix (block_prefix kind key) i then None else holds s i)"
proof -
  from assms(2) obtain ps where ps: "pdp_list P s = Inr ps"
    "unblock_records P s (block_prefix kind key) 0 ps = (s', Inr n)"
    by (auto simp: unblock_def split: sum.splits)
  have "holds s i = None" if "i \<notin> fst ` set ps" for i
    using lawful_list [OF assms(1) ps(1), of i] that by (cases "holds s i") force+
  with unblock_records_holds [OF assms(1) ps(2)] show ?thesis by (auto simp: fun_eq_iff)
qed

text \<open>Unblocking is not exact. When the sanitized id of one agent is a prefix of another's, lifting
  the block of the first deletes the policy that blocks the second, while the console goes on showing
  the second as frozen.\<close>

theorem unblock_lifts_other_agent:
  assumes "lawful P holds" and "agent_block P client s st a False = (s', st', acts, Inr reply)"
    and "prefix (sanitize a) (sanitize b)" and "b \<noteq> a" and "b \<in> frozen_agents st"
  shows "holds s' (member_id ''agent'' b b) = None \<and> state_for st' b = Some ''frozen''"
proof -
  from assms(2) obtain n where u: "unblock P client s ''agent'' a = (s', Inr n)"
    and st: "st' = record_block st ''agent'' a False"
    by (auto simp: agent_block_def apply_block_def split: prod.splits sum.splits)
  have "prefix (block_prefix ''agent'' a) (member_id ''agent'' b b)"
    using assms(3) by (simp add: member_id_def block_prefix_def)
  with unblock_clears_prefix [OF assms(1) u] have "holds s' (member_id ''agent'' b b) = None" by simp
  moreover have "b \<in> frozen_agents st'" using assms(4,5) st by (simp add: record_block_def Let_def)
  ultimately show ?thesis by (simp add: state_for_def)
qed

text \<open>A policy server that behaves as documented: a table.\<close>

definition table_pdp :: "(string, policy) hmap pdp" where
  "table_pdp = \<lparr>pdp_list = \<lambda>t. if distinct (map fst t) then Inr t else Inl (OtherError ''corrupt''),
     pdp_put = \<lambda>t i p. (hm_insert i p t, Inr ()),
     pdp_delete = \<lambda>t i. (hm_remove i t, if hm_get t i = None then Inl (Api 404 ''no such policy'') else Inr ())\<rparr>"

lemma table_pdp_lawful: "lawful table_pdp hm_get"
  by (auto simp: lawful_def table_pdp_def hm_get_insert hm_get_remove fun_eq_iff hm_get_def [abs_def]
      split: if_splits) (auto simp: hm_get_def [abs_def] hm_insert_def hm_remove_def update_conv delete_conv)

definition two_bots :: "(string, policy) hmap" where
  "two_bots = [(member_id ''agent'' ''agent://o/t/bot1'' ''agent://o/t/bot1'',
       deny_all_policy (block_name ''agent'' ''agent://o/t/bot1'') ''agent://o/t/bot1''),
     (member_id ''agent'' ''agent://o/t/bot10'' ''agent://o/t/bot10'',
       deny_all_policy (block_name ''agent'' ''agent://o/t/bot10'') ''agent://o/t/bot10'')]"

definition two_frozen :: lifecycle_store where
  "two_frozen = store_default\<lparr>frozen_agents := {''agent://o/t/bot1'', ''agent://o/t/bot10''}\<rparr>"

lemma sanitize_bots:
  "sanitize ''agent://o/t/bot1'' = ''agent---o-t-bot1''" "sanitize ''agent://o/t/bot10'' = ''agent---o-t-bot10''"
  by code_simp+

lemma unblock_two_bots: "agent_block table_pdp (Inr ()) two_bots two_frozen ''agent://o/t/bot1'' False =
    ([], record_block two_frozen ''agent'' ''agent://o/t/bot1'' False,
      [journal_block ''agent'' ''agent://o/t/bot1'' False 2 [''agent://o/t/bot1'']], Inr JNull)"
  by (simp add: agent_block_def apply_block_def unblock_def table_pdp_def two_bots_def member_id_def
      block_prefix_def ID_PREFIX_def sanitize_bots hm_get_def hm_remove_def numeral_2_eq_2)

theorem unblock_lifts_other_agent_witness:
  "case agent_block table_pdp (Inr ()) two_bots two_frozen ''agent://o/t/bot1'' False of
     (s', st', acts, r) \<Rightarrow> hm_get s' (member_id ''agent'' ''agent://o/t/bot10'' ''agent://o/t/bot10'') = None
       \<and> state_for st' ''agent://o/t/bot10'' = Some ''frozen''"
  unfolding unblock_two_bots prod.case
  by (rule unblock_lifts_other_agent [OF table_pdp_lawful unblock_two_bots])
    (simp_all add: sanitize_bots two_frozen_def)

theorem unblock_clears_prefix_witness:
  "hm_get (fst (unblock table_pdp (Inr ()) two_bots ''agent'' ''agent://o/t/bot10'')) =
     (\<lambda>i. if prefix (block_prefix ''agent'' ''agent://o/t/bot10'') i then None else hm_get two_bots i)"
proof -
  obtain s' n where u: "unblock table_pdp (Inr ()) two_bots ''agent'' ''agent://o/t/bot10'' = (s', Inr n)"
    by (simp add: unblock_def table_pdp_def two_bots_def member_id_def block_prefix_def ID_PREFIX_def
        sanitize_bots hm_get_def hm_remove_def)
  from unblock_clears_prefix [OF table_pdp_lawful u] show ?thesis by (simp add: u)
qed

theorem restart_rebuilds_store_witness:
  "case rehydrate table_pdp (Inr ()) two_bots of
     Inl e \<Rightarrow> False
   | Inr st \<Rightarrow> frozen_agents st = blocked_in (hm_get two_bots) ''agent''"
proof -
  obtain st where r: "rehydrate table_pdp (Inr ()) two_bots = Inr st"
    by (simp add: rehydrate_def table_pdp_def two_bots_def member_id_def block_prefix_def ID_PREFIX_def
        sanitize_bots)
  with restart_rebuilds_store [OF table_pdp_lawful r] show ?thesis by simp
qed


subsection \<open>What the projections show\<close>

lemma json_get_update:
  "json_get (JObject (AList.update k v ms)) key = (if key = k then Some v else json_get (JObject ms) key)"
  by (simp add: json_get_def update_conv)

definition run_state :: "lifecycle_store \<Rightarrow> json \<Rightarrow> string option" where
  "run_state st v =
     (case Option.bind (json_get v ''agent_id'') json_str of None \<Rightarrow> None | Some a \<Rightarrow> state_for st a)"

lemma stamp_run_None: "run_state st v = None \<Longrightarrow> stamp_run st v = v"
  by (auto simp: run_state_def stamp_run_def split: option.splits)

lemma stamp_run_Some:
  assumes "run_state st v = Some state"
  shows "json_get (stamp_run st v) key =
    (if key = ''lifecycle'' then Some (JString state)
     else if key = ''killed'' then Some (JBool True) else json_get v key)"
proof -
  from assms obtain ms where "v = JObject ms"
    by (cases v) (auto simp: run_state_def json_get_def)
  with assms show ?thesis by (auto simp: run_state_def stamp_run_def json_get_update split: option.splits)
qed

text \<open>The projection of the runs marks exactly the runs of blocked agents. Each run keeps its place
  and all its other members; a run whose agent is blocked carries the block's state and is killed; any
  other run, and any reply that is no list of runs, is left as it was.\<close>

theorem project_runs_exact:
  assumes "project_runs st v = v'"
  shows "case v of
      JArray runs \<Rightarrow> \<exists>runs'. v' = JArray runs' \<and> length runs' = length runs
        \<and> (\<forall>i<length runs. case run_state st (runs ! i) of
             None \<Rightarrow> runs' ! i = runs ! i
           | Some state \<Rightarrow> \<forall>key. json_get (runs' ! i) key =
               (if key = ''lifecycle'' then Some (JString state)
                else if key = ''killed'' then Some (JBool True) else json_get (runs ! i) key))
    | _ \<Rightarrow> v' = v"
  using assms
  by (auto simp: project_runs_def stamp_run_None stamp_run_Some split: json.splits option.splits)

theorem project_runs_exact_witness:
  "\<exists>runs'. project_runs two_frozen (JArray [JObject [(''agent_id'', JString ''agent://o/t/bot1''), (''run_id'', JNum ''7'')]])
      = JArray runs' \<and> json_get (runs' ! 0) ''killed'' = Some (JBool True)
        \<and> json_get (runs' ! 0) ''run_id'' = Some (JNum ''7'')"
proof -
  let ?run = "JObject [(''agent_id'', JString ''agent://o/t/bot1''), (''run_id'', JNum ''7'')]"
  have s: "run_state two_frozen ?run = Some ''frozen''"
    by (simp add: run_state_def json_get_def state_for_def two_frozen_def)
  obtain runs' where r: "project_runs two_frozen (JArray [?run]) = JArray runs'"
    "\<forall>i<length [?run]. case run_state two_frozen ([?run] ! i) of
             None \<Rightarrow> runs' ! i = [?run] ! i
           | Some state \<Rightarrow> \<forall>key. json_get (runs' ! i) key =
               (if key = ''lifecycle'' then Some (JString state)
                else if key = ''killed'' then Some (JBool True) else json_get ([?run] ! i) key)"
    using project_runs_exact [OF refl, of two_frozen "JArray [?run]"] by auto
  from r(2) s have "\<forall>key. json_get (runs' ! 0) key =
       (if key = ''lifecycle'' then Some (JString ''frozen'')
        else if key = ''killed'' then Some (JBool True) else json_get ?run key)" by simp
  then have "json_get (runs' ! 0) ''killed'' = Some (JBool True)" "json_get (runs' ! 0) ''run_id'' = Some (JNum ''7'')"
    by (simp_all add: json_get_def)
  with r(1) show ?thesis by blast
qed

subsection \<open>A stopped user whose agents do not show it\<close>

lemma cache_owners_owners:
  "cache_owners st user owned l = (st', owned') \<Longrightarrow>
   frozen_agents st' = frozen_agents st \<and> stopped_units st' = stopped_units st \<and> stopped_users st' = stopped_users st"
  by (induction st user owned l rule: cache_owners.induct) (auto split: if_splits)

lemma cache_owners_get:
  "cache_owners st user owned l = (st', owned') \<Longrightarrow> distinct (map fst l) \<Longrightarrow> (a, owner) \<in> set l \<Longrightarrow>
   prefix ''agent://'' a \<Longrightarrow> owner \<noteq> [] \<Longrightarrow> hm_get (agent_owners st') a = Some owner"
proof (induction st user owned l rule: cache_owners.induct)
  case (2 st user owned i ow rest)
  have keep: "hm_get (agent_owners s') a = hm_get (agent_owners s) a"
    if "cache_owners s user x r = (s', y)" "a \<notin> fst ` set r" for s s' x y r
    using that by (induction s user x r rule: cache_owners.induct)
      (auto simp: hm_get_insert split: if_splits)
  show ?case
  proof (cases "(a, owner) = (i, ow)")
    case True
    with 2 have "a \<notin> fst ` set rest" by auto
    with True 2(3,6,7) keep show ?thesis by (auto simp: hm_get_insert split: if_splits)
  next
    case False
    with 2 show ?thesis by (auto split: if_splits)
  qed
qed simp

lemma cache_owners_owned:
  "cache_owners st user owned l = (st', owned') \<Longrightarrow>
   owned' = owned \<union> {i. \<exists>ow. (i, ow) \<in> set l \<and> prefix ''agent://'' i \<and> ow \<noteq> [] \<and> owner_matches ow user}"
  by (induction st user owned l rule: cache_owners.induct) (auto split: if_splits)

text \<open>Stopping a user by the bare handle blocks an agent that the identity plane records under the
  owner's URI, but the console never shows it: the agent is among the members the block was written
  for, and after that block succeeded its badge is still that of a running agent.\<close>

theorem stopped_user_not_shown:
  assumes "user_block P client s st (Some ids) user True = (s', st', acts, Inr reply)"
    and "distinct (map fst ids)" and "(a, owner) \<in> set ids" and "prefix ''agent://'' a" and "owner \<noteq> []"
    and "owner_matches owner user" and "owner \<noteq> user" and "owner \<notin> stopped_users st" and "state_for st a = None"
  shows "a \<in> set (snd (agents_of_user st (Some ids) user)) \<and> state_for st' a = None"
proof -
  obtain st1 owned where c: "cache_owners st user {} ids = (st1, owned)" by fastforce
  from assms(1) c have st': "st' = record_block st1 ''user'' user True"
    by (auto simp: user_block_def agents_of_user_def apply_block_def split: prod.splits sum.splits)
  have "owned \<subseteq> fst ` set ids" using cache_owners_owned [OF c] by force
  then have "finite owned" by (rule finite_subset) simp
  with cache_owners_owned [OF c] assms(3-6) have "a \<in> set (snd (agents_of_user st (Some ids) user))"
    by (auto simp: agents_of_user_def c)
  moreover from cache_owners_get [OF c assms(2-5)] have "hm_get (agent_owners st1) a = Some owner" .
  with cache_owners_owners [OF c] assms(7-9) have "state_for st' a = None"
    by (auto simp: st' record_block_def Let_def state_for_def split: if_splits option.splits)
  ultimately show ?thesis ..
qed

theorem stopped_user_not_shown_witness:
  "case user_block table_pdp (Inr ()) [] store_default (Some [(''agent://o/t/bot1'', ''user://o/d.hayes'')])
     ''d.hayes'' True of
     (s', st', acts, r) \<Rightarrow> stopped_users st' = {''d.hayes''} \<and> state_for st' ''agent://o/t/bot1'' = None"
proof -
  let ?ids = "[(''agent://o/t/bot1'', ''user://o/d.hayes'')]"
  have m: "owner_matches ''user://o/d.hayes'' ''d.hayes''" by code_simp
  have members: "agents_of_user store_default (Some ?ids) ''d.hayes'' =
      (store_default\<lparr>agent_owners := ?ids\<rparr>, [''agent://o/t/bot1''])"
    using m by (simp add: agents_of_user_def store_default_def hm_insert_def)
  obtain s' where u: "user_block table_pdp (Inr ()) [] store_default (Some ?ids) ''d.hayes'' True =
      (s', record_block (store_default\<lparr>agent_owners := ?ids\<rparr>) ''user'' ''d.hayes'' True,
      [journal_block ''user'' ''d.hayes'' True 1 [''agent://o/t/bot1'']], Inr JNull)"
    by (simp add: user_block_def members apply_block_def block_def table_pdp_def)
  have "state_for store_default ''agent://o/t/bot1'' = None"
    by (simp add: state_for_def store_default_def split: option.splits)
  note shown = this
  have "state_for (record_block (store_default\<lparr>agent_owners := ?ids\<rparr>) ''user'' ''d.hayes'' True)
      ''agent://o/t/bot1'' = None"
    by (rule stopped_user_not_shown [OF u _ _ _ _ m _ _ shown, THEN conjunct2])
      (simp_all add: store_default_def)
  then show ?thesis
    unfolding u prod.case by (intro conjI) (simp_all add: record_block_def Let_def store_default_def)
qed

end
