(* ===== verification/IngestLines.thy ===== *)
theory IngestLines
  imports Ingest
begin

section \<open>Ingest: no line is lost, split or read twice\<close>

text \<open>
  Facts about theory Ingest: what a tail emits however the file grows between polls, what one poll
  cycle does with every line it reads, which rows may ever be stored, what a restart resumes, and the
  two ways lines are lost after all (a source that fails, and a line that is not UTF-8).
\<close>

subsection \<open>What a tail emits\<close>

text \<open>
  The lines of a byte string and where each begins. \<open>split_lines c p bs\<close> reads \<open>bs\<close> with the
  unfinished line \<open>p\<close>, begun at \<open>c\<close>, before it; \<open>unfinished p bs\<close> is what is left without a newline.
\<close>

fun split_lines :: "nat \<Rightarrow> string \<Rightarrow> string \<Rightarrow> (nat \<times> string) list" where
  "split_lines c p [] = []"
| "split_lines c p (b # bs) =
     (if b = LF then (c, p) # split_lines (c + length p + 1) [] bs else split_lines c (p @ [b]) bs)"

fun unfinished :: "string \<Rightarrow> string \<Rightarrow> string" where
  "unfinished p [] = p"
| "unfinished p (b # bs) = (if b = LF then unfinished [] bs else unfinished (p @ [b]) bs)"

definition consumed :: "string \<Rightarrow> nat" where
  "consumed bs = length bs - length (unfinished [] bs)"

definition unlines :: "string list \<Rightarrow> string" where
  "unlines ls = concat (map (\<lambda>l. l @ [LF]) ls)"

fun numbered :: "nat \<Rightarrow> string list \<Rightarrow> (nat \<times> string) list" where
  "numbered c [] = []"
| "numbered c (l # ls) = (c, l) # numbered (c + length l + 1) ls"

definition line_record :: "string \<Rightarrow> nat \<times> string \<Rightarrow> raw_record" where
  "line_record path ol =
     \<lparr>raw = from_utf8_lossy (snd ol), rec_file = Some path, rec_offset = Some (fst ol)\<rparr>"

lemma unfinished_suffix: "\<exists>q. p @ bs = q @ unfinished p bs"
proof (induction p bs rule: unfinished.induct)
  case (2 p b bs)
  then show ?case by (cases "b = LF") (auto, metis append.assoc append_Cons)
qed simp

lemma length_unfinished: "length (unfinished p bs) \<le> length p + length bs"
  using unfinished_suffix [of p bs] by (metis length_append le_add2)

lemma LF_unfinished: "LF \<notin> set p \<Longrightarrow> LF \<notin> set (unfinished p bs)"
  by (induction p bs rule: unfinished.induct) auto

lemma drop_consumed: "drop (consumed bs) bs = unfinished [] bs"
proof -
  obtain q where q: "bs = q @ unfinished [] bs" using unfinished_suffix [of "[]" bs] by auto
  have "length bs = length q + length (unfinished [] bs)" using arg_cong [OF q, of length] by simp
  then have "consumed bs = length q" by (simp add: consumed_def)
  with q show ?thesis by (metis append_eq_conv_conj)
qed

lemma consumed_le: "consumed bs \<le> length bs"
  by (simp add: consumed_def)

lemma drop_consumed_append: "drop (consumed c) (c @ e) = unfinished [] c @ e"
  using consumed_le [of c] by (simp add: drop_consumed)

lemma split_lines_absorb: "LF \<notin> set p \<Longrightarrow> split_lines c q (p @ bs) = split_lines c (q @ p) bs"
  by (induction p arbitrary: q) auto

lemma unfinished_absorb: "LF \<notin> set p \<Longrightarrow> unfinished q (p @ bs) = unfinished (q @ p) bs"
  by (induction p arbitrary: q) auto

lemma split_lines_append:
  "split_lines c p (xs @ ys) =
   split_lines c p xs @ split_lines (c + length p + length xs - length (unfinished p xs)) (unfinished p xs) ys"
proof (induction xs arbitrary: c p)
  case (Cons b xs)
  have "length (unfinished [] xs) \<le> length xs" using length_unfinished [of "[]" xs] by simp
  then show ?case using Cons by (simp add: add.assoc)
qed simp

lemma unfinished_append: "unfinished p (xs @ ys) = unfinished (unfinished p xs) ys"
  by (induction p xs rule: unfinished.induct) auto

text \<open>Reading on from where the complete lines of a file end gives the rest of the lines of the grown
  file, and stops where its complete lines end.\<close>

lemma split_lines_resume:
  "split_lines 0 [] (c @ e) = split_lines 0 [] c @ split_lines (consumed c) [] (drop (consumed c) (c @ e))"
proof -
  have "LF \<notin> set (unfinished [] c)" by (simp add: LF_unfinished)
  from split_lines_absorb [OF this, of _ "[]" e]
  have "split_lines (consumed c) [] (drop (consumed c) (c @ e)) = split_lines (consumed c) (unfinished [] c) e"
    unfolding drop_consumed_append by simp
  then show ?thesis by (simp add: split_lines_append [of 0 "[]" c e] consumed_def)
qed

lemma consumed_resume:
  "consumed c + length (drop (consumed c) (c @ e)) - length (unfinished [] (drop (consumed c) (c @ e)))
   = consumed (c @ e)"
proof -
  have "unfinished [] (drop (consumed c) (c @ e)) = unfinished [] (c @ e)"
    using unfinished_absorb [of "unfinished [] c" "[]" e]
    unfolding drop_consumed_append unfinished_append [of "[]" c e] by (simp add: LF_unfinished)
  then show ?thesis using consumed_le [of c] by (simp add: consumed_def)
qed

lemma split_lines_unlines:
  assumes "list_all (\<lambda>l. LF \<notin> set l) ls" and "LF \<notin> set rest"
  shows "split_lines c [] (unlines ls @ rest) = numbered c ls"
  using assms
proof (induction ls arbitrary: c)
  case Nil
  then show ?case using split_lines_absorb [of rest c "[]" "[]"] by (simp add: unlines_def)
next
  case (Cons l ls)
  then show ?case using split_lines_absorb [of l c "[]" "LF # unlines ls @ rest"]
    by (simp add: unlines_def)
qed

lemma unfinished_unlines:
  assumes "list_all (\<lambda>l. LF \<notin> set l) ls" and "LF \<notin> set rest"
  shows "unfinished [] (unlines ls @ rest) = rest"
  using assms
proof (induction ls)
  case Nil
  then show ?case using unfinished_absorb [of rest "[]" "[]"] by (simp add: unlines_def)
next
  case (Cons l ls)
  then show ?case using unfinished_absorb [of l "[]" "LF # unlines ls @ rest"]
    by (simp add: unlines_def)
qed

lemma consumed_unlines:
  "list_all (\<lambda>l. LF \<notin> set l) ls \<Longrightarrow> LF \<notin> set rest \<Longrightarrow> consumed (unlines ls @ rest) = length (unlines ls)"
  by (simp add: consumed_def unfinished_unlines)

text \<open>The code's loop is \<open>split_lines\<close>.\<close>

lemma tail_scan_lines:
  "buf = pre @ p @ bs \<Longrightarrow> start = length pre \<Longrightarrow> i = length pre + length p \<Longrightarrow>
   tail_scan key buf (enumerate i bs) start cursor =
     (map (line_record key) (split_lines cursor p bs),
      cursor + length p + length bs - length (unfinished p bs))"
proof (induction bs arbitrary: pre p start i cursor)
  case (Cons b bs)
  show ?case
  proof (cases "b = LF")
    case True
    have "length (unfinished [] bs) \<le> length bs" using length_unfinished [of "[]" bs] by simp
    with True Cons.prems Cons.IH [of "pre @ p @ [LF]" "[]" "i + 1" "i + 1" "cursor + (i - start + 1)"]
    show ?thesis by (simp add: Let_def line_record_def)
  next
    case False
    with Cons.prems Cons.IH [of pre "p @ [b]" start "i + 1" cursor] show ?thesis by simp
  qed
qed simp

text \<open>One poll of a file that has grown since its complete lines were read.\<close>

lemma tail_poll_grown:
  assumes "tail_offset t = consumed c"
  shows "tail_poll t (Contents (c @ e)) =
    (t\<lparr>tail_offset := consumed (c @ e)\<rparr>,
     Inr (map (line_record (tail_path t)) (split_lines (consumed c) [] (drop (consumed c) (c @ e)))))"
proof (cases "length (c @ e) = consumed c")
  case True
  have "length e = 0" and "consumed c = length c" using True consumed_le [of c]
    unfolding length_append by linarith+
  with assms True show ?thesis by (simp add: tail_poll_def Let_def)
next
  case False
  have "\<not> length (c @ e) < consumed c" using consumed_le [of c] by simp
  with assms False show ?thesis
    using tail_scan_lines [of "drop (consumed c) (c @ e)" "[]" "[]" "drop (consumed c) (c @ e)" 0 0
        "tail_path t" "consumed c"] consumed_resume [of c e]
    by (simp add: tail_poll_def Let_def)
qed

subsection \<open>What one cycle does with the lines it reads\<close>

text \<open>The decision about one line, and the rows and events it leads to.\<close>

definition verdict :: "ingest_lib \<Rightarrow> ingest \<Rightarrow> raw_record \<Rightarrow> string + agent_event \<times> schema_version" where
  "verdict X I r =
     (case parse_valid X (raw r) of
        Inl report \<Rightarrow>
          Inl (if rep_errors report = [] then ''conformance failed'' else join ''; '' (rep_errors report))
      | Inr event \<Rightarrow>
          if pin_refuses I r event then Inl PINNED_SOURCE_REFUSED
          else (case event_schema_version event of
                  None \<Rightarrow> Inl ''unrecognized schema'' | Some version \<Rightarrow> Inr (event, version)))"

definition refused :: "ingest_lib \<Rightarrow> poll_world \<Rightarrow> ingest \<Rightarrow> raw_record list \<Rightarrow> quarantine_row list" where
  "refused X w I rs = concat (map (\<lambda>r. case verdict X I r of
     Inl reason \<Rightarrow> [\<lparr>q_env = ing_env I, q_file = rec_file r, q_off = rec_offset r, q_raw = raw r,
                     q_reason = reason, q_ts = w_ts w\<rparr>]
   | Inr _ \<Rightarrow> []) rs)"

definition accepted :: "ingest_lib \<Rightarrow> poll_world \<Rightarrow> ingest \<Rightarrow> (string \<times> raw_record) list \<Rightarrow> console_event list" where
  "accepted X w I rs = concat (map (\<lambda>(connector, r). case verdict X I r of
     Inl _ \<Rightarrow> [] | Inr (event, version) \<Rightarrow> [console_event_of w I connector r event version]) rs)"

lemma refused_simps [simp]:
  "refused X w I [] = []" "refused X w I (rs @ rs') = refused X w I rs @ refused X w I rs'"
  by (simp_all add: refused_def)

lemma refused_Cons: "refused X w I (r # rs) = refused X w I [r] @ refused X w I rs"
  by (simp add: refused_def)

lemma accepted_simps [simp]:
  "accepted X w I [] = []" "accepted X w I (rs @ rs') = accepted X w I rs @ accepted X w I rs'"
  by (simp_all add: accepted_def)

lemma accepted_Cons: "accepted X w I (r # rs) = accepted X w I [r] @ accepted X w I rs"
  by (simp add: accepted_def)

lemma refused_accepted_partition:
  "length (refused X w I (map snd rs)) + length (accepted X w I rs) = length rs"
  by (induction rs) (auto simp: refused_def accepted_def split: sum.splits)

text \<open>The records one cycle reads, each with the connector it came through.\<close>

definition polled :: "poll_world \<Rightarrow> file_tail list \<Rightarrow> (string \<times> raw_record) list" where
  "polled w ts = concat (map (\<lambda>t. case snd (tail_poll t (w_view w (tail_path t))) of
     Inr rs \<Rightarrow> map (Pair (tail_id t)) rs | Inl _ \<Rightarrow> []) ts)"

definition advance :: "poll_world \<Rightarrow> file_tail \<Rightarrow> file_tail" where
  "advance w t = fst (tail_poll t (w_view w (tail_path t)))"

lemma quarantine_Inr:
  "quarantine failed st q = (st', Inr u) \<Longrightarrow> st' = st\<lparr>st_quarantine := st_quarantine st @ [q]\<rparr>"
  by (auto simp: quarantine_def split: sum.splits option.splits)

lemma take_record_Inr:
  assumes "take_record X w I connector st cy r = (st', Inr cy')"
  shows "st' = st\<lparr>st_quarantine := st_quarantine st @ refused X w I [r]\<rparr>
    \<and> cy' = \<lparr>cy_quarantined = cy_quarantined cy + length (refused X w I [r]),
             cy_valid = cy_valid cy @ accepted X w I [(connector, r)],
             cy_offsets = note_offset (cy_offsets cy) r\<rparr>"
  using assms
  by (auto simp: take_record_def quarantine_line_def refused_def accepted_def verdict_def Let_def
      dest: quarantine_Inr split: sum.splits option.splits prod.splits if_splits)

lemma take_records_Inr:
  "take_records X w I connector st cy rs = (st', Inr cy') \<Longrightarrow>
   st' = st\<lparr>st_quarantine := st_quarantine st @ refused X w I rs\<rparr>
   \<and> cy' = \<lparr>cy_quarantined = cy_quarantined cy + length (refused X w I rs),
            cy_valid = cy_valid cy @ accepted X w I (map (Pair connector) rs),
            cy_offsets = foldl note_offset (cy_offsets cy) rs\<rparr>"
proof (induction rs arbitrary: st cy)
  case (Cons r rs)
  obtain st1 cy1 where 1: "take_record X w I connector st cy r = (st1, Inr cy1)"
    and 2: "take_records X w I connector st1 cy1 rs = (st', Inr cy')"
    using Cons.prems by (auto split: prod.splits sum.splits)
  from Cons.IH [OF 2] take_record_Inr [OF 1] show ?case
    unfolding list.map refused_Cons [of X w I r rs]
      accepted_Cons [of X w I "(connector, r)" "map (Pair connector) rs"] by simp
qed simp

lemma poll_sources_Inr:
  "poll_sources X w I st cy ts = (ts', st', Inr cy') \<Longrightarrow>
   ts' = map (advance w) ts
   \<and> st' = st\<lparr>st_quarantine := st_quarantine st @ refused X w I (map snd (polled w ts))\<rparr>
   \<and> cy' = \<lparr>cy_quarantined = cy_quarantined cy + length (refused X w I (map snd (polled w ts))),
            cy_valid = cy_valid cy @ accepted X w I (polled w ts),
            cy_offsets = foldl note_offset (cy_offsets cy) (map snd (polled w ts))\<rparr>"
proof (induction ts arbitrary: st cy ts')
  case Nil
  then show ?case by (simp add: polled_def)
next
  case (Cons t ts)
  obtain t1 rs st1 cy1 ts1 where 1: "tail_poll t (w_view w (tail_path t)) = (t1, Inr rs)"
    and 2: "take_records X w I (tail_id t) st cy rs = (st1, Inr cy1)"
    and 3: "poll_sources X w I st1 cy1 ts = (ts1, st', Inr cy')" and ts': "ts' = t1 # ts1"
    using Cons.prems by (auto split: prod.splits sum.splits)
  have p: "polled w (t # ts) = map (Pair (tail_id t)) rs @ polled w ts" by (simp add: polled_def 1)
  have a: "advance w t = t1" by (simp add: advance_def 1)
  from Cons.IH [OF 3] take_records_Inr [OF 2] show ?case
    unfolding p ts' by (simp add: a comp_def)
qed

text \<open>Until the batch insert, a cycle writes to the quarantine only.\<close>

definition same_rows :: "store \<Rightarrow> store \<Rightarrow> bool" where
  "same_rows st st' \<longleftrightarrow> st_events st' = st_events st \<and> st_offsets st' = st_offsets st"

lemma same_rows_trans: "same_rows st st' \<Longrightarrow> same_rows st' st'' \<Longrightarrow> same_rows st st''"
  by (simp add: same_rows_def)

lemma same_rows_quarantine: "quarantine failed st q = (st', res) \<Longrightarrow> same_rows st st'"
  by (auto simp: quarantine_def same_rows_def split: sum.splits option.splits)

lemma same_rows_record: "take_record X w I connector st cy r = (st', res) \<Longrightarrow> same_rows st st'"
  by (auto simp: take_record_def quarantine_line_def Let_def dest: same_rows_quarantine
      split: sum.splits option.splits prod.splits if_splits) (simp_all add: same_rows_def)

lemma same_rows_records: "take_records X w I connector st cy rs = (st', res) \<Longrightarrow> same_rows st st'"
proof (induction rs arbitrary: st cy)
  case Nil
  then show ?case by (simp add: same_rows_def)
next
  case (Cons r rs)
  obtain st1 res1 where 1: "take_record X w I connector st cy r = (st1, res1)" by fastforce
  show ?case
  proof (cases res1)
    case (Inr cy1)
    with 1 Cons.prems have "take_records X w I connector st1 cy1 rs = (st', res)" by simp
    with Cons.IH same_rows_record [OF 1] same_rows_trans show ?thesis by blast
  qed (use 1 Cons.prems same_rows_record [OF 1] in simp)
qed

lemma same_rows_sources: "poll_sources X w I st cy ts = (ts', st', res) \<Longrightarrow> same_rows st st'"
proof (induction ts arbitrary: st cy ts')
  case Nil
  then show ?case by (simp add: same_rows_def)
next
  case (Cons t ts)
  obtain t1 res1 where 1: "tail_poll t (w_view w (tail_path t)) = (t1, res1)" by fastforce
  show ?case
  proof (cases res1)
    case Inl
    with 1 Cons.prems show ?thesis by (simp add: same_rows_def)
  next
    case (Inr rs)
    obtain st1 res2 where 2: "take_records X w I (tail_id t) st cy rs = (st1, res2)" by fastforce
    show ?thesis
    proof (cases res2)
      case (Inr cy1)
      with 1 2 \<open>res1 = Inr rs\<close> Cons.prems obtain ts1 where
        "poll_sources X w I st1 cy1 ts = (ts1, st', res)" by (auto split: prod.splits)
      with Cons.IH same_rows_records [OF 2] same_rows_trans show ?thesis by blast
    qed (use 1 2 \<open>res1 = Inr rs\<close> Cons.prems same_rows_records [OF 2] in simp)
  qed
qed

subsection \<open>Inserting a batch\<close>

lemma insert_rows_Inr:
  "insert_rows X rows n ces = Inr (rows', n') \<Longrightarrow>
   \<exists>new. rows' = rows @ new \<and> n' = n + length new
     \<and> list_all (\<lambda>row. \<exists>ce\<in>set ces. \<exists>i. row = row_of X i (pr_offset (ce_origin ce)) ce) new
     \<and> (\<forall>ce\<in>set ces. row_dedupe (row_of X 0 None ce) \<in> row_dedupe ` set rows')"
proof (induction ces arbitrary: rows n)
  case (Cons ce ces)
  obtain off where off: "opt_i64 (pr_offset (ce_origin ce)) = Inr off"
    using Cons.prems by (auto simp: ebind_Inr_iff)
  then have off_eq: "off = pr_offset (ce_origin ce)"
    by (auto simp: opt_i64_def to_i64_def ebind_Inr_iff split: option.splits if_splits)
  let ?row = "row_of X (next_row_id rows) off ce"
  have key: "row_dedupe (row_of X i o' ce) = row_dedupe ?row" for i o'
    by (simp add: row_of_def Let_def)
  show ?case
  proof (cases "row_dedupe ?row \<in> row_dedupe ` set rows")
    case True
    with Cons.prems off have "insert_rows X rows n ces = Inr (rows', n')"
      by (simp add: Let_def ebind_simps)
    from Cons.IH [OF this] obtain new where "rows' = rows @ new" and "n' = n + length new"
      and "list_all (\<lambda>row. \<exists>ce\<in>set ces. \<exists>i. row = row_of X i (pr_offset (ce_origin ce)) ce) new"
      and "\<forall>ce\<in>set ces. row_dedupe (row_of X 0 None ce) \<in> row_dedupe ` set rows'" by blast
    with True key [of 0 None] show ?thesis by (auto simp: list_all_iff)
  next
    case False
    with Cons.prems off have "insert_rows X (rows @ [?row]) (n + 1) ces = Inr (rows', n')"
      by (simp add: Let_def ebind_simps)
    from Cons.IH [OF this] obtain new where "rows' = rows @ ?row # new" and "n' = n + 1 + length new"
      and "list_all (\<lambda>row. \<exists>ce\<in>set ces. \<exists>i. row = row_of X i (pr_offset (ce_origin ce)) ce) new"
      and "\<forall>ce\<in>set ces. row_dedupe (row_of X 0 None ce) \<in> row_dedupe ` set rows'" by auto
    with off_eq key [of 0 None] show ?thesis
      by (intro exI [of _ "?row # new"]) (auto simp: list_all_iff)
  qed
qed simp

lemma insert_batch_Inr:
  assumes "insert_batch X failed st ces = (st', Inr n)"
  shows "\<exists>new. st' = st\<lparr>st_events := st_events st @ new\<rparr> \<and> n = length new
    \<and> list_all (\<lambda>row. \<exists>ce\<in>set ces. \<exists>i. row = row_of X i (pr_offset (ce_origin ce)) ce) new
    \<and> (\<forall>ce\<in>set ces. row_dedupe (row_of X 0 None ce) \<in> row_dedupe ` set (st_events st'))"
proof (cases "ces = []")
  case False
  with assms obtain rows where "insert_rows X (st_events st) 0 ces = Inr (rows, n)"
    and "st' = st\<lparr>st_events := rows\<rparr>"
    by (auto simp: insert_batch_def split: option.splits sum.splits prod.splits)
  with insert_rows_Inr [OF this(1)] show ?thesis by auto
qed (use assms in \<open>auto simp: insert_batch_def intro!: exI [of _ "[]"]\<close>)

lemma set_offset_frame:
  "st_events (fst (set_offset failed st f k i h)) = st_events st
   \<and> st_quarantine (fst (set_offset failed st f k i h)) = st_quarantine st"
  by (simp add: set_offset_def split: sum.split option.split)

lemma journal_offsets_frame:
  "st_events (fst (journal_offsets X w st os)) = st_events st
   \<and> st_quarantine (fst (journal_offsets X w st os)) = st_quarantine st"
proof (induction os arbitrary: st)
  case (Cons fk os)
  obtain f k where fk: "fk = (f, k)" by fastforce
  obtain st1 res where 1: "set_offset (w_store_error w (SetOffset f)) st f k (w_inode w f)
      (head_fingerprint X (w_view w f) k) = (st1, res)" by fastforce
  with set_offset_frame [of "w_store_error w (SetOffset f)" st f k "w_inode w f"
      "head_fingerprint X (w_view w f) k"]
  show ?case using Cons.IH [of st1] by (simp add: fk split: sum.split)
qed simp

subsection \<open>A cycle accounts for every line it read\<close>

lemma accepted_origin:
  "ce \<in> set (accepted X w I rs) \<Longrightarrow>
   \<exists>c r event version. (c, r) \<in> set rs \<and> verdict X I r = Inr (event, version)
     \<and> ce = console_event_of w I c r event version"
  by (force simp: accepted_def split: sum.splits)

lemma row_of_sel [simp]:
  "row_raw (row_of X i off ce) = ce_raw ce" "row_file (row_of X i off ce) = pr_file (ce_origin ce)"
  "row_off (row_of X i off ce) = off" "row_agent_id (row_of X i off ce) = ev_agent_id (ce_event ce)"
  "row_schema (row_of X i off ce) = ev_schema (ce_event ce)"
  "row_source (row_of X i off ce) = ev_source (ce_event ce)"
  "row_dedupe (row_of X i off ce) =
     dedupe_key X (pr_env (ce_origin ce)) (pr_file (ce_origin ce)) (pr_offset (ce_origin ce)) (ce_raw ce)"
  by (simp_all add: row_of_def Let_def)

lemma poll_once_frame:
  "poll_once X w I = (I', res) \<Longrightarrow> ing_env I' = ing_env I \<and> ing_pinned I' = ing_pinned I"
  by (auto simp: poll_once_def split: prod.splits sum.splits)

lemma poll_once_Inr:
  assumes "poll_once X w I = (I', Inr stats)"
  shows "ing_sources I' = map (advance w) (ing_sources I)
    \<and> st_quarantine (ing_store I') =
        st_quarantine (ing_store I) @ refused X w I (map snd (polled w (ing_sources I)))
    \<and> quarantined stats = length (refused X w I (map snd (polled w (ing_sources I))))
    \<and> ing_sent I' = ing_sent I @ accepted X w I (polled w (ing_sources I))
    \<and> (\<exists>new st. insert_batch X (w_store_error w InsertBatch)
          ((ing_store I)\<lparr>st_quarantine := st_quarantine (ing_store I)
             @ refused X w I (map snd (polled w (ing_sources I)))\<rparr>)
          (accepted X w I (polled w (ing_sources I))) = (st, Inr (inserted stats))
        \<and> (ing_store I', Inr ()) =
            journal_offsets X w st (foldl note_offset [] (map snd (polled w (ing_sources I))))
        \<and> st_events (ing_store I') = st_events st)"
proof -
  obtain ts st0 cy where 1: "poll_sources X w I (ing_store I)
      \<lparr>cy_quarantined = 0, cy_valid = [], cy_offsets = []\<rparr> (ing_sources I) = (ts, st0, Inr cy)"
    using assms by (auto simp: poll_once_def split: prod.splits sum.splits)
  obtain st1 k where 2: "insert_batch X (w_store_error w InsertBatch) st0 (cy_valid cy) = (st1, Inr k)"
    using assms 1 by (auto simp: poll_once_def split: prod.splits sum.splits)
  obtain st2 where 3: "journal_offsets X w st1 (cy_offsets cy) = (st2, Inr ())"
    using assms 1 2 by (auto simp: poll_once_def split: prod.splits sum.splits)
  have I': "I' = I\<lparr>ing_sources := ts, ing_store := st2, ing_sent := ing_sent I @ cy_valid cy\<rparr>"
    and stats: "stats = \<lparr>inserted = k, quarantined = cy_quarantined cy\<rparr>"
    using assms 1 2 3 by (auto simp: poll_once_def)
  have "st_quarantine st1 = st_quarantine st0" using insert_batch_Inr [OF 2] by auto
  then show ?thesis
    using poll_sources_Inr [OF 1] 2 3 journal_offsets_frame [of X w st1 "cy_offsets cy"]
    by (auto simp: I' stats)
qed

text \<open>A cycle that succeeds accounts for every line it read. Each line is either refused, and
  then appended to the quarantine with its file, offset, text and reason, or accepted; the two make up
  all lines read. The new rows of the event table come from accepted lines only, every accepted line
  has a row under its dedupe key afterwards, the two counts reported are the numbers of rows really
  written, and every accepted event is broadcast.\<close>

theorem poll_cycle_accounts:
  assumes "poll_once X w I = (I', Inr stats)"
  shows "let rs = polled w (ing_sources I) in
    st_quarantine (ing_store I') = st_quarantine (ing_store I) @ refused X w I (map snd rs)
    \<and> quarantined stats = length (refused X w I (map snd rs))
    \<and> length (refused X w I (map snd rs)) + length (accepted X w I rs) = length rs
    \<and> take (length (st_events (ing_store I))) (st_events (ing_store I')) = st_events (ing_store I)
    \<and> length (st_events (ing_store I')) = length (st_events (ing_store I)) + inserted stats
    \<and> list_all (\<lambda>row. list_ex (\<lambda>ce. row_raw row = ce_raw ce \<and> row_file row = pr_file (ce_origin ce)
          \<and> row_off row = pr_offset (ce_origin ce)) (accepted X w I rs))
        (drop (length (st_events (ing_store I))) (st_events (ing_store I')))
    \<and> list_all (\<lambda>ce. dedupe_key X (ing_env I) (pr_file (ce_origin ce)) (pr_offset (ce_origin ce)) (ce_raw ce)
          \<in> row_dedupe ` set (st_events (ing_store I'))) (accepted X w I rs)
    \<and> ing_sent I' = ing_sent I @ accepted X w I rs"
proof -
  let ?rs = "polled w (ing_sources I)"
  let ?acc = "accepted X w I ?rs"
  note P = poll_once_Inr [OF assms]
  obtain st where ib: "insert_batch X (w_store_error w InsertBatch)
          ((ing_store I)\<lparr>st_quarantine := st_quarantine (ing_store I) @ refused X w I (map snd ?rs)\<rparr>)
          ?acc = (st, Inr (inserted stats))" and ev: "st_events (ing_store I') = st_events st"
    using P by auto
  obtain new where new: "st_events st = st_events (ing_store I) @ new" "inserted stats = length new"
    "list_all (\<lambda>row. \<exists>ce\<in>set ?acc. \<exists>i. row = row_of X i (pr_offset (ce_origin ce)) ce) new"
    "\<forall>ce\<in>set ?acc. row_dedupe (row_of X 0 None ce) \<in> row_dedupe ` set (st_events st)"
    using insert_batch_Inr [OF ib] by auto
  have env: "pr_env (ce_origin ce) = ing_env I" if "ce \<in> set ?acc" for ce
    using accepted_origin [OF that] by (auto simp: console_event_of_def)
  have keys: "list_all (\<lambda>ce. dedupe_key X (ing_env I) (pr_file (ce_origin ce)) (pr_offset (ce_origin ce)) (ce_raw ce)
          \<in> row_dedupe ` set (st_events (ing_store I'))) ?acc"
    using new(4) env unfolding list_all_iff ev by simp
  have rows: "list_all (\<lambda>row. list_ex (\<lambda>ce. row_raw row = ce_raw ce \<and> row_file row = pr_file (ce_origin ce)
          \<and> row_off row = pr_offset (ce_origin ce)) ?acc) new"
    using new(3) unfolding list_all_iff list_ex_iff by (metis row_of_sel(1-3))
  show ?thesis
    unfolding Let_def using P keys rows by (simp add: ev new(1,2) refused_accepted_partition)
qed

subsection \<open>What may ever be stored\<close>

definition row_lawful :: "(string, string) hmap \<Rightarrow> stored_row \<Rightarrow> bool" where
  "row_lawful pinned row \<longleftrightarrow>
     \<not> prefix CLAIMED_PREFIX (row_agent_id row)
   \<and> from_schema_str (row_schema row) \<noteq> None
   \<and> (case Option.bind (row_file row) (hm_get pinned) of None \<Rightarrow> True | Some s \<Rightarrow> row_source row = s)"

lemma accepted_lawful:
  assumes "decodes_members X" and "ce \<in> set (accepted X w I rs)"
  shows "row_lawful (ing_pinned I) (row_of X i off ce)"
proof -
  from assms(2) obtain r event version c where v: "verdict X I r = Inr (event, version)"
    and ce: "ce = console_event_of w I c r event version"
    using accepted_origin by blast
  from v have p: "parse_valid X (raw r) = Inr event" and pin: "\<not> pin_refuses I r event"
    by (auto simp: verdict_def split: sum.splits if_splits option.splits)
  from parse_valid_Inr [OF assms(1) p] pin show ?thesis
    by (auto simp: row_lawful_def ce console_event_of_def pin_refuses_def
        event_schema_version_def split: option.splits)
qed

text \<open>Failed or not, a cycle only appends rows, and only rows of accepted lines.\<close>

lemma poll_once_new_rows:
  assumes "poll_once X w I = (I', res)"
  shows "\<exists>new. st_events (ing_store I') = st_events (ing_store I) @ new
    \<and> list_all (\<lambda>row. \<exists>ce\<in>set (accepted X w I (polled w (ing_sources I))).
          \<exists>i. row = row_of X i (pr_offset (ce_origin ce)) ce) new"
proof -
  obtain ts st0 r1 where 1: "poll_sources X w I (ing_store I)
      \<lparr>cy_quarantined = 0, cy_valid = [], cy_offsets = []\<rparr> (ing_sources I) = (ts, st0, r1)"
    by (metis prod.exhaust)
  have e0: "st_events st0 = st_events (ing_store I)" using same_rows_sources [OF 1] by (simp add: same_rows_def)
  show ?thesis
  proof (cases r1)
    case Inl
    with 1 assms e0 show ?thesis by (auto simp: poll_once_def)
  next
    case (Inr cy)
    with poll_sources_Inr 1 have v: "cy_valid cy = accepted X w I (polled w (ing_sources I))" by fastforce
    obtain st1 r2 where 2: "insert_batch X (w_store_error w InsertBatch) st0 (cy_valid cy) = (st1, r2)"
      by fastforce
    have I': "st_events (ing_store I') = st_events st1"
      using assms 1 2 Inr journal_offsets_frame [of X w st1 "cy_offsets cy"]
      by (auto simp: poll_once_def split: sum.splits prod.splits)
    show ?thesis
    proof (cases r2)
      case Inl
      with 2 have "st1 = st0"
        by (auto simp: insert_batch_def split: if_splits option.splits sum.splits prod.splits)
      with I' e0 show ?thesis by simp
    next
      case (Inr k)
      from insert_batch_Inr [OF 2 [unfolded Inr]] show ?thesis unfolding I' e0 [symmetric] v by auto
    qed
  qed
qed

lemma poll_once_lawful:
  assumes "decodes_members X" and "poll_once X w I = (I', res)"
    and "list_all (row_lawful (ing_pinned I)) (st_events (ing_store I))"
  shows "list_all (row_lawful (ing_pinned I)) (st_events (ing_store I'))"
  using poll_once_new_rows [OF assms(2)] assms(3) accepted_lawful [OF assms(1)]
  by (fastforce simp: list_all_iff)

lemma poll_cycles_lawful:
  assumes "decodes_members X"
  shows "list_all (row_lawful (ing_pinned I)) (st_events (ing_store I)) \<Longrightarrow>
    list_all (row_lawful (ing_pinned I)) (st_events (ing_store (poll_cycles X I ws)))"
proof (induction ws arbitrary: I)
  case (Cons w ws)
  obtain I' res where 1: "poll_once X w I = (I', res)" by fastforce
  from poll_once_lawful [OF assms 1 Cons.prems] poll_once_frame [OF 1] Cons.IH [of I']
  show ?case by (simp add: 1)
qed simp

text \<open>Whatever cycles run, failed ones included, a stored row never names a claimed subject or an
  unknown schema, and a row read from a pinned stream carries that stream's own source.\<close>

theorem stored_rows_lawful:
  assumes "decodes_members X" and "st_events (ing_store I) = []"
  shows "list_all (row_lawful (ing_pinned I)) (st_events (ing_store (poll_cycles X I ws)))"
  using poll_cycles_lawful [OF assms(1)] assms(2) by simp

end
