(* ===== verification/IngestRuns.thy ===== *)
theory IngestRuns
  imports IngestLines
begin

section \<open>Ingest over time: growing files, restarts, and the lines that get lost\<close>

text \<open>
  Runs of poll cycles over the model of theory Ingest: a file that only grows is stored line by line,
  each line once and in order; a restart resumes where the journal says and re-reads a file that was
  replaced; and the two ways lines are lost for good, a source that fails in the same cycle and a
  line that is not UTF-8.
\<close>

subsection \<open>A growing file\<close>

fun growing :: "string \<Rightarrow> file_view list \<Rightarrow> bool" where
  "growing c [] \<longleftrightarrow> True"
| "growing c (Contents d # vs) \<longleftrightarrow> prefix c d \<and> growing d vs"
| "growing c (_ # vs) \<longleftrightarrow> growing c vs"

fun final :: "string \<Rightarrow> file_view list \<Rightarrow> string" where
  "final c [] = c"
| "final c (Contents d # vs) = final d vs"
| "final c (_ # vs) = final c vs"

lemma growing_final: "growing c vs \<Longrightarrow> prefix c (final c vs)"
  by (induction c vs rule: growing.induct) (auto intro: prefix_order.trans)

lemma split_lines_bounds:
  "(i, l) \<in> set (split_lines c p bs) \<Longrightarrow> c \<le> i \<and> i + length l < c + length p + length bs"
  by (induction c p bs rule: split_lines.induct) (force split: if_splits)+

lemma split_lines_distinct: "distinct (map fst (split_lines c p bs))"
  by (induction c p bs rule: split_lines.induct) (auto dest: split_lines_bounds)

definition accepts :: "ingest_lib \<Rightarrow> ingest \<Rightarrow> string \<Rightarrow> nat \<times> string \<Rightarrow> bool" where
  "accepts X I path ol = (case verdict X I (line_record path ol) of Inr _ \<Rightarrow> True | Inl _ \<Rightarrow> False)"

lemma verdict_cong:
  assumes "ing_pinned I' = ing_pinned I"
  shows "verdict X I' r = verdict X I r"
proof -
  have "pin_refuses I' r = pin_refuses I r" by (simp add: pin_refuses_def assms fun_eq_iff)
  then show ?thesis unfolding verdict_def by (simp split: sum.split)
qed

lemma accepts_cong:
  assumes "ing_pinned I' = ing_pinned I"
  shows "accepts X I' path = accepts X I path"
  unfolding accepts_def [abs_def] verdict_cong [OF assms] ..

definition line_key :: "ingest_lib \<Rightarrow> string \<Rightarrow> string \<Rightarrow> nat \<times> string \<Rightarrow> string" where
  "line_key X env path ol = dedupe_key X env (Some path) (Some (fst ol)) (from_utf8_lossy (snd ol))"

text \<open>The database takes the batch and the quarantined lines of the file.\<close>

definition takes_lines :: "string \<Rightarrow> poll_world \<Rightarrow> bool" where
  "takes_lines path w \<longleftrightarrow> w_store_error w InsertBatch = None
     \<and> (\<forall>off. w_store_error w (QuarantineLine (Some path) off) = None)"

lemma take_records_ok:
  assumes "decodes_members X" and "takes_lines path w"
  shows "list_all (\<lambda>ol. fst ol < 2 ^ 63) ols \<Longrightarrow>
    \<exists>st' cy'. take_records X w I connector st cy (map (line_record path) ols) = (st', Inr cy')"
proof (induction ols arbitrary: st cy)
  case (Cons ol ols)
  have off: "opt_i64 (rec_offset (line_record path ol)) = Inr (Some (fst ol))"
    using Cons.prems by (simp add: line_record_def opt_i64_def to_i64_def ebind_simps)
  have q: "\<exists>st1 cy1. quarantine_line w I s y (line_record path ol) reason = (st1, Inr cy1)" for s y reason
    using off assms(2) by (simp add: quarantine_line_def quarantine_def takes_lines_def line_record_def)
  have "\<exists>st1 cy1. take_record X w I connector st cy (line_record path ol) = (st1, Inr cy1)"
  proof (cases "parse_valid X (raw (line_record path ol))")
    case (Inl report)
    then have "take_record X w I connector st cy (line_record path ol) =
        quarantine_line w I st (cy\<lparr>cy_offsets := note_offset (cy_offsets cy) (line_record path ol)\<rparr>)
          (line_record path ol)
          (if rep_errors report = [] then ''conformance failed'' else join ''; '' (rep_errors report))"
      by (simp add: take_record_def Let_def)
    with q show ?thesis by metis
  next
    case (Inr event)
    with parse_valid_Inr [OF assms(1) Inr] show ?thesis using q
      by (cases "pin_refuses I (line_record path ol) event") (auto simp: take_record_def Let_def)
  qed
  then obtain st1 cy1 where "take_record X w I connector st cy (line_record path ol) = (st1, Inr cy1)"
    by blast
  with Cons show ?case by simp
qed simp

abbreviation ce_key :: "ingest_lib \<Rightarrow> console_event \<Rightarrow> string" where
  "ce_key X ce \<equiv> row_dedupe (row_of X 0 None ce)"

lemma insert_rows_fresh:
  "list_all (\<lambda>ce. opt_i64 (pr_offset (ce_origin ce)) = Inr (pr_offset (ce_origin ce))) ces \<Longrightarrow>
   distinct (map (ce_key X) ces) \<Longrightarrow> set (map (ce_key X) ces) \<inter> row_dedupe ` set rows = {} \<Longrightarrow>
   \<exists>new. insert_rows X rows n ces = Inr (rows @ new, n + length ces)
     \<and> map (\<lambda>row. (row_off row, row_raw row, row_dedupe row)) new =
       map (\<lambda>ce. (pr_offset (ce_origin ce), ce_raw ce, ce_key X ce)) ces"
proof (induction ces arbitrary: rows n)
  case (Cons ce ces)
  let ?row = "row_of X (next_row_id rows) (pr_offset (ce_origin ce)) ce"
  have "\<exists>new. insert_rows X (rows @ [?row]) (n + 1) ces = Inr ((rows @ [?row]) @ new, n + 1 + length ces)
     \<and> map (\<lambda>row. (row_off row, row_raw row, row_dedupe row)) new =
       map (\<lambda>ce. (pr_offset (ce_origin ce), ce_raw ce, ce_key X ce)) ces"
    using Cons.prems by (intro Cons.IH) auto
  then obtain new where
    "insert_rows X (rows @ [?row]) (n + 1) ces = Inr (rows @ ?row # new, n + length (ce # ces))"
    "map (\<lambda>row. (row_off row, row_raw row, row_dedupe row)) new =
       map (\<lambda>ce. (pr_offset (ce_origin ce), ce_raw ce, ce_key X ce)) ces" by auto
  moreover have "row_dedupe ?row \<notin> row_dedupe ` set rows" using Cons.prems(3) by auto
  ultimately show ?case using Cons.prems(1)
    by (intro exI [of _ "?row # new"]) (auto simp: Let_def ebind_simps)
qed simp

lemma accepted_lines:
  "map (\<lambda>ce. (pr_offset (ce_origin ce), ce_raw ce, ce_key X ce))
     (accepted X w I (map (Pair i) (map (line_record path) ols))) =
   map (\<lambda>ol. (Some (fst ol), from_utf8_lossy (snd ol), line_key X (ing_env I) path ol))
     (filter (accepts X I path) ols)"
  by (induction ols)
    (auto simp: accepted_def accepts_def console_event_of_def line_record_def line_key_def split: sum.splits)

lemma refused_lines:
  "map (\<lambda>q. (q_off q, q_raw q)) (refused X w I (map (line_record path) ols)) =
   map (\<lambda>ol. (Some (fst ol), from_utf8_lossy (snd ol))) (filter (\<lambda>ol. \<not> accepts X I path ol) ols)"
  by (induction ols) (auto simp: refused_def accepts_def line_record_def split: sum.splits)

text \<open>What holds of a service that tails one file, once the contents \<open>c\<close> have been read.\<close>

definition caught_up :: "ingest_lib \<Rightarrow> ingest \<Rightarrow> string \<Rightarrow> string \<Rightarrow> string \<Rightarrow> ingest \<Rightarrow> bool" where
  "caught_up X I0 i path c I \<longleftrightarrow>
     ing_sources I = [file_tail_new i path (consumed c)]
   \<and> ing_env I = ing_env I0 \<and> ing_pinned I = ing_pinned I0
   \<and> map (\<lambda>row. (row_off row, row_raw row, row_dedupe row)) (st_events (ing_store I)) =
       map (\<lambda>ol. (Some (fst ol), from_utf8_lossy (snd ol), line_key X (ing_env I0) path ol))
         (filter (accepts X I0 path) (split_lines 0 [] c))
   \<and> map (\<lambda>q. (q_off q, q_raw q)) (st_quarantine (ing_store I)) =
       map (\<lambda>ol. (Some (fst ol), from_utf8_lossy (snd ol)))
         (filter (\<lambda>ol. \<not> accepts X I0 path ol) (split_lines 0 [] c))"

lemma poll_once_idle:
  assumes "ing_sources I = [t]" and "\<forall>c. w_view w (tail_path t) \<noteq> Contents c"
  shows "ing_sources (fst (poll_once X w I)) = [t] \<and> ing_store (fst (poll_once X w I)) = ing_store I"
  using assms(2) by (cases "w_view w (tail_path t)")
    (simp_all add: poll_once_def assms(1) tail_poll_def insert_batch_def)

lemma poll_once_grown:
  assumes "decodes_members X" and "takes_lines path w" and "w_view w path = Contents (c @ e)"
    and "length (c @ e) < 2 ^ 63" and "inj_on (line_key X (ing_env I0) path) (set (split_lines 0 [] (c @ e)))"
    and "caught_up X I0 i path c I"
  shows "caught_up X I0 i path (c @ e) (fst (poll_once X w I))"
proof -
  let ?t = "file_tail_new i path (consumed c)"
  let ?ols = "split_lines (consumed c) [] (drop (consumed c) (c @ e))"
  let ?rs = "map (line_record path) ?ols"
  let ?acc = "accepted X w I (map (Pair i) ?rs)"
  note cu = assms(6) [unfolded caught_up_def]
  have sources: "ing_sources I = [?t]" and env: "ing_env I = ing_env I0" and pin: "ing_pinned I = ing_pinned I0"
    using cu by auto
  have all: "split_lines 0 [] (c @ e) = split_lines 0 [] c @ ?ols" by (rule split_lines_resume)
  have tp: "tail_poll ?t (Contents (c @ e)) = (file_tail_new i path (consumed (c @ e)), Inr ?rs)"
    using tail_poll_grown [of ?t c e] by (simp add: file_tail_new_def)
  have bound: "fst ol < 2 ^ 63" if "ol \<in> set (split_lines 0 [] (c @ e))" for ol
    using split_lines_bounds [of "fst ol" "snd ol" 0 "[]" "c @ e"] that assms(4) by simp
  then have "list_all (\<lambda>ol. fst ol < 2 ^ 63) ?ols" unfolding all list_all_iff by simp
  from take_records_ok [OF assms(1,2) this] obtain st1 cy1 where
    tr: "take_records X w I i (ing_store I) \<lparr>cy_quarantined = 0, cy_valid = [], cy_offsets = []\<rparr> ?rs
      = (st1, Inr cy1)" by blast
  from take_records_Inr [OF tr] have st1: "st1 = (ing_store I)\<lparr>st_quarantine :=
      st_quarantine (ing_store I) @ refused X w I ?rs\<rparr>" and valid: "cy_valid cy1 = ?acc" by simp_all
  have acc: "map (\<lambda>ce. (pr_offset (ce_origin ce), ce_raw ce, ce_key X ce)) ?acc =
      map (\<lambda>ol. (Some (fst ol), from_utf8_lossy (snd ol), line_key X (ing_env I0) path ol))
        (filter (accepts X I0 path) ?ols)"
    using accepted_lines [of X w I i path ?ols] env accepts_cong [OF pin] by simp
  from arg_cong [OF acc, of "map (snd \<circ> snd)"] have keys: "map (ce_key X) ?acc =
      map (line_key X (ing_env I0) path) (filter (accepts X I0 path) ?ols)" by (simp add: comp_def)
  from arg_cong [OF acc, of "map fst"] have offs: "map (\<lambda>ce. pr_offset (ce_origin ce)) ?acc =
      map (Some \<circ> fst) (filter (accepts X I0 path) ?ols)" by (simp add: comp_def)
  have dist: "distinct (map (line_key X (ing_env I0) path) (split_lines 0 [] (c @ e)))"
    using split_lines_distinct [of 0 "[]" "c @ e"] assms(5) by (simp add: distinct_map)
  have stored: "row_dedupe ` set (st_events (ing_store I)) =
      line_key X (ing_env I0) path ` set (filter (accepts X I0 path) (split_lines 0 [] c))"
    using cu [THEN conjunct2, THEN conjunct2, THEN conjunct2, THEN conjunct1,
        THEN arg_cong, of "\<lambda>l. (snd \<circ> snd) ` set l"] by (simp add: image_image)
  have "\<exists>new. insert_rows X (st_events (ing_store I)) 0 ?acc =
      Inr (st_events (ing_store I) @ new, 0 + length ?acc)
    \<and> map (\<lambda>row. (row_off row, row_raw row, row_dedupe row)) new =
      map (\<lambda>ce. (pr_offset (ce_origin ce), ce_raw ce, ce_key X ce)) ?acc"
  proof (rule insert_rows_fresh)
    have "pr_offset (ce_origin ce) \<in> Some ` fst ` set ?ols" if "ce \<in> set ?acc" for ce
      using arg_cong [OF offs, of set] that by (auto simp: image_iff)
    with bound show "list_all (\<lambda>ce. opt_i64 (pr_offset (ce_origin ce)) = Inr (pr_offset (ce_origin ce))) ?acc"
      unfolding list_all_iff all by (force simp: opt_i64_def to_i64_def ebind_simps)
    show "distinct (map (ce_key X) ?acc)"
      using dist unfolding keys all by (simp add: distinct_map_filter)
    show "set (map (ce_key X) ?acc) \<inter> row_dedupe ` set (st_events (ing_store I)) = {}"
      using dist unfolding keys stored all by auto
  qed
  then obtain new where new: "insert_rows X (st_events (ing_store I)) 0 ?acc =
      Inr (st_events (ing_store I) @ new, length ?acc)"
    "map (\<lambda>row. (row_off row, row_raw row, row_dedupe row)) new =
      map (\<lambda>ce. (pr_offset (ce_origin ce), ce_raw ce, ce_key X ce)) ?acc" by auto
  obtain st2 n where ib: "insert_batch X (w_store_error w InsertBatch) st1 (cy_valid cy1) = (st2, Inr n)"
    and st2: "st_events st2 = st_events (ing_store I) @ new" "st_quarantine st2 = st_quarantine st1"
    using new assms(2) unfolding valid by (cases "?acc = []") (auto simp: insert_batch_def st1 takes_lines_def)
  have frame: "ing_sources (fst (poll_once X w I)) = [file_tail_new i path (consumed (c @ e))]
    \<and> ing_env (fst (poll_once X w I)) = ing_env I \<and> ing_pinned (fst (poll_once X w I)) = ing_pinned I
    \<and> st_events (ing_store (fst (poll_once X w I))) = st_events st2
    \<and> st_quarantine (ing_store (fst (poll_once X w I))) = st_quarantine st2"
    using assms(3) tp tr ib journal_offsets_frame [of X w st2 "cy_offsets cy1"]
    by (auto simp: poll_once_def sources file_tail_new_def split: prod.split sum.split)
  have es: "map (\<lambda>row. (row_off row, row_raw row, row_dedupe row)) new =
      map (\<lambda>ol. (Some (fst ol), from_utf8_lossy (snd ol), line_key X (ing_env I0) path ol))
        (filter (accepts X I0 path) ?ols)" by (rule trans [OF new(2) acc])
  have qs: "map (\<lambda>q. (q_off q, q_raw q)) (refused X w I ?rs) =
      map (\<lambda>ol. (Some (fst ol), from_utf8_lossy (snd ol))) (filter (\<lambda>ol. \<not> accepts X I0 path ol) ?ols)"
    using refused_lines [of X w I path ?ols] unfolding accepts_cong [OF pin] .
  have q: "st_quarantine st2 = st_quarantine (ing_store I) @ refused X w I ?rs" by (simp add: st2 st1)
  show ?thesis
    unfolding caught_up_def all filter_append map_append using frame cu
    by (intro conjI) (simp_all only: st2(1) q map_append es qs)
qed

lemma poll_cycles_caught_up:
  assumes "decodes_members X" and "length (final c (map (\<lambda>w. w_view w path) ws)) < 2 ^ 63"
    and "inj_on (line_key X (ing_env I0) path) (set (split_lines 0 [] (final c (map (\<lambda>w. w_view w path) ws))))"
  shows "growing c (map (\<lambda>w. w_view w path) ws) \<Longrightarrow> list_all (takes_lines path) ws \<Longrightarrow>
    caught_up X I0 i path c I \<Longrightarrow>
    caught_up X I0 i path (final c (map (\<lambda>w. w_view w path) ws)) (poll_cycles X I ws)"
  using assms(2,3)
proof (induction ws arbitrary: c I)
  case (Cons w ws)
  show ?case
  proof (cases "\<exists>d. w_view w path = Contents d")
    case True
    then obtain d where d: "w_view w path = Contents d" by blast
    with Cons.prems(1) obtain e where e: "d = c @ e" and "growing d (map (\<lambda>w. w_view w path) ws)"
      by (auto simp: prefix_def)
    from growing_final [OF this(2)] obtain z where
      z: "final d (map (\<lambda>w. w_view w path) ws) = (c @ e) @ z" by (auto simp: prefix_def e)
    have "length (c @ e) < 2 ^ 63" using Cons.prems(4) by (simp add: d z)
    moreover have "inj_on (line_key X (ing_env I0) path) (set (split_lines 0 [] (c @ e)))"
      using Cons.prems(5) unfolding list.map d final.simps z split_lines_resume [of "c @ e" z]
      by (rule inj_on_subset) simp
    ultimately have "caught_up X I0 i path (c @ e) (fst (poll_once X w I))"
      using poll_once_grown [OF assms(1) _ d [unfolded e]] Cons.prems(2,3) by simp
    with Cons.IH [of d] Cons.prems \<open>growing d _\<close> show ?thesis by (simp add: d e)
  next
    case False
    then have "caught_up X I0 i path c (fst (poll_once X w I))"
      using poll_once_idle [of I "file_tail_new i path (consumed c)" w X] Cons.prems(3)
        poll_once_frame [of X w I]
      by (auto simp: caught_up_def file_tail_new_def) (metis prod.exhaust_sel)+
    with False Cons show ?thesis by (cases "w_view w path") auto
  qed
qed simp

text \<open>C10. A file that only grows is ingested exactly, however its appends fall between the polls and
  however often it is missing or unreadable in between. The event table holds the accepted lines among
  the complete lines of the file, each once, in order, with the offset it begins at; the quarantine
  holds the others in the same way; the unfinished line at the end is in neither. The only
  assumption about the hash is that no two lines of this file collide.\<close>

theorem growing_file_ingested_exactly:
  assumes "decodes_members X"
    and "ing_sources I = [file_tail_new i path 0]"
    and "st_events (ing_store I) = []" and "st_quarantine (ing_store I) = []"
    and "growing [] (map (\<lambda>w. w_view w path) ws)" and "list_all (takes_lines path) ws"
    and "final [] (map (\<lambda>w. w_view w path) ws) = unlines ls @ rest"
    and "list_all (\<lambda>l. LF \<notin> set l) ls" and "LF \<notin> set rest"
    and "length (unlines ls @ rest) < 2 ^ 63"
    and "inj_on (line_key X (ing_env I) path) (set (numbered 0 ls))"
  shows "let st = ing_store (poll_cycles X I ws) in
    map (\<lambda>row. (row_off row, row_raw row)) (st_events st) =
      map (\<lambda>ol. (Some (fst ol), from_utf8_lossy (snd ol))) (filter (accepts X I path) (numbered 0 ls))
    \<and> map (\<lambda>q. (q_off q, q_raw q)) (st_quarantine st) =
      map (\<lambda>ol. (Some (fst ol), from_utf8_lossy (snd ol)))
        (filter (\<lambda>ol. \<not> accepts X I path ol) (numbered 0 ls))"
proof -
  note lines = split_lines_unlines [OF assms(8,9)]
  have "caught_up X I i path [] I" using assms(2-4) by (simp add: caught_up_def consumed_def)
  from poll_cycles_caught_up [OF assms(1) _ _ assms(5,6) this]
  have cu: "caught_up X I i path (unlines ls @ rest) (poll_cycles X I ws)"
    using assms(10,11) unfolding assms(7) lines by blast
  then have "map (\<lambda>row. (row_off row, row_raw row, row_dedupe row)) (st_events (ing_store (poll_cycles X I ws))) =
      map (\<lambda>ol. (Some (fst ol), from_utf8_lossy (snd ol), line_key X (ing_env I) path ol))
         (filter (accepts X I path) (numbered 0 ls))" by (simp add: caught_up_def lines)
  from arg_cong [OF this, of "map (\<lambda>(x, y, z). (x, y))"] cu show ?thesis
    by (simp add: caught_up_def lines comp_def)
qed

subsection \<open>A source that fails takes the lines of the others with it\<close>

lemma poll_sources_first:
  "poll_sources X w I st cy (t # ts) = (ts', st', res) \<Longrightarrow>
   \<exists>ts1. ts' = advance w t # ts1 \<and> map tail_path ts1 = map tail_path ts"
proof -
  have path: "tail_path (fst (tail_poll u v)) = tail_path u" for u v
    by (cases v) (auto simp: tail_poll_def Let_def split: prod.split)
  have "map tail_path (fst (poll_sources X w I s y us)) = map tail_path us" for s y us
    by (induction us arbitrary: s y) (auto split: prod.split sum.split, (metis path fst_conv)+)
  then show "poll_sources X w I st cy (t # ts) = (ts', st', res) \<Longrightarrow> ?thesis"
    by (auto simp: advance_def split: prod.splits sum.splits) (metis fst_conv)
qed

lemma poll_once_first:
  assumes "ing_sources I = t # ts"
  shows "\<exists>ts1. ing_sources (fst (poll_once X w I)) = advance w t # ts1 \<and> map tail_path ts1 = map tail_path ts"
proof -
  obtain ts' st' res where 1: "poll_sources X w I (ing_store I)
      \<lparr>cy_quarantined = 0, cy_valid = [], cy_offsets = []\<rparr> (ing_sources I) = (ts', st', res)"
    by (metis prod.exhaust)
  have "ing_sources (fst (poll_once X w I)) = ts'"
    by (auto simp: poll_once_def 1 split: prod.split sum.split)
  with poll_sources_first [OF 1 [unfolded assms]] show ?thesis by simp
qed

lemma in_polled:
  "(i, r) \<in> set (polled w ts) \<longleftrightarrow>
   (\<exists>t\<in>set ts. \<exists>rs. snd (tail_poll t (w_view w (tail_path t))) = Inr rs \<and> r \<in> set rs \<and> i = tail_id t)"
proof (induction ts)
  case (Cons t ts)
  then show ?case by (cases "snd (tail_poll t (w_view w (tail_path t)))") (auto simp: polled_def)
qed (simp add: polled_def)

lemma tail_scan_file: "q \<in> set (fst (tail_scan key buf bs s c)) \<Longrightarrow> rec_file q = Some key"
  by (induction key buf bs s c rule: tail_scan.induct) (force simp: Let_def split: prod.splits if_splits)+

lemma tail_poll_file: "snd (tail_poll t view) = Inr rs \<Longrightarrow> r \<in> set rs \<Longrightarrow> rec_file r = Some (tail_path t)"
  by (auto simp: tail_poll_def Let_def split: file_view.splits if_splits prod.splits)
    (metis tail_scan_file fst_conv)+

text \<open>Every row of \<open>path\<close> that is not among \<open>old\<close> begins at \<open>k\<close> or later.\<close>

definition none_before :: "string \<Rightarrow> nat \<Rightarrow> stored_row list \<Rightarrow> stored_row list \<Rightarrow> bool" where
  "none_before path k old rows \<longleftrightarrow>
     list_all (\<lambda>row. row_file row = Some path \<longrightarrow> (\<exists>j\<ge>k. row_off row = Some j)) (drop (length old) rows)
   \<and> prefix old rows"

lemma poll_once_none_before:
  assumes "ing_sources I = file_tail_new i path (consumed c) # ts" and "path \<notin> tail_path ` set ts"
    and "growing c [w_view w path]" and "k \<le> consumed c" and "none_before path k old (st_events (ing_store I))"
  shows "none_before path k old (st_events (ing_store (fst (poll_once X w I))))"
proof -
  obtain new where new: "st_events (ing_store (fst (poll_once X w I))) = st_events (ing_store I) @ new"
    "list_all (\<lambda>row. \<exists>ce\<in>set (accepted X w I (polled w (ing_sources I))).
          \<exists>i. row = row_of X i (pr_offset (ce_origin ce)) ce) new"
    using poll_once_new_rows [of X w I "fst (poll_once X w I)" "snd (poll_once X w I)"] by auto
  have "\<exists>j\<ge>k. row_off row = Some j" if row: "row \<in> set new" "row_file row = Some path" for row
  proof -
    from row(1) new(2) obtain ce where ce: "ce \<in> set (accepted X w I (polled w (ing_sources I)))"
      "\<exists>i. row = row_of X i (pr_offset (ce_origin ce)) ce" unfolding list_all_iff by blast
    from accepted_origin [OF ce(1)] obtain a r where r: "(a, r) \<in> set (polled w (ing_sources I))"
      "row_file row = rec_file r" "row_off row = rec_offset r"
      using ce(2) by (auto simp: console_event_of_def)
    from r(1) obtain t rs where t: "t \<in> set (ing_sources I)"
      "snd (tail_poll t (w_view w (tail_path t))) = Inr rs" "r \<in> set rs" by (auto simp: in_polled)
    have "tail_path t = path" using tail_poll_file [OF t(2,3)] row(2) r(2) by simp
    with t(1) assms(1,2) have t': "t = file_tail_new i path (consumed c)" by auto
    show ?thesis
    proof (cases "w_view w path")
      case (Contents z)
      with assms(3) obtain d where "z = c @ d" by (auto simp: prefix_def)
      then have "rs = map (line_record path) (split_lines (consumed c) [] (drop (consumed c) (c @ d)))"
        using t(2) tail_poll_grown [of t c d] Contents unfolding t' by (simp add: file_tail_new_def)
      with t(3) obtain ol where "r = line_record path ol"
        "ol \<in> set (split_lines (consumed c) [] (drop (consumed c) (c @ d)))" by auto
      with split_lines_bounds [of "fst ol" "snd ol" "consumed c"] assms(4) r(3) show ?thesis
        by (force simp: line_record_def)
    qed (use t(2,3) in \<open>simp_all add: t' file_tail_new_def tail_poll_def\<close>)
  qed
  with assms(5) new(1) show ?thesis
    by (auto simp: none_before_def list_all_iff prefix_def)
qed

lemma advance_grown:
  "growing c [v] \<Longrightarrow> fst (tail_poll (file_tail_new i path (consumed c)) v) = file_tail_new i path (consumed (final c [v]))"
  using tail_poll_grown [of "file_tail_new i path (consumed c)" c]
  by (cases v) (auto simp: prefix_def file_tail_new_def tail_poll_def)

lemma poll_cycles_none_before:
  "ing_sources I = file_tail_new i path (consumed c) # ts \<Longrightarrow> path \<notin> tail_path ` set ts \<Longrightarrow>
   growing c (map (\<lambda>w. w_view w path) ws) \<Longrightarrow> k \<le> consumed c \<Longrightarrow>
   none_before path k old (st_events (ing_store I)) \<Longrightarrow>
   none_before path k old (st_events (ing_store (poll_cycles X I ws)))"
proof (induction ws arbitrary: I c ts)
  case (Cons w ws)
  let ?c' = "final c [w_view w path]"
  have g: "growing c [w_view w path]" "growing ?c' (map (\<lambda>w. w_view w path) ws)"
    using Cons.prems(3) by (cases "w_view w path"; simp)+
  obtain ts1 where s: "ing_sources (fst (poll_once X w I)) = file_tail_new i path (consumed ?c') # ts1"
    "map tail_path ts1 = map tail_path ts"
    using poll_once_first [OF Cons.prems(1), of X w] advance_grown [OF g(1), of i path]
    by (auto simp: advance_def) (simp add: file_tail_new_def)
  have "path \<notin> tail_path ` set ts1" using s(2) Cons.prems(2) by (metis list.set_map)
  moreover have "consumed c \<le> consumed ?c'"
  proof -
    from growing_final [OF g(1)] obtain e where "?c' = c @ e" by (auto simp: prefix_def)
    moreover have "length (unfinished [] (c @ e)) \<le> length (unfinished [] c) + length e"
      unfolding unfinished_append by (rule length_unfinished)
    ultimately show ?thesis by (simp add: consumed_def)
  qed
  ultimately show ?case
    using Cons.IH [OF s(1) _ g(2)] poll_once_none_before [OF Cons.prems(1,2) g(1) Cons.prems(4,5)] Cons.prems(4)
    by simp
qed simp

text \<open>One source that cannot be read costs the other sources their lines. When a later source
  fails, the cycle stores nothing, but the tail of the first file has already moved past the lines it
  read; the feeder logs the error and goes on, and no later cycle of this service stores any of those
  lines.\<close>

theorem failing_source_loses_lines:
  assumes "ing_sources I = [file_tail_new i path (consumed c), b]" and "tail_path b \<noteq> path"
    and "w_view w path = Contents (c @ e)" and "w_view w (tail_path b) = Unreadable err"
    and "decodes_members X" and "takes_lines path w" and "length (c @ e) < 2 ^ 63"
    and "growing (c @ e) (map (\<lambda>w. w_view w path) ws)"
  shows "snd (poll_once X w I) = Inl (Io err)
    \<and> list_all (\<lambda>row. row_file row = Some path \<longrightarrow> (\<exists>j\<ge>consumed (c @ e). row_off row = Some j))
        (drop (length (st_events (ing_store I))) (st_events (ing_store (poll_cycles X I (w # ws)))))"
proof -
  let ?t = "file_tail_new i path (consumed c)"
  let ?ols = "split_lines (consumed c) [] (drop (consumed c) (c @ e))"
  have tp: "tail_poll ?t (Contents (c @ e)) =
      (file_tail_new i path (consumed (c @ e)), Inr (map (line_record path) ?ols))"
    using tail_poll_grown [of ?t c e] by (simp add: file_tail_new_def)
  have "fst ol < 2 ^ 63" if "ol \<in> set (split_lines 0 [] (c @ e))" for ol
    using split_lines_bounds [of "fst ol" "snd ol" 0 "[]" "c @ e"] that assms(7) by simp
  then have "list_all (\<lambda>ol. fst ol < 2 ^ 63) ?ols" unfolding split_lines_resume list_all_iff by simp
  from take_records_ok [OF assms(5,6) this] obtain st1 cy1 where
    tr: "take_records X w I i (ing_store I) \<lparr>cy_quarantined = 0, cy_valid = [], cy_offsets = []\<rparr>
      (map (line_record path) ?ols) = (st1, Inr cy1)" by blast
  have b: "tail_poll b (Unreadable err) = (b, Inl (Io err))" by (simp add: tail_poll_def)
  have p: "poll_once X w I =
      (I\<lparr>ing_sources := [file_tail_new i path (consumed (c @ e)), b], ing_store := st1\<rparr>, Inl (Io err))"
    using assms(3,4) tp tr b by (simp add: poll_once_def assms(1) file_tail_new_def)
  have "st_events st1 = st_events (ing_store I)" using same_rows_records [OF tr] by (simp add: same_rows_def)
  then have "none_before path (consumed (c @ e)) (st_events (ing_store I))
      (st_events (ing_store (poll_cycles X (fst (poll_once X w I)) ws)))"
    using assms(2,8) by (intro poll_cycles_none_before [of _ i path "c @ e" "[b]"]) (simp_all add: p none_before_def)
  then show ?thesis by (simp add: p none_before_def)
qed

end
