(* ===== verification/IngestRestart.thy ===== *)
theory IngestRestart
  imports IngestRuns
begin

section \<open>Ingest: the journal and what a restart resumes\<close>

text \<open>
  The offset journal over the model of theory Ingest: what a cycle journals for the file it read, where
  a restarted service resumes on the file it finds, and the line that makes the journal wrong. The
  theory ends with the concrete service and files the witnesses run on.
\<close>

subsection \<open>What a cycle journals\<close>

text \<open>Lines that are UTF-8 are as long as the text they are read as, so the journal follows the tail.\<close>

lemma note_offset_line:
  assumes "utf8_ok l" and "k \<le> fst ol + length l + 1" and "snd ol = l"
  shows "note_offset [(path, k)] (line_record path ol) = [(path, fst ol + length l + 1)]"
  using assms by (simp add: note_offset_def line_record_def utf8_ok_def hm_insert_def hm_get_def Let_def max_def)

lemma note_offsets_lines:
  "list_all (\<lambda>ol. utf8_ok (snd ol)) (split_lines k p bs) \<Longrightarrow>
   foldl note_offset [(path, k)] (map (line_record path) (split_lines k p bs)) =
     [(path, k + length p + length bs - length (unfinished p bs))]"
proof (induction k p bs rule: split_lines.induct)
  case (2 c p b bs)
  show ?case
  proof (cases "b = LF")
    case True
    have "length (unfinished [] bs) \<le> length bs" using length_unfinished [of "[]" bs] by simp
    with True 2 note_offset_line [of p c "(c, p)" path] show ?thesis by simp
  next
    case False
    with 2 show ?thesis by simp
  qed
qed simp

lemma note_offset_fresh:
  assumes "k \<le> fst ol"
  shows "note_offset [] (line_record path ol) = note_offset [(path, k)] (line_record path ol)"
  using assms by (simp add: note_offset_def line_record_def hm_insert_def hm_get_def Let_def max_def)

lemma note_offsets_fresh:
  assumes "split_lines k p bs \<noteq> []"
  shows "foldl note_offset [] (map (line_record path) (split_lines k p bs)) =
    foldl note_offset [(path, k)] (map (line_record path) (split_lines k p bs))"
proof (cases "split_lines k p bs")
  case (Cons ol ols)
  have "k \<le> fst ol" using split_lines_bounds [of "fst ol" "snd ol" k p bs] Cons by simp
  with Cons note_offset_fresh show ?thesis by simp
qed (use assms in simp)

text \<open>One cycle of a service that tails one file and reads at least one line, on a database that takes
  everything.\<close>

definition takes_all :: "string \<Rightarrow> poll_world \<Rightarrow> bool" where
  "takes_all path w \<longleftrightarrow> w_store_error w = (\<lambda>_. None)
     \<and> (case w_inode w path of None \<Rightarrow> True | Some n \<Rightarrow> n < 2 ^ 63)"

lemma takes_all_lines: "takes_all path w \<Longrightarrow> takes_lines path w"
  by (simp add: takes_all_def takes_lines_def)

lemma insert_rows_ok:
  "list_all (\<lambda>ce. opt_i64 (pr_offset (ce_origin ce)) = Inr (pr_offset (ce_origin ce))) ces \<Longrightarrow>
   \<exists>rows' n'. insert_rows X rows n ces = Inr (rows', n')"
  by (induction ces arbitrary: rows n) (auto simp: Let_def ebind_simps)

lemma poll_once_journals:
  assumes "decodes_members X" and "takes_all path w" and "w_view w path = Contents (c @ e)"
    and "length (c @ e) < 2 ^ 63" and "ing_sources I = [file_tail_new i path (consumed c)]"
    and "foldl note_offset [] (map (line_record path)
          (split_lines (consumed c) [] (drop (consumed c) (c @ e)))) = [(path, k)]" and "k < 2 ^ 63"
  shows "get_source_state (ing_store (fst (poll_once X w I))) path =
    Some \<lparr>src_offset = k, src_inode = w_inode w path,
          src_head = head_fingerprint X (Contents (c @ e)) k\<rparr>"
proof -
  let ?t = "file_tail_new i path (consumed c)"
  let ?ols = "split_lines (consumed c) [] (drop (consumed c) (c @ e))"
  have tp: "tail_poll ?t (Contents (c @ e)) =
      (file_tail_new i path (consumed (c @ e)), Inr (map (line_record path) ?ols))"
    using tail_poll_grown [of ?t c e] by (simp add: file_tail_new_def)
  have "fst ol < 2 ^ 63" if "ol \<in> set (split_lines 0 [] (c @ e))" for ol
    using split_lines_bounds [of "fst ol" "snd ol" 0 "[]" "c @ e"] that assms(4) by simp
  then have small: "list_all (\<lambda>ol. fst ol < 2 ^ 63) ?ols" unfolding split_lines_resume list_all_iff by simp
  from take_records_ok [OF assms(1) takes_all_lines [OF assms(2)] this] obtain st1 cy1 where
    tr: "take_records X w I i (ing_store I) \<lparr>cy_quarantined = 0, cy_valid = [], cy_offsets = []\<rparr>
      (map (line_record path) ?ols) = (st1, Inr cy1)" by blast
  have cy: "cy_valid cy1 = accepted X w I (map (Pair i) (map (line_record path) ?ols))"
    "cy_offsets cy1 = [(path, k)]"
    using take_records_Inr [OF tr] assms(6) by simp_all
  have "list_all (\<lambda>ce. opt_i64 (pr_offset (ce_origin ce)) = Inr (pr_offset (ce_origin ce))) (cy_valid cy1)"
    unfolding list_all_iff
  proof
    fix ce assume "ce \<in> set (cy_valid cy1)"
    from accepted_origin [OF this [unfolded cy]] obtain ol where "ol \<in> set ?ols"
      "pr_offset (ce_origin ce) = Some (fst ol)" by (auto simp: console_event_of_def line_record_def)
    with small show "opt_i64 (pr_offset (ce_origin ce)) = Inr (pr_offset (ce_origin ce))"
      by (auto simp: list_all_iff opt_i64_def to_i64_def ebind_simps)
  qed
  from insert_rows_ok [OF this, of X "st_events st1" 0] obtain st2 n where
    ib: "insert_batch X None st1 (cy_valid cy1) = (st2, Inr n)"
    by (cases "cy_valid cy1 = []") (auto simp: insert_batch_def)
  have inode: "\<exists>m. opt_i64 (w_inode w path) = Inr m"
    using assms(2) by (auto simp: takes_all_def opt_i64_def to_i64_def ebind_simps split: option.splits)
  then have "journal_offsets X w st2 (cy_offsets cy1) = (st2\<lparr>st_offsets := hm_insert path
      \<lparr>src_offset = k, src_inode = w_inode w path, src_head = head_fingerprint X (Contents (c @ e)) k\<rparr>
      (st_offsets st2)\<rparr>, Inr ())"
    using assms(2,3,7) by (auto simp: cy set_offset_def to_i64_def takes_all_def)
  then show ?thesis
    using assms(2,3) tp tr ib
    by (simp add: poll_once_def assms(5) takes_all_def get_source_state_def hm_get_insert file_tail_new_def)
qed

subsection \<open>Where a restart resumes\<close>

lemma split_lines_none: "split_lines c p bs = [] \<Longrightarrow> unfinished p bs = p @ bs"
  by (induction c p bs rule: split_lines.induct) (auto split: if_splits)

lemma split_lines_end:
  "split_lines c p bs = ols @ [(j, l)] \<Longrightarrow>
   c + length p + length bs - length (unfinished p bs) = j + length l + 1"
proof (induction c p bs arbitrary: ols rule: split_lines.induct)
  case (2 c p b bs)
  show ?case
  proof (cases "b = LF \<and> split_lines (c + length p + 1) [] bs = []")
    case True
    then have "unfinished [] bs = bs" using split_lines_none [of "c + length p + 1" "[]" bs] by simp
    with True 2 show ?thesis by simp
  next
    case False
    with 2 show ?thesis by (auto simp: Cons_eq_append_conv)
  qed
qed simp

text \<open>What the first poll after a restart reads of a file that now holds \<open>d\<close>.\<close>

definition restart_reads :: "ingest_lib \<Rightarrow> poll_world \<Rightarrow> store \<Rightarrow> string \<Rightarrow> string \<Rightarrow> ingest_error + raw_record list" where
  "restart_reads X w st i path =
     snd (tail_poll (file_tail_new i path (resume_offset X w st path)) (w_view w path))"

lemma tail_poll_at:
  assumes "k \<le> length d"
  shows "snd (tail_poll (file_tail_new i path k) (Contents d)) =
    Inr (map (line_record path) (split_lines k [] (drop k d)))"
  using assms tail_scan_lines [of "drop k d" "[]" "[]" "drop k d" 0 0 path k]
  by (simp add: tail_poll_def file_tail_new_def Let_def)

lemma tail_poll_beyond:
  assumes "length d < k"
  shows "snd (tail_poll (file_tail_new i path k) (Contents d)) =
    Inr (map (line_record path) (split_lines 0 [] d))"
  using assms tail_scan_lines [of d "[]" "[]" d 0 0 path 0]
  by (simp add: tail_poll_def file_tail_new_def Let_def)


text \<open>A line that is not UTF-8 makes the journal wrong: it is journaled as long as its replacement
  text, not as long as it is. A restart on the same file, grown since, then starts that many bytes too
  late, inside or past the next lines, and they are never read.\<close>

theorem invalid_utf8_skips_bytes:
  assumes "decodes_members X" and "takes_all path w" and "w_view w path = Contents (c @ e)"
    and "ing_sources I = [file_tail_new i path (consumed c)]"
    and "split_lines (consumed c) [] (drop (consumed c) (c @ e)) = [(consumed c, l)]"
    and "length l < length (from_utf8_lossy l)"
    and "w_view w' path = Contents (c @ e @ later)" and "w_inode w' path = w_inode w path"
    and "length (c @ e) + length (from_utf8_lossy l) < 2 ^ 63"
  shows "resume_offset X w' (ing_store (fst (poll_once X w I))) path =
    consumed (c @ e) + (length (from_utf8_lossy l) - length l)"
proof -
  let ?k = "consumed c + length (from_utf8_lossy l) + 1"
  have "split_lines (consumed c) [] (drop (consumed c) (c @ e)) = [] @ [(consumed c, l)]" using assms(5) by simp
  from split_lines_end [OF this] consumed_resume [of c e]
  have at_end: "consumed (c @ e) = consumed c + length l + 1" by simp
  have "foldl note_offset [] (map (line_record path)
      (split_lines (consumed c) [] (drop (consumed c) (c @ e)))) = [(path, ?k)]"
    unfolding assms(5) by (simp add: note_offset_def line_record_def hm_insert_def hm_get_def Let_def)
  moreover have "?k < 2 ^ 63" and "length (c @ e) < 2 ^ 63"
    using assms(9) at_end consumed_le [of "c @ e"] by linarith+
  ultimately have state: "get_source_state (ing_store (fst (poll_once X w I))) path =
    Some \<lparr>src_offset = ?k, src_inode = w_inode w path, src_head = head_fingerprint X (Contents (c @ e)) ?k\<rparr>"
    using poll_once_journals [OF assms(1-3) _ assms(4)] by blast
  have "head_fingerprint X (Contents (c @ e)) ?k = None
      \<or> head_fingerprint X (Contents (c @ e @ later)) ?k = head_fingerprint X (Contents (c @ e)) ?k"
  proof (cases "?k \<le> length (c @ e)")
    case True
    then have "take (min ?k HEAD_FINGERPRINT_BYTES) ((c @ e) @ later) = take (min ?k HEAD_FINGERPRINT_BYTES) (c @ e)"
      by (intro take_append [THEN trans]) simp
    with True show ?thesis by (simp add: head_fingerprint_def)
  next
    case False
    then show ?thesis by (simp add: head_fingerprint_def)
  qed
  then have "resume_offset X w' (ing_store (fst (poll_once X w I))) path = ?k"
    using state assms(7,8) by (auto simp: resume_offset_def split: option.split)
  with at_end assms(6) show ?thesis by simp
qed

subsection \<open>A concrete service\<close>

text \<open>A library that knows one line, a product's event, and two files: one that grows and one that
  cannot be read.\<close>

definition demo_event :: agent_event where
  "demo_event =
     \<lparr>ev_schema = SCHEMA_V0_1, ev_ts = ''2026-01-01T00:00:00Z'', ev_source = ''wardryx'',
      ev_type = ''policy_deny'', ev_agent_id = ''agent://o/t/a'', ev_severity = None, ev_run_id = None,
      ev_on_behalf_of = [], ev_data = None, ev_prev_hash = None, ev_extra = []\<rparr>"

definition demo_json :: json where
  "demo_json = JObject [(''schema'', JString SCHEMA_V0_1), (''source'', JString ''wardryx''),
     (''agent_id'', JString ''agent://o/t/a'')]"

definition demo_lib :: ingest_lib where
  "demo_lib =
     \<lparr>parse_json = (\<lambda>l. if l = ''ok'' then Inr demo_json else Inl ''bad''),
      schema_valid = (\<lambda>_ _. True), schema_errors = (\<lambda>_ _. []),
      decode_event = (\<lambda>l. if l = ''ok'' then Inr demo_event else Inl ''bad''),
      debug_str = (\<lambda>s. s), sha256_hex = (\<lambda>s. s), json_text = (\<lambda>_. []), rfc3339_millis = (\<lambda>_. None)\<rparr>"

lemma demo_lib_sel [simp]:
  "parse_json demo_lib l = (if l = ''ok'' then Inr demo_json else Inl ''bad'')"
  "schema_valid demo_lib v j = True"
  "decode_event demo_lib l = (if l = ''ok'' then Inr demo_event else Inl ''bad'')"
  "sha256_hex demo_lib s = s"
  by (simp_all add: demo_lib_def)

lemma demo_decodes: "decodes_members demo_lib"
  by (auto simp: decodes_members_def demo_event_def demo_json_def json_get_def split: if_splits)

definition demo_world :: "(string \<times> file_view) list \<Rightarrow> poll_world" where
  "demo_world files = \<lparr>w_view = (\<lambda>p. case map_of files p of Some v \<Rightarrow> v | None \<Rightarrow> Missing),
     w_inode = (\<lambda>_. Some 7), w_ts = ''now'', w_store_error = (\<lambda>_. None)\<rparr>"

lemma demo_world_sel [simp]:
  "w_view (demo_world files) p = (case map_of files p of Some v \<Rightarrow> v | None \<Rightarrow> Missing)"
  "w_inode (demo_world files) p = Some 7" "w_store_error (demo_world files) q = None"
  by (simp_all add: demo_world_def)

lemma demo_takes: "takes_all path (demo_world files)" "takes_lines path (demo_world files)"
  by (auto simp: takes_all_def takes_lines_def demo_world_def)

definition demo_service :: "file_tail list \<Rightarrow> ingest" where
  "demo_service ts = (ingest_new \<lparr>st_events = [], st_quarantine = [], st_offsets = []\<rparr> ''local'')
     \<lparr>ing_sources := ts, ing_pinned := [(''/e/a'', ''wardryx'')]\<rparr>"

lemma demo_service_sel [simp]:
  "ing_sources (demo_service ts) = ts" "ing_env (demo_service ts) = ''local''"
  "ing_pinned (demo_service ts) = [(''/e/a'', ''wardryx'')]"
  "ing_store (demo_service ts) = \<lparr>st_events = [], st_quarantine = [], st_offsets = []\<rparr>"
  by (simp_all add: demo_service_def ingest_new_def)

lemma demo_lossy: "from_utf8_lossy ''ok'' = ''ok''" "from_utf8_lossy ''no'' = ''no''"
  by code_simp+

lemma demo_parse:
  "parse_valid demo_lib ''ok'' = Inr demo_event"
  "parse_valid demo_lib ''no'' = Inl (report_invalid None [''malformed json: bad''])"
  by (simp_all add: parse_valid_def check_line_def check_value_def report_invalid_def demo_json_def
      demo_event_def json_get_def from_schema_str_def schema_names CLAIMED_PREFIX_def Let_def)

lemma demo_ok_event: "event_schema_version demo_event = Some V0_1" "ev_source demo_event = ''wardryx''"
  by (simp_all add: event_schema_version_def demo_event_def from_schema_str_def schema_names)

lemma demo_accepts:
  "accepts demo_lib (demo_service ts) ''/e/a'' (k, ''ok'')" "\<not> accepts demo_lib (demo_service ts) ''/e/a'' (k, ''no'')"
  by (simp_all add: accepts_def verdict_def line_record_def demo_lossy demo_parse demo_ok_event pin_refuses_def
      hm_get_def)

lemma tail_id_new: "tail_id (file_tail_new i path k) = i" "tail_path (file_tail_new i path k) = path"
  by (simp_all add: file_tail_new_def)

lemma demo_tail:
  "tail_poll (file_tail_new ''t'' ''/e/a'' 0) (Contents [CHR ''o'', CHR ''k'', LF, CHR ''n'', CHR ''o'', LF, CHR ''p'', CHR ''a'', CHR ''r'']) =
     (file_tail_new ''t'' ''/e/a'' 6,
      Inr [line_record ''/e/a'' (0, ''ok''), line_record ''/e/a'' (3, ''no'')])"
  by (simp add: tail_poll_def file_tail_new_def line_record_def LF_def Let_def)

lemma demo_poll:
  "snd (poll_once demo_lib (demo_world [(''/e/a'', Contents (''ok'' @ LF # ''no'' @ LF # ''par''))])
     (demo_service [file_tail_new ''t'' ''/e/a'' 0])) = Inr \<lparr>inserted = 1, quarantined = 1\<rparr>"
  by (simp add: poll_once_def demo_tail demo_parse take_record_def pin_refuses_def demo_ok_event
      quarantine_line_def quarantine_def opt_i64_def to_i64_def ebind_simps line_record_def demo_lossy hm_get_def
      insert_batch_def console_event_of_def Let_def row_of_def note_offset_def hm_insert_def set_offset_def
      tail_id_new)

theorem poll_cycle_accounts_witness:
  "case poll_once demo_lib (demo_world [(''/e/a'', Contents (''ok'' @ LF # ''no'' @ LF # ''par''))])
     (demo_service [file_tail_new ''t'' ''/e/a'' 0]) of (I', res) \<Rightarrow> length (st_events (ing_store I')) = 1"
proof -
  let ?w = "demo_world [(''/e/a'', Contents (''ok'' @ LF # ''no'' @ LF # ''par''))]"
  let ?I = "demo_service [file_tail_new ''t'' ''/e/a'' 0]"
  obtain I' where "poll_once demo_lib ?w ?I = (I', Inr \<lparr>inserted = 1, quarantined = 1\<rparr>)"
    using demo_poll by (metis prod.exhaust_sel)
  with poll_cycle_accounts [OF this] show ?thesis by (simp add: Let_def)
qed

theorem stored_rows_lawful_witness:
  "list_all (row_lawful [(''/e/a'', ''wardryx'')]) (st_events (ing_store (poll_cycles demo_lib
     (demo_service [file_tail_new ''t'' ''/e/a'' 0]) [demo_world [(''/e/a'', Contents (''ok'' @ [LF]))]])))"
  using stored_rows_lawful [OF demo_decodes, of "demo_service [file_tail_new ''t'' ''/e/a'' 0]"
      "[demo_world [(''/e/a'', Contents (''ok'' @ [LF]))]]"] by simp

theorem growing_file_ingested_exactly_witness:
  "map (\<lambda>row. (row_off row, row_raw row)) (st_events (ing_store (poll_cycles demo_lib
     (demo_service [file_tail_new ''t'' ''/e/a'' 0])
     [demo_world [(''/e/a'', Contents ''o'')], demo_world [], demo_world [(''/e/a'', Unreadable ''denied'')],
      demo_world [(''/e/a'', Contents (''ok'' @ LF # ''no''))],
      demo_world [(''/e/a'', Contents (''ok'' @ LF # ''no'' @ LF # ''par''))]]))) = [(Some 0, ''ok'')]"
proof -
  let ?ws = "[demo_world [(''/e/a'', Contents ''o'')], demo_world [], demo_world [(''/e/a'', Unreadable ''denied'')],
      demo_world [(''/e/a'', Contents (''ok'' @ LF # ''no''))],
      demo_world [(''/e/a'', Contents (''ok'' @ LF # ''no'' @ LF # ''par''))]]"
  let ?I = "demo_service [file_tail_new ''t'' ''/e/a'' 0]"
  have num: "numbered 0 [''ok'', ''no''] = [(0, ''ok''), (3, ''no'')]" by simp
  have keys: "line_key demo_lib ''local'' ''/e/a'' (0, ''ok'') \<noteq> line_key demo_lib ''local'' ''/e/a'' (3, ''no'')"
    by (simp add: line_key_def dedupe_key_def dedupe_preimage_def demo_lossy)
  have "let st = ing_store (poll_cycles demo_lib ?I ?ws) in
    map (\<lambda>row. (row_off row, row_raw row)) (st_events st) =
      map (\<lambda>ol. (Some (fst ol), from_utf8_lossy (snd ol)))
        (filter (accepts demo_lib ?I ''/e/a'') (numbered 0 [''ok'', ''no'']))
    \<and> map (\<lambda>q. (q_off q, q_raw q)) (st_quarantine st) =
      map (\<lambda>ol. (Some (fst ol), from_utf8_lossy (snd ol)))
        (filter (\<lambda>ol. \<not> accepts demo_lib ?I ''/e/a'' ol) (numbered 0 [''ok'', ''no'']))"
  proof (rule growing_file_ingested_exactly [where rest = "''par''"])
    show "inj_on (line_key demo_lib (ing_env ?I) ''/e/a'') (set (numbered 0 [''ok'', ''no'']))"
      using keys unfolding num by (auto simp: inj_on_def)
  qed (simp_all add: demo_decodes demo_takes unlines_def LF_def)
  then show ?thesis unfolding num by (simp add: Let_def demo_accepts demo_lossy)
qed

theorem failing_source_loses_lines_witness:
  "snd (poll_once demo_lib (demo_world [(''/e/a'', Contents (''ok'' @ [LF])), (''/e/b'', Unreadable ''denied'')])
     (demo_service [file_tail_new ''t'' ''/e/a'' 0, file_tail_new ''b'' ''/e/b'' 0])) = Inl (Io ''denied'')"
proof -
  have "consumed [] = 0" by (simp add: consumed_def)
  then show ?thesis
    using failing_source_loses_lines [of "demo_service [file_tail_new ''t'' ''/e/a'' 0, file_tail_new ''b'' ''/e/b'' 0]"
      "''t''" "''/e/a''" "[]" "file_tail_new ''b'' ''/e/b'' 0"
      "demo_world [(''/e/a'', Contents (''ok'' @ [LF])), (''/e/b'', Unreadable ''denied'')]"
      "''ok'' @ [LF]" "''denied''" demo_lib "[demo_world [(''/e/a'', Contents (''ok'' @ LF # ''ok'' @ [LF]))]]"]
    by (simp add: file_tail_new_def demo_decodes demo_takes)
qed


theorem invalid_utf8_skips_bytes_witness:
  "resume_offset demo_lib (demo_world [(''/e/a'', Contents ([CHR 0xFF, LF] @ ''ok'' @ [LF]))])
     (ing_store (fst (poll_once demo_lib (demo_world [(''/e/a'', Contents [CHR 0xFF, LF])])
       (demo_service [file_tail_new ''t'' ''/e/a'' 0])))) ''/e/a'' = 4"
proof -
  have c: "consumed [] = 0" "consumed [CHR 0xFF, LF] = 2" by (simp_all add: consumed_def LF_def)
  have lossy: "length (from_utf8_lossy [CHR 0xFF]) = 3" by code_simp
  have "resume_offset demo_lib (demo_world [(''/e/a'', Contents ([CHR 0xFF, LF] @ ''ok'' @ [LF]))])
     (ing_store (fst (poll_once demo_lib (demo_world [(''/e/a'', Contents [CHR 0xFF, LF])])
       (demo_service [file_tail_new ''t'' ''/e/a'' 0])))) ''/e/a'' =
     consumed ([] @ [CHR 0xFF, LF]) + (length (from_utf8_lossy [CHR 0xFF]) - length [CHR 0xFF])"
    by (rule invalid_utf8_skips_bytes [where l = "[CHR 0xFF]" and later = "''ok'' @ [LF]" and i = "''t''"])
      (simp_all add: demo_decodes demo_takes c LF_def lossy)
  then show ?thesis by (simp add: c lossy)
qed

end
