(* ===== verification/Sse.thy ===== *)
theory Sse
  imports Utf8
begin

section \<open>The decoder of the event stream\<close>

text \<open>
  \<open>crates/connectors/src/sse_decoder.rs\<close>: bytes in whatever chunks the transport hands over, events
  out. The decoder buffers what does not complete a line, including a lone carriage return at the
  end, which may turn out to be half of a line ending.
\<close>

record sse_event =
  sse_id :: "string option"
  sse_name :: "string option"
  sse_data :: string

record sse_decoder =
  dec_buffer :: string
  dec_data :: string
  dec_type :: "string option"
  dec_last_id :: "string option"

datatype line_end = Found nat nat | Incomplete | NeedsMoreData

definition CR :: char where "CR = CHR 0x0D"

text \<open>The scan over \<open>buffer.iter().enumerate()\<close>, at index \<open>i\<close>.\<close>

fun find_line_end_from :: "nat \<Rightarrow> string \<Rightarrow> line_end" where
  "find_line_end_from i [] = Incomplete"
| "find_line_end_from i (b # bs) =
     (if b = LF then Found i (i + 1)
      else if b = CR then
        (case bs of
           [] \<Rightarrow> NeedsMoreData
         | c # _ \<Rightarrow> if c = LF then Found i (i + 2) else Found i (i + 1))
      else find_line_end_from (i + 1) bs)"

definition find_line_end :: "string \<Rightarrow> line_end" where
  "find_line_end buffer = find_line_end_from 0 buffer"

definition sse_new :: sse_decoder where
  "sse_new = \<lparr>dec_buffer = [], dec_data = [], dec_type = None, dec_last_id = None\<rparr>"

definition last_event_id :: "sse_decoder \<Rightarrow> string option" where
  "last_event_id d = dec_last_id d"

definition dispatch :: "sse_decoder \<Rightarrow> sse_decoder \<times> sse_event option" where
  "dispatch d =
     (let event_type = dec_type d; d1 = d\<lparr>dec_type := None\<rparr> in
      if dec_data d1 = [] then (d1, None)
      else
        (let data = dec_data d1 in
         (d1\<lparr>dec_data := []\<rparr>,
          Some \<lparr>sse_id = dec_last_id d1, sse_name = event_type,
                sse_data = (if last data = LF then butlast data else data)\<rparr>)))"

definition sse_field :: "string \<Rightarrow> string \<times> string" where
  "sse_field line =
     (case split_once (CHR '':'') line of
        Some (field, raw_value) \<Rightarrow>
          (field, case strip_prefix '' '' raw_value of Some v \<Rightarrow> v | None \<Rightarrow> raw_value)
      | None \<Rightarrow> (line, []))"

definition process_line :: "sse_decoder \<Rightarrow> string \<Rightarrow> sse_decoder \<times> sse_event option" where
  "process_line d line =
     (if line = [] then dispatch d
      else if prefix '':'' line then (d, None)
      else
        (case sse_field line of
           (field, val) \<Rightarrow>
             if field = ''data'' then (d\<lparr>dec_data := dec_data d @ val @ [LF]\<rparr>, None)
             else if field = ''event'' then (d\<lparr>dec_type := Some val\<rparr>, None)
             else if field = ''id'' \<and> CHR 0x00 \<notin> set val then (d\<lparr>dec_last_id := Some val\<rparr>, None)
             else (d, None)))"

lemma find_line_end_bounds:
  "find_line_end_from i b = Found l n \<Longrightarrow> i \<le> l \<and> l < n \<and> n \<le> i + length b"
  by (induction i b rule: find_line_end_from.induct) (auto split: if_splits list.splits)

text \<open>\<open>process_line\<close> never touches the buffer.\<close>

lemma process_line_buffer: "dec_buffer (fst (process_line d line)) = dec_buffer d"
  by (auto simp: process_line_def dispatch_def Let_def split: prod.split)

text \<open>The loop of \<open>feed\<close>: it ends because every turn drains at least one byte.\<close>

function sse_drain :: "sse_decoder \<Rightarrow> sse_decoder \<times> sse_event list" where
  "sse_drain d =
     (case find_line_end (dec_buffer d) of
        Found line_len consumed \<Rightarrow>
          (case process_line (d\<lparr>dec_buffer := drop consumed (dec_buffer d)\<rparr>)
                  (from_utf8_lossy (take line_len (dec_buffer d))) of
             (d', event) \<Rightarrow>
               (case sse_drain d' of
                  (d'', events) \<Rightarrow> (d'', (case event of Some e \<Rightarrow> e # events | None \<Rightarrow> events))))
      | _ \<Rightarrow> (d, []))"
  by pat_completeness auto
termination
proof (relation "measure (length \<circ> dec_buffer)", simp, goal_cases)
  case (1 d l n x y)
  have "n \<le> length (dec_buffer d)" "0 < n"
    using find_line_end_bounds [of 0 "dec_buffer d" l n] 1(1) by (simp_all add: find_line_end_def)
  moreover have "dec_buffer x = drop n (dec_buffer d)"
    using process_line_buffer [of "d\<lparr>dec_buffer := drop n (dec_buffer d)\<rparr>"] 1(2) by (metis fst_conv sse_decoder.simps(1) sse_decoder.surjective sse_decoder.update_convs(1))
  ultimately show ?case by simp
qed

declare sse_drain.simps [simp del]

definition feed :: "sse_decoder \<Rightarrow> string \<Rightarrow> sse_decoder \<times> sse_event list" where
  "feed d chunk = sse_drain (d\<lparr>dec_buffer := dec_buffer d @ chunk\<rparr>)"

text \<open>What the connection does with a stream: one \<open>feed\<close> per chunk it receives.\<close>

fun feed_all :: "sse_decoder \<Rightarrow> string list \<Rightarrow> sse_decoder \<times> sse_event list" where
  "feed_all d [] = (d, [])"
| "feed_all d (chunk # chunks) =
     (case feed d chunk of (d', events) \<Rightarrow>
        (case feed_all d' chunks of (d'', events') \<Rightarrow> (d'', events @ events')))"

subsection \<open>Chunks do not matter\<close>

lemma find_line_end_append:
  "find_line_end_from i xs = Found l n \<Longrightarrow> find_line_end_from i (xs @ ys) = Found l n"
  by (induction i xs rule: find_line_end_from.induct) (auto split: if_splits list.splits)

lemma process_line_frame:
  "process_line (d\<lparr>dec_buffer := b\<rparr>) line =
     ((fst (process_line d line))\<lparr>dec_buffer := b\<rparr>, snd (process_line d line))"
  by (auto simp: process_line_def dispatch_def Let_def split: prod.split)

lemma sse_drain_append:
  "sse_drain (d\<lparr>dec_buffer := dec_buffer d @ ys\<rparr>) =
   (case sse_drain d of (d1, es) \<Rightarrow>
      (case sse_drain (d1\<lparr>dec_buffer := dec_buffer d1 @ ys\<rparr>) of (d2, es') \<Rightarrow> (d2, es @ es')))"
proof (induction d rule: sse_drain.induct)
  case (1 d)
  show ?case
  proof (cases "find_line_end (dec_buffer d)")
    case (Found l n)
    let ?line = "from_utf8_lossy (take l (dec_buffer d))"
    have bounds: "l < n" "n \<le> length (dec_buffer d)"
      using find_line_end_bounds [of 0 "dec_buffer d" l n] Found by (simp_all add: find_line_end_def)
    have app: "find_line_end (dec_buffer d @ ys) = Found l n"
      using Found find_line_end_append by (simp add: find_line_end_def)
    obtain d' ev where pl: "process_line (d\<lparr>dec_buffer := drop n (dec_buffer d)\<rparr>) ?line = (d', ev)" by fastforce
    then have d': "dec_buffer d' = drop n (dec_buffer d)"
      using process_line_buffer [of "d\<lparr>dec_buffer := drop n (dec_buffer d)\<rparr>" ?line] by simp
    have "process_line (d\<lparr>dec_buffer := drop n (dec_buffer d) @ ys\<rparr>) ?line = (d'\<lparr>dec_buffer := dec_buffer d' @ ys\<rparr>, ev)"
      using pl d' process_line_frame [where d = "d\<lparr>dec_buffer := drop n (dec_buffer d)\<rparr>"
          and b = "drop n (dec_buffer d) @ ys" and line = ?line]
      by simp
    with 1 [OF Found pl [symmetric]] show ?thesis
      unfolding sse_drain.simps [of "d\<lparr>dec_buffer := dec_buffer d @ ys\<rparr>"] sse_drain.simps [of d]
      using bounds by (simp add: Found app pl split: prod.split option.split)
  qed (simp_all add: sse_drain.simps [of d] split: prod.split)
qed

lemma sse_drain_settles: "sse_drain (fst (sse_drain d)) = (fst (sse_drain d), [])"
proof (induction d rule: sse_drain.induct)
  case (1 d)
  show ?case
  proof (cases "find_line_end (dec_buffer d)")
    case (Found l n)
    obtain d' ev where pl: "process_line (d\<lparr>dec_buffer := drop n (dec_buffer d)\<rparr>)
        (from_utf8_lossy (take l (dec_buffer d))) = (d', ev)" by fastforce
    have "fst (sse_drain d) = fst (sse_drain d')"
      by (simp add: sse_drain.simps [of d] Found pl split: prod.split)
    with 1 [OF Found pl [symmetric]] show ?thesis by simp
  qed (simp_all add: sse_drain.simps [of d])
qed

lemma feed_all_concat: "sse_drain d = (d, []) \<Longrightarrow> feed_all d chunks = feed d (concat chunks)"
proof (induction chunks arbitrary: d)
  case Nil
  then show ?case by (simp add: feed_def)
next
  case (Cons c cs)
  obtain d1 es where 1: "feed d c = (d1, es)" by fastforce
  then have "sse_drain d1 = (d1, [])"
    using sse_drain_settles [of "d\<lparr>dec_buffer := dec_buffer d @ c\<rparr>"] by (simp add: feed_def)
  from Cons.IH [OF this] 1 sse_drain_append [of "d\<lparr>dec_buffer := dec_buffer d @ c\<rparr>" "concat cs"]
  show ?case by (simp add: feed_def)
qed

text \<open>How a stream is cut into chunks does not matter: feeding the chunks one by one yields the same
  events in the same order, and leaves the decoder in the same state, as feeding all bytes at once,
  also when a chunk ends in the middle of a character or between the two bytes of a line ending.\<close>

theorem feed_chunking: "feed_all sse_new chunks = feed sse_new (concat chunks)"
  by (rule feed_all_concat) (simp add: sse_drain.simps sse_new_def find_line_end_def)

subsection \<open>Decoding what a server sends\<close>

text \<open>An event as a server frames it: an optional id, an optional name and the lines of the payload.\<close>

record frame =
  fr_id :: "string option"
  fr_name :: "string option"
  fr_lines :: "string list"

definition render_field :: "string \<Rightarrow> string \<Rightarrow> string" where
  "render_field field v = field @ '': '' @ v @ [LF]"

definition render :: "frame \<Rightarrow> string" where
  "render f = (case fr_id f of None \<Rightarrow> [] | Some v \<Rightarrow> render_field ''id'' v)
     @ (case fr_name f of None \<Rightarrow> [] | Some v \<Rightarrow> render_field ''event'' v)
     @ concat (map (render_field ''data'') (fr_lines f)) @ [LF]"

definition text_ok :: "string \<Rightarrow> bool" where
  "text_ok v \<longleftrightarrow> LF \<notin> set v \<and> CR \<notin> set v \<and> utf8_ok v"

definition frame_ok :: "frame \<Rightarrow> bool" where
  "frame_ok f \<longleftrightarrow> fr_lines f \<noteq> [] \<and> list_all text_ok (fr_lines f)
     \<and> pred_option text_ok (fr_name f) \<and> pred_option (\<lambda>v. text_ok v \<and> CHR 0x00 \<notin> set v) (fr_id f)"

fun events_of :: "string option \<Rightarrow> frame list \<Rightarrow> sse_event list" where
  "events_of lst [] = []"
| "events_of lst (f # fs) =
     (let i = (case fr_id f of None \<Rightarrow> lst | Some v \<Rightarrow> Some v) in
      \<lparr>sse_id = i, sse_name = fr_name f, sse_data = join [LF] (fr_lines f)\<rparr> # events_of i fs)"

lemma find_line_end_line:
  "LF \<notin> set line \<Longrightarrow> CR \<notin> set line \<Longrightarrow>
   find_line_end_from i (line @ LF # rest) = Found (i + length line) (i + length line + 1)"
  by (induction line arbitrary: i) auto

lemma sse_drain_line:
  assumes "LF \<notin> set line" and "CR \<notin> set line"
  shows "sse_drain (d\<lparr>dec_buffer := line @ LF # rest\<rparr>) =
    (case process_line (d\<lparr>dec_buffer := rest\<rparr>) (from_utf8_lossy line) of (d', ev) \<Rightarrow>
       (case sse_drain d' of (d'', es) \<Rightarrow> (d'', (case ev of Some e \<Rightarrow> e # es | None \<Rightarrow> es))))"
  using find_line_end_line [OF assms, of 0 rest]
  by (subst sse_drain.simps) (simp add: find_line_end_def)

lemma sse_drain_field:
  assumes "text_ok v" and "field \<in> set [''data'', ''event'', ''id'']"
  shows "sse_drain (d\<lparr>dec_buffer := render_field field v @ rest\<rparr>) =
    sse_drain (if field = ''data'' then d\<lparr>dec_buffer := rest, dec_data := dec_data d @ v @ [LF]\<rparr>
      else if field = ''event'' then d\<lparr>dec_buffer := rest, dec_type := Some v\<rparr>
      else if CHR 0x00 \<notin> set v then d\<lparr>dec_buffer := rest, dec_last_id := Some v\<rparr> else d\<lparr>dec_buffer := rest\<rparr>)"
proof -
  let ?line = "field @ '': '' @ v"
  have plain: "LF \<notin> set ?line" "CR \<notin> set ?line" using assms by (auto simp: text_ok_def LF_def CR_def)
  have "from_utf8_lossy ?line = ?line"
    using assms utf8_ok_ascii_append [of "field @ '': ''" v] by (auto simp: text_ok_def utf8_ok_def)
  moreover have "CHR '':'' \<notin> set field" using assms(2) by auto
  from split_once_append [OF this, of "CHR '' '' # v"]
  have "sse_field ?line = (field, v)"
    using strip_prefix_append [of "'' ''" v] by (simp add: sse_field_def)
  ultimately have "process_line (d\<lparr>dec_buffer := rest\<rparr>) (from_utf8_lossy ?line) =
    (if field = ''data'' then d\<lparr>dec_buffer := rest, dec_data := dec_data d @ v @ [LF]\<rparr>
      else if field = ''event'' then d\<lparr>dec_buffer := rest, dec_type := Some v\<rparr>
      else if CHR 0x00 \<notin> set v then d\<lparr>dec_buffer := rest, dec_last_id := Some v\<rparr> else d\<lparr>dec_buffer := rest\<rparr>, None)"
    using assms(2) by (auto simp: process_line_def)
  with sse_drain_line [OF plain, where d = d and rest = rest] show ?thesis by (simp add: render_field_def)
qed

lemma lines_join: "ls \<noteq> [] \<Longrightarrow> concat (map (\<lambda>l. l @ [LF]) ls) = join [LF] ls @ [LF]"
  by (induction "[LF]" ls rule: join.induct) auto

lemma sse_drain_data:
  assumes "list_all text_ok ls"
  shows "sse_drain (d\<lparr>dec_buffer := concat (map (render_field ''data'') ls) @ rest\<rparr>) =
    sse_drain (d\<lparr>dec_buffer := rest, dec_data := dec_data d @ concat (map (\<lambda>l. l @ [LF]) ls)\<rparr>)"
  using assms
proof (induction ls arbitrary: d)
  case (Cons l ls)
  from Cons.prems sse_drain_field [where v = l and field = "''data''" and d = d
      and rest = "concat (map (render_field ''data'') ls) @ rest"]
    Cons.IH [of "d\<lparr>dec_data := dec_data d @ l @ [LF]\<rparr>"]
  show ?case by (cases d) simp
qed simp

lemma sse_drain_frame:
  assumes "frame_ok f" and "dec_data d = []" and "dec_type d = None"
  defines "i \<equiv> (case fr_id f of None \<Rightarrow> dec_last_id d | Some v \<Rightarrow> Some v)"
  shows "sse_drain (d\<lparr>dec_buffer := render f @ rest\<rparr>) =
    (case sse_drain (d\<lparr>dec_buffer := rest, dec_last_id := i\<rparr>) of
       (d', es) \<Rightarrow> (d', \<lparr>sse_id = i, sse_name = fr_name f, sse_data = join [LF] (fr_lines f)\<rparr> # es))"
proof -
  let ?data = "concat (map (render_field ''data'') (fr_lines f)) @ LF # rest"
  let ?name = "(case fr_name f of None \<Rightarrow> [] | Some v \<Rightarrow> render_field ''event'' v) @ ?data"
  have "sse_drain (d\<lparr>dec_buffer := render f @ rest\<rparr>) = sse_drain (d\<lparr>dec_buffer := ?name, dec_last_id := i\<rparr>)"
    using assms(1) sse_drain_field [where field = "''id''" and d = d and rest = ?name] by (cases d; cases "fr_id f") (auto simp: render_def i_def frame_ok_def)
  also have "\<dots> = sse_drain (d\<lparr>dec_buffer := ?data, dec_last_id := i, dec_type := fr_name f\<rparr>)"
    using assms(1,3) sse_drain_field [where field = "''event''" and d = "d\<lparr>dec_last_id := i\<rparr>" and rest = ?data]
    by (cases d; cases "fr_name f") (auto simp: frame_ok_def)
  also have "\<dots> = sse_drain (d\<lparr>dec_buffer := [] @ LF # rest, dec_last_id := i, dec_type := fr_name f,
      dec_data := join [LF] (fr_lines f) @ [LF]\<rparr>)"
    using assms(1,2) lines_join [of "fr_lines f"]
      sse_drain_data [where ls = "fr_lines f" and d = "d\<lparr>dec_last_id := i, dec_type := fr_name f\<rparr>" and rest = "LF # rest"]
    by (cases d) (auto simp: frame_ok_def)
  also have "\<dots> = (case sse_drain (d\<lparr>dec_buffer := rest, dec_last_id := i\<rparr>) of
       (d', es) \<Rightarrow> (d', \<lparr>sse_id = i, sse_name = fr_name f, sse_data = join [LF] (fr_lines f)\<rparr> # es))"
  proof -
    show ?thesis
      using sse_drain_line [where line = "[]" and rest = rest and d = "d\<lparr>dec_last_id := i, dec_type := fr_name f,
          dec_data := join [LF] (fr_lines f) @ [LF]\<rparr>"]
      using assms(2,3) by (cases d) (simp add: process_line_def dispatch_def Let_def)
  qed
  finally show ?thesis .
qed

lemma sse_drain_frames:
  "list_all frame_ok fs \<Longrightarrow> dec_data d = [] \<Longrightarrow> dec_type d = None \<Longrightarrow>
   snd (sse_drain (d\<lparr>dec_buffer := concat (map render fs)\<rparr>)) = events_of (dec_last_id d) fs
   \<and> dec_buffer (fst (sse_drain (d\<lparr>dec_buffer := concat (map render fs)\<rparr>))) = []"
proof (induction fs arbitrary: d)
  case Nil
  then show ?case by (simp add: sse_drain.simps find_line_end_def)
next
  case (Cons f fs)
  let ?i = "case fr_id f of None \<Rightarrow> dec_last_id d | Some v \<Rightarrow> Some v"
  have "d\<lparr>dec_buffer := concat (map render fs), dec_last_id := ?i\<rparr>
      = d\<lparr>dec_last_id := ?i\<rparr>\<lparr>dec_buffer := concat (map render fs)\<rparr>" by simp
  with Cons.IH [of "d\<lparr>dec_last_id := ?i\<rparr>"] Cons.prems
    sse_drain_frame [of f d "concat (map render fs)"]
  show ?case by (simp add: Let_def case_prod_beta)
qed

text \<open>C12. The decoder reads back what a server framed, however the bytes arrive. Cut the framing of
  any sequence of events into any chunks: the decoder yields exactly those events in order, each with
  its own name and payload lines and with the last id sent so far, and nothing is left in its
  buffer.\<close>

theorem sse_roundtrip:
  assumes "list_all frame_ok fs" and "concat chunks = concat (map render fs)"
  shows "snd (feed_all sse_new chunks) = events_of None fs \<and> dec_buffer (fst (feed_all sse_new chunks)) = []"
proof -
  have "feed_all sse_new chunks = feed sse_new (concat chunks)"
    by (rule feed_all_concat) (simp add: sse_drain.simps sse_new_def find_line_end_def)
  with sse_drain_frames [OF assms(1), of sse_new] show ?thesis
    by (simp add: assms(2) feed_def sse_new_def)
qed

theorem sse_roundtrip_witness:
  "snd (feed_all sse_new [''id: 7'' @ [LF], ''data: a'' @ LF # ''da'', ''ta: b'' @ [LF], LF # ''data: c'' @ [LF, LF]]) =
     [\<lparr>sse_id = Some ''7'', sse_name = None, sse_data = ''a'' @ LF # ''b''\<rparr>,
      \<lparr>sse_id = Some ''7'', sse_name = None, sse_data = ''c''\<rparr>]"
proof -
  let ?fs = "[\<lparr>fr_id = Some ''7'', fr_name = None, fr_lines = [''a'', ''b'']\<rparr>,
     \<lparr>fr_id = None, fr_name = None, fr_lines = [''c'']\<rparr>]"
  have ok: "utf8_ok [c]" if "(of_char c :: nat) < 128" for c
    using utf8_ok_ascii_append [of "[c]" "[]"] that by (simp add: utf8_ok_def)
  have "list_all frame_ok ?fs" by (simp add: frame_ok_def text_ok_def ok LF_def CR_def)
  from sse_roundtrip [OF this, of "[''id: 7'' @ [LF], ''data: a'' @ LF # ''da'', ''ta: b'' @ [LF], LF # ''data: c'' @ [LF, LF]]"]
  show ?thesis by (simp add: render_def render_field_def Let_def del: feed_all.simps)
qed

end
