(* ===== verification/Fence.thy ===== *)
theory Fence
  imports Text
begin

section \<open>The fence around plane text\<close>

text \<open>
  \<open>crates/copilot/src/untrusted.rs\<close>, first half: every string a tool returns reaches the model
  either as a structured field of a known shape or wrapped in \<open><untrusted-data field=...>\<close> with its
  markup escaped. One walk produces both what the model reads and what may ground a claim.
  \<open>Walk\<close> is threaded as the pair of what a call adds to \<open>spans\<close> and to \<open>fields\<close>; the JSON printer is
  a parameter.
\<close>

definition CASE_TOOL :: string where "CASE_TOOL = ''case_file''"
definition FENCE_TAG :: string where "FENCE_TAG = ''untrusted-data''"

definition STRUCTURED_KEYS :: "string list" where
  "STRUCTURED_KEYS =
     [''run_id'', ''agent_id'', ''id'', ''org'', ''kind'', ''severity'', ''source'', ''model'',
      ''last_model'', ''unit'', ''month'', ''owner'', ''label'', ''type'', ''detector'',
      ''identity'', ''time'', ''runtime'', ''on_behalf_of'', ''approval_id'', ''requested_at'',
      ''decided_at'', ''decided_by'', ''decision'', ''target'', ''name'', ''updated_at'',
      ''deny_tool'', ''allow_domains'', ''started_at'', ''finished_at'', ''timestamp'',
      ''algorithm'', ''locations'']"

definition OWN_PROSE :: "(string \<times> string) list" where
  "OWN_PROSE =
     [(''budgets'', ''scope''), (''budgets'', ''showing''),
      (''budgets'', ''unit_budgets_unavailable''), (''list_runs'', ''showing''),
      (''incidents'', ''showing'')]"

definition SUBJECT_KEYS :: "string list" where
  "SUBJECT_KEYS =
     [''run_id'', ''agent_id'', ''approval_id'', ''identity'', ''id'']"

definition MAX_TOKEN_BYTES :: nat where "MAX_TOKEN_BYTES = 256"

record span =
  span_tool :: string
  span_field :: string
  span_text :: string
  span_subjects :: "string list"

record fenced_result =
  fenced_content :: string
  fenced_spans :: "span list"
  fenced_fields :: "(string \<times> string) list"

subsection \<open>Escaping\<close>

definition is_hidden :: "string \<Rightarrow> bool" where
  "is_hidden c \<longleftrightarrow>
     is_control c \<or>
     (let n = code_point c in
        n = 0xad \<or> 0x200b \<le> n \<and> n \<le> 0x200f \<or> 0x202a \<le> n \<and> n \<le> 0x202e
      \<or> 0x2060 \<le> n \<and> n \<le> 0x2064 \<or> 0x2066 \<le> n \<and> n \<le> 0x206f \<or> n = 0xfeff
      \<or> 0xe0000 \<le> n \<and> n \<le> 0xe007f)"

text \<open>\<open>{:x}\<close> of an unsigned integer.\<close>

fun lower_hex :: "nat \<Rightarrow> string" where
  "lower_hex n = (if n < 16 then [] else lower_hex (n div 16)) @ [hex_digits ! (n mod 16)]"

declare lower_hex.simps [simp del]

definition escape_char :: "string \<Rightarrow> string" where
  "escape_char c =
     (let n = code_point c in
      if n = 0x26 then ''&amp;''
      else if n = 0x3c \<or> n = 0xff1c \<or> n = 0xfe64 then ''&lt;''
      else if n = 0x3e \<or> n = 0xff1e \<or> n = 0xfe65 then ''&gt;''
      else if n = 10 \<or> n = 9 then c
      else if is_hidden c then [CHR 0x5c] @ ''u{'' @ lower_hex n @ ''}''
      else c)"

definition escape :: "string \<Rightarrow> string" where
  "escape s = concat (map escape_char (chars s))"

definition field_label :: "string \<Rightarrow> string" where
  "field_label field =
     (let label = concat (map (\<lambda>c. if ascii_alphanumeric c \<or> c = ''_'' then c else ''_'') (take 40 (chars field)))
      in if label = [] then ''value'' else label)"

definition fence_text :: "string \<Rightarrow> string \<Rightarrow> string" where
  "fence_text field s =
     ''<'' @ FENCE_TAG @ '' field='' @ field_label field @ ''>'' @ escape s @ ''</'' @ FENCE_TAG @ ''>''"

definition token_shaped :: "unicode \<Rightarrow> string \<Rightarrow> bool" where
  "token_shaped u s \<longleftrightarrow>
     s \<noteq> [] \<and> length s \<le> MAX_TOKEN_BYTES \<and>
     chars_all (\<lambda>c. u_alphanumeric u c \<or> (\<exists>b\<in>set ''-_.:/@+*?#=~%''. c = [b])) s"

subsection \<open>The walk\<close>

text \<open>What a call adds: the shaped value, the spans and the plain fields.\<close>

type_synonym 'a walked = "'a \<times> span list \<times> (string \<times> string) list"

definition span_of :: "string \<Rightarrow> string \<Rightarrow> string \<Rightarrow> string list \<Rightarrow> span" where
  "span_of tool field s subjects =
     \<lparr>span_tool = tool, span_field = field, span_text = s, span_subjects = subjects\<rparr>"

definition walk_fence :: "string \<Rightarrow> string \<Rightarrow> string \<Rightarrow> string list \<Rightarrow> string walked" where
  "walk_fence tool field s subjects = (fence_text field s, [span_of tool field s subjects], [])"

definition subjects_of :: "unicode \<Rightarrow> (string \<times> json) list \<Rightarrow> string list" where
  "subjects_of u ms =
     filter (token_shaped u) (List.map_filter (\<lambda>k. Option.bind (map_of ms k) json_str) SUBJECT_KEYS)"

text \<open>\<open>Map::insert\<close>, member by member.\<close>

definition obj_of :: "(string \<times> json) list \<Rightarrow> json" where
  "obj_of ms = JObject (foldl (\<lambda>m (k, v). AList.update k v m) [] ms)"

definition walk_string :: "unicode \<Rightarrow> string \<Rightarrow> string \<Rightarrow> string list \<Rightarrow> string \<Rightarrow> json walked" where
  "walk_string u tool key subjects s =
     (if s = [] then (JString s, [], [])
      else if (tool, key) \<in> set OWN_PROSE then (JString s, [], [])
      else if key \<in> set STRUCTURED_KEYS \<and> token_shaped u s then (JString s, [], [(key, s)])
      else (case walk_fence tool key s subjects of (t, spans, flds) \<Rightarrow> (JString t, spans, flds)))"

definition walk_name :: "unicode \<Rightarrow> string \<Rightarrow> string \<Rightarrow> string list \<Rightarrow> string \<Rightarrow> string walked" where
  "walk_name u tool key row k = (if token_shaped u k then (k, [], []) else walk_fence tool key k row)"

fun walk_value :: "unicode \<Rightarrow> string \<Rightarrow> string \<Rightarrow> string list \<Rightarrow> json \<Rightarrow> json walked"
and walk_members :: "unicode \<Rightarrow> string \<Rightarrow> string \<Rightarrow> string list \<Rightarrow> (string \<times> json) list \<Rightarrow> (string \<times> json) list walked"
and walk_items :: "unicode \<Rightarrow> string \<Rightarrow> string \<Rightarrow> string list \<Rightarrow> json list \<Rightarrow> json list walked" where
  "walk_value u tool key subjects (JObject ms) =
     (case walk_members u tool key (subjects @ subjects_of u ms) ms of
        (out, spans, flds) \<Rightarrow> (obj_of out, spans, flds))"
| "walk_value u tool key subjects (JArray items) =
     (case walk_items u tool key subjects items of (out, spans, flds) \<Rightarrow> (JArray out, spans, flds))"
| "walk_value u tool key subjects (JString s) = walk_string u tool key subjects s"
| "walk_value u tool key subjects JNull = (JNull, [], [])"
| "walk_value u tool key subjects (JBool b) = (JBool b, [], [])"
| "walk_value u tool key subjects (JNum n) = (JNum n, [], [])"
| "walk_members u tool key row [] = ([], [], [])"
| "walk_members u tool key row ((k, v) # ms) =
     (case walk_value u tool k row v of (shaped, s1, f1) \<Rightarrow>
      case walk_name u tool key row k of (name, s2, f2) \<Rightarrow>
      case walk_members u tool key row ms of (out, s3, f3) \<Rightarrow>
        ((name, shaped) # out, s1 @ s2 @ s3, f1 @ f2 @ f3))"
| "walk_items u tool key subjects [] = ([], [], [])"
| "walk_items u tool key subjects (v # vs) =
     (case walk_value u tool key subjects v of (shaped, s1, f1) \<Rightarrow>
      case walk_items u tool key subjects vs of (out, s2, f2) \<Rightarrow> (shaped # out, s1 @ s2, f1 @ f2))"

definition fenced_of :: "(json \<Rightarrow> string) \<Rightarrow> json walked \<Rightarrow> fenced_result" where
  "fenced_of print w =
     (case w of (shaped, spans, flds) \<Rightarrow>
        \<lparr>fenced_content = print shaped, fenced_spans = spans, fenced_fields = flds\<rparr>)"

definition fenced_plane :: "unicode \<Rightarrow> (json \<Rightarrow> string) \<Rightarrow> string \<Rightarrow> json \<Rightarrow> fenced_result" where
  "fenced_plane u print tool v = fenced_of print (walk_value u tool ''value'' [] v)"

definition fenced_console :: "(json \<Rightarrow> string) \<Rightarrow> json \<Rightarrow> fenced_result" where
  "fenced_console print v = \<lparr>fenced_content = print v, fenced_spans = [], fenced_fields = []\<rparr>"

subsection \<open>The case file\<close>

definition id_field :: "unicode \<Rightarrow> string \<Rightarrow> json \<Rightarrow> string list \<Rightarrow> json walked" where
  "id_field u key v subjects =
     (case v of
        JString s \<Rightarrow>
          if s = [] then (v, [], [])
          else if token_shaped u s then (v, [], [(key, s)])
          else (case walk_fence CASE_TOOL key s subjects of (t, spans, flds) \<Rightarrow> (JString t, spans, flds))
      | _ \<Rightarrow> (v, [], []))"

text \<open>A loop over the members of an object, or over the items of an array, that shapes each and keeps
  the names.\<close>

fun walk_each :: "('a \<Rightarrow> 'b walked) \<Rightarrow> 'a list \<Rightarrow> 'b list walked" where
  "walk_each f [] = ([], [], [])"
| "walk_each f (x # xs) =
     (case f x of (y, s1, f1) \<Rightarrow> case walk_each f xs of (ys, s2, f2) \<Rightarrow> (y # ys, s1 @ s2, f1 @ f2))"

definition walk_object :: "(string \<Rightarrow> json \<Rightarrow> json walked) \<Rightarrow> (string \<times> json) list \<Rightarrow> json walked" where
  "walk_object f ms =
     (case walk_each (\<lambda>(k, v). case f k v of (shaped, l) \<Rightarrow> ((k, shaped), l)) ms of
        (out, l) \<Rightarrow> (obj_of out, l))"

definition case_each :: "unicode \<Rightarrow> json \<Rightarrow> string \<Rightarrow> (json \<Rightarrow> json walked) \<Rightarrow> json walked" where
  "case_each u items key one =
     (case items of
        JArray xs \<Rightarrow> (case walk_each one xs of (out, l) \<Rightarrow> (JArray out, l))
      | _ \<Rightarrow> walk_value u CASE_TOOL key [] items)"

definition case_upstream :: "unicode \<Rightarrow> json \<Rightarrow> json walked" where
  "case_upstream u upstream =
     (case upstream of
        JObject ms \<Rightarrow>
          walk_object (\<lambda>key v.
            if key = ''trust'' then (v, [], [])
            else if key = ''text'' \<and> (case v of JString s \<Rightarrow> s \<noteq> [] | _ \<Rightarrow> False)
            then (case v of
                JString s \<Rightarrow> (case walk_fence CASE_TOOL ''upstream'' s [] of (t, l) \<Rightarrow> (JString t, l))
              | _ \<Rightarrow> (v, [], []))
            else walk_value u CASE_TOOL key [] v) ms
      | _ \<Rightarrow> walk_value u CASE_TOOL ''upstream'' [] upstream)"

definition case_line :: "unicode \<Rightarrow> json \<Rightarrow> json walked" where
  "case_line u line =
     (case line of
        JObject ms \<Rightarrow>
          walk_object (\<lambda>key v.
            if key \<in> set [''section'', ''plane'', ''state'', ''facts'', ''reason''] then (v, [], [])
            else if key = ''upstream'' then case_upstream u v
            else walk_value u CASE_TOOL key [] v) ms
      | _ \<Rightarrow> walk_value u CASE_TOOL ''line'' [] line)"

definition case_fact :: "unicode \<Rightarrow> json \<Rightarrow> json walked" where
  "case_fact u fct =
     (case fct of
        JObject ms \<Rightarrow>
          (let subjects = (case Option.bind (map_of ms ''row_id'') json_str of
                             None \<Rightarrow> [] | Some s \<Rightarrow> if token_shaped u s then [s] else []) in
           walk_object (\<lambda>key v.
             if key \<in> set [''section'', ''plane'', ''label'', ''trust'', ''digest''] then (v, [], [])
             else if key = ''row_id'' then id_field u key v []
             else if key = ''row'' then walk_value u CASE_TOOL ''row'' subjects v
             else walk_value u CASE_TOOL key subjects v) ms)
      | _ \<Rightarrow> walk_value u CASE_TOOL ''fact'' [] fct)"

definition walk_case :: "unicode \<Rightarrow> json \<Rightarrow> json walked" where
  "walk_case u c =
     (case c of
        JObject ms \<Rightarrow>
          walk_object (\<lambda>key v.
            if key \<in> set [''incident_id'', ''subject'', ''claimed_agent'', ''run_id''] then id_field u key v []
            else if key = ''digest'' then (v, [], [])
            else if key = ''lines'' then case_each u v ''lines'' (case_line u)
            else if key = ''facts'' then case_each u v ''facts'' (case_fact u)
            else walk_value u CASE_TOOL key [] v) ms
      | _ \<Rightarrow> walk_value u CASE_TOOL ''value'' [] c)"

definition fenced_case :: "unicode \<Rightarrow> (json \<Rightarrow> string) \<Rightarrow> json \<Rightarrow> fenced_result" where
  "fenced_case u print c = fenced_of print (walk_case u c)"

end
