(* ===== verification/PlaneText.thy ===== *)
theory PlaneText
  imports Fence
begin

section \<open>What a text asks for\<close>

text \<open>
  \<open>crates/copilot/src/untrusted.rs\<close>, second half: whether a text reads like an instruction, which
  actions it speaks of and which ids it names. The proposal screen and the answer check ask these
  questions of plane text, of the draft and of the operator's own words.
\<close>

datatype action_kind = Kill | Budget | GrantDeny | Rescan

text \<open>\<open>plain\<close>: lowercased, hidden characters gone, whitespace single.\<close>

definition plain :: "unicode \<Rightarrow> string \<Rightarrow> string" where
  "plain u s =
     u_lower u (join '' '' (split_whitespace (concat (filter (\<lambda>c. is_white c \<or> \<not> is_hidden c) (chars s)))))"

definition INSTRUCTION_PHRASES :: "string list" where
  "INSTRUCTION_PHRASES =
     [''ignore previous'', ''ignore all'', ''ignore any'', ''ignore your'', ''ignore the above'',
      ''ignore prior'', ''disregard'', ''forget your'', ''forget previous'', ''override your'',
      ''new instruction'', ''system prompt'', ''system:'', ''assistant:'', ''developer:'',
      ''you are now'', ''you must'', ''do not tell'', ''don'' @ CHR 0x27 # ''t tell'',
      ''do not mention'', ''without telling'', ''operator approved'', ''operator has approved'',
      ''approved by the operator'', ''pre-approved'', ''preapproved'', ''propose_'', FENCE_TAG]"

definition looks_like_instruction :: "unicode \<Rightarrow> string \<Rightarrow> bool" where
  "looks_like_instruction u s \<longleftrightarrow> list_ex (contains (plain u s)) INSTRUCTION_PHRASES"

definition KILL_WORDS :: "string list" where
  "KILL_WORDS =
     [''kill'', ''killing'', ''terminate'', ''terminating'', ''abort'', ''stop'', ''stopping'',
      ''propose_kill'']"

definition BUDGET_VERBS :: "string list" where
  "BUDGET_VERBS =
     [''raise'', ''raising'', ''increase'', ''increasing'', ''lift'', ''lifting'', ''lower'',
      ''lowering'', ''set'', ''setting'', ''remove'', ''removing'', ''reset'', ''resetting'']"

definition BUDGET_NOUNS :: "string list" where
  "BUDGET_NOUNS =
     [''budget'', ''budgets'', ''cap'', ''caps'', ''limit'', ''limits'']"

definition GRANT_WORDS :: "string list" where
  "GRANT_WORDS =
     [''grant'', ''granting'', ''approve'', ''approving'', ''allow'', ''deny'', ''denying'',
      ''reject'', ''rejecting'', ''propose_grant_deny'']"

definition RESCAN_WORDS :: "string list" where
  "RESCAN_WORDS =
     [''rescan'', ''rescanning'', ''propose_rescan'']"

text \<open>The words of a text, for \<open>action_named\<close>.\<close>

definition action_words :: "unicode \<Rightarrow> string \<Rightarrow> string list" where
  "action_words u s =
     filter (\<lambda>w. w \<noteq> [])
       (split_by (\<lambda>c. \<not> (u_alphanumeric u c \<or> c = ''_''))
         (replace ''re-scan'' ''rescan'' (replace ''kill-switch'' '' '' (replace ''kill switch'' '' '' (plain u s)))))"

definition action_named :: "unicode \<Rightarrow> string \<Rightarrow> action_kind \<Rightarrow> bool" where
  "action_named u s kind =
     (let words = action_words u s; any = (\<lambda>ws. list_ex (\<lambda>w. w \<in> set words) ws) in
      case kind of
        Kill \<Rightarrow> any KILL_WORDS
      | Budget \<Rightarrow> ''propose_budget'' \<in> set words \<or> (any BUDGET_VERBS \<and> any BUDGET_NOUNS)
      | GrantDeny \<Rightarrow> any GRANT_WORDS
      | Rescan \<Rightarrow> any RESCAN_WORDS)"

definition names :: "unicode \<Rightarrow> string \<Rightarrow> string \<Rightarrow> bool" where
  "names u s token =
     (let needle = plain u token; hay = plain u s in
      if needle = [] then False
      else list_ex (whole_match (id_char u) hay needle) (match_indices hay needle))"

definition eq_ignore_ascii_case :: "string \<Rightarrow> string \<Rightarrow> bool" where
  "eq_ignore_ascii_case a b \<longleftrightarrow> to_ascii_lowercase a = to_ascii_lowercase b"

definition demands :: "unicode \<Rightarrow> span \<Rightarrow> action_kind \<Rightarrow> string \<Rightarrow> bool" where
  "demands u sp kind target \<longleftrightarrow>
     action_named u (span_text sp) kind \<and>
     (names u (span_text sp) target
      \<or> list_ex (\<lambda>s. eq_ignore_ascii_case s target) (span_subjects sp)
      \<or> looks_like_instruction u (span_text sp))"

record untrusted_text =
  ut_tool :: string
  ut_field :: string
  ut_excerpt :: string
  ut_relied_on :: bool
  ut_instruction_like :: bool

end
