(* ===== verification/Grounding.thy ===== *)
theory Grounding
  imports PlaneText
begin

section \<open>The budget check on a draft answer\<close>

text \<open>
  \<open>crates/copilot/src/grounding.rs\<close>: a statement about a run's budget or model must have a tool
  result behind it. \<open>budget_facts\<close> is what the tools returned during one answer, folded in by
  \<open>facts_record\<close>; \<open>grounding_check\<close> reads a draft clause by clause against it.
\<close>

text \<open>What \<open>f64\<close> and \<open>u64\<close> make of the text of a JSON number, and how a \<open>f64\<close> is printed.\<close>

record numbers =
  num_micros :: "string \<Rightarrow> int"
  num_ge_one :: "string \<Rightarrow> bool"
  num_nonneg :: "string \<Rightarrow> bool"
  num_u64 :: "string \<Rightarrow> nat option"
  num_confidence :: "string \<Rightarrow> string"
  num_half :: string

definition json_array :: "json \<Rightarrow> json list option" where
  "json_array v = (case v of JArray xs \<Rightarrow> Some xs | _ \<Rightarrow> None)"

definition json_num :: "json \<Rightarrow> string option" where
  "json_num v = (case v of JNum n \<Rightarrow> Some n | _ \<Rightarrow> None)"

definition nonempty :: "string option \<Rightarrow> string option" where
  "nonempty x = (case x of Some s \<Rightarrow> if s = [] then None else Some s | None \<Rightarrow> None)"

subsection \<open>Facts\<close>

record run_models =
  rm_models :: "string list option"
  rm_switches :: "nat option"

record budget_facts =
  known_runs :: "string list"
  budgeted :: "string list"
  budgets_read :: bool
  runs_over :: "string list"
  run_agent :: "(string \<times> string) list"
  agents :: "string list"
  facts_models :: "(string \<times> run_models) list"
  known_models :: "string list"

definition no_facts :: budget_facts where
  "no_facts = \<lparr>known_runs = [], budgeted = [], budgets_read = False, runs_over = [], run_agent = [],
     agents = [], facts_models = [], known_models = []\<rparr>"

definition record_models :: "numbers \<Rightarrow> budget_facts \<Rightarrow> string \<Rightarrow> (string \<times> json) list \<Rightarrow> budget_facts" where
  "record_models N f i ms =
     (let lst = nonempty (Option.bind
                  (case map_of ms ''last_model'' of Some v \<Rightarrow> Some v | None \<Rightarrow> map_of ms ''model'') json_str);
          mlist = map_option (List.map_filter (\<lambda>m. nonempty (Option.bind (json_get m ''model'') json_str)))
                    (Option.bind (map_of ms ''models'') json_array);
          switches = Option.bind (Option.bind (map_of ms ''model_switches'') json_num) (num_u64 N) in
      if lst = None \<and> mlist = None \<and> switches = None then f
      else
        (let known = (case lst of None \<Rightarrow> known_models f | Some m \<Rightarrow> bs_insert m (known_models f));
             known = foldl (\<lambda>ks m. bs_insert m ks) known (case mlist of None \<Rightarrow> [] | Some l \<Rightarrow> l);
             entry = (case map_of (facts_models f) i of Some e \<Rightarrow> e
                      | None \<Rightarrow> \<lparr>rm_models = None, rm_switches = None\<rparr>);
             entry = (if mlist \<noteq> None then entry\<lparr>rm_models := mlist\<rparr> else entry);
             entry = (if switches \<noteq> None then entry\<lparr>rm_switches := switches\<rparr> else entry) in
         f\<lparr>known_models := known, facts_models := bt_insert i entry (facts_models f)\<rparr>))"

text \<open>One row: an object that names a run, an agent or both.\<close>

definition row_facts :: "numbers \<Rightarrow> budget_facts \<Rightarrow> (string \<times> json) list \<Rightarrow> budget_facts" where
  "row_facts N f ms =
     (let agent = nonempty (Option.bind (map_of ms ''agent_id'') json_str);
          f = (case nonempty (Option.bind (map_of ms ''run_id'') json_str) of
                 None \<Rightarrow> f
               | Some i \<Rightarrow>
                   (let f = f\<lparr>known_runs := bs_insert i (known_runs f)\<rparr>;
                        f = (if (case map_of ms ''budget_usd'' of Some b \<Rightarrow> b \<noteq> JNull | None \<Rightarrow> False)
                             then f\<lparr>budgeted := bs_insert i (budgeted f)\<rparr> else f);
                        over = (Option.bind (map_of ms ''at_or_over'') json_bool = Some True \<or>
                          (case Option.bind (map_of ms ''fraction'') json_num of Some n \<Rightarrow> num_ge_one N n | None \<Rightarrow> False));
                        f = (if over then f\<lparr>runs_over := bs_insert i (runs_over f)\<rparr> else f);
                        f = (case agent of None \<Rightarrow> f | Some a \<Rightarrow> f\<lparr>run_agent := bt_insert i a (run_agent f)\<rparr>) in
                    record_models N f i ms))
      in (case agent of None \<Rightarrow> f | Some a \<Rightarrow> f\<lparr>agents := bs_insert a (agents f)\<rparr>))"

fun facts_walk :: "numbers \<Rightarrow> budget_facts \<Rightarrow> json \<Rightarrow> budget_facts"
and facts_members :: "numbers \<Rightarrow> budget_facts \<Rightarrow> (string \<times> json) list \<Rightarrow> budget_facts"
and facts_items :: "numbers \<Rightarrow> budget_facts \<Rightarrow> json list \<Rightarrow> budget_facts" where
  "facts_walk N f (JObject ms) = facts_members N (row_facts N f ms) ms"
| "facts_walk N f (JArray items) = facts_items N f items"
| "facts_walk N f JNull = f"
| "facts_walk N f (JBool b) = f"
| "facts_walk N f (JNum n) = f"
| "facts_walk N f (JString s) = f"
| "facts_members N f [] = f"
| "facts_members N f ((k, v) # ms) = facts_members N (facts_walk N f v) ms"
| "facts_items N f [] = f"
| "facts_items N f (v # vs) = facts_items N (facts_walk N f v) vs"

definition facts_record :: "numbers \<Rightarrow> budget_facts \<Rightarrow> string \<Rightarrow> bool \<Rightarrow> json \<Rightarrow> budget_facts" where
  "facts_record N f tool good v =
     (if \<not> good then f
      else facts_walk N (if tool = ''budgets'' then f\<lparr>budgets_read := True\<rparr> else f) v)"

subsection \<open>Words and clauses\<close>

definition APOSTROPHE :: string where "APOSTROPHE = [CHR 0x27]"
definition CURLY_QUOTE :: string where "CURLY_QUOTE = utf8 [0xE2, 0x80, 0x99]"

definition words :: "unicode \<Rightarrow> string \<Rightarrow> string list" where
  "words u s =
     filter (\<lambda>w. w \<noteq> [])
       (split_by (\<lambda>c. \<not> (u_alphanumeric u c \<or> c = APOSTROPHE \<or> c = ''_''))
         (replace CURLY_QUOTE APOSTROPHE (u_lower u s)))"

definition LAST_MODEL_PHRASES :: "string list" where
  "LAST_MODEL_PHRASES =
     [''last model'', ''latest model'', ''most recent model'', ''last call'', ''latest call'',
      ''most recent call'', ''last_model'']"

definition BUDGET_WORDS :: "string list" where
  "BUDGET_WORDS =
     [''budget'', ''budgets'', ''budgeted'', ''cap'', ''caps'', ''capped'']"

definition OVER_WORDS :: "string list" where
  "OVER_WORDS =
     [''over'', ''overage'', ''overages'', ''overspent'', ''overspend'', ''overrun'', ''exceed'',
      ''exceeds'', ''exceeded'', ''exceeding'', ''breach'', ''breached'']"

definition NOT_ABSENCE :: "string list" where
  "NOT_ABSENCE =
     [''issue'', ''issues'', ''problem'', ''problems'', ''concern'', ''concerns'', ''alert'',
      ''alerts'', ''overage'', ''overages'', ''warning'', ''warnings'']"

definition NEGATORS :: "string list" where
  "NEGATORS =
     [''no'', ''not'', ''without'', ''lack'', ''lacks'', ''lacking'', ''none'']"

definition FILLER :: "string list" where
  "FILLER =
     [''have'', ''has'', ''had'', ''a'', ''an'', ''any'', ''set'', ''its'', ''their'', ''the'',
      ''control'', ''plane'', ''central'', ''run'', ''per'']"

definition is_over_word :: "string \<Rightarrow> bool" where "is_over_word w \<longleftrightarrow> w \<in> set OVER_WORDS"
definition is_budget_word :: "string \<Rightarrow> bool" where "is_budget_word w \<longleftrightarrow> w \<in> set BUDGET_WORDS"

definition is_negator :: "string \<Rightarrow> bool" where
  "is_negator w \<longleftrightarrow> w \<in> set NEGATORS \<or> suffix (''n'' @ APOSTROPHE @ ''t'') w"

text \<open>The loop that looks back from a budget word: \<open>j\<close> runs down from the word before it.\<close>

fun negated_back :: "string list \<Rightarrow> bool" where
  "negated_back [] = False"
| "negated_back (prev # rest) =
     (if is_negator prev then True else if prev \<notin> set FILLER then False else negated_back rest)"

definition says_no_budget :: "string list \<Rightarrow> bool" where
  "says_no_budget ws \<longleftrightarrow>
     ''unbudgeted'' \<in> set ws \<or>
     list_ex (\<lambda>i.
       is_budget_word (ws ! i)
       \<and> \<not> (case at ws (i + 1) of Some n \<Rightarrow> n \<in> set NOT_ABSENCE | None \<Rightarrow> False)
       \<and> negated_back (rev (take i ws))) [0..<length ws]"

fun clause_pieces :: "string \<Rightarrow> string list \<Rightarrow> string list" where
  "clause_pieces cur [] = [cur]"
| "clause_pieces cur (c # cs) =
     (let next_is_gap = (case cs of [] \<Rightarrow> True | n # _ \<Rightarrow> is_white n) in
      if c = [LF] \<or> c = '';'' \<or> (c \<in> set [''.'', ''!'', ''?''] \<and> next_is_gap)
      then cur # clause_pieces [] cs
      else clause_pieces (cur @ c) cs)"

definition is_char_boundary :: "string \<Rightarrow> nat \<Rightarrow> bool" where
  "is_char_boundary s i \<longleftrightarrow> i = 0 \<or> i = length s \<or> (i < length s \<and> \<not> is_cont (s ! i))"

fun cut_at :: "string \<Rightarrow> nat \<Rightarrow> (nat \<times> nat) list \<Rightarrow> string list" where
  "cut_at clause start [] = [drop start clause]"
| "cut_at clause start ((i, n) # cuts) =
     (if start \<le> i \<and> is_char_boundary clause i \<and> is_char_boundary clause (i + n)
      then take (i - start) (drop start clause) # cut_at clause (i + n) cuts
      else cut_at clause start cuts)"

definition split_contrast :: "unicode \<Rightarrow> string \<Rightarrow> string list" where
  "split_contrast u clause =
     (let lower = u_lower u clause;
          cuts = sort_key fst (concat (map (\<lambda>w. map (\<lambda>i. (i, length w)) (match_indices lower w))
                   ['' but '', '' while '', '' whereas '']))
      in cut_at clause 0 cuts)"

definition clauses :: "unicode \<Rightarrow> string \<Rightarrow> string list" where
  "clauses u s = filter (\<lambda>c. trim c \<noteq> []) (concat (map (split_contrast u) (clause_pieces [] (chars s))))"

subsection \<open>Who a clause is about\<close>

definition runs_named :: "unicode \<Rightarrow> string \<Rightarrow> string list \<Rightarrow> string list" where
  "runs_named u clause known =
     filter (\<lambda>i. list_ex (whole_match (id_char u) clause i) (match_indices clause i)) known"

definition model_match :: "unicode \<Rightarrow> string \<Rightarrow> string \<Rightarrow> nat \<Rightarrow> bool" where
  "model_match u lower needle i =
     (let is_id = (\<lambda>c. u_alphanumeric u c \<or> c \<in> set [''-'', ''_'', ''/'']);
          rest = chars (drop (i + length needle) lower);
          continues = (case rest of [] \<Rightarrow> False
            | a # more_chars \<Rightarrow> is_id a \<or> (a = ''.'' \<and> (case more_chars of [] \<Rightarrow> False | b # _ \<Rightarrow> u_alphanumeric u b)));
          prior = (case last_char (take i lower) of None \<Rightarrow> False | Some c \<Rightarrow> is_id c \<or> c = ''.'')
      in \<not> prior \<and> \<not> continues)"

definition models_named :: "unicode \<Rightarrow> string \<Rightarrow> string list \<Rightarrow> string list" where
  "models_named u clause known =
     (let lower = u_lower u clause in
      filter (\<lambda>i. list_ex (model_match u lower (u_lower u i)) (match_indices lower (u_lower u i))) known)"

definition agents_named :: "unicode \<Rightarrow> string \<Rightarrow> string list \<Rightarrow> (string \<times> string list) list" where
  "agents_named u clause ags =
     (let by_label = foldl (\<lambda>m i.
            (let lst = u_lower u (last_part CHR ''/'' i) in
             if lst = [] then m
             else bt_insert lst (bs_insert i (case map_of m lst of None \<Rightarrow> [] | Some ids \<Rightarrow> ids)) m)) [] ags;
          lower = u_lower u clause
      in filter (\<lambda>(label, ids). list_ex (whole_match (id_char u) lower label) (match_indices lower label)) by_label)"

subsection \<open>The check\<close>

definition quoted :: "string \<Rightarrow> string" where
  "quoted s = ''`'' @ s @ ''`''"

definition model_claim :: "unicode \<Rightarrow> string \<Rightarrow> budget_facts \<Rightarrow> (string \<times> string) option" where
  "model_claim u clause facts =
     (case runs_named u clause (known_runs facts) of
        [r] \<Rightarrow>
          (case map_of (facts_models facts) r of
             None \<Rightarrow> None
           | Some fct \<Rightarrow>
               if list_ex (contains (u_lower u clause)) LAST_MODEL_PHRASES then None
               else (case models_named u clause (known_models facts) of
                   [model] \<Rightarrow>
                     (let head = ''names '' @ quoted model @ '' as the model run '' @ quoted r @ '' used, but the tools return'' in
                      case rm_models fct of
                        Some l \<Rightarrow>
                          if length l = 1 \<and> l ! 0 = model \<and> (case rm_switches fct of None \<Rightarrow> 0 | Some n \<Rightarrow> n) = 0 then None
                          else if 1 < length l then
                            Some (''model:'' @ r, head @ ''ed '' @ dec (length l) @ '' models for '' @ quoted r @ '': '' @ join '', '' l)
                          else
                            Some (''model:'' @ r, head @ ''ed '' @
                              (if l = [] then ''no model'' else quoted (join '', '' l)) @ '' for '' @ quoted r)
                      | None \<Rightarrow>
                          Some (''model:'' @ r, head @ '' only the model of '' @ quoted r @ APOSTROPHE @
                            ''s last call, so which models '' @ quoted r @ '' used is not known''))
                 | _ \<Rightarrow> None))
      | _ \<Rightarrow> None)"

text \<open>The findings so far, the keys already reported, and whether the missing \<open>budgets\<close> call was.\<close>

type_synonym check_state = "string list \<times> string list \<times> bool"

definition report_once :: "string \<Rightarrow> string \<Rightarrow> check_state \<Rightarrow> check_state" where
  "report_once key finding st =
     (case st of (findings, seen, unread) \<Rightarrow>
        if key \<in> set seen then st else (findings @ [finding], key # seen, unread))"

definition UNREAD :: string where
  "UNREAD = ''states budget facts without calling `budgets`, the only tool that says which runs have a budget''"

definition check_unread :: "bool \<Rightarrow> budget_facts \<Rightarrow> string \<Rightarrow> string list \<Rightarrow> check_state \<Rightarrow> check_state" where
  "check_unread available facts clause runs st =
     (case st of (findings, seen, unread) \<Rightarrow>
        if available \<and> \<not> budgets_read facts \<and> \<not> unread \<and> (runs \<noteq> [] \<or> CHR ''$'' \<in> set clause)
        then (findings @ [UNREAD], seen, True) else st)"

definition check_over :: "unicode \<Rightarrow> budget_facts \<Rightarrow> string \<Rightarrow> string list \<Rightarrow> string list \<Rightarrow> check_state \<Rightarrow> check_state" where
  "check_over u facts clause ws runs st =
     (if \<not> (list_ex is_over_word ws \<and> \<not> list_ex is_negator ws) then st
      else
        foldl (\<lambda>st (label, ids).
            if \<not> list_ex (\<lambda>r. case map_of (run_agent facts) r of None \<Rightarrow> False | Some a \<Rightarrow> a \<in> set ids) (runs_over facts)
            then report_once (''agent-over:'' @ label)
              (''says agent '' @ quoted label @ '' is over a budget, but no tool returned a run of '' @ quoted label @
               '' at or over its budget'') st
            else st)
          (case runs of
             [r] \<Rightarrow>
               if r \<in> set (budgeted facts) \<and> r \<notin> set (runs_over facts)
               then report_once (''over:'' @ r)
                 (''says run '' @ quoted r @ '' is over its budget, but the tools returned '' @ quoted r @ '' under it'') st
               else st
           | _ \<Rightarrow> st)
          (agents_named u clause (agents facts)))"

definition check_has :: "budget_facts \<Rightarrow> string list \<Rightarrow> string list \<Rightarrow> check_state \<Rightarrow> check_state" where
  "check_has facts ws runs st =
     (if says_no_budget ws then
        foldl (\<lambda>st r.
            if r \<in> set (budgeted facts)
            then report_once (''none:'' @ r)
              (''says run '' @ quoted r @ '' has no budget, but a tool returned a budget for '' @ quoted r) st
            else st) st runs
      else (case runs of
          [r] \<Rightarrow>
            if r \<notin> set (budgeted facts)
            then report_once (''has:'' @ r)
              (''states a budget for run '' @ quoted r @ '', but no tool returned a budget for '' @ quoted r) st
            else st
        | _ \<Rightarrow> st))"

definition check_clause :: "unicode \<Rightarrow> budget_facts \<Rightarrow> bool \<Rightarrow> check_state \<Rightarrow> string \<Rightarrow> check_state" where
  "check_clause u facts available st clause =
     (let st = (case model_claim u clause facts of
                  None \<Rightarrow> st | Some (key, finding) \<Rightarrow> report_once key finding st);
          ws = words u clause in
      if \<not> list_ex is_budget_word ws then st
      else
        (let runs = runs_named u clause (known_runs facts) in
         check_has facts ws runs (check_over u facts clause ws runs (check_unread available facts clause runs st))))"

definition grounding_check :: "unicode \<Rightarrow> string \<Rightarrow> budget_facts \<Rightarrow> bool \<Rightarrow> string list" where
  "grounding_check u s facts available = fst (foldl (check_clause u facts available) ([], [], False) (clauses u s))"

subsection \<open>What the model and the operator are told\<close>

definition model_rule :: "string list \<Rightarrow> string" where
  "model_rule findings =
     (if list_ex (\<lambda>f. contains f ''as the model run'') findings then
        '' A run'' @ APOSTROPHE @ ''s `last_model` is the model of its last call only: name it as the last model, '' @
        ''and say a run used one model only when `models` lists exactly that one. When '' @
        ''`models` is null, say which models the run used is not known.''
      else [])"

definition revision_request :: "string list \<Rightarrow> string" where
  "revision_request findings =
     ''Automatic check of your draft against this answer'' @ APOSTROPHE @ ''s tool results (this message is from '' @
     ''the console, not the operator):'' @ concat (map (\<lambda>f. [LF] @ ''- Your draft '' @ f @ ''.'') findings) @ [LF, LF] @
     ''Revise the answer so every budget statement '' @
     ''comes from a tool result. A run has a budget only if `budgets` (or `alerts`) returned '' @
     ''one for that run, and a budget returned for one run never belongs to another. If '' @
     ''budgets cannot be read, say so.'' @ model_rule findings @ '' Reply with only the corrected answer for the '' @
     ''operator, written as if it were your first answer. Do not mention this check, '' @
     ''apologise, or say that you are revising.''"

definition residual_note :: "string list \<Rightarrow> string" where
  "residual_note findings =
     [LF, LF] @ ''Check: these statements are not supported by any tool result in this answer:'' @
     concat (map (\<lambda>f. [LF] @ ''- the answer '' @ f) findings)"

end
