(* ===== verification/References.thy ===== *)
theory References
  imports Grounding "HOL-Library.Signed_Division"
begin

section \<open>What an answer points at\<close>

text \<open>
  \<open>crates/copilot/src/references.rs\<close>: every id and every dollar amount of a draft must be one a tool
  returned in the same answer, and a proposal becomes a card only if the same evidence lets it. An
  \<open>i128\<close> is an \<open>int\<close>; where the release build wraps (\<open>rounds_to\<close>) the wrap is written out.
\<close>

definition MAX_UNTRUSTED_ROWS :: nat where "MAX_UNTRUSTED_ROWS = 20"
definition EXCERPT_CHARS :: nat where "EXCERPT_CHARS = 160"
definition OVERLAP_WORDS :: nat where "OVERLAP_WORDS = 5"

datatype kind = Run | Incident | Policy | Agent | Approval | Memory | Other

definition kind_label :: "kind \<Rightarrow> string" where
  "kind_label k = (case k of Run \<Rightarrow> ''run'' | Incident \<Rightarrow> ''incident'' | Policy \<Rightarrow> ''policy'' | Agent \<Rightarrow> ''agent''
     | Approval \<Rightarrow> ''approval'' | Memory \<Rightarrow> ''memory'' | Other \<Rightarrow> ''id'')"

definition kind_of :: "string \<Rightarrow> string \<Rightarrow> kind" where
  "kind_of tool key =
     (if key = ''run_id'' then Run
      else if key \<in> set [''agent_id'', ''identity'', ''on_behalf_of''] then Agent
      else if key = ''approval_id'' then Approval
      else if key = ''id'' \<and> tool = ''incidents'' then Incident
      else if key \<in> set [''id'', ''name'', ''target''] \<and> tool = ''policies'' then Policy
      else if key = ''id'' \<and> tool = ''identities'' then Agent
      else if key = ''id'' \<and> tool \<in> set [''memory_recall'', ''memory_why''] then Memory
      else if key = ''id'' \<and> tool = ''quality_latest'' then Run
      else if key = ''incident_id'' then Incident
      else if key = ''claimed_agent'' then Agent
      else Other)"

definition target_kind :: "action_kind \<Rightarrow> kind" where
  "target_kind a = (case a of Kill \<Rightarrow> Run | Budget \<Rightarrow> Run | GrantDeny \<Rightarrow> Approval | Rescan \<Rightarrow> Agent)"

definition ACTION_KINDS :: "action_kind list" where
  "ACTION_KINDS = [Kill, Budget, GrantDeny, Rescan]"

record finding =
  fi_message :: string
  fi_statement :: "nat \<times> nat"

record evidence =
  ev_ids :: "(string \<times> kind list) list"
  ev_vocabulary :: "string list"
  ev_amounts :: "int list"
  ev_stated :: "int list"
  ev_spans :: "span list"

subsection \<open>Amounts\<close>

record amount =
  am_text :: string
  am_micros :: int
  am_step :: int

definition I128_MAX :: int where "I128_MAX = 2 ^ 127 - 1"

definition wrap128 :: "int \<Rightarrow> int" where
  "wrap128 x = (x + 2 ^ 127) mod 2 ^ 128 - 2 ^ 127"

definition rounds_to :: "int \<Rightarrow> int \<Rightarrow> int" where
  "rounds_to micros step = wrap128 ((wrap128 (micros + step div 2) sdiv step) * step)"

definition checked_mul :: "int option \<Rightarrow> int \<Rightarrow> int option" where
  "checked_mul a b = Option.bind a (\<lambda>x. if x * b \<le> I128_MAX then Some (x * b) else None)"

fun dec_value_from :: "int \<Rightarrow> string \<Rightarrow> int" where
  "dec_value_from acc [] = acc"
| "dec_value_from acc (c # cs) = dec_value_from (10 * acc + (of_char c - 48)) cs"

text \<open>\<open>str::parse::<i128>\<close> on a string of digits.\<close>

definition parse_i128 :: "string \<Rightarrow> int option" where
  "parse_i128 digits =
     (if digits = [] then None
      else if dec_value_from 0 digits \<le> I128_MAX then Some (dec_value_from 0 digits) else None)"

text \<open>The scan of \<open>parse_amount\<close>: the digits before and after the point, and the bytes taken.\<close>

fun scan_number :: "bool \<Rightarrow> string \<Rightarrow> string \<Rightarrow> nat \<Rightarrow> string \<Rightarrow> string \<times> string \<times> nat" where
  "scan_number in_fraction whole fraction used [] = (whole, fraction, used)"
| "scan_number in_fraction whole fraction used (c # cs) =
     (let next_is_digit = (case cs of [] \<Rightarrow> False | n # _ \<Rightarrow> ascii_digit n) in
      if ascii_digit c then
        (if in_fraction then scan_number in_fraction whole (fraction @ [c]) (used + 1) cs
         else scan_number in_fraction (whole @ [c]) fraction (used + 1) cs)
      else if c = CHR '','' \<and> \<not> in_fraction \<and> whole \<noteq> [] \<and> next_is_digit then
        scan_number in_fraction whole fraction (used + 1) cs
      else if c = CHR ''.'' \<and> \<not> in_fraction \<and> next_is_digit then
        scan_number True whole fraction (used + 1) cs
      else (whole, fraction, used))"

definition parse_amount :: "unicode \<Rightarrow> string \<Rightarrow> (int \<times> int \<times> nat) option" where
  "parse_amount u s =
     (case scan_number False [] [] 0 s of (whole, fraction, used) \<Rightarrow>
        if whole = [] \<and> fraction = [] then None
        else
          (let after = chars (drop used s);
               free = (case after of _ # b # _ \<Rightarrow> \<not> u_alphanumeric u b | _ \<Rightarrow> True);
               (scale, used) =
                 (case after of [] \<Rightarrow> (1, used)
                  | a # _ \<Rightarrow>
                      if a \<in> set [''k'', ''K''] \<and> free then (1000, used + 1)
                      else if a \<in> set [''m'', ''M''] \<and> free then (1000000, used + 1)
                      else (1, used));
               places = min (length fraction) 6;
               unit = 10 ^ (6 - places) in
           case checked_mul (checked_mul (parse_i128 (whole @ take places fraction)) unit) scale of
             Some micros \<Rightarrow> Some (micros, unit * scale, used)
           | None \<Rightarrow> Some (I128_MAX, 1, used)))"

definition add_amount :: "string \<Rightarrow> nat \<Rightarrow> nat \<Rightarrow> int \<Rightarrow> int \<Rightarrow> amount list \<Rightarrow> amount list" where
  "add_amount s start stop micros step out =
     (if list_ex (\<lambda>a. am_micros a = micros) out then out
      else out @ [\<lparr>am_text = trim (take (stop - start) (drop start s)), am_micros = micros, am_step = step\<rparr>])"

definition dollar_amounts :: "unicode \<Rightarrow> string \<Rightarrow> amount list \<Rightarrow> nat \<Rightarrow> amount list" where
  "dollar_amounts u s out i =
     (case parse_amount u (drop (i + 1) s) of
        None \<Rightarrow> out | Some (micros, step, used) \<Rightarrow> add_amount s i (i + 1 + used) micros step out)"

text \<open>An amount before or after \<open>usd\<close>.\<close>

definition usd_amounts :: "unicode \<Rightarrow> string \<Rightarrow> amount list \<Rightarrow> nat \<Rightarrow> amount list" where
  "usd_amounts u s out i =
     (let is_word_char = (\<lambda>c. u_alphanumeric u c \<or> c = ''_'');
          touches = (\<lambda>c. case c of None \<Rightarrow> False | Some x \<Rightarrow> is_word_char x) in
      if touches (last_char (take i s)) \<or> touches (first_char (drop (i + 3) s)) then out
      else
        (let rest = trim_start_by is_white (drop (i + 3) s); gap = length s - length rest in
         case parse_amount u rest of
           Some (micros, step, used) \<Rightarrow> add_amount s i (gap + used) micros step out
         | None \<Rightarrow>
             (let head = trim_end_by is_white (take i s);
                  trail = takeWhile (\<lambda>c. ascii_digit c \<or> c = CHR '','' \<or> c = CHR ''.'') (rev head);
                  start = length head - length trail in
              if trail = [] then out
              else (case parse_amount u (drop start head) of
                  None \<Rightarrow> out
                | Some (micros, step, _) \<Rightarrow> add_amount s start (i + 3) micros step out))))"

definition amounts :: "unicode \<Rightarrow> string \<Rightarrow> amount list" where
  "amounts u s =
     foldl (usd_amounts u s)
       (foldl (dollar_amounts u s) [] (match_indices s ''$''))
       (match_indices (to_ascii_lowercase s) ''usd'')"

subsection \<open>The evidence\<close>

definition ground_id :: "kind \<Rightarrow> string \<Rightarrow> (string \<times> kind list) list \<Rightarrow> (string \<times> kind list) list" where
  "ground_id k i ids =
     bt_insert i (List.insert k (case map_of ids i of None \<Rightarrow> [] | Some ks \<Rightarrow> ks)) ids"

text \<open>\<open>to_lowercase\<close> and \<open>trim_end_matches(['/', '*'])\<close>: the form an id is filed and looked up under.\<close>

definition stem_of :: "unicode \<Rightarrow> string \<Rightarrow> string" where
  "stem_of u v = rev (dropWhile (\<lambda>c. c = CHR ''/'' \<or> c = CHR ''*'') (rev (u_lower u v)))"

text \<open>The names a structured value is filed under, in the order \<open>ground\<close> files them.\<close>

definition names_of_value :: "unicode \<Rightarrow> string \<Rightarrow> string list" where
  "names_of_value u v =
     (let stem = stem_of u v in
      if stem = [] then []
      else [stem]
         @ (case strip_prefix ''key:'' stem of Some key \<Rightarrow> if key = [] then [] else [key] | None \<Rightarrow> [])
         @ (let short = last_part CHR ''/'' stem in if short \<noteq> stem \<and> short \<noteq> [] then [short] else []))"

definition ground :: "unicode \<Rightarrow> evidence \<Rightarrow> kind \<Rightarrow> string \<Rightarrow> evidence" where
  "ground u ev k v = ev\<lparr>ev_ids := foldl (\<lambda>ids i. ground_id k i ids) (ev_ids ev) (names_of_value u v)\<rparr>"

definition evidence_new :: "unicode \<Rightarrow> string list \<Rightarrow> string option \<Rightarrow> evidence" where
  "evidence_new u tools operator =
     \<lparr>ev_ids = [], ev_vocabulary = foldl (\<lambda>vs t. bs_insert (u_lower u t) vs) [] tools, ev_amounts = [],
      ev_stated = foldl (\<lambda>st a. bs_insert (am_micros a) st) [] (case operator of None \<Rightarrow> [] | Some q \<Rightarrow> amounts u q),
      ev_spans = []\<rparr>"

fun read_numbers :: "numbers \<Rightarrow> evidence \<Rightarrow> bool \<Rightarrow> json \<Rightarrow> evidence"
and read_members :: "numbers \<Rightarrow> evidence \<Rightarrow> bool \<Rightarrow> (string \<times> json) list \<Rightarrow> evidence"
and read_items :: "numbers \<Rightarrow> evidence \<Rightarrow> bool \<Rightarrow> json list \<Rightarrow> evidence" where
  "read_numbers N ev usd (JObject ms) = read_members N ev usd ms"
| "read_numbers N ev usd (JArray items) = read_items N ev usd items"
| "read_numbers N ev usd (JNum n) =
     (if usd then ev\<lparr>ev_amounts := bs_insert (num_micros N n) (ev_amounts ev)\<rparr> else ev)"
| "read_numbers N ev usd JNull = ev"
| "read_numbers N ev usd (JBool b) = ev"
| "read_numbers N ev usd (JString s) = ev"
| "read_members N ev usd [] = ev"
| "read_members N ev usd ((key, v) # ms) =
     (let ev = (if list_all (\<lambda>c. ascii_lower_letter c \<or> c = CHR ''_'') key
                then ev\<lparr>ev_vocabulary := bs_insert key (ev_vocabulary ev)\<rparr> else ev)
      in read_members N (read_numbers N ev (usd \<or> suffix ''_usd'' key \<or> key = ''usd'') v) usd ms)"
| "read_items N ev usd [] = ev"
| "read_items N ev usd (v # vs) = read_items N (read_numbers N ev usd v) usd vs"

definition evidence_record :: "unicode \<Rightarrow> numbers \<Rightarrow> evidence \<Rightarrow> string \<Rightarrow> bool \<Rightarrow> json \<Rightarrow> fenced_result \<Rightarrow> evidence" where
  "evidence_record u N ev tool good raw fenced =
     (let ev = ev\<lparr>ev_spans := ev_spans ev @ fenced_spans fenced\<rparr> in
      if \<not> good then ev
      else read_numbers N (foldl (\<lambda>ev (key, v). ground u ev (kind_of tool key) v) ev (fenced_fields fenced)) False raw)"

definition grounded :: "unicode \<Rightarrow> evidence \<Rightarrow> string \<Rightarrow> bool" where
  "grounded u ev token \<longleftrightarrow> map_of (ev_ids ev) (stem_of u token) \<noteq> None"

definition grounded_as :: "unicode \<Rightarrow> evidence \<Rightarrow> kind \<Rightarrow> string \<Rightarrow> bool" where
  "grounded_as u ev k token \<longleftrightarrow>
     (case map_of (ev_ids ev) (stem_of u token) of None \<Rightarrow> False | Some kinds \<Rightarrow> k \<in> set kinds)"

definition supported :: "evidence \<Rightarrow> amount \<Rightarrow> bool" where
  "supported ev a \<longleftrightarrow>
     am_micros a \<in> set (ev_stated ev)
     \<or> list_ex (\<lambda>t. t = am_micros a \<or> (am_micros a \<noteq> 0 \<and> rounds_to t (am_step a) = am_micros a)) (ev_amounts ev)"

definition span_naming :: "unicode \<Rightarrow> evidence \<Rightarrow> string \<Rightarrow> span option" where
  "span_naming u ev token = List.find (\<lambda>s. names u (span_text s) token) (ev_spans ev)"

definition demanding_span :: "unicode \<Rightarrow> evidence \<Rightarrow> action_kind \<Rightarrow> string \<Rightarrow> span option" where
  "demanding_span u ev kind target = List.find (\<lambda>s. demands u s kind target) (ev_spans ev)"

definition asked :: "unicode \<Rightarrow> string option \<Rightarrow> action_kind \<Rightarrow> string \<Rightarrow> bool" where
  "asked u operator kind target \<longleftrightarrow>
     (case operator of None \<Rightarrow> False | Some q \<Rightarrow> action_named u q kind \<and> names u q target)"

subsection \<open>Statements\<close>

fun statements_from :: "nat \<Rightarrow> nat \<Rightarrow> string list \<Rightarrow> (nat \<times> nat) list" where
  "statements_from start p [] = (if start < p then [(start, p)] else [])"
| "statements_from start p (c # cs) =
     (let stop = p + length c; gap = (case cs of [] \<Rightarrow> True | n # _ \<Rightarrow> is_white n) in
      if c = [LF] \<or> c = '';'' \<or> (c \<in> set [''.'', ''!'', ''?''] \<and> gap)
      then (start, stop) # statements_from stop stop cs
      else statements_from start stop cs)"

definition statements :: "string \<Rightarrow> (nat \<times> nat) list" where
  "statements s = statements_from 0 0 (chars s)"

definition range_of :: "string \<Rightarrow> nat \<times> nat \<Rightarrow> string" where
  "range_of s r = take (snd r - fst r) (drop (fst r) s)"

definition without_statements :: "string \<Rightarrow> finding list \<Rightarrow> string" where
  "without_statements s findings =
     (if findings = [] then s
      else trim (concat (map (range_of s)
             (filter (\<lambda>r. \<not> list_ex (\<lambda>f. fi_statement f = r) findings) (statements s)))))"

definition removal_note :: "string list \<Rightarrow> string" where
  "removal_note findings =
     [LF, LF] @ ''Check: statements were removed from this answer:'' @
     concat (map (\<lambda>f. [LF] @ ''- the draft '' @ f) findings)"

definition ABSENCE_PHRASES :: "string list" where
  "ABSENCE_PHRASES =
     [''not returned'', ''no tool'', ''did not return'', ''didn'' @ CHR 0x27 # ''t return'',
      ''not found'', ''could not find'', ''couldn'' @ CHR 0x27 # ''t find'', ''cannot find'',
      ''can'' @ CHR 0x27 # ''t find'', ''not listed'', ''isn'' @ CHR 0x27 # ''t listed'',
      ''does not exist'', ''doesn'' @ CHR 0x27 # ''t exist'', ''no such'', ''no record'',
      ''cannot say'', ''can'' @ CHR 0x27 # ''t say'', ''cannot tell'',
      ''can'' @ CHR 0x27 # ''t tell'']"

definition says_absent :: "unicode \<Rightarrow> string \<Rightarrow> bool" where
  "says_absent u statement \<longleftrightarrow>
     list_ex (contains (replace CURLY_QUOTE APOSTROPHE (u_lower u statement))) ABSENCE_PHRASES"

definition TEXT_NOUNS :: "string list" where
  "TEXT_NOUNS =
     [''summary'', ''message'', ''event'', ''log'', ''memory'', ''text'', ''note'', ''explanation'',
      ''line'']"

definition TEXT_VERBS :: "string list" where
  "TEXT_VERBS =
     [''says'', ''said'', ''claims'', ''claimed'', ''names'', ''named'', ''mentions'', ''mentioned'',
      ''reads'', ''asks'', ''asked'', ''tells'', ''told'', ''states'', ''stated'', ''quotes'',
      ''quoted'', ''contains'', ''demands'', ''instructs'', ''suggests'']"

definition reported :: "unicode \<Rightarrow> string \<Rightarrow> bool" where
  "reported u statement \<longleftrightarrow>
     (let w = words u statement in
      list_ex (\<lambda>x. x \<in> set TEXT_NOUNS) w \<and> list_ex (\<lambda>x. x \<in> set TEXT_VERBS) w)"

definition REFUSAL_WORDS :: "string list" where
  "REFUSAL_WORDS =
     [''never'', ''cannot'', ''refuse'', ''refused'', ''ignored'', ''avoid'', ''withheld'']"

definition refused :: "unicode \<Rightarrow> string \<Rightarrow> bool" where
  "refused u statement \<longleftrightarrow> list_ex (\<lambda>w. is_negator w \<or> w \<in> set REFUSAL_WORDS) (words u statement)"

subsection \<open>Ids in a statement\<close>

record reference_token =
  ref_kind :: kind
  ref_token :: string

definition keyword :: "unicode \<Rightarrow> string \<Rightarrow> kind option" where
  "keyword u word =
     (let w = u_lower u word in
      if w \<in> set [''run'', ''runs''] then Some Run
      else if w \<in> set [''incident'', ''incidents''] then Some Incident
      else if w \<in> set [''policy'', ''policies''] then Some Policy
      else if w \<in> set [''agent'', ''agents'', ''identity'', ''identities''] then Some Agent
      else if w \<in> set [''approval'', ''approvals''] then Some Approval
      else if w \<in> set [''memory'', ''memories''] then Some Memory
      else None)"

definition BETWEEN :: "string list" where
  "BETWEEN =
     [''id'', ''ids'', ''named'', ''called'']"

definition PROSE_HYPHENS :: "string list" where
  "PROSE_HYPHENS =
     [''over-budget'', ''under-budget'', ''near-cap'', ''over-cap'', ''read-only'', ''long-running'',
      ''high-spend'', ''low-spend'', ''per-run'', ''per-agent'', ''cross-plane'', ''root-cause'',
      ''fan-out'', ''follow-up'']"

definition NOT_AN_ID :: "string list" where
  "NOT_AN_ID =
     [''top-'', ''tier-'', ''level-'', ''phase-'', ''step-'', ''pre-'', ''post-'', ''mid-'',
      ''sha-'', ''utf-'', ''iso-'', ''soc-'', ''rfc-'', ''cve-'', ''aes-'', ''rsa-'', ''ml-'',
      ''x-'']"

definition is_edge :: "string \<Rightarrow> bool" where
  "is_edge c \<longleftrightarrow>
     (\<exists>b\<in>set ''{}<>;:.!?`*~''. c = [b]) \<or> c = [CHR 0x22] \<or> c = APOSTROPHE
     \<or> c \<in> set [utf8 [0xE2, 0x80, 0x98], CURLY_QUOTE, utf8 [0xE2, 0x80, 0x9C], utf8 [0xE2, 0x80, 0x9D]]"

definition clean :: "string \<Rightarrow> string" where
  "clean word =
     (let word = trim_by is_edge word;
          word = (case strip_suffix (APOSTROPHE @ ''s'') word of
                    Some w \<Rightarrow> w
                  | None \<Rightarrow> (case strip_suffix (CURLY_QUOTE @ ''s'') word of Some w \<Rightarrow> w | None \<Rightarrow> word))
      in trim_by is_edge (last_part CHR ''='' word))"

definition id_like :: "unicode \<Rightarrow> string \<Rightarrow> bool" where
  "id_like u word \<longleftrightarrow>
     u_lower u word \<notin> set PROSE_HYPHENS
     \<and> list_ex (\<lambda>c. ascii_digit c \<or> c \<in> set ''-_:/'') word"

definition bare_id :: "unicode \<Rightarrow> string \<Rightarrow> bool" where
  "bare_id u word \<longleftrightarrow>
     (let shouting = list_all (u_uppercase u) (filter (u_alphabetic u) (chars word)) in
      (case first_char word of None \<Rightarrow> False | Some c \<Rightarrow> u_alphabetic u c)
      \<and> list_ex (\<lambda>c. c = CHR ''-'' \<or> c = CHR ''_'') word
      \<and> (list_ex ascii_digit word \<or> CHR '':'' \<in> set word)
      \<and> \<not> shouting
      \<and> \<not> list_ex (\<lambda>p. prefix p (u_lower u word)) NOT_AN_ID)"

definition reference :: "unicode \<Rightarrow> string \<Rightarrow> bool \<Rightarrow> kind option \<Rightarrow> reference_token option" where
  "reference u word in_code prior =
     (let found = (\<lambda>k t. Some \<lparr>ref_kind = k, ref_token = t\<rparr>);
          headed = (case split_once CHR '':'' word of
                      None \<Rightarrow> None
                    | Some (head, rest) \<Rightarrow> if rest = [] then None else map_option (\<lambda>k. (k, rest)) (keyword u head)) in
      if \<not> chars_any (u_alphabetic u) word \<or> prefix ''$'' word then None
      else if prefix ''agent://'' (u_lower u word) then found Agent word
      else if contains word ''://'' then None
      else (case headed of
          Some (k, rest) \<Rightarrow> found k rest
        | None \<Rightarrow>
            if (prior \<noteq> None \<or> in_code) \<and> id_like u word
            then found (case prior of Some k \<Rightarrow> k | None \<Rightarrow> Other) word
            else if bare_id u word then found Other word
            else None))"

text \<open>Every second piece of a list, from the second on.\<close>

fun every_second :: "'a list \<Rightarrow> 'a list" where
  "every_second (a # b # xs) = b # every_second xs"
| "every_second _ = []"

definition is_separator :: "string \<Rightarrow> bool" where
  "is_separator c \<longleftrightarrow>
     is_white c \<or> (\<exists>b\<in>set '',|()[]''. c = [b]) \<or> c \<in> set [utf8 [0xE2, 0x86, 0x92], utf8 [0xE2, 0x86, 0x90]]"

definition kind_before :: "unicode \<Rightarrow> string list \<Rightarrow> nat \<Rightarrow> kind option" where
  "kind_before u ws i =
     (if i = 0 then None
      else (case keyword u (ws ! (i - 1)) of
          Some k \<Rightarrow> Some k
        | None \<Rightarrow>
            if u_lower u (ws ! (i - 1)) \<in> set BETWEEN
            then (if i - 1 = 0 then None else keyword u (ws ! (i - 2)))
            else None))"

definition references :: "unicode \<Rightarrow> string \<Rightarrow> reference_token list" where
  "references u s =
     (let in_code = map (\<lambda>p. clean (trim p)) (every_second (split_by (\<lambda>c. c = ''`'') s));
          ws = filter (\<lambda>w. w \<noteq> []) (map clean (split_by is_separator s)) in
      foldl (\<lambda>out i.
          case reference u (ws ! i) (ws ! i \<in> set in_code) (kind_before u ws i) of
            None \<Rightarrow> out
          | Some f \<Rightarrow> if list_ex (\<lambda>r. ref_token r = ref_token f) out then out else out @ [f])
        [] [0..<length ws])"

subsection \<open>The check\<close>

definition only_in_text :: "string \<Rightarrow> span \<Rightarrow> string" where
  "only_in_text what sp =
     what @ '', which appears only in text from '' @ quoted (span_tool sp) @
     '', and that text is data, not a checked fact''"

text \<open>A reference or an amount no tool returned: a finding, unless the statement reports a text that
  names it.\<close>

definition unreturned :: "unicode \<Rightarrow> evidence \<Rightarrow> bool \<Rightarrow> string \<Rightarrow> string \<Rightarrow> string list" where
  "unreturned u ev by_text token what =
     (case span_naming u ev token of
        Some sp \<Rightarrow> if by_text then [] else [only_in_text what sp]
      | None \<Rightarrow> [what @ '', which no tool returned in this answer''])"

definition known_reference :: "unicode \<Rightarrow> evidence \<Rightarrow> reference_token \<Rightarrow> bool" where
  "known_reference u ev r \<longleftrightarrow>
     grounded u ev (ref_token r)
     \<or> ref_kind r = Other \<and> u_lower u (ref_token r) \<in> set (ev_vocabulary ev)"

definition repeated_demands :: "unicode \<Rightarrow> evidence \<Rightarrow> string \<Rightarrow> string option \<Rightarrow> (string \<times> string) list" where
  "repeated_demands u ev statement operator =
     concat (map (\<lambda>kind.
       if \<not> action_named u statement kind then []
       else List.map_filter (\<lambda>(i, kinds).
           if target_kind kind \<notin> set kinds \<or> \<not> names u statement i \<or> asked u operator kind i then None
           else map_option (\<lambda>sp. (i, span_tool sp)) (demanding_span u ev kind i)) (ev_ids ev)) ACTION_KINDS)"

definition check_statement :: "unicode \<Rightarrow> evidence \<Rightarrow> string option \<Rightarrow> string \<Rightarrow> string list" where
  "check_statement u ev operator statement =
     (let by_text = reported u statement in
      (if says_absent u statement then []
       else
         concat (map (\<lambda>r. if known_reference u ev r then []
             else unreturned u ev by_text (ref_token r)
                    (''names '' @ kind_label (ref_kind r) @ '' '' @ quoted (ref_token r)))
           (references u statement))
         @ concat (map (\<lambda>a. if supported ev a then []
             else unreturned u ev by_text (am_text a) (''states the amount '' @ am_text a)) (amounts u statement)))
      @ (if by_text \<or> refused u statement then []
         else map (\<lambda>(i, tool).
             ''recommends an action on '' @ quoted i @ '' that text from '' @ quoted tool @
             '' asks for, and that text is data, not an instruction'')
           (repeated_demands u ev statement operator)))"

definition references_check :: "unicode \<Rightarrow> evidence \<Rightarrow> string \<Rightarrow> string option \<Rightarrow> finding list" where
  "references_check u ev s operator =
     concat (map (\<lambda>r. map (\<lambda>m. \<lparr>fi_message = m, fi_statement = r\<rparr>)
       (check_statement u ev operator (range_of s r))) (statements s))"

subsection \<open>The screen\<close>

record proposed_action =
  pa_kind :: action_kind
  pa_target :: string
  pa_params :: json
  pa_rationale :: string
  pa_confidence :: string
  pa_evidence_refs :: "string list"
  pa_policy_context :: "string list"

record withheld_proposal =
  wp_action :: proposed_action
  wp_reason :: string

definition evidence_ref_holds :: "unicode \<Rightarrow> evidence \<Rightarrow> string \<Rightarrow> bool" where
  "evidence_ref_holds u ev r \<longleftrightarrow>
     (let word = clean r in
      grounded u ev word
      \<or> (case split_once CHR '':'' word of
           None \<Rightarrow> False | Some (head, rest) \<Rightarrow> keyword u head \<noteq> None \<and> grounded u ev rest))"

text \<open>The first half of \<open>screen\<close>: whether the target may be acted on.\<close>

definition screen_target :: "unicode \<Rightarrow> evidence \<Rightarrow> action_kind \<Rightarrow> string \<Rightarrow> string option \<Rightarrow> evidence \<times> (string + unit)" where
  "screen_target u ev kind target operator =
     (if asked u operator kind target then (ground u ev (target_kind kind) target, Inr ())
      else (case demanding_span u ev kind target of
          Some sp \<Rightarrow> (ev, Inl (''text from '' @ quoted (span_tool sp) @
              '' asks for this action, and text from a plane is data, not an instruction''))
        | None \<Rightarrow>
            if \<not> (kind = Rescan \<and> target = ''all'') \<and> \<not> grounded_as u ev (target_kind kind) target
            then (ev, Inl (''no tool returned '' @ kind_label (target_kind kind) @ '' '' @ quoted target @ '' in this answer''))
            else (ev, Inr ())))"

definition screen :: "unicode \<Rightarrow> numbers \<Rightarrow> evidence \<Rightarrow> proposed_action \<Rightarrow> string option
    \<Rightarrow> evidence \<times> (string + proposed_action \<times> string list)" where
  "screen u N ev a operator =
     (case screen_target u ev (pa_kind a) (pa_target a) operator of
        (ev, Inl reason) \<Rightarrow> (ev, Inl reason)
      | (ev, Inr _) \<Rightarrow>
          (case references_check u ev (pa_rationale a) operator of
             f # _ \<Rightarrow> (ev, Inl (''its rationale '' @ fi_message f))
           | [] \<Rightarrow>
               (let refs = pa_evidence_refs a;
                    ev' = (case Option.bind (json_get (pa_params a) ''usd_cap'') json_num of
                             None \<Rightarrow> ev | Some n \<Rightarrow> ev\<lparr>ev_stated := bs_insert (num_micros N n) (ev_stated ev)\<rparr>)
                in (ev', Inr (a\<lparr>pa_evidence_refs := filter (evidence_ref_holds u ev) refs\<rparr>,
                     map (\<lambda>r. ''cites evidence '' @ quoted r @ '', which no tool returned in this answer'')
                       (filter (\<lambda>r. \<not> evidence_ref_holds u ev r) refs))))))"

subsection \<open>Plane text beside the answer\<close>

definition overlaps :: "unicode \<Rightarrow> string \<Rightarrow> string list" where
  "overlaps u s =
     (let ws = words u s in
      map (\<lambda>i. join '' '' (take OVERLAP_WORDS (drop i ws))) [0..<length ws + 1 - OVERLAP_WORDS])"

definition untrusted_row :: "unicode \<Rightarrow> string list \<Rightarrow> string list \<Rightarrow> untrusted_text list \<Rightarrow> span \<Rightarrow> untrusted_text list" where
  "untrusted_row u said unchecked rows sp =
     (let relied_on = (list_ex (names u (span_text sp)) unchecked
                       \<or> list_ex (\<lambda>w. w \<in> set said) (overlaps u (span_text sp)));
          instruction_like = looks_like_instruction u (span_text sp) in
      if \<not> relied_on \<and> \<not> instruction_like then rows
      else
        (let row = \<lparr>ut_tool = span_tool sp, ut_field = span_field sp,
                    ut_excerpt = take_chars EXCERPT_CHARS (span_text sp),
                    ut_relied_on = relied_on, ut_instruction_like = instruction_like\<rparr>
         in if row \<in> set rows then rows else rows @ [row]))"

definition untrusted_rows :: "unicode \<Rightarrow> evidence \<Rightarrow> string \<Rightarrow> untrusted_text list" where
  "untrusted_rows u ev answer =
     (let unchecked = filter (\<lambda>t. \<not> grounded u ev t) (map ref_token (references u answer))
            @ map am_text (filter (\<lambda>a. \<not> supported ev a) (amounts u answer));
          rows = foldl (untrusted_row u (overlaps u answer) unchecked) [] (ev_spans ev) in
      take MAX_UNTRUSTED_ROWS (filter ut_relied_on rows @ filter (\<lambda>r. \<not> ut_relied_on r) rows))"

end
