(* ===== verification/FelyxFacts.thy ===== *)
theory FelyxFacts
  imports Felyx FenceFacts
begin

section \<open>What the copilot may put in front of the operator\<close>

text \<open>
  The loop of \<open>Felyx\<close>: what every run keeps (\<open>loop_invariant\<close>), where a proposal can come from, how often
  the model is asked and when an answer comes out, and which statements of a draft survive the check.
\<close>

subsection \<open>Where an id comes from\<close>

definition kinds_at :: "(string \<times> kind list) list \<Rightarrow> string \<Rightarrow> kind set" where
  "kinds_at ids i = set (case map_of ids i of None \<Rightarrow> [] | Some ks \<Rightarrow> ks)"

lemma kinds_at_Nil [simp]: "kinds_at [] i = {}"
  by (simp add: kinds_at_def)

lemma kinds_at_ground_id [simp]:
  "kinds_at (ground_id k i ids) j = (if j = i then insert k (kinds_at ids j) else kinds_at ids j)"
  by (cases "map_of ids i") (auto simp: kinds_at_def ground_id_def)

lemma kinds_at_ground:
  "kinds_at (ev_ids (ground u ev k v)) j
     = (if j \<in> set (names_of_value u v) then insert k (kinds_at (ev_ids ev) j) else kinds_at (ev_ids ev) j)"
proof -
  have "kinds_at (foldl (\<lambda>ids i. ground_id k i ids) ids ns) j
      = (if j \<in> set ns then insert k (kinds_at ids j) else kinds_at ids j)" for ids ns
    by (induction ns arbitrary: ids) auto
  then show ?thesis by (simp add: ground_def)
qed

lemma grounded_as_iff: "grounded_as u ev k token \<longleftrightarrow> k \<in> kinds_at (ev_ids ev) (stem_of u token)"
  by (simp add: grounded_as_def kinds_at_def split: option.split)

lemma ground_spans [simp]: "ev_spans (ground u ev k v) = ev_spans ev"
  by (simp add: ground_def)

lemma read_numbers_frame [simp]:
  "ev_ids (read_numbers N ev usd v) = ev_ids ev \<and> ev_spans (read_numbers N ev usd v) = ev_spans ev"
  "ev_ids (read_members N ev usd ms) = ev_ids ev \<and> ev_spans (read_members N ev usd ms) = ev_spans ev"
  "ev_ids (read_items N ev usd vs) = ev_ids ev \<and> ev_spans (read_items N ev usd vs) = ev_spans ev"
  by (induction N ev usd v and N ev usd ms and N ev usd vs rule: read_numbers_read_members_read_items.induct)
    (auto simp: Let_def)

text \<open>The plane text of a read, and the ids a read grounds.\<close>

type_synonym tool_read = "string \<times> bool \<times> json"

definition read_spans :: "unicode \<Rightarrow> tool_read list \<Rightarrow> span list" where
  "read_spans u reads = concat (map (\<lambda>(tool, good, v). fst (snd (walk_value u tool ''value'' [] v))) reads)"

definition returned_as :: "unicode \<Rightarrow> tool_read list \<Rightarrow> string \<Rightarrow> kind \<Rightarrow> bool" where
  "returned_as u reads i k \<longleftrightarrow>
     (\<exists>(tool, good, v) \<in> set reads. good \<and>
        (\<exists>(key, s) \<in> set (strings_at ''value'' v).
           is_plain_field u tool (key, s) \<and> kind_of tool key = k \<and> i \<in> set (names_of_value u s)))"

text \<open>The operator asked, in their own words, for an action on a thing of this kind and this name.\<close>

definition operator_named :: "unicode \<Rightarrow> string option \<Rightarrow> string \<Rightarrow> kind \<Rightarrow> bool" where
  "operator_named u operator i k \<longleftrightarrow>
     (\<exists>a target. asked u operator a target \<and> target_kind a = k \<and> i \<in> set (names_of_value u target))"

definition vouched :: "unicode \<Rightarrow> string option \<Rightarrow> tool_read list \<Rightarrow> proposed_action \<Rightarrow> bool" where
  "vouched u operator reads p \<longleftrightarrow>
     asked u operator (pa_kind p) (pa_target p) \<or>
     ((\<forall>sp\<in>set (read_spans u reads). \<not> demands u sp (pa_kind p) (pa_target p)) \<and>
      (pa_kind p = Rescan \<and> pa_target p = ''all''
       \<or> returned_as u reads (stem_of u (pa_target p)) (target_kind (pa_kind p))
       \<or> operator_named u operator (stem_of u (pa_target p)) (target_kind (pa_kind p))))"

definition ids_known :: "unicode \<Rightarrow> string option \<Rightarrow> tool_read list \<Rightarrow> (string \<times> kind list) list \<Rightarrow> bool" where
  "ids_known u operator reads ids \<longleftrightarrow>
     (\<forall>i k. k \<in> kinds_at ids i \<longrightarrow> returned_as u reads i k \<or> operator_named u operator i k)"

lemma returned_as_mono: "returned_as u reads i k \<Longrightarrow> returned_as u (reads @ rs) i k"
  by (auto simp: returned_as_def)

lemma ids_known_mono: "ids_known u operator reads ids \<Longrightarrow> ids_known u operator (reads @ rs) ids"
  by (auto simp: ids_known_def intro: returned_as_mono)

lemma fold_ground_kinds:
  "k \<in> kinds_at (ev_ids (foldl (\<lambda>ev (key, v). ground u ev (kind_of tool key) v) ev fs)) i \<Longrightarrow>
   k \<in> kinds_at (ev_ids ev) i \<or> (\<exists>(key, v)\<in>set fs. kind_of tool key = k \<and> i \<in> set (names_of_value u v))"
proof (induction fs arbitrary: ev)
  case (Cons f fs)
  then show ?case by (cases f) (fastforce simp: kinds_at_ground split: if_splits)
qed simp

lemma fold_ground_spans:
  "ev_spans (foldl (\<lambda>ev (key, v). ground u ev (kind_of tool key) v) ev fs) = ev_spans ev"
  by (induction fs arbitrary: ev) auto

lemma record_spans:
  "ev_spans (evidence_record u N ev tool good v (fenced_plane u print tool v))
     = ev_spans ev @ read_spans u [(tool, good, v)]"
  by (simp add: evidence_record_def Let_def fold_ground_spans fenced_plane_def fenced_of_def read_spans_def case_prod_beta)

lemma record_ids:
  assumes "ids_known u operator reads (ev_ids ev)"
  shows "ids_known u operator (reads @ [(tool, good, v)])
    (ev_ids (evidence_record u N ev tool good v (fenced_plane u print tool v)))"
proof -
  have flds: "fenced_fields (fenced_plane u print tool v) = filter (is_plain_field u tool) (strings_at ''value'' v)"
    using walk_fields(1) [of u tool "''value''" "[]" v] by (simp add: fenced_plane_def fenced_of_def case_prod_beta)
  show ?thesis
  proof (cases good)
    case True
    show ?thesis unfolding ids_known_def
    proof (intro allI impI)
      fix i k
      assume "k \<in> kinds_at (ev_ids (evidence_record u N ev tool good v (fenced_plane u print tool v))) i"
      then have "k \<in> kinds_at (ev_ids (foldl (\<lambda>ev (key, v). ground u ev (kind_of tool key) v)
          (ev\<lparr>ev_spans := ev_spans ev @ fenced_spans (fenced_plane u print tool v)\<rparr>)
          (filter (is_plain_field u tool) (strings_at ''value'' v)))) i"
        using True by (simp add: evidence_record_def Let_def flds)
      from fold_ground_kinds [OF this] have
        "k \<in> kinds_at (ev_ids ev) i \<or> returned_as u [(tool, good, v)] i k"
        using True by (auto simp: returned_as_def)
      with assms show "returned_as u (reads @ [(tool, good, v)]) i k \<or> operator_named u operator i k"
        by (auto simp: ids_known_def returned_as_def)
    qed
  next
    case False
    with ids_known_mono [OF assms] show ?thesis by (simp add: evidence_record_def Let_def)
  qed
qed

lemma screen_target_ids:
  assumes "ids_known u operator reads (ev_ids ev)" and "screen_target u ev kind target operator = (ev', r)"
  shows "ids_known u operator reads (ev_ids ev')" and "ev_spans ev' = ev_spans ev"
proof -
  have "ids_known u operator reads (ev_ids (ground u ev (target_kind kind) target))" if "asked u operator kind target"
    using assms(1) that unfolding ids_known_def kinds_at_ground by (metis insertE operator_named_def)
  with assms show "ids_known u operator reads (ev_ids ev')" and "ev_spans ev' = ev_spans ev"
    by (auto simp: screen_target_def split: if_splits option.splits)
qed

lemma screen_target_vouched:
  assumes "ids_known u operator reads (ev_ids ev)" and "ev_spans ev = read_spans u reads"
    and "screen_target u ev (pa_kind p) (pa_target p) operator = (ev', Inr x)"
  shows "vouched u operator reads p"
proof (cases "asked u operator (pa_kind p) (pa_target p)")
  case False
  with assms(3) have nospan: "demanding_span u ev (pa_kind p) (pa_target p) = None"
    and gr: "pa_kind p = Rescan \<and> pa_target p = ''all'' \<or> grounded_as u ev (target_kind (pa_kind p)) (pa_target p)"
    by (auto simp: screen_target_def split: option.splits if_splits)
  from nospan have "\<forall>sp\<in>set (read_spans u reads). \<not> demands u sp (pa_kind p) (pa_target p)"
    by (simp add: demanding_span_def find_None_iff assms(2))
  with gr assms(1) show ?thesis by (auto simp: vouched_def grounded_as_iff ids_known_def)
qed (simp add: vouched_def)

lemma screen_facts:
  assumes "ids_known u operator reads (ev_ids ev)" and "screen u N ev a operator = (ev', r)"
  shows "ids_known u operator reads (ev_ids ev')" and "ev_spans ev' = ev_spans ev"
    and "ev_spans ev = read_spans u reads \<Longrightarrow> r = Inr (a', dropped) \<Longrightarrow> vouched u operator reads a'"
proof -
  obtain ev1 r1 where s: "screen_target u ev (pa_kind a) (pa_target a) operator = (ev1, r1)" by fastforce
  from assms(2) have fin: "ev_ids ev' = ev_ids ev1 \<and> ev_spans ev' = ev_spans ev1"
    by (auto simp: screen_def s Let_def split: sum.splits list.splits option.splits)
  from fin screen_target_ids [OF assms(1) s]
  show "ids_known u operator reads (ev_ids ev')" "ev_spans ev' = ev_spans ev" by simp_all
  assume sp: "ev_spans ev = read_spans u reads" and r: "r = Inr (a', dropped)"
  from assms(2) r obtain x where "r1 = Inr x" and a': "pa_kind a' = pa_kind a" "pa_target a' = pa_target a"
    by (auto simp: screen_def s Let_def split: sum.splits list.splits)
  with screen_target_vouched [OF assms(1) sp] s have "vouched u operator reads a" by blast
  with a' show "vouched u operator reads a'" by (simp add: vouched_def)
qed

subsection \<open>What every run keeps\<close>

text \<open>The contract of a run: a property of the state that every tool call keeps, and that does not look at
  the conversation, the usage or the revision flag, holds when the run ends.\<close>

locale loop_invariant =
  fixes F :: "'e felyx" and b :: brief and c :: bool and I :: "felyx_state \<Rightarrow> bool"
  assumes call: "I st \<Longrightarrow> I (one_call F b c st tc)"
    and talk: "I st \<Longrightarrow> I (st\<lparr>fl_messages := ms, fl_usage := us, fl_revised := rv\<rparr>)"
begin

lemma calls: "I st \<Longrightarrow> I (foldl (one_call F b c) st tcs)"
  by (induction tcs arbitrary: st) (auto intro: call)

lemma text_turn_keeps: "I st \<Longrightarrow> text_turn F b st s = Inl st' \<Longrightarrow> I st'"
  using talk [where ms = "fl_messages st'" and us = "fl_usage st" and rv = True and st = st]
  by (cases st) (auto simp: text_turn_def Let_def split: if_splits)

lemma loop_keeps: "I st \<Longrightarrow> I (fst (felyx_loop F b c st n))"
proof (induction n arbitrary: st)
  case (Suc n)
  show ?case
  proof (cases "out_chat (fx_world F) (request_of F c st)")
    case (Inr turn)
    define st1 where "st1 = st\<lparr>fl_usage := add_usage (fl_usage st) (turn_usage turn)\<rparr>"
    have 1: "I st1"
      using talk [OF Suc.prems, where ms = "fl_messages st" and us = "fl_usage st1" and rv = "fl_revised st"] by (cases st) (simp add: st1_def)
    have 2: "I (st1\<lparr>fl_messages := ms\<rparr>)" for ms
      using talk [OF 1, where ms = ms and us = "fl_usage st1" and rv = "fl_revised st1"] by (cases st1) simp
    show ?thesis
    proof (cases "turn_tool_calls turn = []")
      case True
      show ?thesis
      proof (cases "text_turn F b st1 (case turn_content turn of None \<Rightarrow> [] | Some s \<Rightarrow> s)")
        case (Inl st2)
        from Suc.IH [OF text_turn_keeps [OF 1 Inl]] show ?thesis
          using Inl True by (simp add: Inr st1_def [symmetric] case_prod_beta)
      next
        case (Inr a)
        with True 1 show ?thesis using \<open>out_chat _ _ = _\<close> by (simp add: st1_def [symmetric])
      qed
    next
      case False
      from Suc.IH [OF calls [OF 2]] show ?thesis
        using False Inr by (simp add: st1_def [symmetric] case_prod_beta Let_def)
    qed
  qed (use Suc.prems in simp)
qed (simp)

end

definition text_of :: "chat_turn \<Rightarrow> string" where
  "text_of t = (case turn_content t of None \<Rightarrow> [] | Some s \<Rightarrow> s)"

lemma loop_answer:
  "felyx_loop F b c st n = (st', k, Inr a) \<Longrightarrow>
   \<exists>req t. out_chat (fx_world F) req = Inr t \<and> a = final_answer F b st' (draft_of F b st' (text_of t))"
proof (induction n arbitrary: st k)
  case (Suc n)
  then show ?case
    by (fastforce simp: text_turn_def text_of_def Let_def split: sum.splits if_splits prod.splits)
qed simp

subsection \<open>Proposals\<close>

definition reads_real :: "'e felyx \<Rightarrow> tool_read list \<Rightarrow> bool" where
  "reads_real F reads \<longleftrightarrow>
     (\<forall>(tool, good, v)\<in>set reads. good \<longrightarrow> (\<exists>n args. out_read (fx_world F) n tool args = Inr v))"

definition proposals_kept :: "'e felyx \<Rightarrow> brief \<Rightarrow> felyx_state \<Rightarrow> bool" where
  "proposals_kept F b st \<longleftrightarrow>
     ids_known (out_unicode (fx_world F)) (br_operator b) (fl_reads st) (ev_ids (fl_evidence st)) \<and>
     ev_spans (fl_evidence st) = read_spans (out_unicode (fx_world F)) (fl_reads st) \<and>
     reads_real F (fl_reads st) \<and>
     (\<forall>p\<in>set (fl_proposals st). \<exists>n\<le>length (fl_reads st).
        vouched (out_unicode (fx_world F)) (br_operator b) (take n (fl_reads st)) p)"

lemma say_tool_frame [simp]:
  "fl_proposals (say_tool W tc good v said st) = fl_proposals st"
  "fl_reads (say_tool W tc good v said st) = fl_reads st"
  "fl_evidence (say_tool W tc good v said st) = fl_evidence st"
  "fl_withheld (say_tool W tc good v said st) = fl_withheld st"
  "fl_revised (say_tool W tc good v said st) = fl_revised st"
  by (simp_all add: say_tool_def)

lemma propose_call_kept:
  assumes "proposals_kept F b st"
  shows "proposals_kept F b (propose_call F (br_operator b) tc st)"
proof (cases "run_propose (fx_world F) (length (fl_trace st)) (tc_name tc) (tc_arguments tc)")
  case (Inl e)
  with assms show ?thesis by (simp add: propose_call_def proposals_kept_def Let_def)
next
  case (Inr a)
  obtain ev r where s: "screen (out_unicode (fx_world F)) (out_numbers (fx_world F)) (fl_evidence st) a (br_operator b) = (ev, r)"
    by fastforce
  note facts = screen_facts [OF _ s, of "fl_reads st"]
  show ?thesis
  proof (cases r)
    case (Inl reason)
    with assms Inr s facts(1,2) show ?thesis by (auto simp: propose_call_def proposals_kept_def Let_def)
  next
    case r: (Inr ad)
    obtain a' dropped where ad: "ad = (a', dropped)" by fastforce
    have "vouched (out_unicode (fx_world F)) (br_operator b) (take (length (fl_reads st)) (fl_reads st)) a'"
      using facts(3) assms r ad by (simp add: proposals_kept_def)
    with assms Inr s facts(1,2) r ad show ?thesis
      by (auto simp: propose_call_def proposals_kept_def Let_def)
  qed
qed

lemma read_call_kept:
  assumes "proposals_kept F b st"
  shows "proposals_kept F b (read_call F tc st)"
proof -
  obtain good v where d: "(case dispatch_read (fx_world F) (fx_registry F) (length (fl_trace st)) (tc_name tc) (tc_arguments tc) of
      Inr v \<Rightarrow> (True, v) | Inl e \<Rightarrow> (False, error_value e)) = (good, v)" by fastforce
  then have real: "good \<longrightarrow> (\<exists>n args. out_read (fx_world F) n (tc_name tc) args = Inr v)"
    by (auto simp: dispatch_read_def split: sum.splits if_splits)
  have "\<exists>n\<le>length (fl_reads st @ [x]). vouched u op (take n (fl_reads st @ [x])) p"
    if "\<exists>n\<le>length (fl_reads st). vouched u op (take n (fl_reads st)) p" for u op p x
  proof -
    from that obtain n where "n \<le> length (fl_reads st)" "vouched u op (take n (fl_reads st)) p" by blast
    then show ?thesis by (intro exI [of _ n]) simp
  qed
  with assms real d record_ids [of "out_unicode (fx_world F)" "br_operator b" "fl_reads st" "fl_evidence st"]
  show ?thesis
    by (auto simp: read_call_def proposals_kept_def Let_def record_spans read_spans_def reads_real_def)
qed

interpretation vouching: loop_invariant F b False "proposals_kept F b" for F b
  by unfold_locales
    (auto simp: one_call_def intro: propose_call_kept read_call_kept, auto simp: proposals_kept_def)


subsection \<open>When the model is asked, and when an answer comes\<close>

text \<open>How often the model has spoken in this conversation.\<close>

definition turns_of :: "message list \<Rightarrow> nat" where
  "turns_of ms = length (filter (\<lambda>m. msg_role m = RAssistant) ms)"

lemma one_call_turns:
  "turns_of (fl_messages (one_call F b c st tc)) = turns_of (fl_messages st)
   \<and> fl_revised (one_call F b c st tc) = fl_revised st"
  by (auto simp: one_call_def case_call_def propose_call_def read_call_def say_tool_def Let_def turns_of_def
      tool_result_def split: sum.split prod.split)

lemma calls_turns:
  "turns_of (fl_messages (foldl (one_call F b c) st tcs)) = turns_of (fl_messages st)
   \<and> fl_revised (foldl (one_call F b c) st tcs) = fl_revised st"
  by (induction tcs arbitrary: st) (simp_all add: one_call_turns)

lemma text_turn_Inl:
  "text_turn F b st s = Inl st' \<Longrightarrow>
   \<not> fl_revised st \<and> fl_revised st' \<and> turns_of (fl_messages st') = Suc (turns_of (fl_messages st))"
  by (auto simp: text_turn_def Let_def turns_of_def assistant_message_def user_message_def split: if_splits)

lemma loop_count: "fst (snd (felyx_loop F b c st n)) \<le> n"
proof (induction n arbitrary: st)
  case (Suc n)
  then show ?case by (auto simp: Let_def case_prod_beta split: sum.split)
qed simp

lemma loop_answers:
  assumes chat: "\<forall>req. \<exists>t. out_chat (fx_world F) req = Inr t \<and> (m \<le> turns_of (cr_messages req) \<longrightarrow> turn_tool_calls t = [])"
  shows "(m - turns_of (fl_messages st)) + (if fl_revised st then 1 else 2) \<le> n \<Longrightarrow>
    \<exists>st' k a. felyx_loop F b c st n = (st', k, Inr a)
      \<and> k \<le> (m - turns_of (fl_messages st)) + (if fl_revised st then 1 else 2)"
proof (induction n arbitrary: st)
  case (Suc n)
  obtain t where t: "out_chat (fx_world F) (request_of F c st) = Inr t"
      "m \<le> turns_of (fl_messages st) \<longrightarrow> turn_tool_calls t = []"
    using chat by (metis chat_request.select_convs(2) request_of_def)
  define st1 where "st1 = st\<lparr>fl_usage := add_usage (fl_usage st) (turn_usage t)\<rparr>"
  have st1: "fl_messages st1 = fl_messages st" "fl_revised st1 = fl_revised st" by (simp_all add: st1_def)
  show ?case
  proof (cases "turn_tool_calls t = []")
    case True
    show ?thesis
    proof (cases "text_turn F b st1 (case turn_content t of None \<Rightarrow> [] | Some s \<Rightarrow> s)")
      case (Inl st2)
      from text_turn_Inl [OF Inl] st1 have "\<not> fl_revised st" "fl_revised st2"
        "turns_of (fl_messages st2) = Suc (turns_of (fl_messages st))" by simp_all
      with Suc.IH [of st2] Suc.prems t True Inl show ?thesis
        by (fastforce simp: st1_def [symmetric] Let_def)
    next
      case (Inr a)
      with t True show ?thesis by (auto simp: st1_def [symmetric] Let_def)
    qed
  next
    case False
    define st2 where "st2 = foldl (one_call F b c)
      (st1\<lparr>fl_messages := fl_messages st1 @ [assistant_message (turn_content t) (turn_tool_calls t)]\<rparr>) (turn_tool_calls t)"
    have "turns_of (fl_messages st2) = Suc (turns_of (fl_messages st))" "fl_revised st2 = fl_revised st"
      using st1 by (simp_all add: st2_def calls_turns) (simp add: turns_of_def assistant_message_def)
    moreover have "turns_of (fl_messages st) < m" using t(2) False by simp
    ultimately show ?thesis
      using Suc.IH [of st2] Suc.prems t False
      by (fastforce simp: st1_def [symmetric] st2_def [symmetric] Let_def)
  qed
qed (simp split: if_splits)


text \<open>A draft on the last permitted turn is lost when the check has anything against it. The one chance to
  revise it is spent although no turn is left to use it, and the run ends in the error that says no answer was
  given, instead of the draft with its unsupported statements taken out.\<close>

theorem last_draft_lost:
  assumes "\<not> fl_revised st" and "out_chat (fx_world F) (request_of F c st) = Inr t" and "turn_tool_calls t = []"
    and "draft_findings (draft_of F b st (text_of t)) \<noteq> []"
  shows "snd (felyx_loop F b c st 1) = (1, Inl (IterationLimit (fx_max_iterations F)))"
proof -
  have "draft_of F b (st\<lparr>fl_usage := us\<rparr>) s = draft_of F b st s" for us s
    by (simp add: draft_of_def Let_def)
  with assms show ?thesis by (simp add: text_turn_def text_of_def Let_def)
qed

subsection \<open>Statements that survive\<close>

lemma statements_from_cover:
  "start \<le> length pre \<Longrightarrow>
   concat (map (range_of (pre @ concat cs)) (statements_from start (length pre) cs)) = drop start (pre @ concat cs)"
proof (induction cs arbitrary: start pre)
  case Nil
  then show ?case by (simp add: range_of_def)
next
  case (Cons c cs)
  have piece: "range_of (pre @ c @ rest) (start, length pre + length c) @ rest = drop start (pre @ c @ rest)" for rest
    using Cons.prems by (simp add: range_of_def)
  from Cons.IH [of "length (pre @ c)" "pre @ c"] Cons.IH [of start "pre @ c"] Cons.prems piece [of "concat cs"]
  show ?case by (simp add: Let_def)
qed

lemma statements_cover: "concat (map (range_of s) (statements s)) = s"
  using statements_from_cover [of 0 "[]" "chars s"] by (simp add: statements_def)

lemma found_in_statement:
  "r \<in> set (statements s) \<Longrightarrow>
   list_ex (\<lambda>f. fi_statement f = r) (references_check u ev s operator) \<longleftrightarrow> check_statement u ev operator (range_of s r) \<noteq> []"
  by (cases "check_statement u ev operator (range_of s r)") (fastforce simp: references_check_def list_ex_iff)+

lemma references_check_Nil:
  "references_check u ev s operator = [] \<longleftrightarrow>
   list_all (\<lambda>part. check_statement u ev operator part = []) (map (range_of s) (statements s))"
  by (simp add: references_check_def list_all_iff)

lemma without_statements_clean:
  "without_statements s (references_check u ev s operator) =
    (let parts = map (range_of s) (statements s); clean_part = (\<lambda>part. check_statement u ev operator part = []) in
     if list_all clean_part parts then s else trim (concat (filter clean_part parts)))"
proof -
  have "map (range_of s) (filter (\<lambda>r. \<not> list_ex (\<lambda>f. fi_statement f = r) (references_check u ev s operator)) (statements s))
      = filter (\<lambda>part. check_statement u ev operator part = []) (map (range_of s) (statements s))"
    unfolding filter_map by (rule arg_cong [of _ _ "map _"], rule filter_cong) (simp_all add: found_in_statement)
  then show ?thesis by (simp add: without_statements_def references_check_Nil Let_def list_all_iff)
qed

text \<open>C15. The statements of a draft partition it, and an answer holds exactly the ones the check has nothing
  against. What the operator reads is a text the model sent: whole, when every statement is clean against the
  tool results of this run, and otherwise with precisely the other statements taken out; after it come the
  notes that list what was found.\<close>

theorem answer_statements_checked:
  assumes "answer_question F question = (st, k, Inr a)"
  shows "\<exists>req t. out_chat (fx_world F) req = Inr t \<and>
    (let s = text_of t; parts = map (range_of s) (statements s);
         clean_part = (\<lambda>part. check_statement (out_unicode (fx_world F)) (fl_evidence st) (Some question) part = []);
         notes = draft_notes (draft_of F \<lparr>br_operator = Some question, br_incident = None\<rparr> st s)
     in concat parts = s \<and>
        ans_text a = trim_start_by is_white ((if list_all clean_part parts then s else trim (concat (filter clean_part parts))) @ notes))"
proof -
  let ?b = "\<lparr>br_operator = Some question, br_incident = None\<rparr>"
  obtain req t where t: "out_chat (fx_world F) req = Inr t"
    and a: "a = final_answer F ?b st (draft_of F ?b st (text_of t))"
    using assms loop_answer [of F ?b False] unfolding answer_question_def run_with_def by fastforce
  have "draft_finished (draft_of F ?b st (text_of t)) ?b
      = without_statements (text_of t) (references_check (out_unicode (fx_world F)) (fl_evidence st) (text_of t) (Some question))"
    by (simp add: draft_finished_def draft_of_def Let_def)
  then have "draft_finished (draft_of F ?b st (text_of t)) ?b =
      (let s = text_of t; parts = map (range_of s) (statements s);
           clean_part = (\<lambda>part. check_statement (out_unicode (fx_world F)) (fl_evidence st) (Some question) part = [])
       in if list_all clean_part parts then s else trim (concat (filter clean_part parts)))"
    by (simp only: without_statements_clean Let_def)
  then have "ans_text a = trim_start_by is_white
      ((let s = text_of t; parts = map (range_of s) (statements s);
           clean_part = (\<lambda>part. check_statement (out_unicode (fx_world F)) (fl_evidence st) (Some question) part = [])
       in if list_all clean_part parts then s else trim (concat (filter clean_part parts)))
      @ draft_notes (draft_of F ?b st (text_of t)))"
    unfolding a final_answer_def by (simp add: Let_def)
  with t statements_cover [of "text_of t"] show ?thesis unfolding Let_def by blast
qed

subsection \<open>Reading a case\<close>

definition case_kept :: "evidence \<Rightarrow> felyx_state \<Rightarrow> bool" where
  "case_kept ev st \<longleftrightarrow> fl_proposals st = [] \<and> fl_withheld st = [] \<and> fl_reads st = [] \<and> fl_evidence st = ev"

interpretation case_reading: loop_invariant F b True "case_kept ev" for F b ev
  by unfold_locales (auto simp: case_kept_def one_call_def case_call_def Let_def)

text \<open>An explanation of a case file rests on that case alone. Whatever the model asks for, no plane is read
  and no action is proposed. And the text is either the sentence that no chain is given, or the model's own
  text, and then the case itself holds the incident as an incident and every statement of the text is clean
  against the ids and amounts of the case.\<close>

theorem case_answer_rests_on_case:
  assumes "explain_case F c = (st, k, Inr a)"
  defines "u \<equiv> out_unicode (fx_world F)"
  defines "incident \<equiv> (case Option.bind (json_get c ''incident_id'') json_str of None \<Rightarrow> [] | Some s \<Rightarrow> s)"
  defines "ev \<equiv> evidence_record u (out_numbers (fx_world F)) (evidence_new u (tool_names (fx_registry F)) None) CASE_TOOL True c
    (fenced_case u (out_print (fx_world F)) c)"
  shows "ans_proposals a = [] \<and> ans_withheld a = [] \<and> fl_reads st = [] \<and>
    (\<exists>req t notes. out_chat (fx_world F) req = Inr t \<and>
      (ans_text a = trim_start_by is_white (NO_CHAIN @ notes)
       \<or> grounded_as u ev Incident incident \<and>
         list_all (\<lambda>part. check_statement u ev None part = []) (map (range_of (text_of t)) (statements (text_of t))) \<and>
         ans_text a = trim_start_by is_white (text_of t @ notes)))"
proof -
  let ?b = "\<lparr>br_operator = None, br_incident = Some incident\<rparr>"
  obtain q where run: "run_with F q ?b (Some c) = (st, k, Inr a)"
    using assms(1) by (auto simp: explain_case_def incident_def Let_def)
  have "case_kept ev (start_state F q ?b (Some c))"
    by (simp add: case_kept_def start_state_def Let_def ev_def u_def)
  from case_reading.loop_keeps [OF this, of F ?b "fx_max_iterations F"] run have kept: "case_kept ev st"
    by (simp add: run_with_def)
  obtain req t where t: "out_chat (fx_world F) req = Inr t"
    and a: "a = final_answer F ?b st (draft_of F ?b st (text_of t))"
    using run loop_answer [of F ?b True] unfolding run_with_def by fastforce
  let ?d = "draft_of F ?b st (text_of t)"
  have none: "ans_proposals a = [] \<and> ans_withheld a = []"
    using kept by (simp add: a final_answer_def case_kept_def Let_def)
  have "draft_finished ?d ?b = NO_CHAIN \<or> grounded_as u ev Incident incident \<and> references_check u ev (text_of t) None = []
      \<and> draft_finished ?d ?b = text_of t"
    using kept by (auto simp: draft_finished_def draft_of_def case_kept_def u_def without_statements_def Let_def split: if_splits)
  moreover have "ans_text a = trim_start_by is_white (draft_finished ?d ?b @ draft_notes ?d)"
    by (simp add: a final_answer_def Let_def)
  ultimately show ?thesis using none t kept unfolding references_check_Nil case_kept_def by metis
qed

end
