(* ===== verification/Graph.thy ===== *)
theory Graph
  imports Ingest "HOL-Library.Char_ord" "HOL-Library.List_Lexorder" "HOL-Library.Product_Lexorder" Text
begin

section \<open>The live delegation graph\<close>

text \<open>
  \<open>crates/core/src/graph.rs\<close>, with the query of \<open>store.rs\<close> that feeds it and the SQL spelling of
  \<open>attribution.rs\<close>: who acts on behalf of whom, folded from bus events one by one or built from the
  store. \<open>seen\<close> is only asked for membership, so it is a set; the nodes and the edges are shown in order
  and are ordered maps. SQLite's JSON functions read the same values as the JSON parser of \<open>ingest_lib\<close>.
\<close>

subsection \<open>Rows of the store\<close>

record delegation_row =
  dl_agent_id :: string
  dl_on_behalf_of :: "string list"
  dl_ts :: string
  dl_source :: string
  dl_type :: string
  dl_run_id :: "string option"

text \<open>\<open>FILED_UNDER_SQL\<close> over the columns \<open>type\<close>, \<open>agent_id\<close> and \<open>data\<close>.\<close>

definition filed_under_sql :: "ingest_lib \<Rightarrow> string \<Rightarrow> string \<Rightarrow> string option \<Rightarrow> string" where
  "filed_under_sql X type agent_id data =
     (if type = IDENTITY_MISMATCH then
        ''key:'' @
        (case (case data of None \<Rightarrow> None
                | Some t \<Rightarrow> (case parse_json X t of Inl _ \<Rightarrow> None
                    | Inr v \<Rightarrow> Option.bind (json_get v ''key_id'') json_str)) of
           None \<Rightarrow> ''(none)'' | Some k \<Rightarrow> if k = [] then ''(none)'' else k)
      else agent_id)"

fun decode_strings :: "json list \<Rightarrow> string list option" where
  "decode_strings [] = Some []"
| "decode_strings (JString s # vs) = map_option ((#) s) (decode_strings vs)"
| "decode_strings (_ # vs) = None"

definition decode_chain :: "ingest_lib \<Rightarrow> string option \<Rightarrow> string + string list" where
  "decode_chain X col =
     (case col of None \<Rightarrow> Inr []
      | Some t \<Rightarrow> ebind (parse_json X t) (\<lambda>v.
          case v of JArray vs \<Rightarrow> ok_or ''not a sequence of strings'' (decode_strings vs)
          | _ \<Rightarrow> Inl ''not a sequence of strings''))"

fun delegation_events :: "ingest_lib \<Rightarrow> stored_row list \<Rightarrow> string + delegation_row list" where
  "delegation_events X [] = Inr []"
| "delegation_events X (r # rs) =
     ebind (decode_chain X (row_on_behalf_of r)) (\<lambda>chain.
     ebind (delegation_events X rs) (\<lambda>rows.
     Inr (\<lparr>dl_agent_id = filed_under_sql X (row_type r) (row_agent_id r) (row_data r), dl_on_behalf_of = chain,
           dl_ts = row_ts r, dl_source = row_source r, dl_type = row_type r, dl_run_id = row_run_id r\<rparr> # rows)))"

subsection \<open>The graph\<close>

datatype node_kind = UserNode | AgentNode | OtherNode

text \<open>The part before the first \<open>://\<close>.\<close>

fun before_scheme :: "string \<Rightarrow> string option" where
  "before_scheme [] = None"
| "before_scheme (c # cs) = (if prefix ''://'' (c # cs) then Some [] else map_option ((#) c) (before_scheme cs))"

definition node_kind_of :: "string \<Rightarrow> node_kind" where
  "node_kind_of i =
     (case before_scheme i of
        Some scheme \<Rightarrow> if scheme = ''user'' then UserNode else if scheme = ''agent'' then AgentNode else OtherNode
      | None \<Rightarrow> OtherNode)"

record graph_node =
  gn_id :: string
  gn_kind :: node_kind
  gn_event_count :: nat
  gn_last_ts :: string

record event_key =
  key_agent_id :: string
  key_ts :: string
  key_source :: string
  key_event_type :: string
  key_run_id :: string

record delegation_graph =
  dg_nodes :: "(string \<times> graph_node) list"
  dg_edges :: "(string \<times> string) list"
  dg_seen :: "event_key list"

definition graph_new :: delegation_graph where
  "graph_new = \<lparr>dg_nodes = [], dg_edges = [], dg_seen = []\<rparr>"

definition new_node :: "string \<Rightarrow> graph_node" where
  "new_node i = \<lparr>gn_id = i, gn_kind = node_kind_of i, gn_event_count = 0, gn_last_ts = []\<rparr>"

definition ensure_node :: "string \<Rightarrow> delegation_graph \<Rightarrow> delegation_graph" where
  "ensure_node i g =
     (case map_of (dg_nodes g) i of Some _ \<Rightarrow> g | None \<Rightarrow> g\<lparr>dg_nodes := bt_insert i (new_node i) (dg_nodes g)\<rparr>)"

definition add_edge :: "string \<Rightarrow> string \<Rightarrow> delegation_graph \<Rightarrow> delegation_graph" where
  "add_edge src dst g = (if src \<noteq> dst then g\<lparr>dg_edges := bs_insert (src, dst) (dg_edges g)\<rparr> else g)"

text \<open>One sighting of an actor: the node counts it and keeps the latest timestamp.\<close>

definition count_event :: "string \<Rightarrow> string \<Rightarrow> delegation_graph \<Rightarrow> delegation_graph" where
  "count_event i ts g =
     (case map_of (dg_nodes g) i of
        None \<Rightarrow> g
      | Some n \<Rightarrow> g\<lparr>dg_nodes := bt_insert i (n\<lparr>gn_event_count := gn_event_count n + 1,
            gn_last_ts := (if gn_last_ts n < ts then ts else gn_last_ts n)\<rparr>) (dg_nodes g)\<rparr>)"

text \<open>The loop over the chain: \<open>prev\<close> is the last element that was not empty.\<close>

fun link_chain :: "string option \<Rightarrow> string list \<Rightarrow> delegation_graph \<Rightarrow> delegation_graph \<times> string option" where
  "link_chain prev [] g = (g, prev)"
| "link_chain prev (item # chain) g =
     (if item = [] then link_chain prev chain g
      else
        (let g1 = ensure_node item g;
             g2 = (case prev of None \<Rightarrow> g1 | Some p \<Rightarrow> add_edge p item g1)
         in link_chain (Some item) chain g2))"

text \<open>The acting agent is always a node, and counted on the first sighting of the key only.\<close>

definition sight_actor :: "delegation_graph \<Rightarrow> string \<Rightarrow> event_key \<Rightarrow> string \<Rightarrow> delegation_graph" where
  "sight_actor g agent_id key ts =
     (let newly = key \<notin> set (dg_seen g);
          g = g\<lparr>dg_seen := List.insert key (dg_seen g)\<rparr> in
      if agent_id = [] then g
      else (let g = ensure_node agent_id g in if newly then count_event agent_id ts g else g))"

definition graph_ingest :: "delegation_graph \<Rightarrow> string \<Rightarrow> string list \<Rightarrow> event_key \<Rightarrow> string \<Rightarrow> delegation_graph \<times> bool" where
  "graph_ingest g agent_id chain key ts =
     (case link_chain None chain (sight_actor g agent_id key ts) of
        (g1, prev) \<Rightarrow>
          (case prev of None \<Rightarrow> g1 | Some p \<Rightarrow> if agent_id = [] then g1 else add_edge p agent_id g1,
           key \<notin> set (dg_seen g)))"

definition add_event :: "delegation_graph \<Rightarrow> agent_event \<Rightarrow> delegation_graph \<times> bool" where
  "add_event g e =
     (let actor = filed_under (ev_type e) (ev_agent_id e) (ev_data e) in
      graph_ingest g actor (ev_on_behalf_of e)
        \<lparr>key_agent_id = actor, key_ts = ev_ts e, key_source = ev_source e, key_event_type = ev_type e,
         key_run_id = (case ev_run_id e of None \<Rightarrow> [] | Some r \<Rightarrow> r)\<rparr> (ev_ts e))"

definition ingest_row :: "delegation_graph \<Rightarrow> delegation_row \<Rightarrow> delegation_graph" where
  "ingest_row g r =
     fst (graph_ingest g (dl_agent_id r) (dl_on_behalf_of r)
       \<lparr>key_agent_id = dl_agent_id r, key_ts = dl_ts r, key_source = dl_source r, key_event_type = dl_type r,
        key_run_id = (case dl_run_id r of None \<Rightarrow> [] | Some i \<Rightarrow> i)\<rparr> (dl_ts r))"

definition from_store :: "ingest_lib \<Rightarrow> store \<Rightarrow> string + delegation_graph" where
  "from_store X st =
     ebind (delegation_events X (st_events st)) (\<lambda>rows. Inr (foldl ingest_row graph_new rows))"

subsection \<open>Reading the graph\<close>

record graph_view =
  gv_nodes :: "graph_node list"
  gv_edges :: "(string \<times> string) list"

definition graph_view_of :: "delegation_graph \<Rightarrow> graph_view" where
  "graph_view_of g = \<lparr>gv_nodes = map snd (dg_nodes g), gv_edges = dg_edges g\<rparr>"

definition graph_parents :: "delegation_graph \<Rightarrow> string \<Rightarrow> string list" where
  "graph_parents g i = map fst (filter (\<lambda>(src, dst). dst = i) (dg_edges g))"

definition graph_children :: "delegation_graph \<Rightarrow> string \<Rightarrow> string list" where
  "graph_children g i = map snd (filter (\<lambda>(src, dst). src = i) (dg_edges g))"

definition graph_roots :: "delegation_graph \<Rightarrow> string list" where
  "graph_roots g = filter (\<lambda>i. \<not> list_ex (\<lambda>(src, dst). dst = i) (dg_edges g)) (map fst (dg_nodes g))"

record agent_slice =
  as_node :: "graph_node option"
  as_parents :: "graph_node list"
  as_children :: "graph_node list"

definition agent_slice_of :: "delegation_graph \<Rightarrow> string \<Rightarrow> agent_slice" where
  "agent_slice_of g i =
     \<lparr>as_node = map_of (dg_nodes g) i,
      as_parents = List.map_filter (map_of (dg_nodes g)) (graph_parents g i),
      as_children = List.map_filter (map_of (dg_nodes g)) (graph_children g i)\<rparr>"

end
