(* ===== verification/GraphFacts.thy ===== *)
theory GraphFacts
  imports Graph
begin

section \<open>The graph of a set of events\<close>

text \<open>
  What a graph shows is a function of the set of sightings it was fed: neither their order nor how often
  each came matters, and it makes no difference whether they came over the bus or from the store.
\<close>

subsection \<open>Ordered maps are canonical\<close>

lemma keys_bt_insert: "fst ` set (bt_insert k v m) = insert k (fst ` set m)"
  by (induction k v m rule: bt_insert.induct) auto

lemma sorted_bt_insert: "sorted_wrt (<) (map fst m) \<Longrightarrow> sorted_wrt (<) (map fst (bt_insert k v m))"
proof (induction k v m rule: bt_insert.induct)
  case (2 k v k1 v1 m)
  have "set (map fst (bt_insert k v m)) = insert k (set (map fst m))" by (simp add: keys_bt_insert)
  with 2 show ?case by (auto intro: order.strict_trans simp: keys_bt_insert)
qed simp

lemma sorted_bs_insert: "sorted_wrt (<) xs \<Longrightarrow> sorted_wrt (<) (bs_insert k xs)"
  using sorted_bt_insert [of "map (\<lambda>x. (x, ())) xs" k "()"] by (simp add: bs_insert_def comp_def)

lemma sorted_map_unique:
  fixes m :: "('k::linorder \<times> 'v) list"
  assumes "sorted_wrt (<) (map fst m)" and "sorted_wrt (<) (map fst m')" and "map_of m = map_of m'"
  shows "m = m'"
proof -
  have d: "distinct (map fst m)" "distinct (map fst m')" "sorted (map fst m)" "sorted (map fst m')"
    using assms(1,2) by (simp_all add: strict_sorted_iff)
  have "set m = set m'" using d(1,2) assms(3) by (metis map_of_eqI map_of_inject_set)
  moreover have "inj_on fst (set m \<union> set m')" using d(1) calculation by (simp add: distinct_map)
  ultimately show ?thesis using d by (intro map_sorted_distinct_set_unique [of fst]) auto
qed

lemma sorted_set_unique:
  "sorted_wrt (<) xs \<Longrightarrow> sorted_wrt (<) ys \<Longrightarrow> set xs = set ys \<Longrightarrow> xs = (ys :: 'k::linorder list)"
  by (simp add: strict_sorted_iff sorted_distinct_set_unique)

subsection \<open>The specification\<close>

text \<open>A sighting: the delegation chain and the natural key of an event, which holds its actor and its time.\<close>

type_synonym sighting = "string list \<times> event_key"

definition path_of :: "sighting \<Rightarrow> string list" where
  "path_of x = filter (\<lambda>i. i \<noteq> []) (fst x @ [key_agent_id (snd x)])"

definition steps_of :: "string list \<Rightarrow> (string \<times> string) set" where
  "steps_of xs = {p \<in> set (zip xs (tl xs)). fst p \<noteq> snd p}"

definition nodes_in :: "sighting set \<Rightarrow> string set" where
  "nodes_in S = (\<Union>x\<in>S. set (path_of x))"

definition edges_in :: "sighting set \<Rightarrow> (string \<times> string) set" where
  "edges_in S = (\<Union>x\<in>S. steps_of (path_of x))"

definition keys_in :: "sighting set \<Rightarrow> string \<Rightarrow> event_key set" where
  "keys_in S i = {k \<in> snd ` S. key_agent_id k = i}"

definition last_ts_in :: "sighting set \<Rightarrow> string \<Rightarrow> string" where
  "last_ts_in S i = Max (insert [] (key_ts ` keys_in S i))"

definition node_in :: "sighting set \<Rightarrow> string \<Rightarrow> graph_node" where
  "node_in S i = \<lparr>gn_id = i, gn_kind = node_kind_of i, gn_event_count = card (keys_in S i),
     gn_last_ts = last_ts_in S i\<rparr>"

definition describes :: "delegation_graph \<Rightarrow> sighting set \<Rightarrow> bool" where
  "describes g S \<longleftrightarrow>
     map_of (dg_nodes g) = (\<lambda>i. if i \<in> nodes_in S then Some (node_in S i) else None) \<and>
     set (dg_edges g) = edges_in S \<and> set (dg_seen g) = snd ` S \<and>
     sorted_wrt (<) (map fst (dg_nodes g)) \<and> sorted_wrt (<) (dg_edges g)"

lemma describes_unique:
  assumes "describes g S" and "describes g' S"
  shows "dg_nodes g = dg_nodes g'" and "dg_edges g = dg_edges g'"
  using assms sorted_map_unique [of "dg_nodes g" "dg_nodes g'"] sorted_set_unique [of "dg_edges g" "dg_edges g'"]
  by (simp_all add: describes_def)

subsection \<open>The fold\<close>

definition ingest_sighting :: "delegation_graph \<Rightarrow> sighting \<Rightarrow> delegation_graph" where
  "ingest_sighting g x = fst (graph_ingest g (key_agent_id (snd x)) (fst x) (snd x) (key_ts (snd x)))"

definition graph_sorted :: "delegation_graph \<Rightarrow> bool" where
  "graph_sorted g \<longleftrightarrow> sorted_wrt (<) (map fst (dg_nodes g)) \<and> sorted_wrt (<) (dg_edges g)"

lemma graph_sorted_seen [simp]: "graph_sorted (g\<lparr>dg_seen := ks\<rparr>) = graph_sorted g"
  by (simp add: graph_sorted_def)

lemma ensure_node_map:
  "map_of (dg_nodes (ensure_node i g)) =
     (case map_of (dg_nodes g) i of Some _ \<Rightarrow> map_of (dg_nodes g) | None \<Rightarrow> (map_of (dg_nodes g))(i \<mapsto> new_node i))"
  "dg_edges (ensure_node i g) = dg_edges g" "dg_seen (ensure_node i g) = dg_seen g"
  "graph_sorted g \<Longrightarrow> graph_sorted (ensure_node i g)"
  by (auto simp: ensure_node_def graph_sorted_def sorted_bt_insert split: option.split)

lemma add_edge_frame:
  "dg_nodes (add_edge a b g) = dg_nodes g" "dg_seen (add_edge a b g) = dg_seen g"
  "set (dg_edges (add_edge a b g)) = set (dg_edges g) \<union> (if a = b then {} else {(a, b)})"
  "graph_sorted g \<Longrightarrow> graph_sorted (add_edge a b g)"
  by (auto simp: add_edge_def graph_sorted_def sorted_bs_insert)

lemma count_event_frame:
  "dg_edges (count_event i ts g) = dg_edges g" "dg_seen (count_event i ts g) = dg_seen g"
  "graph_sorted g \<Longrightarrow> graph_sorted (count_event i ts g)"
  by (auto simp: count_event_def graph_sorted_def sorted_bt_insert split: option.split)

definition from_prev :: "string option \<Rightarrow> string list \<Rightarrow> string list" where
  "from_prev prev xs = (case prev of None \<Rightarrow> xs | Some p \<Rightarrow> p # xs)"

lemma steps_of_Cons: "steps_of (a # b # xs) = (if a = b then {} else {(a, b)}) \<union> steps_of (b # xs)"
  by (auto simp: steps_of_def)

lemma steps_of_short [simp]: "steps_of [] = {}" "steps_of [a] = {}"
  by (simp_all add: steps_of_def)

lemma link_chain_facts:
  assumes "link_chain prev chain g = (g', prev')"
  shows "map_of (dg_nodes g') = (\<lambda>j. case map_of (dg_nodes g) j of Some n \<Rightarrow> Some n
            | None \<Rightarrow> if j \<in> set chain \<and> j \<noteq> [] then Some (new_node j) else None)
    \<and> set (dg_edges g') = set (dg_edges g) \<union> steps_of (from_prev prev (filter (\<lambda>i. i \<noteq> []) chain))
    \<and> from_prev prev' [] = (let xs = from_prev prev (filter (\<lambda>i. i \<noteq> []) chain) in if xs = [] then [] else [last xs])
    \<and> dg_seen g' = dg_seen g \<and> (graph_sorted g \<longrightarrow> graph_sorted g')"
  using assms
proof (induction prev chain g rule: link_chain.induct)
  case (1 prev g)
  then show ?case by (auto simp: from_prev_def fun_eq_iff split: option.split)
next
  case (2 prev item chain g)
  show ?case
  proof (cases "item = []")
    case True
    with 2(1) [OF True] 2(3) show ?thesis by auto
  next
    case False
    define g2 where "g2 = (case prev of None \<Rightarrow> ensure_node item g | Some p \<Rightarrow> add_edge p item (ensure_node item g))"
    have g2: "map_of (dg_nodes g2) = (case map_of (dg_nodes g) item of Some _ \<Rightarrow> map_of (dg_nodes g)
          | None \<Rightarrow> (map_of (dg_nodes g))(item \<mapsto> new_node item))"
      "set (dg_edges g2) = set (dg_edges g) \<union> steps_of (from_prev prev [item])"
      "dg_seen g2 = dg_seen g" "graph_sorted g \<longrightarrow> graph_sorted g2"
      by (auto simp: g2_def ensure_node_map add_edge_frame from_prev_def steps_of_Cons split: option.split)
    from 2(3) False have l: "link_chain (Some item) chain g2 = (g', prev')" by (simp add: g2_def Let_def)
    note IH = 2(2) [OF False refl refl, folded g2_def, OF l]
    let ?xs = "filter (\<lambda>i. i \<noteq> []) chain"
    have "steps_of (from_prev prev (item # ?xs)) = steps_of (from_prev prev [item]) \<union> steps_of (item # ?xs)"
      by (auto simp: from_prev_def steps_of_Cons split: option.split)
    moreover have "set (dg_edges g') = set (dg_edges g2) \<union> steps_of (item # ?xs)"
      using IH by (simp add: from_prev_def)
    ultimately have edges: "set (dg_edges g') = set (dg_edges g)
        \<union> steps_of (from_prev prev (filter (\<lambda>i. i \<noteq> []) (item # chain)))"
      using g2(2) False by (simp add: Un_assoc)
    have nodes: "map_of (dg_nodes g') = (\<lambda>j. case map_of (dg_nodes g) j of Some n \<Rightarrow> Some n
            | None \<Rightarrow> if j \<in> set (item # chain) \<and> j \<noteq> [] then Some (new_node j) else None)"
    proof
      fix j
      from IH have "map_of (dg_nodes g') j = (case map_of (dg_nodes g2) j of Some n \<Rightarrow> Some n
            | None \<Rightarrow> if j \<in> set chain \<and> j \<noteq> [] then Some (new_node j) else None)" by simp
      then show "map_of (dg_nodes g') j = (case map_of (dg_nodes g) j of Some n \<Rightarrow> Some n
            | None \<Rightarrow> if j \<in> set (item # chain) \<and> j \<noteq> [] then Some (new_node j) else None)"
        unfolding g2(1) using False
        by (cases "map_of (dg_nodes g) j"; cases "map_of (dg_nodes g) item"; cases "j = item") simp_all
    qed
    have lst: "from_prev prev' [] = (let xs = from_prev prev (filter (\<lambda>i. i \<noteq> []) (item # chain)) in if xs = [] then [] else [last xs])"
      using IH False by (cases prev) (simp_all add: from_prev_def Let_def)
    from edges nodes lst IH g2(3,4) show ?thesis by simp
  qed
qed

lemma keys_in_insert:
  "keys_in (insert x S) i = (if key_agent_id (snd x) = i then insert (snd x) (keys_in S i) else keys_in S i)"
  by (auto simp: keys_in_def)

lemma keys_in_pairs: "keys_in S i = {k. (\<exists>c. (c, k) \<in> S) \<and> key_agent_id k = i}"
  unfolding keys_in_def image_def by (auto intro: bexI rev_bexI)

lemma finite_keys_in: "finite S \<Longrightarrow> finite (keys_in S i)"
  by (simp add: keys_in_def)

lemma node_in_new: "i \<noteq> [] \<Longrightarrow> i \<notin> nodes_in S \<Longrightarrow> node_in S i = new_node i"
proof -
  assume i: "i \<noteq> []" "i \<notin> nodes_in S"
  then have "keys_in S i = {}" by (fastforce simp: keys_in_def nodes_in_def path_of_def)
  then show ?thesis by (simp add: node_in_def new_node_def last_ts_in_def)
qed

lemma node_in_other: "key_agent_id (snd x) \<noteq> i \<Longrightarrow> node_in (insert x S) i = node_in S i"
  by (simp add: node_in_def last_ts_in_def keys_in_insert)

lemma node_in_again: "snd x \<in> snd ` S \<Longrightarrow> node_in (insert x S) i = node_in S i"
proof -
  assume "snd x \<in> snd ` S"
  then have "keys_in (insert x S) i = keys_in S i" by (auto simp: keys_in_def)
  then show ?thesis by (simp add: node_in_def last_ts_in_def)
qed

lemma node_in_counted:
  assumes "finite S" and "snd x \<notin> snd ` S"
  defines "n \<equiv> node_in S (key_agent_id (snd x))"
  shows "node_in (insert x S) (key_agent_id (snd x)) =
    n\<lparr>gn_event_count := gn_event_count n + 1,
      gn_last_ts := (if gn_last_ts n < key_ts (snd x) then key_ts (snd x) else gn_last_ts n)\<rparr>"
proof -
  let ?K = "keys_in S (key_agent_id (snd x))"
  have "snd x \<notin> ?K" using assms(2) by (simp add: keys_in_def)
  then have "card (insert (snd x) ?K) = card ?K + 1" using finite_keys_in [OF assms(1)] by simp
  moreover have "last_ts_in (insert x S) (key_agent_id (snd x)) = max (key_ts (snd x)) (last_ts_in S (key_agent_id (snd x)))"
    using finite_keys_in [OF assms(1)] by (simp add: last_ts_in_def keys_in_insert insert_commute [of "[]"])
  ultimately show ?thesis by (auto simp: n_def node_in_def keys_in_insert max_def)
qed

text \<open>The actor of a sighting, counted or seen again.\<close>

lemma sight_actor_facts:
  fixes x :: sighting
  assumes "describes g S" and "finite S"
  defines "a \<equiv> key_agent_id (snd x)"
  defines "g1 \<equiv> sight_actor g a (snd x) (key_ts (snd x))"
  shows "map_of (dg_nodes g1) = (\<lambda>i. if i \<in> nodes_in S \<or> i \<noteq> [] \<and> i = a then Some (node_in (insert x S) i) else None)"
    and "set (dg_edges g1) = edges_in S" and "set (dg_seen g1) = snd ` insert x S" and "graph_sorted g1"
proof -
  define g0 where "g0 = g\<lparr>dg_seen := List.insert (snd x) (dg_seen g)\<rparr>"
  have g1: "g1 = (if a = [] then g0
     else (let h = ensure_node a g0 in if snd x \<notin> set (dg_seen g) then count_event a (key_ts (snd x)) h else h))"
    by (simp add: g1_def g0_def sight_actor_def Let_def)
  have d: "map_of (dg_nodes g) = (\<lambda>i. if i \<in> nodes_in S then Some (node_in S i) else None)"
    "set (dg_edges g) = edges_in S" "set (dg_seen g) = snd ` S" "graph_sorted g0"
    using assms(1) by (simp_all add: describes_def g0_def graph_sorted_def)
  have nonempty: "[] \<notin> nodes_in S" by (auto simp: nodes_in_def path_of_def)
  have en: "map_of (dg_nodes (ensure_node a g0)) = (\<lambda>i. if i \<in> nodes_in S \<or> i = a then Some (node_in S i) else None)"
    if "a \<noteq> []"
    using d(1) node_in_new [OF that] by (auto simp: ensure_node_map g0_def fun_eq_iff split: option.split)
  show "map_of (dg_nodes g1) = (\<lambda>i. if i \<in> nodes_in S \<or> i \<noteq> [] \<and> i = a then Some (node_in (insert x S) i) else None)"
  proof (cases "a = []")
    case True
    then have "node_in (insert x S) i = node_in S i" if "i \<in> nodes_in S" for i
      using that nonempty by (intro node_in_other) (auto simp: a_def)
    with True d(1) nonempty show ?thesis by (auto simp: g1 g0_def fun_eq_iff)
  next
    case False
    show ?thesis
    proof (cases "snd x \<in> snd ` S")
      case True
      with False en [OF False] d(3) node_in_again [OF True] show ?thesis by (simp add: g1 Let_def fun_eq_iff)
    next
      case new: False
      have "map_of (dg_nodes g1) = (map_of (dg_nodes (ensure_node a g0)))(a \<mapsto> node_in (insert x S) a)"
        using False en [OF False] d(3) new node_in_counted [OF assms(2) new]
        by (simp add: g1 Let_def count_event_def a_def)
      with False en [OF False] node_in_other [of x _ S] show ?thesis by (auto simp: fun_eq_iff a_def)
    qed
  qed
  show "set (dg_edges g1) = edges_in S" "set (dg_seen g1) = snd ` insert x S" "graph_sorted g1"
    using d by (auto simp: g1 g0_def Let_def ensure_node_map count_event_frame)
qed

lemma steps_of_append1:
  "steps_of (xs @ [a]) = steps_of xs \<union> (if xs = [] \<or> last xs = a then {} else {(last xs, a)})"
proof (induction xs)
  case (Cons x xs)
  then show ?case by (cases xs) (auto simp: steps_of_Cons)
qed simp

lemma describes_step:
  assumes "describes g S" and "finite S"
  shows "describes (ingest_sighting g x) (insert x S)"
proof -
  obtain chain k where x: "x = (chain, k)" by (cases x)
  define g1 where "g1 = sight_actor g (key_agent_id k) k (key_ts k)"
  note g1 = sight_actor_facts [OF assms, of x, unfolded x snd_conv, folded g1_def]
  obtain g2 prev where l: "link_chain None chain g1 = (g2, prev)" by fastforce
  note lf = link_chain_facts [OF l]
  define g3 where "g3 = (case prev of None \<Rightarrow> g2 | Some p \<Rightarrow> if key_agent_id k = [] then g2 else add_edge p (key_agent_id k) g2)"
  have res: "ingest_sighting g x = g3"
    by (simp add: ingest_sighting_def graph_ingest_def x g1_def [symmetric] l g3_def)
  have nodes: "map_of (dg_nodes g3) = (\<lambda>i. if i \<in> nodes_in (insert x S) then Some (node_in (insert x S) i) else None)"
  proof -
    have "map_of (dg_nodes g3) = map_of (dg_nodes g2)" by (auto simp: g3_def add_edge_frame split: option.split)
    moreover have "node_in (insert x S) i = new_node i" if "i \<noteq> []" "i \<notin> nodes_in S" "i \<noteq> key_agent_id k" for i
      using node_in_other [of x i S] node_in_new that by (simp add: x)
    ultimately show ?thesis
      using lf g1(1) by (auto simp: fun_eq_iff x nodes_in_def path_of_def)
  qed
  have edges: "set (dg_edges g3) = edges_in (insert x S)"
  proof -
    let ?xs = "filter (\<lambda>i. i \<noteq> []) chain"
    have prev: "from_prev prev [] = (if ?xs = [] then [] else [last ?xs])"
      using lf by (simp add: from_prev_def Let_def)
    have "set (dg_edges g2) = edges_in S \<union> steps_of ?xs" using lf g1(2) by (simp add: from_prev_def)
    then have "set (dg_edges g3) = edges_in S \<union> steps_of (path_of x)"
      using prev by (auto simp: g3_def add_edge_frame from_prev_def x path_of_def steps_of_append1 split: option.splits if_splits)
    then show ?thesis by (auto simp: edges_in_def)
  qed
  have "set (dg_seen g3) = snd ` insert x S" "graph_sorted g3"
    using lf g1(3,4) by (auto simp: g3_def add_edge_frame x split: option.split)
  with nodes edges show ?thesis by (simp add: res describes_def graph_sorted_def)
qed

lemma describes_new: "describes graph_new {}"
  by (simp add: describes_def graph_new_def nodes_in_def edges_in_def)

lemma describes_fold:
  "describes g S \<Longrightarrow> finite S \<Longrightarrow> describes (foldl ingest_sighting g xs) (S \<union> set xs)"
proof (induction xs arbitrary: g S)
  case (Cons x xs)
  from Cons.IH [OF describes_step [OF Cons.prems(1,2), of x]] Cons.prems(2) show ?case by simp
qed simp

subsection \<open>Events and rows\<close>

definition sighting_of :: "agent_event \<Rightarrow> sighting" where
  "sighting_of e =
     (let actor = filed_under (ev_type e) (ev_agent_id e) (ev_data e) in
      (ev_on_behalf_of e,
       \<lparr>key_agent_id = actor, key_ts = ev_ts e, key_source = ev_source e, key_event_type = ev_type e,
        key_run_id = (case ev_run_id e of None \<Rightarrow> [] | Some r \<Rightarrow> r)\<rparr>))"

definition graph_of :: "delegation_graph \<Rightarrow> agent_event list \<Rightarrow> delegation_graph" where
  "graph_of g es = foldl (\<lambda>g e. fst (add_event g e)) g es"

lemma add_event_sighting: "fst (add_event g e) = ingest_sighting g (sighting_of e)"
  by (simp add: add_event_def ingest_sighting_def sighting_of_def Let_def)

lemma graph_of_sightings: "graph_of g es = foldl ingest_sighting g (map sighting_of es)"
  unfolding graph_of_def by (induction es arbitrary: g) (simp_all add: add_event_sighting)

text \<open>The two JSON columns of an event are read back as they were written.\<close>

definition columns_reparse :: "ingest_lib \<Rightarrow> agent_event \<Rightarrow> bool" where
  "columns_reparse X e \<longleftrightarrow>
     (\<forall>v\<in>insert (JArray (map JString (ev_on_behalf_of e))) (set_option (ev_data e)). parse_json X (json_text X v) = Inr v)"

definition is_row_of :: "ingest_lib \<Rightarrow> stored_row \<Rightarrow> agent_event \<Rightarrow> bool" where
  "is_row_of X r e \<longleftrightarrow> (\<exists>i off ce. r = row_of X i off ce \<and> ce_event ce = e)"

text \<open>The two spellings of the attribution rule agree.\<close>

lemma filed_under_sql_agrees:
  "\<forall>v\<in>set_option data. parse_json X (json_text X v) = Inr v \<Longrightarrow>
    filed_under_sql X type i (map_option (json_text X) data) = filed_under type i data"
  by (auto simp: filed_under_sql_def filed_under_def key_of_def KEY_PREFIX_def NO_KEY_def
      split: option.splits)

lemma decode_strings_map: "decode_strings (map JString ss) = Some ss"
  by (induction ss) simp_all

lemma row_decodes:
  assumes "columns_reparse X e" and "is_row_of X r e"
  shows "decode_chain X (row_on_behalf_of r) = Inr (ev_on_behalf_of e)"
    and "filed_under_sql X (ev_type e) (row_agent_id r) (row_data r) = filed_under (ev_type e) (ev_agent_id e) (ev_data e)"
    and "row_ts r = ev_ts e" and "row_source r = ev_source e" and "row_type r = ev_type e" and "row_run_id r = ev_run_id e"
  using assms by (auto simp: is_row_of_def row_of_def decode_chain_def columns_reparse_def decode_strings_map
      filed_under_sql_agrees Let_def)

lemma rows_fold:
  "list_all2 (is_row_of X) rows es \<Longrightarrow> \<forall>e\<in>set es. columns_reparse X e \<Longrightarrow>
    \<exists>ds. delegation_events X rows = Inr ds \<and> foldl ingest_row g ds = foldl ingest_sighting g (map sighting_of es)"
proof (induction rows es arbitrary: g rule: list_all2_induct)
  case (Cons r rs e es)
  have reparse: "columns_reparse X e" using Cons.prems by simp
  note row = row_decodes [OF reparse Cons.hyps(1)]
  define d where "d = \<lparr>dl_agent_id = filed_under (ev_type e) (ev_agent_id e) (ev_data e), dl_on_behalf_of = ev_on_behalf_of e,
    dl_ts = ev_ts e, dl_source = ev_source e, dl_type = ev_type e, dl_run_id = ev_run_id e\<rparr>"
  have step: "ingest_row g d = ingest_sighting g (sighting_of e)"
    by (simp add: d_def ingest_row_def ingest_sighting_def sighting_of_def Let_def)
  from Cons.IH [of "ingest_row g d"] Cons.prems obtain ds where
    ds: "delegation_events X rs = Inr ds" "foldl ingest_row (ingest_row g d) ds = foldl ingest_sighting (ingest_row g d) (map sighting_of es)"
    by auto
  then have "delegation_events X (r # rs) = Inr (d # ds)" by (simp add: row d_def)
  with ds(2) step show ?case by (intro exI [of _ "d # ds"]) simp
qed simp

subsection \<open>Properties\<close>

lemma graph_of_describes: "describes (graph_of graph_new es) (sighting_of ` set es)"
  using describes_fold [OF describes_new, of "map sighting_of es"] by (simp add: graph_of_sightings)

text \<open>C17. The graph folded from the bus is the graph of the events, computed from their set alone. A principal
  is a node exactly if it acted or stands in a chain; its count is the number of distinct natural keys under
  which it acted and its time the latest of them; an edge joins exactly the neighbours of some event's
  chain, the acting agent last, and never a principal to itself.\<close>

theorem graph_refines_spec:
  "map_of (dg_nodes (graph_of graph_new es)) i =
     (let S = sighting_of ` set es; acted = {k. (\<exists>c. (c, k) \<in> S) \<and> key_agent_id k = i} in
      if i \<noteq> [] \<and> (\<exists>(c, k)\<in>S. i \<in> set c \<or> i = key_agent_id k)
      then Some \<lparr>gn_id = i, gn_kind = node_kind_of i, gn_event_count = card acted,
                 gn_last_ts = Max (insert [] (key_ts ` acted))\<rparr>
      else None) \<and>
   set (dg_edges (graph_of graph_new es)) =
     {(a, b). a \<noteq> b \<and> (\<exists>(c, k)\<in>sighting_of ` set es.
        let path = filter (\<lambda>j. j \<noteq> []) (c @ [key_agent_id k]) in (a, b) \<in> set (zip path (tl path)))}"
proof
  let ?S = "sighting_of ` set es"
  have "keys_in ?S i = {k. (\<exists>c. (c, k) \<in> ?S) \<and> key_agent_id k = i}" by (rule keys_in_pairs)
  then have node: "node_in ?S i = (let acted = {k. (\<exists>c. (c, k) \<in> ?S) \<and> key_agent_id k = i} in
      \<lparr>gn_id = i, gn_kind = node_kind_of i, gn_event_count = card acted, gn_last_ts = Max (insert [] (key_ts ` acted))\<rparr>)"
    by (simp add: node_in_def last_ts_in_def Let_def)
  have mem: "i \<in> nodes_in ?S \<longleftrightarrow> i \<noteq> [] \<and> (\<exists>(c, k)\<in>?S. i \<in> set c \<or> i = key_agent_id k)"
    unfolding nodes_in_def path_of_def by (auto simp: Bex_def split_beta)
  have "map_of (dg_nodes (graph_of graph_new es)) i = (if i \<in> nodes_in ?S then Some (node_in ?S i) else None)"
    using graph_of_describes [of es] by (simp add: describes_def)
  then show "map_of (dg_nodes (graph_of graph_new es)) i =
     (let S = ?S; acted = {k. (\<exists>c. (c, k) \<in> S) \<and> key_agent_id k = i} in
      if i \<noteq> [] \<and> (\<exists>(c, k)\<in>S. i \<in> set c \<or> i = key_agent_id k)
      then Some \<lparr>gn_id = i, gn_kind = node_kind_of i, gn_event_count = card acted,
                 gn_last_ts = Max (insert [] (key_ts ` acted))\<rparr>
      else None)"
    unfolding mem node Let_def .
  have "set (dg_edges (graph_of graph_new es)) = edges_in ?S"
    using graph_of_describes [of es] by (simp add: describes_def)
  then show "set (dg_edges (graph_of graph_new es)) =
     {(a, b). a \<noteq> b \<and> (\<exists>(c, k)\<in>?S.
        let path = filter (\<lambda>j. j \<noteq> []) (c @ [key_agent_id k]) in (a, b) \<in> set (zip path (tl path)))}"
    unfolding edges_in_def steps_of_def path_of_def Let_def by (auto simp: split_beta simp del: filter_append filter.simps)
qed

text \<open>C18. The two ways to the graph agree, and repetition and order do not matter. Build it from the store, whose
  rows are those of some events, then feed it any events, old ones among them: it shows exactly what the live
  graph shows of the same set of events, in whatever order and however often they came.\<close>

theorem graph_batch_equals_live:
  assumes "\<forall>e\<in>set stored. columns_reparse X e" and "list_all2 (is_row_of X) (st_events st) stored"
    and "set live = set stored \<union> set later"
  shows "\<exists>g. from_store X st = Inr g \<and>
    graph_view_of (graph_of g later) = graph_view_of (graph_of graph_new live)"
proof -
  obtain ds where ds: "delegation_events X (st_events st) = Inr ds"
      "foldl ingest_row graph_new ds = foldl ingest_sighting graph_new (map sighting_of stored)"
    using rows_fold [OF assms(2,1)] by blast
  let ?g = "foldl ingest_row graph_new ds"
  have "describes ?g (sighting_of ` set stored)"
    using describes_fold [OF describes_new, of "map sighting_of stored"] ds(2) by simp
  from describes_fold [OF this, of "map sighting_of later"]
  have "describes (graph_of ?g later) (sighting_of ` set live)"
    by (simp add: graph_of_sightings assms(3) image_Un)
  from describes_unique [OF this graph_of_describes [of live]]
  have "graph_view_of (graph_of ?g later) = graph_view_of (graph_of graph_new live)"
    by (simp add: graph_view_of_def)
  with ds(1) show ?thesis by (simp add: from_store_def)
qed

subsection \<open>A concrete store\<close>

text \<open>An agent acts for a user, then a key is refused under that agent's name. The parser knows the two texts
  the columns hold.\<close>

definition acting_event :: agent_event where
  "acting_event =
     \<lparr>ev_schema = SCHEMA_V0_1, ev_ts = ''2026-01-01T00:00:00Z'', ev_source = ''wardryx'',
      ev_type = ''policy_deny'', ev_agent_id = ''agent://o/t/a'', ev_severity = None, ev_run_id = Some ''r'',
      ev_on_behalf_of = [''user://u''], ev_data = None, ev_prev_hash = None, ev_extra = []\<rparr>"

definition refused_event :: agent_event where
  "refused_event = acting_event\<lparr>ev_type := IDENTITY_MISMATCH, ev_on_behalf_of := [],
     ev_data := Some (JObject [(''key_id'', JString ''k'')])\<rparr>"

definition graph_lib :: ingest_lib where
  "graph_lib =
     \<lparr>parse_json = (\<lambda>l. if l = ''chain'' then Inr (JArray [JString ''user://u'']) else if l = ''[]'' then Inr (JArray [])
                        else Inr (JObject [(''key_id'', JString ''k'')])),
      schema_valid = (\<lambda>_ _. True), schema_errors = (\<lambda>_ _. []), decode_event = (\<lambda>_. Inr acting_event),
      debug_str = (\<lambda>s. s), sha256_hex = (\<lambda>s. s),
      json_text = (\<lambda>v. case v of JArray [] \<Rightarrow> ''[]'' | JArray _ \<Rightarrow> ''chain'' | _ \<Rightarrow> ''data''), rfc3339_millis = (\<lambda>_. None)\<rparr>"

definition event_row :: "nat \<Rightarrow> agent_event \<Rightarrow> stored_row" where
  "event_row i e = row_of graph_lib i None
     \<lparr>ce_event = e, ce_origin = \<lparr>pr_env = ''local'', pr_connector = ''file'', pr_file = None, pr_offset = None, pr_endpoint = None,
        pr_received_ts = ''now''\<rparr>, ce_raw = [], ce_schema_version = V0_1\<rparr>"

lemma event_row_is: "is_row_of graph_lib (event_row i e) e"
  unfolding is_row_of_def event_row_def by (intro exI conjI, rule refl) simp

lemma demo_reparse: "\<forall>e\<in>set [acting_event, refused_event]. columns_reparse graph_lib e"
  by (simp add: columns_reparse_def graph_lib_def acting_event_def refused_event_def)

definition graph_store :: store where
  "graph_store = \<lparr>st_events = [event_row 1 acting_event, event_row 2 refused_event], st_quarantine = [], st_offsets = []\<rparr>"

theorem graph_batch_equals_live_witness:
  "(\<exists>g. from_store graph_lib graph_store = Inr g \<and>
      graph_view_of (graph_of g [acting_event]) = graph_view_of (graph_of graph_new [refused_event, acting_event, refused_event]))
   \<and> map gn_id (gv_nodes (graph_view_of (graph_of graph_new [refused_event, acting_event, refused_event])))
     = [''agent://o/t/a'', ''key:k'', ''user://u'']"
proof
  show "\<exists>g. from_store graph_lib graph_store = Inr g \<and>
      graph_view_of (graph_of g [acting_event]) = graph_view_of (graph_of graph_new [refused_event, acting_event, refused_event])"
    by (rule graph_batch_equals_live [OF demo_reparse]) (auto simp: graph_store_def event_row_is)
qed code_simp

end
