(* ===== verification/StoreReads.thy ===== *)
theory StoreReads
  imports Graph "HOL-Library.Option_ord" "HOL-Library.Signed_Division"
begin

section \<open>Reading the event store\<close>

text \<open>
  The read queries of \<open>crates/core/src/store.rs\<close> and its pruning, over the tables of \<open>Ingest\<close>. A query is
  what its SQL says of the rows: the filter of \<open>WHERE\<close>, the order of \<open>ORDER BY\<close>, the cut of \<open>LIMIT\<close>, the
  groups of \<open>GROUP BY\<close> in ascending order of their keys. \<open>failed\<close> is the error of the database, when it
  answers one. Rows come back in the order SQL leaves open as they stand in the table.
\<close>

subsection \<open>Events\<close>

record stored_event =
  se_id :: nat
  se_env :: string
  se_ts :: string
  se_source :: string
  se_type :: string
  se_agent_id :: string
  se_run_id :: "string option"
  se_severity :: "string option"
  se_schema :: string
  se_on_behalf_of :: "string list"
  se_data :: "json option"
  se_prev_hash :: "string option"
  se_raw :: string
  se_file :: "string option"
  se_off :: "nat option"

fun emap :: "('a \<Rightarrow> 'e + 'b) \<Rightarrow> 'a list \<Rightarrow> 'e + 'b list" where
  "emap f [] = Inr []"
| "emap f (x # xs) = ebind (f x) (\<lambda>y. ebind (emap f xs) (\<lambda>ys. Inr (y # ys)))"

definition decode_data :: "ingest_lib \<Rightarrow> string option \<Rightarrow> string + json option" where
  "decode_data X col = (case col of None \<Rightarrow> Inr None | Some t \<Rightarrow> ebind (parse_json X t) (\<lambda>v. Inr (Some v)))"

definition stored_event_from_row :: "ingest_lib \<Rightarrow> stored_row \<Rightarrow> string + stored_event" where
  "stored_event_from_row X r =
     ebind (decode_chain X (row_on_behalf_of r)) (\<lambda>on_behalf_of.
     ebind (decode_data X (row_data r)) (\<lambda>data.
     Inr \<lparr>se_id = row_id r, se_env = row_env r, se_ts = row_ts r, se_source = row_source r, se_type = row_type r,
          se_agent_id = row_agent_id r, se_run_id = row_run_id r, se_severity = row_severity r,
          se_schema = row_schema r, se_on_behalf_of = on_behalf_of, se_data = data, se_prev_hash = row_prev_hash r,
          se_raw = row_raw r, se_file = row_file r, se_off = row_off r\<rparr>))"

definition query :: "string option \<Rightarrow> (unit \<Rightarrow> string + 'a) \<Rightarrow> string + 'a" where
  "query failed answer = (case failed of Some e \<Rightarrow> Inl e | None \<Rightarrow> answer ())"

definition sql_limit :: "nat \<Rightarrow> nat" where
  "sql_limit n = min n (2 ^ 63 - 1)"

definition by_id :: "stored_row list \<Rightarrow> stored_row list" where
  "by_id rows = sort_key row_id rows"

definition recent_events :: "ingest_lib \<Rightarrow> string option \<Rightarrow> store \<Rightarrow> nat \<Rightarrow> string + stored_event list" where
  "recent_events X failed st limit = query failed (\<lambda>_.
     emap (stored_event_from_row X) (take (sql_limit limit) (rev (by_id (st_events st)))))"

definition events_for_agent :: "ingest_lib \<Rightarrow> string option \<Rightarrow> store \<Rightarrow> string \<Rightarrow> nat \<Rightarrow> string + stored_event list" where
  "events_for_agent X failed st agent_id limit = query failed (\<lambda>_.
     emap (stored_event_from_row X)
       (take (sql_limit limit) (rev (by_id (filter (\<lambda>r. row_agent_id r = agent_id) (st_events st))))))"

definition events_for_run :: "ingest_lib \<Rightarrow> string option \<Rightarrow> store \<Rightarrow> string \<Rightarrow> nat \<Rightarrow> string + stored_event list" where
  "events_for_run X failed st run_id limit = query failed (\<lambda>_.
     emap (stored_event_from_row X)
       (take (sql_limit limit) (by_id (filter (\<lambda>r. row_run_id r = Some run_id) (st_events st)))))"

definition event_by_id :: "ingest_lib \<Rightarrow> string option \<Rightarrow> store \<Rightarrow> nat \<Rightarrow> string + stored_event option" where
  "event_by_id X failed st i = query failed (\<lambda>_.
     case find (\<lambda>r. row_id r = i) (st_events st) of
       Some r \<Rightarrow> ebind (stored_event_from_row X r) (\<lambda>e. Inr (Some e))
     | None \<Rightarrow> Inr None)"

definition similar_events :: "ingest_lib \<Rightarrow> string option \<Rightarrow> store \<Rightarrow> string \<Rightarrow> nat \<Rightarrow> nat \<Rightarrow> string + stored_event list" where
  "similar_events X failed st type before_id limit = query failed (\<lambda>_.
     emap (stored_event_from_row X)
       (take (sql_limit limit) (rev (by_id (filter (\<lambda>r. row_type r = type \<and> row_id r < before_id) (st_events st))))))"

subsection \<open>Aggregates\<close>

definition dated_since :: "int \<Rightarrow> stored_row \<Rightarrow> bool" where
  "dated_since cutoff r = (case row_ts_ms r of None \<Rightarrow> False | Some ms \<Rightarrow> cutoff \<le> ms)"

definition in_window :: "int option \<Rightarrow> stored_row \<Rightarrow> bool" where
  "in_window cutoff r = (case cutoff of None \<Rightarrow> True | Some c \<Rightarrow> dated_since c r)"

text \<open>\<open>MAX\<close> passes over nulls, and is null when there is nothing else.\<close>

definition sql_max :: "'a::linorder option list \<Rightarrow> 'a option" where
  "sql_max xs = (case List.map_filter id xs of [] \<Rightarrow> None | y # ys \<Rightarrow> Some (foldl max y ys))"

record agent_type_count =
  tc_agent_id :: string
  tc_type :: string
  tc_count :: nat
  tc_last_ts :: string

definition row_subject :: "ingest_lib \<Rightarrow> stored_row \<Rightarrow> string" where
  "row_subject X r = filed_under_sql X (row_type r) (row_agent_id r) (row_data r)"

text \<open>The predicate of the reads per subject, in the two halves that keep the indexes usable.\<close>

definition subject_is :: "ingest_lib \<Rightarrow> string \<Rightarrow> stored_row \<Rightarrow> bool" where
  "subject_is X subject r \<longleftrightarrow> row_agent_id r = subject \<and> row_type r \<noteq> IDENTITY_MISMATCH
     \<or> row_type r = IDENTITY_MISMATCH \<and> row_subject X r = subject"

lemma subject_is_row_subject: "subject_is X subject r \<longleftrightarrow> row_subject X r = subject"
  by (auto simp: subject_is_def row_subject_def filed_under_sql_def)

definition group_keys :: "('a \<Rightarrow> 'k::linorder) \<Rightarrow> 'a list \<Rightarrow> 'k list" where
  "group_keys key xs = sort (remdups (map key xs))"

definition type_counts_since :: "ingest_lib \<Rightarrow> string option \<Rightarrow> store \<Rightarrow> int option \<Rightarrow> string + agent_type_count list" where
  "type_counts_since X failed st cutoff = query failed (\<lambda>_. Inr (
     let rows = filter (in_window cutoff) (st_events st); key = (\<lambda>r. (row_subject X r, row_type r)) in
     map (\<lambda>(subject, type).
        let group = filter (\<lambda>r. key r = (subject, type)) rows in
        \<lparr>tc_agent_id = subject, tc_type = type, tc_count = length group,
         tc_last_ts = (case sql_max (map (Some \<circ> row_ts) group) of None \<Rightarrow> [] | Some ts \<Rightarrow> ts)\<rparr>)
       (group_keys key rows)))"

record day_type_count =
  dc_day :: int
  dc_type :: string
  dc_count :: nat

text \<open>SQLite divides integers towards zero.\<close>

definition day_of_ms :: "int \<Rightarrow> int" where
  "day_of_ms ms = ms sdiv 86400000"

definition daily_type_counts :: "ingest_lib \<Rightarrow> string option \<Rightarrow> store \<Rightarrow> string \<Rightarrow> int \<Rightarrow> string + day_type_count list" where
  "daily_type_counts X failed st agent_id since = query failed (\<lambda>_. Inr (
     let rows = filter (\<lambda>r. subject_is X agent_id r \<and> dated_since since r) (st_events st);
         key = (\<lambda>r. (day_of_ms (case row_ts_ms r of None \<Rightarrow> 0 | Some ms \<Rightarrow> ms), row_type r)) in
     map (\<lambda>(day, type). \<lparr>dc_day = day, dc_type = type, dc_count = length (filter (\<lambda>r. key r = (day, type)) rows)\<rparr>)
       (group_keys key rows)))"

definition sql_min :: "'a::linorder option list \<Rightarrow> 'a option" where
  "sql_min xs = (case List.map_filter id xs of [] \<Rightarrow> None | y # ys \<Rightarrow> Some (foldl min y ys))"

definition first_day_for_agent :: "ingest_lib \<Rightarrow> string option \<Rightarrow> store \<Rightarrow> string \<Rightarrow> string + int option" where
  "first_day_for_agent X failed st agent_id = query failed (\<lambda>_. Inr (
     map_option day_of_ms (sql_min (map row_ts_ms (filter (subject_is X agent_id) (st_events st))))))"

definition undated_count :: "string option \<Rightarrow> store \<Rightarrow> string + nat" where
  "undated_count failed st = query failed (\<lambda>_. Inr (length (filter (\<lambda>r. row_ts_ms r = None) (st_events st))))"

definition ts_span :: "string option \<Rightarrow> store \<Rightarrow> string + (int \<times> int) option" where
  "ts_span failed st = query failed (\<lambda>_. Inr (
     let dated = map row_ts_ms (filter (\<lambda>r. row_ts_ms r \<noteq> None) (st_events st)) in
     case (sql_min dated, sql_max dated) of (Some lo, Some hi) \<Rightarrow> Some (lo, hi) | _ \<Rightarrow> None))"

definition event_count :: "string option \<Rightarrow> store \<Rightarrow> string + nat" where
  "event_count failed st = query failed (\<lambda>_. Inr (length (st_events st)))"

text \<open>\<open>ms_to_rfc3339\<close> is a parameter of pruning; the second count is the quarantined lines dropped.\<close>

definition prune_before :: "(int \<Rightarrow> string) \<Rightarrow> store \<Rightarrow> int \<Rightarrow> store \<times> nat \<times> nat" where
  "prune_before ms_to_rfc3339 st cutoff =
     (let old = (\<lambda>r. case row_ts_ms r of None \<Rightarrow> False | Some ms \<Rightarrow> ms < cutoff);
          old_q = (\<lambda>q. q_ts q < ms_to_rfc3339 cutoff)
      in (st\<lparr>st_events := filter (\<lambda>r. \<not> old r) (st_events st),
             st_quarantine := filter (\<lambda>q. \<not> old_q q) (st_quarantine st)\<rparr>,
          length (filter old (st_events st)), length (filter old_q (st_quarantine st))))"

subsection \<open>Quarantine\<close>

record quarantine_reason =
  qr_reason :: string
  qr_count :: nat
  qr_last_ts :: "string option"
  qr_example_file :: "string option"
  qr_example_offset :: "nat option"
  qr_raw_excerpt :: "string option"

definition QUARANTINE_EXCERPT_CHARS :: nat where "QUARANTINE_EXCERPT_CHARS = 220"

definition excerpt :: "string \<Rightarrow> nat \<Rightarrow> string" where
  "excerpt s n = (if length (chars s) \<le> n then s else take_chars n s @ ''...'')"

definition quarantine_group :: "quarantine_row list \<Rightarrow> string \<Rightarrow> quarantine_reason" where
  "quarantine_group rows reason =
     (let group = filter (\<lambda>q. q_reason q = reason) rows in
      \<lparr>qr_reason = reason, qr_count = length group, qr_last_ts = sql_max (map (Some \<circ> q_ts) group),
       qr_example_file = sql_max (map q_file group), qr_example_offset = sql_max (map q_off group),
       qr_raw_excerpt = map_option (\<lambda>r. excerpt r QUARANTINE_EXCERPT_CHARS) (sql_max (map (Some \<circ> q_raw) group))\<rparr>)"

definition quarantine_by_reason :: "string option \<Rightarrow> store \<Rightarrow> nat \<Rightarrow> string + quarantine_reason list" where
  "quarantine_by_reason failed st limit = query failed (\<lambda>_. Inr (
     take (sql_limit limit) (rev (sort_key (\<lambda>g. (qr_count g, qr_last_ts g))
       (map (quarantine_group (st_quarantine st)) (group_keys q_reason (st_quarantine st)))))))"

definition quarantine_count :: "string option \<Rightarrow> store \<Rightarrow> string + nat" where
  "quarantine_count failed st = query failed (\<lambda>_. Inr (length (st_quarantine st)))"

end
