(* ===== verification/Case.thy ===== *)
theory Case
  imports StoreReads Journal
begin

section \<open>The case file of an incident\<close>

text \<open>
  \<open>crates/api/src/case/mod.rs\<close> and \<open>commands.rs\<close>: what to ask about an event and about whom, the answers of
  the planes, and their assembly into a case. The rows of the planes other than the console's own store are
  the members the case reads and the JSON the row serializes to; what each plane answers is a parameter
  (\<open>case_planes\<close>), and so are the errors of opening and reading the store (\<open>case_store\<close>).
\<close>

subsection \<open>Words, sections and lines\<close>

definition label_EVENT :: string where "label_EVENT = ''the incident's event row''"
definition label_TIMELINE :: string where "label_TIMELINE = ''an event of the same run''"
definition label_SPEND :: string where "label_SPEND = ''the run's spend and gateway decisions''"
definition label_IDENTITY :: string where "label_IDENTITY = ''the identity record''"
definition label_IDENTITY_ALERT :: string where "label_IDENTITY_ALERT = ''an identity alert on this subject''"
definition label_BLAST_RADIUS :: string where
  "label_BLAST_RADIUS = ''what the identity can reach, computed from its record''"
definition label_POLICY :: string where "label_POLICY = ''the policy status wardryx reports now''"
definition label_DECISION :: string where "label_DECISION = ''an approval of this run and how it was decided''"
definition label_SIMILAR_SAME_SUBJECT :: string where
  "label_SIMILAR_SAME_SUBJECT = ''an earlier event of the same type, same subject''"
definition label_SIMILAR_OTHER_SUBJECT :: string where
  "label_SIMILAR_OTHER_SUBJECT = ''an earlier event of the same type, another subject''"
definition label_RULING :: string where "label_RULING = ''a memory recalled for this kind of incident''"

definition label_ALL :: "string list" where
  "label_ALL = [label_EVENT, label_TIMELINE, label_SPEND, label_IDENTITY, label_IDENTITY_ALERT, label_BLAST_RADIUS,
     label_POLICY, label_DECISION, label_SIMILAR_SAME_SUBJECT, label_SIMILAR_OTHER_SUBJECT, label_RULING]"

definition words_EMPTY :: string where
  "words_EMPTY = ''the plane answered and holds nothing for this incident''"
definition words_UNAVAILABLE :: string where "words_UNAVAILABLE = ''the plane did not answer''"
definition words_UNRECORDED :: string where "words_UNRECORDED = ''no answer was recorded for this question''"
definition words_NO_RUN :: string where "words_NO_RUN = ''the event names no run, so there is no run to read''"
definition words_FILED_UNDER_A_KEY :: string where
  "words_FILED_UNDER_A_KEY = ''the incident is filed under a key, not an agent: asking about the agent it claimed would charge that agent with the attempt''"
definition words_ALERTS_UNREAD :: string where
  "words_ALERTS_UNREAD = ''the identity record was read; idryx's alert list could not be, so alerts are missing from this line''"
definition words_TIMELINE_CAPPED :: string where
  "words_TIMELINE_CAPPED = ''the run has at least this many events; the timeline stops at the cap''"

datatype plane = Bus | Tokenfuse | Idryx | Wardryx | Engram

datatype case_section =
    SecEvent | SecRunTimeline | SecSpend | SecIdentity | SecBlastRadius | SecPolicy | SecDecisions
  | SecSimilarIncidents | SecPriorRulings

definition section_ALL :: "case_section list" where
  "section_ALL = [SecEvent, SecRunTimeline, SecSpend, SecIdentity, SecBlastRadius, SecPolicy, SecDecisions,
     SecSimilarIncidents, SecPriorRulings]"

fun section_plane :: "case_section \<Rightarrow> plane" where
  "section_plane SecEvent = Bus"
| "section_plane SecRunTimeline = Bus"
| "section_plane SecSimilarIncidents = Bus"
| "section_plane SecSpend = Tokenfuse"
| "section_plane SecIdentity = Idryx"
| "section_plane SecBlastRadius = Idryx"
| "section_plane SecPolicy = Wardryx"
| "section_plane SecDecisions = Wardryx"
| "section_plane SecPriorRulings = Engram"

definition UPSTREAM_TEXT_MAX :: nat where "UPSTREAM_TEXT_MAX = 300"

text \<open>\<open>Trust\<close> has one value, so text that carries it is the text.\<close>

datatype upstream_data = Data string

definition data_bounded :: "string \<Rightarrow> upstream_data" where
  "data_bounded text = Data (take_chars UPSTREAM_TEXT_MAX text)"

record case_row =
  cr_plane :: plane
  cr_row_id :: string
  cr_label :: string
  cr_value :: json

datatype case_answer =
    Rows "case_row list" "string option"
  | Unavailable string
  | NotAsked string

datatype line_state = LineAnswered | LineEmpty | LineUnavailable | LineNotAsked

record case_line =
  ln_section :: case_section
  ln_plane :: plane
  ln_state :: line_state
  ln_facts :: nat
  ln_reason :: "string option"
  ln_upstream :: "upstream_data option"

record case_fact =
  fc_section :: case_section
  fc_plane :: plane
  fc_row_id :: string
  fc_digest :: string
  fc_label :: string
  fc_row :: json

record case_file =
  cf_incident_id :: string
  cf_subject :: string
  cf_claimed_agent :: "string option"
  cf_run_id :: "string option"
  cf_lines :: "case_line list"
  cf_facts :: "case_fact list"
  cf_digest :: string

record case_head =
  hd_incident_id :: string
  hd_subject :: string
  hd_claimed_agent :: "string option"
  hd_run_id :: "string option"

subsection \<open>Serialization and digest\<close>

definition digest_of :: "ingest_lib \<Rightarrow> json \<Rightarrow> string" where
  "digest_of X v = ''sha256:'' @ sha256_hex X (json_text X v)"

definition json_opt :: "('a \<Rightarrow> json) \<Rightarrow> 'a option \<Rightarrow> json" where
  "json_opt f x = (case x of None \<Rightarrow> JNull | Some y \<Rightarrow> f y)"

fun plane_json :: "plane \<Rightarrow> json" where
  "plane_json Bus = JString ''bus''"
| "plane_json Tokenfuse = JString ''tokenfuse''"
| "plane_json Idryx = JString ''idryx''"
| "plane_json Wardryx = JString ''wardryx''"
| "plane_json Engram = JString ''engram''"

fun section_json :: "case_section \<Rightarrow> json" where
  "section_json SecEvent = JString ''event''"
| "section_json SecRunTimeline = JString ''run_timeline''"
| "section_json SecSpend = JString ''spend''"
| "section_json SecIdentity = JString ''identity''"
| "section_json SecBlastRadius = JString ''blast_radius''"
| "section_json SecPolicy = JString ''policy''"
| "section_json SecDecisions = JString ''decisions''"
| "section_json SecSimilarIncidents = JString ''similar_incidents''"
| "section_json SecPriorRulings = JString ''prior_rulings''"

fun state_json :: "line_state \<Rightarrow> json" where
  "state_json LineAnswered = JString ''answered''"
| "state_json LineEmpty = JString ''empty''"
| "state_json LineUnavailable = JString ''unavailable''"
| "state_json LineNotAsked = JString ''not_asked''"

fun data_json :: "upstream_data \<Rightarrow> json" where
  "data_json (Data text) = json_object [(''trust'', JString ''data''), (''text'', JString text)]"

definition line_json :: "case_line \<Rightarrow> json" where
  "line_json l = json_object
     [(''section'', section_json (ln_section l)), (''plane'', plane_json (ln_plane l)),
      (''state'', state_json (ln_state l)), (''facts'', JNum (dec (ln_facts l))),
      (''reason'', json_opt JString (ln_reason l)), (''upstream'', json_opt data_json (ln_upstream l))]"

definition fact_json :: "case_fact \<Rightarrow> json" where
  "fact_json f = json_object
     [(''section'', section_json (fc_section f)), (''plane'', plane_json (fc_plane f)),
      (''row_id'', JString (fc_row_id f)), (''digest'', JString (fc_digest f)), (''label'', JString (fc_label f)),
      (''trust'', JString ''data''), (''row'', fc_row f)]"

definition case_json :: "case_file \<Rightarrow> json" where
  "case_json c = json_object
     [(''incident_id'', JString (cf_incident_id c)), (''subject'', JString (cf_subject c)),
      (''claimed_agent'', json_opt JString (cf_claimed_agent c)), (''run_id'', json_opt JString (cf_run_id c)),
      (''lines'', JArray (map line_json (cf_lines c))), (''facts'', JArray (map fact_json (cf_facts c))),
      (''digest'', JString (cf_digest c))]"

definition event_json :: "stored_event \<Rightarrow> json" where
  "event_json e = json_object
     [(''id'', JNum (dec (se_id e))), (''env'', JString (se_env e)), (''ts'', JString (se_ts e)),
      (''source'', JString (se_source e)), (''type_'', JString (se_type e)), (''agent_id'', JString (se_agent_id e)),
      (''run_id'', json_opt JString (se_run_id e)), (''severity'', json_opt JString (se_severity e)),
      (''schema'', JString (se_schema e)), (''on_behalf_of'', JArray (map JString (se_on_behalf_of e))),
      (''data'', json_opt (\<lambda>v. v) (se_data e)), (''prev_hash'', json_opt JString (se_prev_hash e)),
      (''raw'', JString (se_raw e)), (''file'', json_opt JString (se_file e)),
      (''off'', json_opt (\<lambda>n. JNum (dec n)) (se_off e))]"

subsection \<open>Assembly\<close>

definition fact_of :: "ingest_lib \<Rightarrow> case_section \<Rightarrow> case_row \<Rightarrow> case_fact" where
  "fact_of X section row =
     \<lparr>fc_section = section, fc_plane = cr_plane row, fc_row_id = cr_row_id row, fc_digest = digest_of X (cr_value row),
      fc_label = cr_label row, fc_row = cr_value row\<rparr>"

definition answer_for :: "(case_section \<times> case_answer) list \<Rightarrow> case_section \<Rightarrow> case_answer option" where
  "answer_for answers section = map_option snd (find (\<lambda>(s, _). s = section) answers)"

definition line_of :: "case_section \<Rightarrow> case_answer option \<Rightarrow> case_line" where
  "line_of section answer =
     (let line = (\<lambda>state facts reason upstream. \<lparr>ln_section = section, ln_plane = section_plane section,
            ln_state = state, ln_facts = facts, ln_reason = reason, ln_upstream = upstream\<rparr>)
      in case answer of
           Some (Rows rows note) \<Rightarrow>
             if rows \<noteq> [] then line LineAnswered (length rows) note None
             else line LineEmpty 0 (Some (case note of None \<Rightarrow> words_EMPTY | Some n \<Rightarrow> n)) None
         | Some (Unavailable reason) \<Rightarrow> line LineUnavailable 0 (Some words_UNAVAILABLE) (Some (data_bounded reason))
         | Some (NotAsked reason) \<Rightarrow> line LineNotAsked 0 (Some reason) None
         | None \<Rightarrow> line LineUnavailable 0 (Some words_UNRECORDED) None)"

definition facts_of :: "ingest_lib \<Rightarrow> case_section \<Rightarrow> case_answer option \<Rightarrow> case_fact list" where
  "facts_of X section answer =
     (case answer of Some (Rows rows _) \<Rightarrow> map (fact_of X section) rows | _ \<Rightarrow> [])"

text \<open>The loop over the sections: the lines and the facts so far.\<close>

fun assemble_sections ::
  "ingest_lib \<Rightarrow> (case_section \<times> case_answer) list \<Rightarrow> case_section list \<Rightarrow> case_line list \<Rightarrow> case_fact list
    \<Rightarrow> case_line list \<times> case_fact list" where
  "assemble_sections X answers [] lines facts = (lines, facts)"
| "assemble_sections X answers (section # ss) lines facts =
     (let answer = answer_for answers section in
      assemble_sections X answers ss (lines @ [line_of section answer]) (facts @ facts_of X section answer))"

definition assemble :: "ingest_lib \<Rightarrow> case_head \<Rightarrow> (case_section \<times> case_answer) list \<Rightarrow> case_file" where
  "assemble X head answers =
     (case assemble_sections X answers section_ALL [] [] of (lines, facts) \<Rightarrow>
        let c = \<lparr>cf_incident_id = hd_incident_id head, cf_subject = hd_subject head,
                 cf_claimed_agent = hd_claimed_agent head, cf_run_id = hd_run_id head,
                 cf_lines = lines, cf_facts = facts, cf_digest = []\<rparr>
        in c\<lparr>cf_digest := digest_of X (case_json c)\<rparr>)"

subsection \<open>What to ask\<close>

record questions =
  qs_event_id :: nat
  qs_event_type :: string
  qs_subject :: string
  qs_claimed_agent :: "string option"
  qs_agent :: "string option"
  qs_run_id :: "string option"
  qs_not_asked :: "(case_section \<times> string) list"

definition questions_for :: "stored_event \<Rightarrow> questions" where
  "questions_for event =
     (let subject = filed_under (se_type event) (se_agent_id event) (se_data event);
          is_key = prefix KEY_PREFIX subject;
          agent = (if is_key then None else Some subject);
          run_id = (case se_run_id event of None \<Rightarrow> None | Some r \<Rightarrow> if r \<noteq> [] then Some r else None)
      in \<lparr>qs_event_id = se_id event, qs_event_type = se_type event, qs_subject = subject,
          qs_claimed_agent = (if is_key then Some (se_agent_id event) else None), qs_agent = agent, qs_run_id = run_id,
          qs_not_asked =
            (if agent = None then [(SecIdentity, words_FILED_UNDER_A_KEY), (SecBlastRadius, words_FILED_UNDER_A_KEY)] else [])
            @ (if run_id = None then [(SecRunTimeline, words_NO_RUN), (SecSpend, words_NO_RUN), (SecDecisions, words_NO_RUN)] else [])\<rparr>)"

subsection \<open>The incident\<close>

datatype case_error =
    NoStore string
  | BadIncidentId string
  | UnsupportedSource string
  | NotFound nat

fun case_error_describe :: "case_error \<Rightarrow> string" where
  "case_error_describe (NoStore _) = ''No case: the console has no readable event store on this box.''"
| "case_error_describe (BadIncidentId _) = ''No case: this is not an incident id the case command reads.''"
| "case_error_describe (UnsupportedSource source) = ''No case: a '' @ source @ '' incident has no event row to start from.''"
| "case_error_describe (NotFound event_id) = ''No case: the console's store holds no event row '' @ dec event_id @ ''.''"

definition event_id_of :: "string \<Rightarrow> case_error + nat" where
  "event_id_of incident_id =
     (let bad = Inl (BadIncidentId (take_chars 80 incident_id));
          (source, rest) = (case split_once (CHR '':'') incident_id of
             Some (source, rest) \<Rightarrow> (Some source, rest) | None \<Rightarrow> (None, incident_id));
          row = (if rest = [] \<or> \<not> list_all ascii_digit rest then bad
                 else if digits_value rest < 2 ^ 63 then Inr (digits_value rest) else bad)
      in case source of
           None \<Rightarrow> row
         | Some s \<Rightarrow> if s \<in> set [''bus'', ''verdryx''] then row
                     else if s \<in> set [''money'', ''idryx'', ''posture''] then Inl (UnsupportedSource s) else bad)"

subsection \<open>The console's own store\<close>

definition TIMELINE_CAP :: nat where "TIMELINE_CAP = 200"
definition SIMILAR_LIMIT :: nat where "SIMILAR_LIMIT = 5"
definition RULINGS_LIMIT :: nat where "RULINGS_LIMIT = 5"
definition BLAST_LIST_CAP :: nat where "BLAST_LIST_CAP = 20"

text \<open>The store, or what opening it answers, and the errors of the three reads.\<close>

record case_store =
  cs_open :: "string + store"
  cs_event_error :: "string option"
  cs_run_error :: "string option"
  cs_similar_error :: "string option"

definition one_row :: "case_row \<Rightarrow> case_answer" where
  "one_row row = Rows [row] None"

definition nothing :: case_answer where
  "nothing = Rows [] None"

definition bus_row :: "string \<Rightarrow> stored_event \<Rightarrow> case_row" where
  "bus_row label e = \<lparr>cr_plane = Bus, cr_row_id = dec (se_id e), cr_label = label, cr_value = event_json e\<rparr>"

text \<open>An unreadable time sorts first, as \<open>i64::MIN\<close>.\<close>

definition time_key :: "ingest_lib \<Rightarrow> stored_event \<Rightarrow> int \<times> nat" where
  "time_key X e = (case rfc3339_millis X (se_ts e) of None \<Rightarrow> - (2 ^ 63) | Some ms \<Rightarrow> ms, se_id e)"

definition store_timeline :: "ingest_lib \<Rightarrow> case_store \<Rightarrow> store \<Rightarrow> questions \<Rightarrow> case_answer" where
  "store_timeline X cs st qs =
     (case qs_run_id qs of
        None \<Rightarrow> NotAsked words_NO_RUN
      | Some run_id \<Rightarrow>
          (case events_for_run X (cs_run_error cs) st run_id TIMELINE_CAP of
             Inl e \<Rightarrow> Unavailable e
           | Inr events \<Rightarrow>
               Rows (map (bus_row label_TIMELINE) (sort_key (time_key X) events))
                 (if TIMELINE_CAP \<le> length events then Some words_TIMELINE_CAPPED else None)))"

definition store_similar :: "ingest_lib \<Rightarrow> case_store \<Rightarrow> store \<Rightarrow> stored_event \<Rightarrow> questions \<Rightarrow> case_answer" where
  "store_similar X cs st event qs =
     (case similar_events X (cs_similar_error cs) st (se_type event) (se_id event) SIMILAR_LIMIT of
        Inl e \<Rightarrow> Unavailable e
      | Inr events \<Rightarrow>
          Rows (map (\<lambda>e. bus_row (if filed_under (se_type e) (se_agent_id e) (se_data e) = qs_subject qs
                                  then label_SIMILAR_SAME_SUBJECT else label_SIMILAR_OTHER_SUBJECT) e) events) None)"

definition store_sections :: "ingest_lib \<Rightarrow> case_store \<Rightarrow> store \<Rightarrow> stored_event \<Rightarrow> questions \<Rightarrow> (case_section \<times> case_answer) list" where
  "store_sections X cs st event qs =
     [(SecEvent, one_row (bus_row label_EVENT event)),
      (SecRunTimeline, store_timeline X cs st qs),
      (SecSimilarIncidents, store_similar X cs st event qs)]"

subsection \<open>The planes\<close>

text \<open>A plane's error is the text it serializes to.\<close>

record run_row =
  rr_run_id :: string
  rr_value :: json

record idryx_permission =
  pm_name :: string
  pm_admin :: bool
  pm_used :: bool

record idryx_identity =
  id_id :: string
  id_type :: string
  id_privileged :: bool
  id_on_behalf_of :: "string list"
  id_permissions :: "idryx_permission list"
  id_value :: json

record idryx_alert =
  al_identity :: string
  al_detector :: string
  al_time :: string
  al_value :: json

record policy_status_row =
  ps_version :: string
  ps_value :: json

record approval_row =
  ap_id :: string
  ap_run_id :: string
  ap_value :: json

record memory_row =
  mm_id :: string
  mm_value :: json

record case_planes =
  cp_runs :: "string + run_row list"
  cp_identities :: "string + idryx_identity list"
  cp_alerts :: "string + idryx_alert list"
  cp_status :: "string + policy_status_row"
  cp_approvals :: "string + approval_row list"
  cp_recall :: "string \<Rightarrow> nat \<Rightarrow> string + memory_row list"

definition json_nat :: "nat \<Rightarrow> json" where
  "json_nat n = JNum (dec n)"

definition blast_radius :: "idryx_identity \<Rightarrow> idryx_identity list \<Rightarrow> nat \<Rightarrow> json" where
  "blast_radius me all_ids alerts =
     (let delegates = sort (map id_id (filter (\<lambda>i. id_id i \<noteq> id_id me \<and> id_id me \<in> set (id_on_behalf_of i)) all_ids))
      in json_object
           [(''identity'', JString (id_id me)), (''identity_type'', JString (id_type me)),
            (''privileged'', JBool (id_privileged me)), (''permissions'', json_nat (length (id_permissions me))),
            (''admin_permissions'', json_nat (length (filter pm_admin (id_permissions me)))),
            (''unused_permissions'', json_nat (length (filter (\<lambda>p. \<not> pm_used p) (id_permissions me)))),
            (''delegated_by'', JArray (map JString (id_on_behalf_of me))),
            (''delegates_to'', JArray (map JString (take BLAST_LIST_CAP delegates))),
            (''delegates_to_total'', json_nat (length delegates)), (''alerts'', json_nat alerts)])"

definition spend :: "case_planes \<Rightarrow> string \<Rightarrow> case_answer" where
  "spend Q run_id =
     (case cp_runs Q of
        Inl e \<Rightarrow> Unavailable e
      | Inr runs \<Rightarrow>
          (case find (\<lambda>r. rr_run_id r = run_id) runs of
             None \<Rightarrow> nothing
           | Some r \<Rightarrow> one_row \<lparr>cr_plane = Tokenfuse, cr_row_id = rr_run_id r, cr_label = label_SPEND, cr_value = rr_value r\<rparr>))"

definition case_identity :: "case_planes \<Rightarrow> string \<Rightarrow> case_answer \<times> case_answer" where
  "case_identity Q agent =
     (case cp_identities Q of
        Inl reason \<Rightarrow> (Unavailable reason, Unavailable reason)
      | Inr identities \<Rightarrow>
          (case find (\<lambda>i. id_id i = agent) identities of
             None \<Rightarrow> (nothing, nothing)
           | Some me \<Rightarrow>
               (let (alerts, note) = (case cp_alerts Q of
                      Inr alerts \<Rightarrow> (filter (\<lambda>a. al_identity a = agent) alerts, None)
                    | Inl _ \<Rightarrow> ([], Some words_ALERTS_UNREAD))
                in (Rows (\<lparr>cr_plane = Idryx, cr_row_id = id_id me, cr_label = label_IDENTITY, cr_value = id_value me\<rparr>
                      # map (\<lambda>a. \<lparr>cr_plane = Idryx, cr_row_id = al_detector a @ '':'' @ al_time a,
                                   cr_label = label_IDENTITY_ALERT, cr_value = al_value a\<rparr>) alerts) note,
                    one_row \<lparr>cr_plane = Idryx, cr_row_id = id_id me @ ''#blast_radius'', cr_label = label_BLAST_RADIUS,
                             cr_value = blast_radius me identities (length alerts)\<rparr>))))"

definition policy_status :: "case_planes \<Rightarrow> case_answer" where
  "policy_status Q =
     (case cp_status Q of
        Inl e \<Rightarrow> Unavailable e
      | Inr s \<Rightarrow> one_row \<lparr>cr_plane = Wardryx, cr_row_id = ps_version s, cr_label = label_POLICY, cr_value = ps_value s\<rparr>)"

definition decisions :: "case_planes \<Rightarrow> string \<Rightarrow> case_answer" where
  "decisions Q run_id =
     (case cp_approvals Q of
        Inl e \<Rightarrow> Unavailable e
      | Inr approvals \<Rightarrow>
          Rows (map (\<lambda>a. \<lparr>cr_plane = Wardryx, cr_row_id = ap_id a, cr_label = label_DECISION, cr_value = ap_value a\<rparr>)
            (filter (\<lambda>a. ap_run_id a = run_id) approvals)) None)"

definition rulings :: "case_planes \<Rightarrow> string \<Rightarrow> case_answer" where
  "rulings Q event_type =
     (case cp_recall Q (''decision about '' @ event_type) RULINGS_LIMIT of
        Inl e \<Rightarrow> Unavailable e
      | Inr memories \<Rightarrow>
          Rows (map (\<lambda>m. \<lparr>cr_plane = Engram, cr_row_id = mm_id m, cr_label = label_RULING, cr_value = mm_value m\<rparr>) memories) None)"

subsection \<open>The command\<close>

definition not_asked :: "questions \<Rightarrow> case_section \<Rightarrow> string option" where
  "not_asked qs section = map_option snd (find (\<lambda>(s, _). s = section) (qs_not_asked qs))"

definition spend_answer :: "case_planes \<Rightarrow> questions \<Rightarrow> case_answer" where
  "spend_answer Q qs =
     (case not_asked qs SecSpend of
        Some reason \<Rightarrow> NotAsked reason
      | None \<Rightarrow> (case qs_run_id qs of Some run_id \<Rightarrow> spend Q run_id | None \<Rightarrow> NotAsked words_NO_RUN))"

definition identity_answers :: "case_planes \<Rightarrow> questions \<Rightarrow> case_answer \<times> case_answer" where
  "identity_answers Q qs =
     (case qs_agent qs of
        Some agent \<Rightarrow> case_identity Q agent
      | None \<Rightarrow>
          (let reason = (\<lambda>s. case not_asked qs s of None \<Rightarrow> words_FILED_UNDER_A_KEY | Some r \<Rightarrow> r)
           in (NotAsked (reason SecIdentity), NotAsked (reason SecBlastRadius))))"

definition decisions_answer :: "case_planes \<Rightarrow> questions \<Rightarrow> case_answer" where
  "decisions_answer Q qs =
     (case not_asked qs SecDecisions of
        Some reason \<Rightarrow> NotAsked reason
      | None \<Rightarrow> (case qs_run_id qs of Some run_id \<Rightarrow> decisions Q run_id | None \<Rightarrow> NotAsked words_NO_RUN))"

definition plane_answers :: "case_planes \<Rightarrow> questions \<Rightarrow> (case_section \<times> case_answer) list" where
  "plane_answers Q qs =
     (case identity_answers Q qs of (identity_answer, blast_answer) \<Rightarrow>
        [(SecSpend, spend_answer Q qs), (SecIdentity, identity_answer), (SecBlastRadius, blast_answer),
         (SecPolicy, policy_status Q), (SecDecisions, decisions_answer Q qs),
         (SecPriorRulings, rulings Q (qs_event_type qs))])"

definition read_event :: "ingest_lib \<Rightarrow> case_store option \<Rightarrow> nat \<Rightarrow> case_error + case_store \<times> store \<times> stored_event" where
  "read_event X store event_id =
     ebind (case store of None \<Rightarrow> Inl (NoStore ''the console has no event store on this box'') | Some cs \<Rightarrow> Inr cs) (\<lambda>cs.
     ebind (case cs_open cs of Inl e \<Rightarrow> Inl (NoStore e) | Inr st \<Rightarrow> Inr st) (\<lambda>st.
     ebind (case event_by_id X (cs_event_error cs) st event_id of Inl e \<Rightarrow> Inl (NoStore e) | Inr e \<Rightarrow> Inr e) (\<lambda>found.
     case found of None \<Rightarrow> Inl (NotFound event_id) | Some event \<Rightarrow> Inr (cs, st, event))))"

definition case_of_event :: "ingest_lib \<Rightarrow> case_planes \<Rightarrow> string \<Rightarrow> case_store \<Rightarrow> store \<Rightarrow> stored_event \<Rightarrow> case_file" where
  "case_of_event X Q incident_id cs st event =
     (let qs = questions_for event in
      assemble X \<lparr>hd_incident_id = incident_id, hd_subject = qs_subject qs, hd_claimed_agent = qs_claimed_agent qs,
                  hd_run_id = qs_run_id qs\<rparr>
        (store_sections X cs st event qs @ plane_answers Q qs))"

definition case_command :: "ingest_lib \<Rightarrow> case_planes \<Rightarrow> case_store option \<Rightarrow> string \<Rightarrow> case_error + case_file" where
  "case_command X Q store incident_id =
     ebind (event_id_of incident_id) (\<lambda>event_id.
     ebind (read_event X store event_id) (\<lambda>(cs, st, event).
     Inr (case_of_event X Q incident_id cs st event)))"

end
