(* ===== verification/ProofReport.thy ===== *)
theory ProofReport
  imports Case
begin

section \<open>The policy proof: the report of a replay and what it proves\<close>

text \<open>
  \<open>crates/api/src/proof/mod.rs\<close>: the report \<open>wardryx replay\<close> prints is read line by line, refused when it does not
  add up, and turned into a proof in two halves. Counts are \<open>u64\<close>, as naturals below \<open>2 ^ 64\<close> whose sums wrap as
  they do in a release build.
\<close>

subsection \<open>Numbers and pieces of a line\<close>

text \<open>\<open>str::parse::<u64>\<close> takes one leading plus sign.\<close>

definition parse_u64 :: "string \<Rightarrow> nat option" where
  "parse_u64 s =
     (let digits = (case s of c # rest \<Rightarrow> if c = CHR ''+'' then rest else s | [] \<Rightarrow> s)
      in if digits = [] \<or> \<not> list_all ascii_digit digits then None
         else if digits_value digits < 2 ^ 64 then Some (digits_value digits) else None)"

definition u64_sum :: "nat list \<Rightarrow> nat" where
  "u64_sum ns = foldl (\<lambda>a b. (a + b) mod 2 ^ 64) 0 ns"

text \<open>\<open>str::split_once\<close> and \<open>rsplit_once\<close> with a pattern of several bytes.\<close>

fun split_once_str :: "string \<Rightarrow> string \<Rightarrow> (string \<times> string) option" where
  "split_once_str p [] = (if p = [] then Some ([], []) else None)"
| "split_once_str p (c # cs) =
     (if prefix p (c # cs) then Some ([], drop (length p) (c # cs))
      else map_option (\<lambda>(a, b). (c # a, b)) (split_once_str p cs))"

definition rsplit_once_str :: "string \<Rightarrow> string \<Rightarrow> (string \<times> string) option" where
  "rsplit_once_str p s = map_option (\<lambda>(a, b). (rev b, rev a)) (split_once_str (rev p) (rev s))"

definition first_word :: "string \<Rightarrow> string option" where
  "first_word s = (case split_whitespace s of [] \<Rightarrow> None | w # _ \<Rightarrow> Some w)"

subsection \<open>The report\<close>

record outcomes =
  oc_reproduced :: nat
  oc_approval_decided :: nat
  oc_approval_spent :: nat
  oc_approval_refused :: nat
  oc_not_archived :: nat
  oc_unreadable :: nat
  oc_diverged :: nat

definition outcomes_total :: "outcomes \<Rightarrow> nat" where
  "outcomes_total o' =
     u64_sum [oc_reproduced o', oc_approval_decided o', oc_approval_spent o', oc_approval_refused o',
              oc_not_archived o', oc_unreadable o', oc_diverged o']"

definition outcomes_replayable :: "outcomes \<Rightarrow> nat" where
  "outcomes_replayable o' =
     u64_sum [oc_reproduced o', oc_approval_decided o', oc_approval_spent o', oc_approval_refused o']"

definition no_outcomes :: outcomes where
  "no_outcomes = \<lparr>oc_reproduced = 0, oc_approval_decided = 0, oc_approval_spent = 0, oc_approval_refused = 0,
     oc_not_archived = 0, oc_unreadable = 0, oc_diverged = 0\<rparr>"

record changed_row =
  ch_from :: string
  ch_to :: string
  ch_agent :: upstream_data
  ch_run :: upstream_data
  ch_was :: upstream_data
  ch_now :: upstream_data

record candidate_result =
  cn_changed :: nat
  cn_replayable :: nat
  cn_rows :: "changed_row list"

record replay_report =
  rp_replayed :: nat
  rp_outcomes :: outcomes
  rp_candidate :: "candidate_result option"

datatype parse_error = Unrecognised | Inconsistent string

definition LABELS :: "string list" where
  "LABELS = [''reproduced'', ''approval-decided'', ''approval-spent'', ''approval-refused'', ''not archived'',
             ''unreadable'', ''diverged'']"

definition trim_start :: "string \<Rightarrow> string" where
  "trim_start s = trim_start_by is_white s"

definition counter :: "string \<Rightarrow> string \<Rightarrow> nat option" where
  "counter line label =
     (case strip_prefix label (trim_start line) of
        None \<Rightarrow> None
      | Some rest \<Rightarrow>
          if \<not> prefix '' '' rest then None
          else (case first_word rest of None \<Rightarrow> None | Some w \<Rightarrow> parse_u64 w))"

text \<open>One line against the slots that are still open.\<close>

definition fill_slots :: "nat option list \<Rightarrow> string \<Rightarrow> nat option list" where
  "fill_slots found line =
     map (\<lambda>(slot, label). if slot = None then counter line label else slot) (zip found LABELS)"

definition is_verdict :: "string \<Rightarrow> bool" where
  "is_verdict w \<longleftrightarrow> w = ''allow'' \<or> w = ''deny'' \<or> w = ''hold''"

text \<open>The words behind the arrow: the verdict, the agent, and after \<open>run\<close> the run.\<close>

definition row_of_lines :: "string \<Rightarrow> string \<Rightarrow> string \<Rightarrow> string \<Rightarrow> changed_row option" where
  "row_of_lines from rest was now =
     (let ws = split_whitespace rest;
          to = (case ws of w # _ \<Rightarrow> w | [] \<Rightarrow> []);
          agent = (case ws of _ # w # _ \<Rightarrow> w | _ \<Rightarrow> []);
          run_id = (case ws of _ # _ # w # more_words \<Rightarrow>
                             if w = ''run'' then (case more_words of r # _ \<Rightarrow> r | [] \<Rightarrow> []) else []
                         | _ \<Rightarrow> [])
      in if \<not> is_verdict from \<or> \<not> is_verdict to then None
         else Some \<lparr>ch_from = from, ch_to = to, ch_agent = data_bounded agent, ch_run = data_bounded run_id,
                    ch_was = data_bounded was, ch_now = data_bounded now\<rparr>)"

definition row_at :: "string list \<Rightarrow> changed_row option" where
  "row_at ls =
     (case ls of
        [] \<Rightarrow> None
      | l # rest \<Rightarrow>
          (case split_once_str '' -> '' (trim_start l) of
             None \<Rightarrow> None
           | Some (from, words_after) \<Rightarrow>
               (case rest of
                  was_line # now_line # _ \<Rightarrow>
                    (case (strip_prefix ''was: '' (trim_start was_line), strip_prefix ''now: '' (trim_start now_line)) of
                       (Some was, Some now) \<Rightarrow> row_of_lines from words_after was now
                     | _ \<Rightarrow> None)
                | _ \<Rightarrow> None)))"

function candidate_rows :: "string list \<Rightarrow> changed_row list" where
  "candidate_rows [] = []"
| "candidate_rows (l # ls) =
     (case row_at (l # ls) of
        None \<Rightarrow> candidate_rows ls
      | Some row \<Rightarrow> row # candidate_rows (drop 2 ls))"
  by pat_completeness auto
termination by (relation "measure length") auto

definition parse_candidate :: "string list \<Rightarrow> parse_error + candidate_result option" where
  "parse_candidate lines =
     (case dropWhile (\<lambda>l. \<not> prefix ''Against '' l) lines of
        [] \<Rightarrow> Inr None
      | at_line # rest \<Rightarrow>
          ebind (ok_or Unrecognised (strip_suffix '' replayable decision(s) change:'' at_line)) (\<lambda>head.
          ebind (ok_or Unrecognised (rsplit_once_str '', '' head)) (\<lambda>(_, counts).
          ebind (ok_or Unrecognised (split_once_str '' of '' counts)) (\<lambda>(changed, replayable).
          ebind (ok_or Unrecognised (parse_u64 (trim changed))) (\<lambda>changed.
          ebind (ok_or Unrecognised (parse_u64 (trim replayable))) (\<lambda>replayable.
          let rows = candidate_rows rest in
          if length rows \<noteq> changed
          then Inl (Inconsistent ''the rows listed are not as many as the report says changed'')
          else Inr (Some \<lparr>cn_changed = changed, cn_replayable = replayable, cn_rows = rows\<rparr>)))))))"

definition report_counts :: "nat option list \<Rightarrow> outcomes option" where
  "report_counts found =
     (case found of
        [Some a, Some b, Some c, Some d, Some e, Some f, Some g] \<Rightarrow>
          Some \<lparr>oc_reproduced = a, oc_approval_decided = b, oc_approval_spent = c, oc_approval_refused = d,
                oc_not_archived = e, oc_unreadable = f, oc_diverged = g\<rparr>
      | _ \<Rightarrow> None)"

definition report_candidate :: "nat \<Rightarrow> outcomes \<Rightarrow> string list \<Rightarrow> parse_error + replay_report" where
  "report_candidate replayed o' lines =
     ebind (parse_candidate lines) (\<lambda>candidate.
     if (case candidate of None \<Rightarrow> False | Some c \<Rightarrow> cn_replayable c \<noteq> outcomes_replayable o')
     then Inl (Inconsistent ''the replayable decisions differ from the outcomes that carry a counterfactual'')
     else Inr \<lparr>rp_replayed = replayed, rp_outcomes = o', rp_candidate = candidate\<rparr>)"

definition report_lines :: "string \<Rightarrow> string list \<Rightarrow> parse_error + replay_report" where
  "report_lines first rest =
     ebind (ok_or Unrecognised
       (Option.bind (strip_prefix ''Replayed '' first) (\<lambda>r. Option.bind (first_word r) parse_u64))) (\<lambda>replayed.
     if replayed = 0 then
       (if \<exists>l \<in> set (first # rest). contains l ''no decisions in this file''
        then Inr \<lparr>rp_replayed = 0, rp_outcomes = no_outcomes, rp_candidate = None\<rparr>
        else Inl Unrecognised)
     else
       ebind (ok_or Unrecognised (report_counts (foldl fill_slots (replicate 7 None) rest))) (\<lambda>o'.
       if outcomes_total o' \<noteq> replayed
       then Inl (Inconsistent ''the outcomes do not add up to the decisions replayed'')
       else report_candidate replayed o' (first # rest)))"

definition parse_report :: "string \<Rightarrow> parse_error + replay_report" where
  "parse_report text =
     (case str_lines text of
        [] \<Rightarrow> Inl Unrecognised
      | first # rest \<Rightarrow> report_lines first rest)"

subsection \<open>The proof\<close>

record elsewhere =
  ew_tightened :: nat
  ew_loosened :: nat
  ew_reclassified :: nat

record policy_proof =
  pp_replayed :: nat
  pp_outcomes :: outcomes
  pp_trustworthy :: bool
  pp_candidate_given :: bool
  pp_stops_this_incident :: "bool option"
  pp_incident_changes :: "changed_row list"
  pp_elsewhere :: elsewhere
  pp_elsewhere_changes :: "changed_row list"

fun data_text :: "upstream_data \<Rightarrow> string" where
  "data_text (Data t) = t"

definition no_elsewhere :: elsewhere where
  "no_elsewhere = \<lparr>ew_tightened = 0, ew_loosened = 0, ew_reclassified = 0\<rparr>"

definition count_change :: "elsewhere \<Rightarrow> changed_row \<Rightarrow> elsewhere" where
  "count_change e row =
     (if ch_from row = ''allow'' then e\<lparr>ew_tightened := ew_tightened e + 1\<rparr>
      else if ch_to row = ''allow'' then e\<lparr>ew_loosened := ew_loosened e + 1\<rparr>
      else e\<lparr>ew_reclassified := ew_reclassified e + 1\<rparr>)"

definition judge :: "replay_report \<Rightarrow> string \<Rightarrow> policy_proof" where
  "judge report incident_run =
     (let trustworthy = (oc_diverged (rp_outcomes report) = 0) in
      case rp_candidate report of
        None \<Rightarrow>
          \<lparr>pp_replayed = rp_replayed report, pp_outcomes = rp_outcomes report, pp_trustworthy = trustworthy,
           pp_candidate_given = False, pp_stops_this_incident = None, pp_incident_changes = [],
           pp_elsewhere = no_elsewhere, pp_elsewhere_changes = []\<rparr>
      | Some candidate \<Rightarrow>
          (let mine = filter (\<lambda>row. data_text (ch_run row) = incident_run) (cn_rows candidate);
               others = filter (\<lambda>row. data_text (ch_run row) \<noteq> incident_run) (cn_rows candidate);
               stops = list_ex (\<lambda>r. ch_from r = ''allow'' \<and> (ch_to r = ''deny'' \<or> ch_to r = ''hold'')) mine
           in \<lparr>pp_replayed = rp_replayed report, pp_outcomes = rp_outcomes report, pp_trustworthy = trustworthy,
               pp_candidate_given = True,
               pp_stops_this_incident = (if trustworthy \<and> 0 < cn_replayable candidate then Some stops else None),
               pp_incident_changes = mine, pp_elsewhere = foldl count_change no_elsewhere others,
               pp_elsewhere_changes = others\<rparr>))"

end
