(* ===== verification/Backtest.thy ===== *)
theory Backtest
  imports ProofReport CloudRest
begin

section \<open>The budget proof: candidates, the texts of the command line and what they prove\<close>

text \<open>
  \<open>crates/api/src/proof/budget.rs\<close>: a candidate budget as whole micro-dollars, the text that hands it to
  \<open>tokenfuse\<close>, the tables and the report that come back, and the proof in two halves. What \<open>f64\<close> makes of an amount
  is a parameter (\<open>amounts\<close>): the shortest text of half a micro above it, how the command line reads a text back, and
  the four decimals it prints. An \<open>i64\<close> is an integer whose range is checked where the code checks it.
\<close>

definition MICROS_PER_USD :: int where "MICROS_PER_USD = 1000000"
definition MAX_LIMIT_MICROS :: int where "MAX_LIMIT_MICROS = 1000000 * MICROS_PER_USD"
definition MAX_STEPS_LIMIT :: nat where "MAX_STEPS_LIMIT = 1000000"
definition RUN_ID_MAX_BYTES :: nat where "RUN_ID_MAX_BYTES = 128"

definition AMOUNT_SHAPE :: string where
  "AMOUNT_SHAPE = ''an amount is dollars with at most six decimals, such as 2 or 0.35''"
definition AMOUNT_ZERO :: string where
  "AMOUNT_ZERO = ''a limit of zero blocks every call, which is not a candidate budget''"
definition AMOUNT_LARGE :: string where "AMOUNT_LARGE = ''an amount is at most a million dollars''"
definition AMOUNT_UNREADABLE :: string where "AMOUNT_UNREADABLE = ''the amount cannot be handed to tokenfuse exactly''"

subsection \<open>\<open>i64\<close>\<close>

definition i64 :: "int \<Rightarrow> int option" where
  "i64 i = (if - (2 ^ 63) \<le> i \<and> i < 2 ^ 63 then Some i else None)"

text \<open>\<open>str::parse::<i64>\<close> of a string that is all digits.\<close>

definition parse_i64 :: "string \<Rightarrow> int option" where
  "parse_i64 digits = (if digits = [] then None else i64 (int (digits_value digits)))"

definition i64_saturating_sub :: "int \<Rightarrow> int \<Rightarrow> int" where
  "i64_saturating_sub a b = max (- (2 ^ 63)) (min (2 ^ 63 - 1) (a - b))"

definition all_digits :: "string \<Rightarrow> bool" where
  "all_digits s \<longleftrightarrow> list_all ascii_digit s"

subsection \<open>Amounts\<close>

definition parse_usd :: "string \<Rightarrow> string + int" where
  "parse_usd text =
     (case (case split_once (CHR ''.'') text of Some p \<Rightarrow> p | None \<Rightarrow> (text, [])) of (whole, fraction) \<Rightarrow>
      if whole = [] \<or> \<not> all_digits whole \<or> \<not> all_digits fraction \<or> 6 < length fraction
         \<or> CHR ''.'' \<in> set text \<and> fraction = []
      then Inl AMOUNT_SHAPE
      else
        ebind (ok_or AMOUNT_LARGE (parse_i64 whole)) (\<lambda>whole.
        ebind (if fraction = [] then Inr 0 else ok_or AMOUNT_SHAPE (parse_i64 fraction)) (\<lambda>decimals.
        let decimals = ((\<lambda>d. d * 10) ^^ (6 - length fraction)) decimals in
        ebind (ok_or AMOUNT_LARGE (Option.bind (i64 (whole * MICROS_PER_USD)) (\<lambda>w. i64 (w + decimals)))) (\<lambda>micros.
        if micros = 0 then Inl AMOUNT_ZERO
        else if MAX_LIMIT_MICROS < micros then Inl AMOUNT_LARGE
        else Inr micros))))"

record amounts =
  am_text :: "int \<Rightarrow> string"
  am_read :: "string \<Rightarrow> int option"
  am_four :: "int \<Rightarrow> string"

definition cli_amount :: "amounts \<Rightarrow> int \<Rightarrow> string + string" where
  "cli_amount A micros =
     (if \<not> (1 \<le> micros \<and> micros \<le> MAX_LIMIT_MICROS) then Inl AMOUNT_LARGE
      else (let t = am_text A micros in if am_read A t = Some micros then Inr t else Inl AMOUNT_UNREADABLE))"

subsection \<open>Candidates\<close>

record budget_candidate =
  bc_per_run_micros :: "int option"
  bc_per_step_micros :: "int option"
  bc_max_steps :: "nat option"

definition opt_usd :: "string option \<Rightarrow> string + int option" where
  "opt_usd text = (case text of None \<Rightarrow> Inr None | Some t \<Rightarrow> map_sum id Some (parse_usd t))"

definition candidate_from_parts :: "string option \<Rightarrow> string option \<Rightarrow> nat option \<Rightarrow> string + budget_candidate" where
  "candidate_from_parts per_run per_step max_steps =
     ebind (opt_usd per_run) (\<lambda>per_run_micros.
     ebind (opt_usd per_step) (\<lambda>per_step_micros.
     if (case max_steps of Some n \<Rightarrow> n = 0 \<or> MAX_STEPS_LIMIT < n | None \<Rightarrow> False)
     then Inl ''the step limit is between 1 and 1,000,000''
     else if per_run_micros = None \<and> per_step_micros = None \<and> max_steps = None
     then Inl ''the candidate sets no limit''
     else Inr \<lparr>bc_per_run_micros = per_run_micros, bc_per_step_micros = per_step_micros, bc_max_steps = max_steps\<rparr>))"

definition amount_flag :: "amounts \<Rightarrow> string \<Rightarrow> int option \<Rightarrow> string + string list" where
  "amount_flag A flag micros =
     (case micros of None \<Rightarrow> Inr [] | Some m \<Rightarrow> map_sum id (\<lambda>t. [flag, t]) (cli_amount A m))"

definition candidate_args :: "amounts \<Rightarrow> budget_candidate \<Rightarrow> string + string list" where
  "candidate_args A c =
     ebind (amount_flag A ''--budget'' (bc_per_run_micros c)) (\<lambda>run_flag.
     ebind (amount_flag A ''--budget-per-step'' (bc_per_step_micros c)) (\<lambda>step_flag.
     Inr (run_flag @ step_flag @ (case bc_max_steps c of None \<Rightarrow> [] | Some n \<Rightarrow> [''--max-steps'', dec n]))))"

definition candidate_describe :: "amounts \<Rightarrow> budget_candidate \<Rightarrow> string" where
  "candidate_describe A c =
     join '', ''
       ((case bc_per_run_micros c of None \<Rightarrow> [] | Some m \<Rightarrow> [''budget/run $'' @ am_four A m])
        @ (case bc_per_step_micros c of None \<Rightarrow> [] | Some m \<Rightarrow> [''budget/step $'' @ am_four A m])
        @ (case bc_max_steps c of None \<Rightarrow> [] | Some n \<Rightarrow> [''max_steps '' @ dec n]))"

subsection \<open>Queries\<close>

definition ascii_alnum :: "char \<Rightarrow> bool" where
  "ascii_alnum c \<longleftrightarrow> ascii_alphanumeric [c]"

definition is_name_byte :: "char \<Rightarrow> bool" where
  "is_name_byte b \<longleftrightarrow> ascii_alnum b \<or> b \<in> set ''._:-''"

definition is_path_byte :: "char \<Rightarrow> bool" where
  "is_path_byte b \<longleftrightarrow> ascii_alnum b \<or> b \<in> set ''._-/''"

definition query_safe_run :: "string \<Rightarrow> string + unit" where
  "query_safe_run r =
     (if r = [] \<or> RUN_ID_MAX_BYTES < length r then Inl ''the run id is empty or longer than 128 bytes''
      else if \<not> list_all is_name_byte r then Inl ''the run id holds characters the proof will not put in a query''
      else Inr ())"

definition QUOTE :: string where "QUOTE = [CHR 0x27]"

definition copy_statement :: "string \<Rightarrow> string \<Rightarrow> string + string" where
  "copy_statement r target =
     ebind (query_safe_run r) (\<lambda>_.
     if target = [] \<or> \<not> list_all is_path_byte target
     then Inl ''the scratch path holds characters the proof will not put in a query''
     else Inr (''copy (select * from calls where run_id = '' @ QUOTE @ r @ QUOTE
               @ '' order by ts_millis, step) to '' @ QUOTE @ target @ QUOTE @ '' stored as parquet''))"

definition STEP_COUNT_STATEMENT :: string where
  "STEP_COUNT_STATEMENT = ''select count(*) as n, count(distinct step) as steps from calls''"

subsection \<open>Tables\<close>

text \<open>\<open>str::split\<close> with a pattern that is not empty.\<close>

function split_str :: "string \<Rightarrow> string \<Rightarrow> string list" where
  "split_str p s =
     (case split_once_str p s of
        None \<Rightarrow> [s]
      | Some (a, b) \<Rightarrow> if length b < length s then a # split_str p b else [a, b])"
  by pat_completeness auto
termination by (relation "measure (\<lambda>(p, s). length s)") auto

declare split_str.simps [simp del]

definition table_border :: "string \<Rightarrow> bool" where
  "table_border l \<longleftrightarrow> 3 \<le> length l \<and> list_all (\<lambda>b. b = CHR ''+'' \<or> b = CHR ''-'') l"

definition table_cells :: "string \<Rightarrow> string list option" where
  "table_cells l =
     Option.bind (strip_prefix ''| '' l) (\<lambda>r. map_option (\<lambda>inner. map trim (split_str '' | '' inner)) (strip_suffix '' |'' r))"

fun table_rows :: "nat \<Rightarrow> string list \<Rightarrow> string list list option" where
  "table_rows width [] = Some []"
| "table_rows width (l # ls) =
     (case table_cells l of
        None \<Rightarrow> None
      | Some row \<Rightarrow> if length row \<noteq> width then None else map_option (\<lambda>rows. row # rows) (table_rows width ls))"

definition parse_table :: "string \<Rightarrow> string list list option" where
  "parse_table text =
     (let lines = str_lines text in
      if length lines < 4 then None
      else if \<not> table_border (lines ! 0) \<or> \<not> table_border (lines ! 2) \<or> \<not> table_border (last lines) then None
      else
        Option.bind (table_cells (lines ! 1)) (\<lambda>header.
        map_option (\<lambda>rows. header # rows) (table_rows (length header) (butlast (drop 3 lines)))))"

definition count_of :: "string \<Rightarrow> nat option" where
  "count_of cell = (if cell = [] \<or> \<not> all_digits cell then None else parse_u64 cell)"

definition parse_copy_count :: "string \<Rightarrow> nat option" where
  "parse_copy_count text =
     (case parse_table text of
        Some [header, row] \<Rightarrow>
          if length header \<noteq> 1 \<or> header ! 0 \<noteq> ''count'' \<or> length row \<noteq> 1 then None else count_of (row ! 0)
      | _ \<Rightarrow> None)"

definition parse_step_counts :: "string \<Rightarrow> (nat \<times> nat) option" where
  "parse_step_counts text =
     (case parse_table text of
        Some [header, row] \<Rightarrow>
          if length header \<noteq> 2 \<or> header ! 0 \<noteq> ''n'' \<or> header ! 1 \<noteq> ''steps'' \<or> length row \<noteq> 2 then None
          else Option.bind (count_of (row ! 0)) (\<lambda>n. map_option (\<lambda>s. (n, s)) (count_of (row ! 1)))
      | _ \<Rightarrow> None)"

subsection \<open>The report\<close>

record backtest_report =
  br_runs_total :: nat
  br_runs_affected :: nat
  br_calls_total :: nat
  br_calls_blocked :: nat
  br_spent_micros :: int
  br_saved_micros :: int

datatype backtest_parse_error = NoCalls | BacktestUnrecognised | BacktestInconsistent string

definition HEAD_LINE :: string where "HEAD_LINE = ''TokenFuse backtest''"
definition CANDIDATE_LINE :: string where "CANDIDATE_LINE = ''  candidate policy   : ''"
definition RUNS_LINE :: string where "RUNS_LINE = ''  runs               : ''"
definition CALLS_LINE :: string where "CALLS_LINE = ''  calls              : ''"
definition SPEND_LINE :: string where "SPEND_LINE = ''  spend in trace     : ''"
definition SAVED_LINE :: string where "SAVED_LINE = ''  would have saved   : ''"
definition PROJECTED_LINE :: string where "PROJECTED_LINE = ''  projected spend    : ''"

definition money :: "string \<Rightarrow> int option" where
  "money text =
     Option.bind (strip_prefix ''$'' text) (\<lambda>rest.
     case (case strip_prefix ''-'' rest of Some d \<Rightarrow> (True, d) | None \<Rightarrow> (False, rest)) of (negative, digits) \<Rightarrow>
     Option.bind (split_once (CHR ''.'') digits) (\<lambda>(whole, fraction).
     if whole = [] \<or> length fraction \<noteq> 6 \<or> \<not> all_digits whole \<or> \<not> all_digits fraction then None
     else
       Option.bind (parse_i64 whole) (\<lambda>w.
       Option.bind (i64 (w * MICROS_PER_USD)) (\<lambda>m.
       Option.bind (parse_i64 fraction) (\<lambda>f.
       map_option (\<lambda>micros. if negative then - micros else micros) (i64 (m + f)))))))"

definition saved_amount :: "string \<Rightarrow> int option" where
  "saved_amount text =
     Option.bind (split_once_str '' ('' text) (\<lambda>(amount, rest).
     Option.bind (strip_suffix ''%)'' rest) (\<lambda>percent.
     if percent = [] \<or> \<not> list_all (\<lambda>b. ascii_digit b \<or> b = CHR ''.'' \<or> b = CHR ''-'') percent then None
     else money amount))"

definition count_pair :: "string \<Rightarrow> string \<Rightarrow> (nat \<times> nat) option" where
  "count_pair text tail =
     Option.bind (split_once_str '' ('' text) (\<lambda>(total, rest).
     Option.bind (strip_suffix tail rest) (\<lambda>part.
     Option.bind (count_of total) (\<lambda>t. map_option (\<lambda>p. (t, p)) (count_of part))))"

definition checked_report ::
  "string \<Rightarrow> string \<Rightarrow> nat \<times> nat \<Rightarrow> nat \<times> nat \<Rightarrow> int \<Rightarrow> int \<Rightarrow> int \<Rightarrow> backtest_parse_error + backtest_report" where
  "checked_report echoed asked runs calls spent saved projected =
     (case (runs, calls) of ((runs_total, runs_affected), (calls_total, calls_blocked)) \<Rightarrow>
      if echoed \<noteq> asked
      then Inl (BacktestInconsistent ''the report is for another candidate than the one that was asked'')
      else if runs_total < runs_affected \<or> calls_total < calls_blocked \<or> calls_blocked < runs_affected
      then Inl (BacktestInconsistent ''the report affects more runs or calls than it holds'')
      else if (0 < runs_affected) \<noteq> (0 < calls_blocked)
      then Inl (BacktestInconsistent ''the report blocks calls in no run, or affects a run with none'')
      else if Some projected \<noteq> i64 (spent - saved)
      then Inl (BacktestInconsistent ''the projected spend is not the spend less the saving'')
      else Inr \<lparr>br_runs_total = runs_total, br_runs_affected = runs_affected, br_calls_total = calls_total,
                br_calls_blocked = calls_blocked, br_spent_micros = spent, br_saved_micros = saved\<rparr>)"

definition parse_backtest :: "amounts \<Rightarrow> string \<Rightarrow> budget_candidate \<Rightarrow> backtest_parse_error + backtest_report" where
  "parse_backtest A text asked =
     (case str_lines text of
        [l0] \<Rightarrow> Inl (if prefix ''no calls in the trace at '' l0 then NoCalls else BacktestUnrecognised)
      | [l0, l1, l2, l3, l4, l5, l6] \<Rightarrow>
          if l0 \<noteq> HEAD_LINE then Inl BacktestUnrecognised
          else
            ebind (ok_or BacktestUnrecognised (strip_prefix CANDIDATE_LINE l1)) (\<lambda>echoed.
            ebind (ok_or BacktestUnrecognised (Option.bind (strip_prefix RUNS_LINE l2) (\<lambda>v. count_pair v '' affected)''))) (\<lambda>runs.
            ebind (ok_or BacktestUnrecognised
              (Option.bind (strip_prefix CALLS_LINE l3) (\<lambda>v. count_pair v '' would be blocked)''))) (\<lambda>calls.
            ebind (ok_or BacktestUnrecognised (Option.bind (strip_prefix SPEND_LINE l4) money)) (\<lambda>spent.
            ebind (ok_or BacktestUnrecognised (Option.bind (strip_prefix SAVED_LINE l5) saved_amount)) (\<lambda>saved.
            ebind (ok_or BacktestUnrecognised (Option.bind (strip_prefix PROJECTED_LINE l6) money)) (\<lambda>projected.
            checked_report echoed (candidate_describe A asked) runs calls spent saved projected))))))
      | _ \<Rightarrow> Inl BacktestUnrecognised)"

subsection \<open>The proof\<close>

record run_effect =
  re_calls :: nat
  re_calls_blocked :: nat
  re_spent_micros :: int
  re_saved_micros :: int
  re_spent_after_micros :: int

record budget_elsewhere =
  be_runs :: nat
  be_runs_affected :: nat
  be_calls :: nat
  be_calls_blocked :: nat
  be_saved_micros :: int

record budget_proof =
  bp_run :: upstream_data
  bp_candidate :: budget_candidate
  bp_stops_this_incident :: bool
  bp_incident :: run_effect
  bp_elsewhere :: budget_elsewhere
  bp_elsewhere_exact :: bool
  bp_trace :: backtest_report
  bp_covers :: string

definition BUDGET_COVERS :: string where
  "BUDGET_COVERS = ''the budget per run, the budget per step and the step limit, replayed over the calls the gateway recorded''"

definition judge_budget ::
  "string \<Rightarrow> budget_candidate \<Rightarrow> backtest_report \<Rightarrow> backtest_report \<Rightarrow> nat \<Rightarrow> bool \<Rightarrow> string + budget_proof" where
  "judge_budget run_id candidate r trace copied tied =
     (if br_runs_total r \<noteq> 1 then Inl ''the incident's run was replayed together with other runs''
      else if br_calls_total r \<noteq> copied
      then Inl ''the copy of the run and its replay disagree about how many calls it has''
      else if br_runs_total trace < 1 then Inl ''the whole trace holds no run, and the incident's run was copied from it''
      else if br_calls_total trace < br_calls_total r
      then Inl ''the whole trace holds fewer calls than the incident's own run''
      else if br_runs_affected trace < br_runs_affected r \<or> br_calls_blocked trace < br_calls_blocked r
      then Inl ''the whole trace blocks less than the incident's own run''
      else Inr
        \<lparr>bp_run = data_bounded run_id, bp_candidate = candidate, bp_stops_this_incident = (0 < br_calls_blocked r),
         bp_incident =
           \<lparr>re_calls = br_calls_total r, re_calls_blocked = br_calls_blocked r, re_spent_micros = br_spent_micros r,
            re_saved_micros = br_saved_micros r,
            re_spent_after_micros = i64_saturating_sub (br_spent_micros r) (br_saved_micros r)\<rparr>,
         bp_elsewhere =
           \<lparr>be_runs = br_runs_total trace - br_runs_total r, be_runs_affected = br_runs_affected trace - br_runs_affected r,
            be_calls = br_calls_total trace - br_calls_total r,
            be_calls_blocked = br_calls_blocked trace - br_calls_blocked r,
            be_saved_micros = i64_saturating_sub (br_saved_micros trace) (br_saved_micros r)\<rparr>,
         bp_elsewhere_exact = (\<not> tied), bp_trace = trace, bp_covers = BUDGET_COVERS\<rparr>)"

end
