(* ===== verification/ProofRun.thy ===== *)
theory ProofRun
  imports ProofReport
begin

section \<open>Running a proof: slots, the child process and the command\<close>

text \<open>
  \<open>crates/api/src/proof/slots.rs\<close> and \<open>commands.rs\<close>. What a child process does is a parameter: whether it starts,
  what each poll of it answers and what the clock reads then, and what it wrote. The loop that waits for it is a
  partial function, so that a wait that never ends is \<open>None\<close>.
\<close>

subsection \<open>Slots\<close>

definition MAX_CONCURRENT_PROOFS :: nat where "MAX_CONCURRENT_PROOFS = 2"

record slots =
  sl_limit :: nat
  sl_in_use :: nat

definition slots_new :: "nat \<Rightarrow> slots" where
  "slots_new limit = \<lparr>sl_limit = limit, sl_in_use = 0\<rparr>"

text \<open>\<open>fetch_update\<close> is one atomic step. The error is the limit that \<open>Busy\<close> carries.\<close>

definition try_acquire :: "slots \<Rightarrow> slots \<times> (nat + unit)" where
  "try_acquire s =
     (if sl_in_use s < sl_limit s then (s\<lparr>sl_in_use := sl_in_use s + 1\<rparr>, Inr ()) else (s, Inl (sl_limit s)))"

definition slot_drop :: "slots \<Rightarrow> slots" where
  "slot_drop s = s\<lparr>sl_in_use := sl_in_use s - 1\<rparr>"

subsection \<open>The command\<close>

definition CANDIDATE_MAX_BYTES :: nat where "CANDIDATE_MAX_BYTES = 64 * 1024"
definition REPLAY_TIMEOUT :: time where "REPLAY_TIMEOUT = 30 * 10 ^ 9"
definition OUTPUT_CAP_BYTES :: nat where "OUTPUT_CAP_BYTES = 1024 * 1024"
definition WARDRYX_EVENTS_FILE :: string where "WARDRYX_EVENTS_FILE = ''wardryx.ndjson''"

record proof_config =
  pc_wardryx_bin :: string
  pc_archive :: "string option"
  pc_events :: "string option"

text \<open>\<open>Path::join\<close> with one relative component.\<close>

definition path_join :: "string \<Rightarrow> string \<Rightarrow> string" where
  "path_join dir name =
     (if dir = [] then name else if last dir = CHR ''/'' then dir @ name else dir @ ''/'' @ name)"

definition env_path :: "string option \<Rightarrow> string option" where
  "env_path v = (case map_option trim v of Some t \<Rightarrow> if t = [] then None else Some t | None \<Rightarrow> None)"

definition proof_config_from_env :: "string option \<Rightarrow> string option \<Rightarrow> proof_config" where
  "proof_config_from_env archive_var source_events_dir =
     \<lparr>pc_wardryx_bin = ''wardryx'', pc_archive = env_path archive_var,
      pc_events = map_option (\<lambda>dir. path_join dir WARDRYX_EVENTS_FILE) source_events_dir\<rparr>"

datatype proof_error =
    ProofNotConfigured string
  | ProofIncident string
  | NoRun
  | CandidateRefused string
  | RunRefused string
  | NotInTrace upstream_data
  | ProofSpawn upstream_data
  | ProofBusy nat
  | ProofTimeout nat
  | ReplayFailed "int option" upstream_data
  | ProofUnreadable string

record proof_request =
  pq_incident_id :: string
  pq_candidate :: string

text \<open>The event an incident is. Every refusal is told by \<open>describe\<close>, which leaves the cause out.\<close>

definition event_of :: "ingest_lib \<Rightarrow> case_store option \<Rightarrow> string \<Rightarrow> proof_error + stored_event" where
  "event_of X store incident_id =
     (let incident = (\<lambda>e. ProofIncident (case_error_describe e)) in
      case event_id_of incident_id of
        Inl e \<Rightarrow> Inl (incident e)
      | Inr event_id \<Rightarrow>
          (case store of
             None \<Rightarrow> Inl (incident (NoStore []))
           | Some cs \<Rightarrow>
               (case cs_open cs of
                  Inl e \<Rightarrow> Inl (incident (NoStore e))
                | Inr st \<Rightarrow>
                    (case event_by_id X (cs_event_error cs) st event_id of
                       Inl e \<Rightarrow> Inl (incident (NoStore e))
                     | Inr None \<Rightarrow> Inl (incident (NotFound event_id))
                     | Inr (Some event) \<Rightarrow> Inr event))))"

definition run_of :: "ingest_lib \<Rightarrow> case_store option \<Rightarrow> string \<Rightarrow> proof_error + string" where
  "run_of X store incident_id =
     ebind (event_of X store incident_id) (\<lambda>event.
     case se_run_id event of
       Some r \<Rightarrow> if r \<noteq> [] then Inr r else Inl NoRun
     | None \<Rightarrow> Inl NoRun)"

definition check_candidate :: "string \<Rightarrow> proof_error + unit" where
  "check_candidate candidate =
     (if trim candidate = [] then Inl (CandidateRefused ''the candidate policy is empty'')
      else if CANDIDATE_MAX_BYTES < length candidate then Inl (CandidateRefused ''the candidate policy is larger than 64 KiB'')
      else if CHR 0x00 \<in> set candidate then Inl (CandidateRefused ''the candidate policy holds a NUL byte'')
      else Inr ())"

subsection \<open>The child process\<close>

text \<open>
  Poll \<open>k\<close> of a child answers an error, that it still runs (\<open>None\<close>), or the code it exited with, which is missing
  when a signal ended it; the clock is read after a poll that found it running.
\<close>

record child =
  cd_poll :: "nat \<Rightarrow> string + int option option"
  cd_now :: "nat \<Rightarrow> time"
  cd_stdout :: string
  cd_stderr :: string

record finished =
  fi_exit :: "int option"
  fi_stdout :: string
  fi_stderr :: string

partial_function (option) wait_child :: "child \<Rightarrow> time \<Rightarrow> nat \<Rightarrow> nat \<Rightarrow> (proof_error + int option) option" where
  "wait_child c deadline seconds k =
     (case cd_poll c k of
        Inl e \<Rightarrow> Some (Inl (ProofSpawn (data_bounded e)))
      | Inr (Some status) \<Rightarrow> Some (Inr status)
      | Inr None \<Rightarrow>
          if deadline \<le> cd_now c k then Some (Inl (ProofTimeout seconds))
          else wait_child c deadline seconds (k + 1))"

definition capped :: "string \<Rightarrow> string" where
  "capped stream = take OUTPUT_CAP_BYTES stream"

text \<open>What starting a program with these arguments and these variables beside \<open>PATH\<close> gives.\<close>

type_synonym spawner = "string \<Rightarrow> string list \<Rightarrow> (string \<times> string) list \<Rightarrow> string + child"

definition run_bounded ::
  "spawner \<Rightarrow> string \<Rightarrow> string list \<Rightarrow> (string \<times> string) list \<Rightarrow> time \<Rightarrow> nat \<Rightarrow> (proof_error + finished) option" where
  "run_bounded spawn bin args extra deadline seconds =
     (case spawn bin args extra of
        Inl e \<Rightarrow> Some (Inl (ProofSpawn (data_bounded e)))
      | Inr c \<Rightarrow>
          (case wait_child c deadline seconds 0 of
             None \<Rightarrow> None
           | Some (Inl e) \<Rightarrow> Some (Inl e)
           | Some (Inr status) \<Rightarrow>
               Some (Inr \<lparr>fi_exit = status, fi_stdout = from_utf8_lossy (capped (cd_stdout c)),
                          fi_stderr = from_utf8_lossy (capped (cd_stderr c))\<rparr>)))"

definition as_secs :: "time \<Rightarrow> nat" where
  "as_secs d = d div 10 ^ 9"

definition run_replay ::
  "spawner \<Rightarrow> string \<Rightarrow> string \<Rightarrow> string \<Rightarrow> string \<Rightarrow> time \<Rightarrow> time \<Rightarrow> (proof_error + finished) option" where
  "run_replay spawn bin events archive candidate now timeout =
     run_bounded spawn bin [''replay'', ''-events'', events, ''-archive'', archive, ''-policy'', candidate] []
       (now + timeout) (as_secs timeout)"

text \<open>
  What the box answers while a proof runs: the clock, the private directory that is made and removed again, what
  writing into it answers, and the programs.
\<close>

record proof_world =
  pw_now :: time
  pw_scratch :: "string + string"
  pw_write :: "string option"
  pw_spawn :: spawner

definition proof_inputs ::
  "ingest_lib \<Rightarrow> proof_config \<Rightarrow> case_store option \<Rightarrow> proof_request \<Rightarrow> proof_error + string \<times> string \<times> string" where
  "proof_inputs X config store request =
     ebind (check_candidate (pq_candidate request)) (\<lambda>_.
     ebind (ok_or (ProofNotConfigured ''the policy archive (WARDRYX_POLICY_ARCHIVE)'') (pc_archive config)) (\<lambda>archive.
     ebind (ok_or (ProofNotConfigured ''the directory wardryx records its decisions in'') (pc_events config)) (\<lambda>events.
     ebind (run_of X store (pq_incident_id request)) (\<lambda>run_id.
     Inr (archive, events, run_id)))))"

definition read_replay :: "finished \<Rightarrow> proof_error + replay_report" where
  "read_replay done' =
     (case parse_report (fi_stdout done') of
        Inr report \<Rightarrow> Inr report
      | Inl (Inconsistent reason) \<Rightarrow> Inl (ProofUnreadable reason)
      | Inl Unrecognised \<Rightarrow> Inl (ReplayFailed (fi_exit done') (data_bounded (fi_stderr done'))))"

text \<open>What happens while the slot is held.\<close>

definition replay_candidate ::
  "proof_world \<Rightarrow> proof_config \<Rightarrow> string \<times> string \<times> string \<Rightarrow> time \<Rightarrow> (proof_error + policy_proof) option" where
  "replay_candidate W config inputs timeout =
     (case inputs of (archive, events, run_id) \<Rightarrow>
      case pw_scratch W of
        Inl e \<Rightarrow> Some (Inl (ProofSpawn (data_bounded e)))
      | Inr dir \<Rightarrow>
          (case pw_write W of
             Some e \<Rightarrow> Some (Inl (ProofSpawn (data_bounded e)))
           | None \<Rightarrow>
               (case run_replay (pw_spawn W) (pc_wardryx_bin config) events archive (path_join dir ''candidate.yaml'')
                       (pw_now W) timeout of
                  None \<Rightarrow> None
                | Some (Inl e) \<Rightarrow> Some (Inl e)
                | Some (Inr finished) \<Rightarrow>
                    Some (ebind (read_replay finished) (\<lambda>report. Inr (judge report run_id))))))"

definition prove_in ::
  "ingest_lib \<Rightarrow> proof_world \<Rightarrow> slots \<Rightarrow> proof_config \<Rightarrow> case_store option \<Rightarrow> proof_request \<Rightarrow> time
    \<Rightarrow> (slots \<times> (proof_error + policy_proof)) option" where
  "prove_in X W s config store request timeout =
     (case proof_inputs X config store request of
        Inl e \<Rightarrow> Some (s, Inl e)
      | Inr inputs \<Rightarrow>
          (case try_acquire s of
             (s', Inl limit) \<Rightarrow> Some (s', Inl (ProofBusy limit))
           | (s', Inr _) \<Rightarrow> map_option (\<lambda>r. (slot_drop s', r)) (replay_candidate W config inputs timeout)))"

text \<open>The command on this box: its configuration and its deadline.\<close>

definition policy_proof_command ::
  "ingest_lib \<Rightarrow> proof_world \<Rightarrow> string option \<Rightarrow> string option \<Rightarrow> slots \<Rightarrow> case_store option \<Rightarrow> proof_request
    \<Rightarrow> (slots \<times> (proof_error + policy_proof)) option" where
  "policy_proof_command X W archive_var source_events_dir s store request =
     prove_in X W s (proof_config_from_env archive_var source_events_dir) store request REPLAY_TIMEOUT"

end
