(* ===== verification/BudgetProof.thy ===== *)
theory BudgetProof
  imports Backtest ProofRun
begin

section \<open>Running a budget proof\<close>

text \<open>
  \<open>crates/api/src/proof/budget_commands.rs\<close>: four runs of \<open>tokenfuse\<close> under one deadline, two over the trace of the
  gateway and two over a copy of the incident's own calls in the private directory of the proof.
\<close>

definition BUDGET_TIMEOUT :: time where "BUDGET_TIMEOUT = 30 * 10 ^ 9"

record budget_config =
  gc_tokenfuse_bin :: string
  gc_trace_dir :: "string option"

definition budget_config_from_env :: "string option \<Rightarrow> budget_config" where
  "budget_config_from_env data_dir = \<lparr>gc_tokenfuse_bin = ''tokenfuse'', gc_trace_dir = env_path data_dir\<rparr>"

record budget_request =
  bq_incident_id :: string
  bq_per_run_usd :: "string option"
  bq_per_step_usd :: "string option"
  bq_max_steps :: "nat option"

definition deadline_of :: "time \<Rightarrow> time \<Rightarrow> time" where
  "deadline_of started timeout = started + timeout"

definition run_failed :: "finished \<Rightarrow> proof_error" where
  "run_failed done' =
     ReplayFailed (fi_exit done')
       (data_bounded (if trim (fi_stderr done') = [] then fi_stdout done' else fi_stderr done'))"

definition tokenfuse ::
  "spawner \<Rightarrow> budget_config \<Rightarrow> string list \<Rightarrow> string \<Rightarrow> time \<Rightarrow> time \<Rightarrow> (proof_error + finished) option" where
  "tokenfuse spawn config args data_dir started timeout =
     run_bounded spawn (gc_tokenfuse_bin config) args [(''TOKENFUSE_DATA_DIR'', data_dir)]
       (deadline_of started timeout) (as_secs timeout)"

definition read_backtest :: "amounts \<Rightarrow> finished \<Rightarrow> budget_candidate \<Rightarrow> proof_error + backtest_report" where
  "read_backtest A done' asked =
     (case parse_backtest A (fi_stdout done') asked of
        Inr report \<Rightarrow> Inr report
      | Inl (BacktestInconsistent reason) \<Rightarrow> Inl (ProofUnreadable reason)
      | Inl NoCalls \<Rightarrow> Inl (ProofUnreadable ''tokenfuse found no calls in a trace that holds some'')
      | Inl BacktestUnrecognised \<Rightarrow> Inl (run_failed done'))"

record budget_inputs =
  bi_candidate :: budget_candidate
  bi_backtest :: "string list"
  bi_trace :: string
  bi_run :: string

definition budget_inputs_of ::
  "ingest_lib \<Rightarrow> amounts \<Rightarrow> budget_config \<Rightarrow> case_store option \<Rightarrow> budget_request \<Rightarrow> proof_error + budget_inputs" where
  "budget_inputs_of X A config store request =
     ebind (map_sum CandidateRefused id
       (candidate_from_parts (bq_per_run_usd request) (bq_per_step_usd request) (bq_max_steps request))) (\<lambda>candidate.
     ebind (map_sum CandidateRefused id (candidate_args A candidate)) (\<lambda>args.
     ebind (ok_or (ProofNotConfigured ''the gateway's trace directory (TOKENFUSE_DATA_DIR)'') (gc_trace_dir config)) (\<lambda>trace.
     ebind (run_of X store (bq_incident_id request)) (\<lambda>run_id.
     ebind (map_sum RunRefused id (query_safe_run run_id)) (\<lambda>_.
     Inr \<lparr>bi_candidate = candidate, bi_backtest = ''backtest'' # args, bi_trace = trace, bi_run = run_id\<rparr>)))))"

text \<open>A step that needs the child before it to have finished: a child that never ends is \<open>None\<close>.\<close>

definition after_child ::
  "(proof_error + 'a) option \<Rightarrow> ('a \<Rightarrow> (proof_error + 'b) option) \<Rightarrow> (proof_error + 'b) option" where
  "after_child r k = (case r of None \<Rightarrow> None | Some (Inl e) \<Rightarrow> Some (Inl e) | Some (Inr x) \<Rightarrow> k x)"

definition checked_step :: "proof_error + 'a \<Rightarrow> ('a \<Rightarrow> (proof_error + 'b) option) \<Rightarrow> (proof_error + 'b) option" where
  "checked_step r k = (case r of Inl e \<Rightarrow> Some (Inl e) | Inr x \<Rightarrow> k x)"

definition backtest_run ::
  "amounts \<Rightarrow> spawner \<Rightarrow> budget_config \<Rightarrow> budget_inputs \<Rightarrow> string \<Rightarrow> time \<Rightarrow> time \<Rightarrow> (proof_error + budget_proof) option" where
  "backtest_run A spawn config inputs dir started timeout =
     checked_step (map_sum RunRefused id (copy_statement (bi_run inputs) (path_join dir ''part.parquet''))) (\<lambda>statement.
     after_child (tokenfuse spawn config [''sql'', statement] (bi_trace inputs) started timeout) (\<lambda>copied.
     checked_step (ok_or (run_failed copied) (parse_copy_count (fi_stdout copied))) (\<lambda>count.
     if count = 0 then Some (Inl (NotInTrace (data_bounded (bi_run inputs))))
     else
       after_child (tokenfuse spawn config [''sql'', STEP_COUNT_STATEMENT] dir started timeout) (\<lambda>counted.
       checked_step (ok_or (run_failed counted) (parse_step_counts (fi_stdout counted))) (\<lambda>(rows, steps).
       if rows \<noteq> count then Some (Inl (ProofUnreadable ''the copy of the run and a count of it disagree''))
       else
         after_child (tokenfuse spawn config (bi_backtest inputs) dir started timeout) (\<lambda>alone.
         checked_step (read_backtest A alone (bi_candidate inputs)) (\<lambda>run_report.
         after_child (tokenfuse spawn config (bi_backtest inputs) (bi_trace inputs) started timeout) (\<lambda>whole.
         checked_step (read_backtest A whole (bi_candidate inputs)) (\<lambda>trace_report.
         Some (map_sum ProofUnreadable id
           (judge_budget (bi_run inputs) (bi_candidate inputs) run_report trace_report count (steps < rows))))))))))))"

text \<open>The path of the scratch directory is text here, as it is where the temporary directory of the box is.\<close>

definition prove_budget_in ::
  "ingest_lib \<Rightarrow> amounts \<Rightarrow> proof_world \<Rightarrow> slots \<Rightarrow> budget_config \<Rightarrow> case_store option \<Rightarrow> budget_request \<Rightarrow> time
    \<Rightarrow> (slots \<times> (proof_error + budget_proof)) option" where
  "prove_budget_in X A W s config store request timeout =
     (case budget_inputs_of X A config store request of
        Inl e \<Rightarrow> Some (s, Inl e)
      | Inr inputs \<Rightarrow>
          (case try_acquire s of
             (s', Inl limit) \<Rightarrow> Some (s', Inl (ProofBusy limit))
           | (s', Inr _) \<Rightarrow>
               map_option (\<lambda>r. (slot_drop s', r))
                 (case pw_scratch W of
                    Inl e \<Rightarrow> Some (Inl (ProofSpawn (data_bounded e)))
                  | Inr dir \<Rightarrow> backtest_run A (pw_spawn W) config inputs dir (pw_now W) timeout)))"

definition budget_proof_command ::
  "ingest_lib \<Rightarrow> amounts \<Rightarrow> proof_world \<Rightarrow> string option \<Rightarrow> slots \<Rightarrow> case_store option \<Rightarrow> budget_request
    \<Rightarrow> (slots \<times> (proof_error + budget_proof)) option" where
  "budget_proof_command X A W data_dir s store request =
     prove_budget_in X A W s (budget_config_from_env data_dir) store request BUDGET_TIMEOUT"

end
