(* ===== verification/Jcs.thy ===== *)
theory Jcs
  imports Text "HOL-Library.Multiset"
begin

section \<open>Canonical JSON\<close>

text \<open>
  \<open>crates/api/src/seal/jcs.rs\<close>: the canonical text of a JSON value (RFC 8785). A number is kept as its text; which
  texts are integers is decided here, and what \<open>f64\<close> makes of the others is a parameter (\<open>floats\<close>): whether it is
  zero or negative, and its absolute value as \<open>{:e}\<close> prints it.
\<close>

definition MAX_EXACT_INT :: int where "MAX_EXACT_INT = 9007199254740991"

datatype jcs_error = IntegerNotExact

record floats =
  fl_zero :: "string \<Rightarrow> bool"
  fl_negative :: "string \<Rightarrow> bool"
  fl_scientific :: "string \<Rightarrow> string"

subsection \<open>Numbers\<close>

text \<open>\<open>Number\<close> holds an integer for a text of digits with at most a minus sign, except minus zero, in the range of
  \<open>i64\<close> or \<open>u64\<close>; every other number is a double.\<close>

definition num_int :: "string \<Rightarrow> int option" where
  "num_int t =
     (case t of
        [] \<Rightarrow> None
      | c # ds \<Rightarrow>
          if c = CHR ''-'' then
            (if ds = [] \<or> \<not> list_all ascii_digit ds \<or> digits_value ds = 0 then None else Some (- int (digits_value ds)))
          else if list_all ascii_digit t then Some (int (digits_value t)) else None)"

definition as_i64 :: "string \<Rightarrow> int option" where
  "as_i64 t = Option.bind (num_int t) (\<lambda>i. if - (2 ^ 63) \<le> i \<and> i < 2 ^ 63 then Some i else None)"

definition as_u64 :: "string \<Rightarrow> int option" where
  "as_u64 t = Option.bind (num_int t) (\<lambda>i. if 0 \<le> i \<and> i < 2 ^ 64 then Some i else None)"

text \<open>\<open>str::parse::<i32>\<close> of what follows the \<open>e\<close>.\<close>

definition parse_i32 :: "string \<Rightarrow> int option" where
  "parse_i32 s =
     (case (case s of c # ds \<Rightarrow> if c = CHR ''-'' then (True, ds) else if c = CHR ''+'' then (False, ds) else (False, s)
             | [] \<Rightarrow> (False, [])) of (negative, ds) \<Rightarrow>
      if ds = [] \<or> \<not> list_all ascii_digit ds then None
      else (let i = (if negative then - int (digits_value ds) else int (digits_value ds))
            in if - (2 ^ 31) \<le> i \<and> i < 2 ^ 31 then Some i else None))"

definition zeros :: "int \<Rightarrow> string" where
  "zeros n = replicate (nat n) (CHR ''0'')"

text \<open>Where the point goes: \<open>n\<close> is the exponent of the first digit plus one.\<close>

definition es6_body :: "string \<Rightarrow> int \<Rightarrow> string" where
  "es6_body digits n =
     (let k = int (length digits) in
      if k \<le> n \<and> n \<le> 21 then digits @ zeros (n - k)
      else if 0 < n \<and> n \<le> 21 then take (nat n) digits @ ''.'' @ drop (nat n) digits
      else if -6 < n \<and> n \<le> 0 then ''0.'' @ zeros (- n) @ digits
      else
        (let e = n - 1; sign_e = (if e < 0 then ''-'' else ''+'') in
         if k = 1 then digits @ ''e'' @ sign_e @ idec \<bar>e\<bar>
         else take 1 digits @ ''.'' @ drop 1 digits @ ''e'' @ sign_e @ idec \<bar>e\<bar>))"

definition es6_number :: "floats \<Rightarrow> string \<Rightarrow> string" where
  "es6_number F x =
     (if fl_zero F x then ''0''
      else
        (let sign = (if fl_negative F x then ''-'' else []);
             scientific = fl_scientific F x;
             (mantissa, exponent) = (case split_once (CHR ''e'') scientific of Some p \<Rightarrow> p | None \<Rightarrow> (scientific, ''0''));
             digits = filter (\<lambda>c. c \<noteq> CHR ''.'') mantissa;
             n = (case parse_i32 exponent of Some i \<Rightarrow> i | None \<Rightarrow> 0) + 1
         in sign @ es6_body digits n))"

definition jcs_number :: "floats \<Rightarrow> string \<Rightarrow> jcs_error + string" where
  "jcs_number F n =
     (case as_i64 n of
        Some i \<Rightarrow> if \<bar>i\<bar> \<le> MAX_EXACT_INT then Inr (idec i) else Inl IntegerNotExact
      | None \<Rightarrow>
          (case as_u64 n of
             Some i \<Rightarrow> if i \<le> MAX_EXACT_INT then Inr (idec i) else Inl IntegerNotExact
           | None \<Rightarrow> Inr (es6_number F n)))"

subsection \<open>Strings\<close>

text \<open>\<open>{:04x}\<close> of a code below 32.\<close>

definition hex4 :: "nat \<Rightarrow> string" where
  "hex4 n = ''00'' @ [hex_digits ! (n div 16), hex_digits ! (n mod 16)]"

definition BACKSLASH :: char where "BACKSLASH = CHR 0x5C"
definition DQUOTE :: char where "DQUOTE = CHR 0x22"

definition write_char :: "string \<Rightarrow> string" where
  "write_char c =
     (case map (of_char :: char \<Rightarrow> nat) c of
        [n] \<Rightarrow>
          if n = 0x22 then [BACKSLASH, DQUOTE]
          else if n = 0x5C then [BACKSLASH, BACKSLASH]
          else if n = 8 then [BACKSLASH, CHR ''b'']
          else if n = 9 then [BACKSLASH, CHR ''t'']
          else if n = 10 then [BACKSLASH, CHR ''n'']
          else if n = 12 then [BACKSLASH, CHR ''f'']
          else if n = 13 then [BACKSLASH, CHR ''r'']
          else if n < 0x20 then BACKSLASH # CHR ''u'' # hex4 n
          else c
      | _ \<Rightarrow> c)"

definition write_string :: "string \<Rightarrow> string" where
  "write_string s = DQUOTE # concat (map write_char (chars s)) @ [DQUOTE]"

text \<open>\<open>str::encode_utf16\<close>.\<close>

definition utf16_units :: "string \<Rightarrow> nat list" where
  "utf16_units c =
     (let n = code_point c in
      if n < 0x10000 then [n] else [0xD800 + (n - 0x10000) div 1024, 0xDC00 + (n - 0x10000) mod 1024])"

definition encode_utf16 :: "string \<Rightarrow> nat list" where
  "encode_utf16 s = concat (map utf16_units (chars s))"

subsection \<open>Values\<close>

definition sort_members :: "(string \<times> json) list \<Rightarrow> (string \<times> json) list" where
  "sort_members ms = sort_key (\<lambda>m. encode_utf16 (fst m)) ms"

lemma size_sort_members [simp]: "size_list f (sort_members ms) = size_list f ms"
proof -
  have "size_list f xs = sum_mset (image_mset f (mset xs)) + length xs" for xs :: "(string \<times> json) list"
    by (induction xs) simp_all
  then show ?thesis by (simp add: sort_members_def)
qed

text \<open>What is appended to \<open>out\<close>; a comma stands before every item but the first.\<close>

function (sequential) write_value :: "floats \<Rightarrow> json \<Rightarrow> jcs_error + string"
  and write_items :: "floats \<Rightarrow> bool \<Rightarrow> json list \<Rightarrow> jcs_error + string"
  and write_members :: "floats \<Rightarrow> bool \<Rightarrow> (string \<times> json) list \<Rightarrow> jcs_error + string" where
  "write_value F JNull = Inr ''null''"
| "write_value F (JBool b) = Inr (if b then ''true'' else ''false'')"
| "write_value F (JNum n) = jcs_number F n"
| "write_value F (JString s) = Inr (write_string s)"
| "write_value F (JArray items) = ebind (write_items F True items) (\<lambda>out. Inr (''['' @ out @ '']''))"
| "write_value F (JObject ms) = ebind (write_members F True (sort_members ms)) (\<lambda>out. Inr (''{'' @ out @ ''}''))"
| "write_items F first [] = Inr []"
| "write_items F first (v # vs) =
     ebind (write_value F v) (\<lambda>item.
     ebind (write_items F False vs) (\<lambda>rest. Inr ((if first then [] else '','') @ item @ rest)))"
| "write_members F first [] = Inr []"
| "write_members F first ((k, v) # ms) =
     ebind (write_value F v) (\<lambda>item.
     ebind (write_members F False ms) (\<lambda>rest.
     Inr ((if first then [] else '','') @ write_string k @ '':'' @ item @ rest)))"
  by pat_completeness auto
termination
  by (relation "measure (\<lambda>x. case x of
        Inl (F, v) \<Rightarrow> size v
      | Inr (Inl (F, b, vs)) \<Rightarrow> size_list size vs
      | Inr (Inr (F, b, ms)) \<Rightarrow> size_list (size_prod (\<lambda>_. 0) size) ms)") auto

definition canonical :: "floats \<Rightarrow> json \<Rightarrow> jcs_error + string" where
  "canonical F v = write_value F v"

end
