(* ===== verification/SealPack.thy ===== *)
theory SealPack
  imports BudgetProof Jcs Case
begin

section \<open>The case pack\<close>

text \<open>
  \<open>crates/api/src/seal/mod.rs\<close> and the serialized form of the proofs it holds (\<open>Serialize\<close> of \<open>proof/mod.rs\<close>,
  \<open>proof/budget.rs\<close> and \<open>proof/commands.rs\<close>): the pack as a JSON value, its canonical text and digest, and the check
  a stored pack is read back through.
\<close>

definition PACK_FORMAT :: string where "PACK_FORMAT = ''genaryx.case-pack/1''"
definition PACK_MAX_BYTES :: nat where "PACK_MAX_BYTES = 1024 * 1024"
definition NOTE_MAX_CHARS :: nat where "NOTE_MAX_CHARS = 2000"
definition PROOFS_MAX :: nat where "PROOFS_MAX = 4"

datatype decision_outcome = Applied | Declined | Deferred

fun outcome_str :: "decision_outcome \<Rightarrow> string" where
  "outcome_str Applied = ''applied''"
| "outcome_str Declined = ''declined''"
| "outcome_str Deferred = ''deferred''"

record decision =
  dc_outcome :: decision_outcome
  dc_note :: string

definition decision_checked :: "decision \<Rightarrow> string + decision" where
  "decision_checked d =
     (let note = trim (dc_note d) in
      if NOTE_MAX_CHARS < length (chars note) then Inl ''the note is longer than 2000 characters''
      else if list_ex (\<lambda>c. is_control c \<and> c \<noteq> [LF]) (chars note) then Inl ''the note holds a control character''
      else Inr \<lparr>dc_outcome = dc_outcome d, dc_note = note\<rparr>)"

datatype proof_spec =
    PolicySpec string
  | BudgetSpec "string option" "string option" "nat option"

record proof_record =
  pr_kind :: string
  pr_request :: json
  pr_result :: json

subsection \<open>Serialized proofs\<close>

definition outcomes_json :: "outcomes \<Rightarrow> json" where
  "outcomes_json o' = json_object
     [(''reproduced'', json_nat (oc_reproduced o')), (''approval_decided'', json_nat (oc_approval_decided o')),
      (''approval_spent'', json_nat (oc_approval_spent o')), (''approval_refused'', json_nat (oc_approval_refused o')),
      (''not_archived'', json_nat (oc_not_archived o')), (''unreadable'', json_nat (oc_unreadable o')),
      (''diverged'', json_nat (oc_diverged o'))]"

definition changed_row_json :: "changed_row \<Rightarrow> json" where
  "changed_row_json r = json_object
     [(''from'', JString (ch_from r)), (''to'', JString (ch_to r)), (''agent'', data_json (ch_agent r)),
      (''run'', data_json (ch_run r)), (''was'', data_json (ch_was r)), (''now'', data_json (ch_now r))]"

definition elsewhere_json :: "elsewhere \<Rightarrow> json" where
  "elsewhere_json e = json_object
     [(''tightened'', json_nat (ew_tightened e)), (''loosened'', json_nat (ew_loosened e)),
      (''reclassified'', json_nat (ew_reclassified e))]"

definition policy_proof_json :: "policy_proof \<Rightarrow> json" where
  "policy_proof_json p = json_object
     [(''replayed'', json_nat (pp_replayed p)), (''outcomes'', outcomes_json (pp_outcomes p)),
      (''trustworthy'', JBool (pp_trustworthy p)), (''candidate_given'', JBool (pp_candidate_given p)),
      (''stops_this_incident'', json_opt JBool (pp_stops_this_incident p)),
      (''incident_changes'', JArray (map changed_row_json (pp_incident_changes p))),
      (''elsewhere'', elsewhere_json (pp_elsewhere p)),
      (''elsewhere_changes'', JArray (map changed_row_json (pp_elsewhere_changes p)))]"

definition json_of_int :: "int \<Rightarrow> json" where
  "json_of_int i = JNum (idec i)"

definition candidate_json :: "budget_candidate \<Rightarrow> json" where
  "candidate_json c = json_object
     [(''per_run_micros'', json_opt json_of_int (bc_per_run_micros c)),
      (''per_step_micros'', json_opt json_of_int (bc_per_step_micros c)),
      (''max_steps'', json_opt json_nat (bc_max_steps c))]"

definition run_effect_json :: "run_effect \<Rightarrow> json" where
  "run_effect_json r = json_object
     [(''calls'', json_nat (re_calls r)), (''calls_blocked'', json_nat (re_calls_blocked r)),
      (''spent_micros'', json_of_int (re_spent_micros r)), (''saved_micros'', json_of_int (re_saved_micros r)),
      (''spent_after_micros'', json_of_int (re_spent_after_micros r))]"

definition budget_elsewhere_json :: "budget_elsewhere \<Rightarrow> json" where
  "budget_elsewhere_json e = json_object
     [(''runs'', json_nat (be_runs e)), (''runs_affected'', json_nat (be_runs_affected e)),
      (''calls'', json_nat (be_calls e)), (''calls_blocked'', json_nat (be_calls_blocked e)),
      (''saved_micros'', json_of_int (be_saved_micros e))]"

definition backtest_json :: "backtest_report \<Rightarrow> json" where
  "backtest_json r = json_object
     [(''runs_total'', json_nat (br_runs_total r)), (''runs_affected'', json_nat (br_runs_affected r)),
      (''calls_total'', json_nat (br_calls_total r)), (''calls_blocked'', json_nat (br_calls_blocked r)),
      (''spent_micros'', json_of_int (br_spent_micros r)), (''saved_micros'', json_of_int (br_saved_micros r))]"

definition budget_proof_json :: "budget_proof \<Rightarrow> json" where
  "budget_proof_json p = json_object
     [(''run'', data_json (bp_run p)), (''candidate'', candidate_json (bp_candidate p)),
      (''stops_this_incident'', JBool (bp_stops_this_incident p)), (''incident'', run_effect_json (bp_incident p)),
      (''elsewhere'', budget_elsewhere_json (bp_elsewhere p)), (''elsewhere_exact'', JBool (bp_elsewhere_exact p)),
      (''trace'', backtest_json (bp_trace p)), (''covers'', JString (bp_covers p))]"

text \<open>An internally tagged enum: the tag beside the fields.\<close>

definition tagged :: "string \<Rightarrow> (string \<times> json) list \<Rightarrow> json" where
  "tagged kind fields' = json_object ((''kind'', JString kind) # fields')"

fun proof_error_json :: "proof_error \<Rightarrow> json" where
  "proof_error_json (ProofNotConfigured missing) = tagged ''not_configured'' [(''missing'', JString missing)]"
| "proof_error_json (ProofIncident reason) = tagged ''incident'' [(''reason'', JString reason)]"
| "proof_error_json NoRun = tagged ''no_run'' []"
| "proof_error_json (CandidateRefused reason) = tagged ''candidate_refused'' [(''reason'', JString reason)]"
| "proof_error_json (RunRefused reason) = tagged ''run_refused'' [(''reason'', JString reason)]"
| "proof_error_json (NotInTrace r) = tagged ''not_in_trace'' [(''run'', data_json r)]"
| "proof_error_json (ProofSpawn detail) = tagged ''spawn'' [(''detail'', data_json detail)]"
| "proof_error_json (ProofBusy limit) = tagged ''busy'' [(''limit'', json_nat limit)]"
| "proof_error_json (ProofTimeout seconds) = tagged ''timeout'' [(''seconds'', json_nat seconds)]"
| "proof_error_json (ReplayFailed exit detail) =
     tagged ''replay_failed'' [(''exit'', json_opt json_of_int exit), (''detail'', data_json detail)]"
| "proof_error_json (ProofUnreadable reason) = tagged ''unreadable'' [(''reason'', JString reason)]"

definition proof_record_json :: "proof_record \<Rightarrow> json" where
  "proof_record_json r = json_object [(''kind'', JString (pr_kind r)), (''request'', pr_request r), (''result'', pr_result r)]"

subsection \<open>The pack\<close>

definition build_pack :: "case_file \<Rightarrow> proof_record list \<Rightarrow> decision \<Rightarrow> string \<Rightarrow> string \<Rightarrow> json" where
  "build_pack c proofs d sealed_by sealed_at = json_object
     [(''format'', JString PACK_FORMAT), (''case'', case_json c), (''proofs'', JArray (map proof_record_json proofs)),
      (''decision'', json_object
         [(''outcome'', JString (outcome_str (dc_outcome d))), (''note'', JString (dc_note d)), (''said_by'', JString sealed_by)]),
      (''sealed_by'', JString sealed_by), (''sealed_at'', JString sealed_at)]"

record sealed =
  sd_canonical :: string
  sd_digest :: string

datatype seal_error = PackNotCanonical jcs_error | PackTooLarge nat

definition digest_of_text :: "ingest_lib \<Rightarrow> string \<Rightarrow> string" where
  "digest_of_text X t = ''sha256:'' @ sha256_hex X t"

definition seal_value :: "ingest_lib \<Rightarrow> floats \<Rightarrow> json \<Rightarrow> seal_error + sealed" where
  "seal_value X F pack =
     (case canonical F pack of
        Inl e \<Rightarrow> Inl (PackNotCanonical e)
      | Inr t \<Rightarrow>
          if PACK_MAX_BYTES < length t then Inl (PackTooLarge (length t))
          else Inr \<lparr>sd_canonical = t, sd_digest = digest_of_text X t\<rparr>)"

datatype verify_error = VerifyNotJson | VerifyNotCanonical | VerifyWrongFormat | VerifyDigestDiffers string

definition verify :: "ingest_lib \<Rightarrow> floats \<Rightarrow> string \<Rightarrow> string \<Rightarrow> verify_error + unit" where
  "verify X F t digest =
     (case parse_json X t of
        Inl _ \<Rightarrow> Inl VerifyNotJson
      | Inr v \<Rightarrow>
          if canonical F v \<noteq> Inr t then Inl VerifyNotCanonical
          else if Option.bind (json_get v ''format'') json_str \<noteq> Some PACK_FORMAT then Inl VerifyWrongFormat
          else if digest_of_text X t \<noteq> digest then Inl (VerifyDigestDiffers (digest_of_text X t))
          else Inr ())"

definition lower_hex_digit :: "char \<Rightarrow> bool" where
  "lower_hex_digit b \<longleftrightarrow> ascii_digit b \<or> 97 \<le> (of_char b :: nat) \<and> (of_char b :: nat) \<le> 102"

definition is_digest :: "string \<Rightarrow> bool" where
  "is_digest digest =
     (case strip_prefix ''sha256:'' digest of
        None \<Rightarrow> False
      | Some h \<Rightarrow> length h = 64 \<and> list_all lower_hex_digit h)"

end
