(* ===== verification/Seal.thy ===== *)
theory Seal
  imports SealPack Delegation
begin

section \<open>Sealing a case\<close>

text \<open>
  \<open>crates/api/src/seal/commands.rs\<close>: the case and its proofs are made again, packed and canonicalised; the line in
  the chain is written first and the file second. The directory of packs is a map from paths to texts, what its
  operations answer is a parameter (\<open>pack_world\<close>), and each proof runs in a world of its own.
\<close>

definition CASE_CLOSE_ACTION :: string where "CASE_CLOSE_ACTION = ''console.case_close''"
definition PACKS_DIR :: string where "PACKS_DIR = ''case-packs''"

record seal_request =
  sq_incident_id :: string
  sq_proofs :: "proof_spec list"
  sq_decision :: decision

datatype seal_failure =
    SealRefused string
  | SealCase case_error
  | SealNotCanonical
  | SealTooLarge nat
  | SealNotJournaled string

record sealed_case =
  sc_digest :: string
  sc_bytes :: nat
  sc_stored :: bool
  sc_store_error :: "string option"
  sc_pack :: string

subsection \<open>The proofs\<close>

record proof_env =
  pe_amounts :: amounts
  pe_archive_var :: "string option"
  pe_source_events_dir :: "string option"
  pe_data_dir :: "string option"
  pe_world :: "nat \<Rightarrow> proof_world"

definition proof_result :: "('a \<Rightarrow> json) \<Rightarrow> proof_error + 'a \<Rightarrow> json" where
  "proof_result f r =
     (case r of
        Inr p \<Rightarrow> json_object [(''proof'', f p)]
      | Inl e \<Rightarrow> json_object [(''error'', proof_error_json e)])"

definition run_proof ::
  "ingest_lib \<Rightarrow> proof_env \<Rightarrow> nat \<Rightarrow> case_store option \<Rightarrow> string \<Rightarrow> slots \<Rightarrow> proof_spec \<Rightarrow> (slots \<times> proof_record) option" where
  "run_proof X E i store incident_id s spec =
     (case spec of
        PolicySpec candidate \<Rightarrow>
          map_option (\<lambda>(s', r).
            (s', \<lparr>pr_kind = ''policy'',
                  pr_request = json_object [(''incident_id'', JString incident_id), (''candidate'', JString candidate)],
                  pr_result = proof_result policy_proof_json r\<rparr>))
            (policy_proof_command X (pe_world E i) (pe_archive_var E) (pe_source_events_dir E) s store
              \<lparr>pq_incident_id = incident_id, pq_candidate = candidate\<rparr>)
      | BudgetSpec per_run per_step max_steps \<Rightarrow>
          map_option (\<lambda>(s', r).
            (s', \<lparr>pr_kind = ''budget'',
                  pr_request = json_object
                    [(''incident_id'', JString incident_id), (''per_run_usd'', json_opt JString per_run),
                     (''per_step_usd'', json_opt JString per_step), (''max_steps'', json_opt json_nat max_steps)],
                  pr_result = proof_result budget_proof_json r\<rparr>))
            (budget_proof_command X (pe_amounts E) (pe_world E i) (pe_data_dir E) s store
              \<lparr>bq_incident_id = incident_id, bq_per_run_usd = per_run, bq_per_step_usd = per_step,
               bq_max_steps = max_steps\<rparr>))"

fun run_proofs ::
  "ingest_lib \<Rightarrow> proof_env \<Rightarrow> nat \<Rightarrow> case_store option \<Rightarrow> string \<Rightarrow> slots \<Rightarrow> proof_spec list
    \<Rightarrow> (slots \<times> proof_record list) option" where
  "run_proofs X E i store incident_id s [] = Some (s, [])"
| "run_proofs X E i store incident_id s (spec # specs) =
     (case run_proof X E i store incident_id s spec of
        None \<Rightarrow> None
      | Some (s1, r) \<Rightarrow>
          map_option (\<lambda>(s2, rs). (s2, r # rs)) (run_proofs X E (Suc i) store incident_id s1 specs))"

subsection \<open>The file\<close>

type_synonym pack_files = "string \<rightharpoonup> string"

record pack_world =
  pk_pid :: nat
  pk_mkdir :: "string option"
  pk_read :: "string option"
  pk_create :: "string option"
  pk_exists :: string
  pk_write :: "string option"
  pk_rename :: "string option"

definition pack_path :: "string \<Rightarrow> string \<Rightarrow> string" where
  "pack_path dir h = path_join (path_join dir PACKS_DIR) (h @ ''.json'')"

definition temporary_path :: "string \<Rightarrow> string \<Rightarrow> nat \<Rightarrow> string" where
  "temporary_path dir h pid = path_join (path_join dir PACKS_DIR) (h @ ''.json.tmp-'' @ dec pid)"

text \<open>A write or a rename that fails takes the temporary file away again.\<close>

definition write_pack :: "pack_world \<Rightarrow> string \<Rightarrow> string \<Rightarrow> string \<Rightarrow> pack_files \<Rightarrow> pack_files \<times> (string + unit)" where
  "write_pack w temporary target content fs =
     (case (case pk_create w of Some e \<Rightarrow> Some e | None \<Rightarrow> if fs temporary = None then None else Some (pk_exists w)) of
        Some e \<Rightarrow> (fs, Inl e)
      | None \<Rightarrow>
          (case pk_write w of
             Some e \<Rightarrow> (fs(temporary := None), Inl e)
           | None \<Rightarrow>
               (case pk_rename w of
                  Some e \<Rightarrow> (fs(temporary := None), Inl e)
                | None \<Rightarrow> (fs(temporary := None, target \<mapsto> content), Inr ()))))"

definition store_pack :: "pack_world \<Rightarrow> string \<Rightarrow> sealed \<Rightarrow> pack_files \<Rightarrow> pack_files \<times> (string + unit)" where
  "store_pack w dir p fs =
     (case strip_prefix ''sha256:'' (sd_digest p) of
        None \<Rightarrow> (fs, Inl ''the digest is not a sha256'')
      | Some h \<Rightarrow>
          (case pk_mkdir w of
             Some e \<Rightarrow> (fs, Inl e)
           | None \<Rightarrow>
               (case fs (pack_path dir h) of
                  Some held \<Rightarrow>
                    (fs, case pk_read w of
                           Some e \<Rightarrow> Inl e
                         | None \<Rightarrow> if held = sd_canonical p then Inr ()
                                   else Inl ''a different document is already stored under this digest'')
                | None \<Rightarrow> write_pack w (temporary_path dir h (pk_pid w)) (pack_path dir h) (sd_canonical p) fs)))"

subsection \<open>The command\<close>

text \<open>The state of the console a seal touches.\<close>

record seal_state =
  ss_actions :: actions
  ss_files :: pack_files
  ss_slots :: slots

definition seal_journal :: "desk \<Rightarrow> string \<Rightarrow> json \<Rightarrow> string \<Rightarrow> actions \<Rightarrow> actions \<times> bool \<times> string option" where
  "seal_journal D digest params verify_result a =
     (case dk_bus D of
        None \<Rightarrow> (a, False, Some ''no live event bus'')
      | Some _ \<Rightarrow>
          desk_journal D
            (console_action_record (be_scope (dk_bus_env D)) (dk_org_env D) CASE_CLOSE_ACTION digest params verify_result) a)"

definition store_sealed ::
  "pack_world \<Rightarrow> string option \<Rightarrow> sealed \<Rightarrow> pack_files \<Rightarrow> pack_files \<times> bool \<times> string option" where
  "store_sealed w store_dir p fs =
     (case store_dir of
        None \<Rightarrow> (fs, False, Some ''the console has no store directory'')
      | Some dir \<Rightarrow>
          (case store_pack w dir p fs of
             (fs', Inr _) \<Rightarrow> (fs', True, None)
           | (fs', Inl e) \<Rightarrow> (fs', False, Some e)))"

definition seal_params :: "seal_request \<Rightarrow> case_file \<Rightarrow> sealed \<Rightarrow> proof_record list \<Rightarrow> decision \<Rightarrow> json" where
  "seal_params q c p records d = json_object
     [(''incident_id'', JString (sq_incident_id q)), (''case_digest'', JString (cf_digest c)),
      (''pack_bytes'', json_nat (length (sd_canonical p))), (''proofs'', json_nat (length records)),
      (''outcome'', JString (outcome_str (dc_outcome d)))]"

definition seal_pack ::
  "desk \<Rightarrow> floats \<Rightarrow> pack_world \<Rightarrow> string option \<Rightarrow> seal_request \<Rightarrow> decision \<Rightarrow> case_file \<Rightarrow> proof_record list \<Rightarrow> string
    \<Rightarrow> seal_state \<Rightarrow> seal_state \<times> (seal_failure + sealed_case)" where
  "seal_pack D F w store_dir q d c records sealed_at st =
     (case seal_value (be_lib (dk_bus_env D)) F (build_pack c records d (desk_actor D) sealed_at) of
        Inl (PackNotCanonical _) \<Rightarrow> (st, Inl SealNotCanonical)
      | Inl (PackTooLarge bytes) \<Rightarrow> (st, Inl (SealTooLarge bytes))
      | Inr p \<Rightarrow>
          (case seal_journal D (sd_digest p) (seal_params q c p records d) (''sealed:'' @ outcome_str (dc_outcome d))
                  (ss_actions st) of
             (a', journaled, why) \<Rightarrow>
               if \<not> journaled
               then (st\<lparr>ss_actions := a'\<rparr>, Inl (SealNotJournaled (case why of Some e \<Rightarrow> e | None \<Rightarrow> [])))
               else
                 (case store_sealed w store_dir p (ss_files st) of
                    (fs', stored, store_error) \<Rightarrow>
                      (st\<lparr>ss_actions := a', ss_files := fs'\<rparr>,
                       Inr \<lparr>sc_digest = sd_digest p, sc_bytes = length (sd_canonical p), sc_stored = stored,
                            sc_store_error = store_error, sc_pack = sd_canonical p\<rparr>))))"

definition case_seal_at ::
  "desk \<Rightarrow> floats \<Rightarrow> pack_world \<Rightarrow> proof_env \<Rightarrow> case_planes \<Rightarrow> string option \<Rightarrow> case_store option \<Rightarrow> seal_request \<Rightarrow> string
    \<Rightarrow> seal_state \<Rightarrow> (seal_state \<times> (seal_failure + sealed_case)) option" where
  "case_seal_at D F w E Q store_dir store q sealed_at st =
     (case decision_checked (sq_decision q) of
        Inl reason \<Rightarrow> Some (st, Inl (SealRefused reason))
      | Inr d \<Rightarrow>
          if PROOFS_MAX < length (sq_proofs q) then Some (st, Inl (SealRefused ''a pack holds at most four proofs''))
          else
            (case case_command (be_lib (dk_bus_env D)) Q store (sq_incident_id q) of
               Inl e \<Rightarrow> Some (st, Inl (SealCase e))
             | Inr c \<Rightarrow>
                 map_option (\<lambda>(s', records). seal_pack D F w store_dir q d c records sealed_at (st\<lparr>ss_slots := s'\<rparr>))
                   (run_proofs (be_lib (dk_bus_env D)) E 0 store (sq_incident_id q) (ss_slots st) (sq_proofs q))))"

subsection \<open>Reading a pack back\<close>

datatype pack_error = BadDigest | PackNoStore | PackNotFound | PackUnreadable string | NotThePack string

fun verify_words :: "verify_error \<Rightarrow> string" where
  "verify_words VerifyNotJson = ''the file is not JSON''"
| "verify_words VerifyNotCanonical = ''the file is not in canonical form''"
| "verify_words VerifyWrongFormat = ''the file is not a case pack''"
| "verify_words (VerifyDigestDiffers _) = ''the file hashes to another digest''"

text \<open>\<open>read_error\<close> is what reading a file that is there answers when it fails.\<close>

definition case_pack ::
  "ingest_lib \<Rightarrow> floats \<Rightarrow> string option \<Rightarrow> string \<Rightarrow> string option \<Rightarrow> pack_files \<Rightarrow> pack_error + string" where
  "case_pack X F read_error digest store_dir fs =
     (if \<not> is_digest digest then Inl BadDigest
      else
        (case store_dir of
           None \<Rightarrow> Inl PackNoStore
         | Some dir \<Rightarrow>
             (let h = (case strip_prefix ''sha256:'' digest of Some h \<Rightarrow> h | None \<Rightarrow> []) in
              case fs (pack_path dir h) of
                None \<Rightarrow> Inl PackNotFound
              | Some t \<Rightarrow>
                  (case read_error of
                     Some e \<Rightarrow> Inl (PackUnreadable e)
                   | None \<Rightarrow>
                       (case verify X F t digest of
                          Inl e \<Rightarrow> Inl (NotThePack (verify_words e))
                        | Inr _ \<Rightarrow> Inr t)))))"

end
