(* ===== verification/JcsFacts.thy ===== *)
theory JcsFacts
  imports Jcs
begin

section \<open>What a canonical text determines\<close>

text \<open>
  Two documents have the same canonical text exactly when they are the same up to the order of the members of an
  object and the spelling of a number. The writer of a normal form is a prefix code: what follows a value never
  changes where the value ends.
\<close>

subsection \<open>Normal forms\<close>

text \<open>The members sorted, the numbers as they are written.\<close>

function (sequential) normal :: "floats \<Rightarrow> json \<Rightarrow> json"
  and normal_members :: "floats \<Rightarrow> (string \<times> json) list \<Rightarrow> (string \<times> json) list"
  and normal_items :: "floats \<Rightarrow> json list \<Rightarrow> json list" where
  "normal F JNull = JNull"
| "normal F (JBool b) = JBool b"
| "normal F (JNum n) = JNum (case jcs_number F n of Inr t \<Rightarrow> t | Inl _ \<Rightarrow> [])"
| "normal F (JString s) = JString s"
| "normal F (JArray vs) = JArray (normal_items F vs)"
| "normal F (JObject ms) = JObject (normal_members F (sort_members ms))"
| "normal_members F [] = []"
| "normal_members F ((k, v) # ms) = (k, normal F v) # normal_members F ms"
| "normal_items F [] = []"
| "normal_items F (v # vs) = normal F v # normal_items F vs"
  by pat_completeness auto
termination
  by (relation "measure (\<lambda>x. case x of
        Inl (F, v) \<Rightarrow> size v
      | Inr (Inl (F, ms)) \<Rightarrow> size_list (size_prod (\<lambda>_. 0) size) ms
      | Inr (Inr (F, vs)) \<Rightarrow> size_list size vs)") auto

text \<open>The writer of a normal form.\<close>

fun put :: "json \<Rightarrow> string"
  and put_items :: "json list \<Rightarrow> string"
  and put_members :: "(string \<times> json) list \<Rightarrow> string" where
  "put JNull = ''null''"
| "put (JBool b) = (if b then ''true'' else ''false'')"
| "put (JNum n) = n"
| "put (JString s) = write_string s"
| "put (JArray vs) = (case vs of [] \<Rightarrow> ''[]'' | v # ws \<Rightarrow> ''['' @ put v @ put_items ws)"
| "put (JObject ms) = (case ms of [] \<Rightarrow> ''{}'' | (k, v) # ns \<Rightarrow> ''{'' @ write_string k @ '':'' @ put v @ put_members ns)"
| "put_items [] = '']''"
| "put_items (v # vs) = '','' @ put v @ put_items vs"
| "put_members [] = ''}''"
| "put_members ((k, v) # ms) = '','' @ write_string k @ '':'' @ put v @ put_members ms"


lemma written_normal:
  shows "write_value F v = Inr t \<Longrightarrow> t = put (normal F v)"
    and "write_items F first vs = Inr t \<Longrightarrow>
      (if first then (case normal_items F vs of [] \<Rightarrow> t = [] | n # ns \<Rightarrow> t @ '']'' = put n @ put_items ns)
       else t @ '']'' = put_items (normal_items F vs))"
    and "write_members F first ms = Inr t \<Longrightarrow>
      (if first then (case normal_members F ms of [] \<Rightarrow> t = []
                      | (k, n) # ns \<Rightarrow> t @ ''}'' = write_string k @ '':'' @ put n @ put_members ns)
       else t @ ''}'' = put_members (normal_members F ms))"
proof (induction F v and F first vs and F first ms arbitrary: t and t and t
    rule: write_value_write_items_write_members.induct)
  case (5 F items)
  then obtain out where "write_items F True items = Inr out" "t = ''['' @ out @ '']''" by (auto simp: result_iffs)
  with 5(1) [of out] show ?case by (auto split: list.splits)
next
  case (6 F ms)
  then obtain out where "write_members F True (sort_members ms) = Inr out" "t = ''{'' @ out @ ''}''"
    by (auto simp: result_iffs)
  with 6(1) [of out] show ?case by (auto split: list.splits)
next
  case (8 F first v vs)
  then obtain item rest where "write_value F v = Inr item" "write_items F False vs = Inr rest"
    "t = (if first then [] else '','') @ item @ rest" by (auto simp: result_iffs)
  with 8(1) [of item] 8(2) [of rest] show ?case by simp
next
  case (10 F first k v ms)
  then obtain item rest where "write_value F v = Inr item" "write_members F False ms = Inr rest"
    "t = (if first then [] else '','') @ write_string k @ '':'' @ item @ rest" by (auto simp: result_iffs)
  with 10(1) [of item] 10(2) [of rest] show ?case by simp
qed auto

subsection \<open>Strings end where they end\<close>

definition hex_value :: "char \<Rightarrow> nat" where
  "hex_value c = (if ascii_digit c then of_char c - 48 else of_char c - 87)"

text \<open>A reader of one escaped byte.\<close>

definition unescape :: "string \<Rightarrow> char \<times> string" where
  "unescape s =
     (if hd s \<noteq> BACKSLASH then (hd s, tl s)
      else if s ! 1 = CHR ''u'' then (char_of (16 * hex_value (s ! 4) + hex_value (s ! 5)), drop 6 s)
      else (if s ! 1 = CHR ''b'' then char_of (8 :: nat) else if s ! 1 = CHR ''t'' then char_of (9 :: nat)
            else if s ! 1 = CHR ''n'' then char_of (10 :: nat) else if s ! 1 = CHR ''f'' then char_of (12 :: nat)
            else if s ! 1 = CHR ''r'' then char_of (13 :: nat) else s ! 1, drop 2 s))"

definition LOW_CODES :: "nat list" where
  "LOW_CODES = [0..<32] @ [0x22, 0x5C]"

lemma LOW_CODES_listed:
  "LOW_CODES =
     [0, 1, 2, 3, 4, 5, 6, 7, 8, 9, 10, 11, 12, 13, 14, 15, 16, 17, 18, 19, 20, 21, 22, 23, 24, 25, 26, 27, 28, 29, 30, 31,
      0x22, 0x5C]"
  by code_simp

lemma low_codes_iff: "n \<in> set LOW_CODES \<longleftrightarrow> n < 32 \<or> n = 0x22 \<or> n = 0x5C"
  by (auto simp: LOW_CODES_def)

definition low_codes_ok :: bool where
  "low_codes_ok \<longleftrightarrow> list_all (\<lambda>n. unescape (write_char [char_of n]) = (char_of n, [])
     \<and> hd (write_char [char_of n]) = BACKSLASH \<and> length (write_char [char_of n]) \<in> {2, 6}
     \<and> (length (write_char [char_of n]) = 6 \<longleftrightarrow> write_char [char_of n] ! 1 = CHR ''u'')) LOW_CODES"

lemma escaped_chars: "char_of (34 :: nat) = CHR 0x22" "char_of (92 :: nat) = CHR 0x5C" "take_bit 8 (Suc (Suc 0)) = 2"
  by code_simp+

lemma low_codes: low_codes_ok
  by (simp add: low_codes_ok_def LOW_CODES_listed write_char_def unescape_def hex4_def hex_digits_def hex_value_def
      ascii_digit_def BACKSLASH_def DQUOTE_def of_char_of char_of_eq_iff escaped_chars)

lemma write_byte_plain:
  assumes "(of_char b :: nat) \<notin> set LOW_CODES"
  shows "write_char [b] = [b] \<and> b \<noteq> BACKSLASH \<and> b \<noteq> DQUOTE"
  using assms by (auto simp: low_codes_iff write_char_def BACKSLASH_def DQUOTE_def)

lemma unescape_write_byte: "unescape (write_char [b] @ r) = (b, r) \<and> hd (write_char [b] @ r) \<noteq> DQUOTE \<and> write_char [b] \<noteq> []"
proof (cases "(of_char b :: nat) \<in> set LOW_CODES")
  case True
  have "char_of (of_char b :: nat) = b" by simp
  then have l: "unescape (write_char [b]) = (b, [])" "hd (write_char [b]) = BACKSLASH" and
    two_or_six: "length (write_char [b]) = 2 \<or> length (write_char [b]) = 6" and
    u: "length (write_char [b]) = 6 \<longleftrightarrow> write_char [b] ! 1 = CHR ''u''"
    using low_codes [unfolded low_codes_ok_def list_all_iff, rule_format, OF True] by (metis insert_iff singletonD)+
  from two_or_six have n: "write_char [b] \<noteq> []" by auto
  have "unescape (write_char [b] @ r) = (fst (unescape (write_char [b])), r)"
  proof (cases "length (write_char [b]) = 6")
    case True
    with u l(2) n show ?thesis by (simp add: unescape_def nth_append)
  next
    case False
    with two_or_six have "length (write_char [b]) = 2" by simp
    with u l(2) n show ?thesis by (simp add: unescape_def nth_append)
  qed
  with l n show ?thesis by (simp add: BACKSLASH_def DQUOTE_def)
next
  case False
  with write_byte_plain [OF False] show ?thesis by (simp add: unescape_def)
qed

definition write_bytes :: "string \<Rightarrow> string" where
  "write_bytes s = concat (map (\<lambda>b. write_char [b]) s)"

lemma write_bytes_simps [simp]: "write_bytes [] = []" "write_bytes (b # bs) = write_char [b] @ write_bytes bs"
  by (simp_all add: write_bytes_def)

lemma write_bytes_cut: "write_bytes s @ DQUOTE # r = write_bytes s' @ DQUOTE # r' \<Longrightarrow> s = s' \<and> r = r'"
proof (induction s arbitrary: s')
  case Nil
  show ?case
  proof (cases s')
    case (Cons b bs)
    with Nil have "write_char [b] @ write_bytes bs @ DQUOTE # r' = DQUOTE # r" by simp
    then have "hd (write_char [b] @ write_bytes bs @ DQUOTE # r') = DQUOTE" by (metis list.sel(1))
    with unescape_write_byte show ?thesis by blast
  qed (use Nil in simp)
next
  case (Cons b bs)
  show ?case
  proof (cases s')
    case Nil
    with Cons.prems have "write_char [b] @ write_bytes bs @ DQUOTE # r = DQUOTE # r'" by simp
    then have "hd (write_char [b] @ write_bytes bs @ DQUOTE # r) = DQUOTE" by (metis list.sel(1))
    with unescape_write_byte show ?thesis by blast
  next
    case s': (Cons b' bs')
    with Cons.prems have "unescape (write_char [b] @ write_bytes bs @ DQUOTE # r)
        = unescape (write_char [b'] @ write_bytes bs' @ DQUOTE # r')" by simp
    then have "b = b'" "write_bytes bs @ DQUOTE # r = write_bytes bs' @ DQUOTE # r'"
      by (simp_all add: unescape_write_byte)
    with Cons.IH [of bs'] s' show ?thesis by blast
  qed
qed

lemma concat_concat_map: "concat (concat (map (map f) xss)) = concat (map (\<lambda>xs. concat (map f xs)) xss)"
  by (induction xss) simp_all

lemma write_string_bytes:
  assumes "valid_str s"
  shows "write_string s = DQUOTE # write_bytes s @ [DQUOTE]"
proof -
  have one: "write_char c = concat (map (\<lambda>b. write_char [b]) c)" if c: "c \<in> set (chars s)" for c
  proof (cases "\<exists>a \<in> set c. (of_char a :: nat) < 128")
    case True
    then obtain a where "a \<in> set c" "(of_char a :: nat) < 128" by blast
    with whole_char_ascii [OF c] assms c have "c = [a]" by (simp add: valid_str_def list_all_iff)
    then show ?thesis by simp
  next
    case False
    then have "concat (map (\<lambda>b. write_char [b]) c) = c"
      by (induction c) (auto simp: write_char_def)
    moreover have "write_char c = c" using False by (auto simp: write_char_def split: list.splits)
    ultimately show ?thesis by simp
  qed
  have "concat (map (\<lambda>b. write_char [b]) s) = concat (map (\<lambda>b. write_char [b]) (concat (chars s)))" by simp
  also have "\<dots> = concat (map (\<lambda>c. concat (map (\<lambda>b. write_char [b]) c)) (chars s))"
    unfolding map_concat concat_concat_map by (rule refl)
  also have "\<dots> = concat (map write_char (chars s))" using one by (metis (no_types, lifting) map_eq_conv)
  finally show ?thesis by (simp add: write_string_def write_bytes_def)
qed

lemma write_string_cut:
  assumes "valid_str s" and "valid_str s'" and "write_string s @ r = write_string s' @ r'"
  shows "s = s' \<and> r = r'"
  using assms(3) write_bytes_cut [of s r s' r'] unfolding write_string_bytes [OF assms(1)] write_string_bytes [OF assms(2)]
  by simp

subsection \<open>Values end where they end\<close>

definition num_char :: "char \<Rightarrow> bool" where
  "num_char c \<longleftrightarrow> ascii_digit c \<or> c \<in> set ''+-.e''"

definition num_text :: "string \<Rightarrow> bool" where
  "num_text t \<longleftrightarrow> t \<noteq> [] \<and> list_all num_char t \<and> (ascii_digit (hd t) \<or> hd t = CHR ''-'')"

fun put_ok :: "json \<Rightarrow> bool" where
  "put_ok JNull \<longleftrightarrow> True"
| "put_ok (JBool b) \<longleftrightarrow> True"
| "put_ok (JNum n) \<longleftrightarrow> num_text n"
| "put_ok (JString s) \<longleftrightarrow> valid_str s"
| "put_ok (JArray vs) \<longleftrightarrow> (\<forall>v \<in> set vs. put_ok v)"
| "put_ok (JObject ms) \<longleftrightarrow> (\<forall>m \<in> set ms. valid_str (fst m) \<and> put_ok (snd m))"

definition delim :: "string \<Rightarrow> bool" where
  "delim r \<longleftrightarrow> r = [] \<or> hd r \<in> set '',]}''"

fun first_of :: "json \<Rightarrow> char" where
  "first_of JNull = CHR ''n''"
| "first_of (JBool b) = (if b then CHR ''t'' else CHR ''f'')"
| "first_of (JNum n) = hd n"
| "first_of (JString s) = DQUOTE"
| "first_of (JArray vs) = CHR ''[''"
| "first_of (JObject ms) = CHR ''{''"

lemma put_first: "put_ok v \<Longrightarrow> put v \<noteq> [] \<and> hd (put v @ r) = first_of v"
  by (cases v) (auto simp: write_string_def num_text_def split: list.splits)

lemma digit_first: "num_text n \<Longrightarrow> hd n \<notin> set ''ntf[{]}'' \<and> hd n \<noteq> DQUOTE"
  by (auto simp: num_text_def ascii_digit_def DQUOTE_def)

lemma first_differs:
  assumes "put v @ r = put w @ r'" and "put_ok v" and "put_ok w"
  shows "first_of v = first_of w"
  using assms put_first by metis

lemma first_not_close: "put_ok v \<Longrightarrow> put v @ r \<noteq> CHR '']'' # r' \<and> put v @ r \<noteq> CHR ''}'' # r'"
  (is "_ \<Longrightarrow> ?thesis")
proof (rule ccontr)
  assume "put_ok v" and not: "\<not> ?thesis"
  then have "first_of v = CHR '']'' \<or> first_of v = CHR ''}''" using put_first [of v r] by (metis list.sel(1))
  with \<open>put_ok v\<close> show False using digit_first by (cases v) (fastforce simp: DQUOTE_def split: if_splits)+
qed

lemma num_cut:
  assumes "n @ r = m @ r'" and "num_text n" and "num_text m" and "delim r" and "delim r'"
  shows "n = m \<and> r = r'"
proof -
  have stop: "takeWhile num_char (k @ q) = k" if "num_text k" "delim q" for k q
  proof -
    have "\<not> num_char c" if "c \<in> set '',]}''" for c
      using that by (auto simp: num_char_def ascii_digit_def)
    then have "takeWhile num_char q = []" using \<open>delim q\<close> by (cases q) (auto simp: delim_def)
    moreover have "\<forall>c \<in> set k. num_char c" using \<open>num_text k\<close> by (simp add: num_text_def list_all_iff)
    ultimately show ?thesis by (simp add: takeWhile_append2)
  qed
  from assms stop [of n r] stop [of m r'] have "n = m" by simp
  with assms(1) show ?thesis by simp
qed

lemma close_delim [simp]:
  "delim ('']'' @ r)" "delim (CHR '']'' # r)" "delim ('','' @ r)" "delim (CHR '','' # r)" "delim (''}'' @ r)" "delim (CHR ''}'' # r)"
  by (simp_all add: delim_def)

lemma put_tail_delim [simp]: "delim (put_items vs @ r)" "delim (put_members ms @ r)"
proof -
  show "delim (put_items vs @ r)" by (cases vs) simp_all
  show "delim (put_members ms @ r)" by (cases ms) auto
qed

lemma put_cut:
  shows "put v @ r = put w @ r' \<Longrightarrow> put_ok v \<Longrightarrow> put_ok w \<Longrightarrow> delim r \<Longrightarrow> delim r' \<Longrightarrow> v = w \<and> r = r'"
    and "put_items vs @ r = put_items ws @ r' \<Longrightarrow> put_ok (JArray vs) \<Longrightarrow> put_ok (JArray ws) \<Longrightarrow> vs = ws \<and> r = r'"
    and "put_members ms @ r = put_members ns @ r' \<Longrightarrow> put_ok (JObject ms) \<Longrightarrow> put_ok (JObject ns) \<Longrightarrow> ms = ns \<and> r = r'"
proof (induction v and vs and ms arbitrary: w r r' and ws r r' and ns r r' rule: put_put_items_put_members.induct)
  case 1
  with first_differs [OF 1(1-3)] show ?case
    by (cases w) (auto simp: DQUOTE_def dest!: digit_first split: if_splits)
next
  case (2 b)
  with first_differs [OF 2(1-3)] show ?case
    by (cases w) (auto simp: DQUOTE_def dest!: digit_first split: if_splits)
next
  case (3 n)
  from first_differs [OF 3(1-3)] 3(2,3) obtain m where "w = JNum m"
    by (cases w) (auto dest: digit_first split: if_splits)
  with 3 num_cut [of n r m r'] show ?case by simp
next
  case (4 s)
  from first_differs [OF 4(1-3)] 4(2,3) obtain t where "w = JString t"
    by (cases w) (auto simp: DQUOTE_def dest: digit_first split: if_splits)
  with 4 write_string_cut [of s t r r'] show ?case by simp
next
  case (5 vs)
  from first_differs [OF 5(3-5)] 5(5) obtain ws where w: "w = JArray ws"
    by (cases w) (auto simp: DQUOTE_def dest: digit_first split: if_splits)
  show ?case
  proof (cases vs)
    case Nil
    with w 5(3,5) first_not_close show ?thesis by (cases ws) (auto, metis)
  next
    case vs: (Cons x xs)
    show ?thesis
    proof (cases ws)
      case Nil
      with vs w 5(3,4) first_not_close [of x] show ?thesis by auto
    next
      case ws: (Cons y ys)
      with vs w 5(3) have "put x @ put_items xs @ r = put y @ put_items ys @ r'" by simp
      with 5(1) [OF vs this] 5(4,5) vs ws w have "x = y" "put_items xs @ r = put_items ys @ r'" by auto
      with 5(2) [OF vs this(2)] 5(4,5) vs ws w show ?thesis by auto
    qed
  qed
next
  case (6 ms)
  from first_differs [OF 6(3-5)] 6(5) obtain ns where w: "w = JObject ns"
    by (cases w) (auto simp: DQUOTE_def dest: digit_first split: if_splits)
  show ?case
  proof (cases ms)
    case Nil
    with w 6(3,5) show ?thesis by (cases ns) (auto simp: write_string_def DQUOTE_def)
  next
    case ms: (Cons m ms')
    obtain k x where m: "m = (k, x)" by (cases m)
    show ?thesis
    proof (cases ns)
      case Nil
      with ms m w 6(3) show ?thesis by (auto simp: write_string_def DQUOTE_def)
    next
      case ns: (Cons n ns')
      obtain l y where n: "n = (l, y)" by (cases n)
      have "write_string k @ '':'' @ put x @ put_members ms' @ r = write_string l @ '':'' @ put y @ put_members ns' @ r'"
        using 6(3) ms m ns n w by simp
      then have kl: "k = l" and e: "put x @ put_members ms' @ r = put y @ put_members ns' @ r'"
        using write_string_cut [of k l] 6(4,5) ms m ns n w by auto
      from 6(1) [OF ms m [symmetric] e] 6(4,5) ms m ns n w have "x = y" "put_members ms' @ r = put_members ns' @ r'" by auto
      with 6(2) [OF ms m [symmetric] this(2)] 6(4,5) kl ms m ns n w show ?thesis by auto
    qed
  qed
next
  case 7
  then show ?case by (cases ws) auto
next
  case (8 x xs)
  show ?case
  proof (cases ws)
    case Nil
    with 8(3) show ?thesis by auto
  next
    case ws: (Cons y ys)
    with 8(3) have "put x @ put_items xs @ r = put y @ put_items ys @ r'" by simp
    with 8(1) [OF this] 8(4,5) ws have "x = y" "put_items xs @ r = put_items ys @ r'" by auto
    with 8(2) [OF this(2)] 8(4,5) ws show ?thesis by auto
  qed
next
  case 9
  then show ?case by (cases ns) auto
next
  case (10 k x ms)
  show ?case
  proof (cases ns)
    case Nil
    with 10(3) show ?thesis by auto
  next
    case ns: (Cons n ns')
    obtain l y where n: "n = (l, y)" by (cases n)
    have "write_string k @ '':'' @ put x @ put_members ms @ r = write_string l @ '':'' @ put y @ put_members ns' @ r'"
      using 10(3) ns n by simp
    then have kl: "k = l" and e: "put x @ put_members ms @ r = put y @ put_members ns' @ r'"
      using write_string_cut [of k l] 10(4,5) ns n by auto
    from 10(1) [OF e] 10(4,5) ns n have "x = y" "put_members ms @ r = put_members ns' @ r'" by auto
    with 10(2) [OF this(2)] 10(4,5) kl ns n show ?thesis by auto
  qed
qed

subsection \<open>The canonical text\<close>

text \<open>What \<open>{:e}\<close> is documented to print of a finite double that is not zero: a digit, perhaps a point and more digits,
  and an exponent behind an \<open>e\<close>.\<close>

definition floats_ok :: "floats \<Rightarrow> bool" where
  "floats_ok F \<longleftrightarrow> (\<forall>t. \<not> fl_zero F t \<longrightarrow>
     (\<exists>d ds e. list_all ascii_digit (d # ds)
        \<and> fl_scientific F t = d # (if ds = [] then [] else ''.'' @ ds) @ ''e'' @ e))"

fun strings_valid :: "json \<Rightarrow> bool" where
  "strings_valid (JString s) \<longleftrightarrow> valid_str s"
| "strings_valid (JArray vs) \<longleftrightarrow> (\<forall>v \<in> set vs. strings_valid v)"
| "strings_valid (JObject ms) \<longleftrightarrow> (\<forall>m \<in> set ms. valid_str (fst m) \<and> strings_valid (snd m))"
| "strings_valid _ \<longleftrightarrow> True"

lemma digits_num: "list_all ascii_digit s \<Longrightarrow> list_all num_char s"
  by (simp add: list_all_iff num_char_def)

lemma idec_num: "num_text (idec i)"
proof -
  have "list_all num_char (dec n)" "dec n \<noteq> []" "ascii_digit (hd (dec n))" for n
    using dec_digits [of n] digits_num [of "dec n"] by (simp_all add: list_all_iff)
  then show ?thesis by (simp add: idec_def num_text_def num_char_def)
qed

lemma es6_body_num:
  assumes "list_all ascii_digit ds" and "ds \<noteq> []"
  shows "list_all num_char (es6_body ds n) \<and> es6_body ds n \<noteq> [] \<and> ascii_digit (hd (es6_body ds n))"
proof -
  have all: "list_all num_char ds" using assms(1) by (rule digits_num)
  have z: "list_all num_char (zeros k)" for k by (simp add: zeros_def list_all_iff num_char_def ascii_digit_def)
  have i: "list_all num_char (idec k)" for k using idec_num [of k] by (simp add: num_text_def)
  have tk: "list_all num_char (take k ds)" "list_all num_char (drop k ds)" for k
    using all by (auto simp: list_all_iff dest: in_set_takeD in_set_dropD)
  have c: "num_char (CHR ''.'')" "num_char (CHR ''0'')" "num_char (CHR ''e'')" "num_char (CHR ''+'')" "num_char (CHR ''-'')"
    by (simp_all add: num_char_def ascii_digit_def)
  have d: "ascii_digit (hd ds)" "ascii_digit (CHR ''0'')"
    using assms by (cases ds) (simp_all add: ascii_digit_def)
  have nz: "0 < n \<Longrightarrow> take (nat n) ds \<noteq> [] \<and> hd (take (nat n) ds) = hd ds" using assms(2) by (cases ds; cases "nat n") auto
  have one: "take 1 ds \<noteq> [] \<and> hd (take 1 ds) = hd ds" using assms(2) by (cases ds) auto
  show ?thesis
    using all z i tk c d assms(2) nz one by (simp add: es6_body_def Let_def hd_append)
qed

lemma es6_num:
  assumes "floats_ok F"
  shows "num_text (es6_number F t)"
proof (cases "fl_zero F t")
  case False
  with assms obtain d ds e where d: "list_all ascii_digit (d # ds)"
    and sci: "fl_scientific F t = d # (if ds = [] then [] else ''.'' @ ds) @ ''e'' @ e"
    unfolding floats_ok_def by blast
  let ?m = "d # (if ds = [] then [] else ''.'' @ ds)"
  have noe: "CHR ''e'' \<notin> set ?m" using d by (auto simp: list_all_iff ascii_digit_def split: if_splits)
  have "fl_scientific F t = ?m @ CHR ''e'' # e" using sci by simp
  then have sp: "split_once (CHR ''e'') (fl_scientific F t) = Some (?m, e)"
    using split_once_append [OF noe] by metis
  have nopoint: "\<forall>c \<in> set (d # ds). c \<noteq> CHR ''.''" using d by (auto simp: list_all_iff ascii_digit_def)
  then have "filter (\<lambda>c. c \<noteq> CHR ''.'') (d # ds) = d # ds" by (simp only: filter_True)
  then have fl: "filter (\<lambda>c. c \<noteq> CHR ''.'') ?m = d # ds" by (auto split: if_splits)
  have m: "num_char (CHR ''-'')" by (simp add: num_char_def)
  obtain n where "es6_number F t = (if fl_negative F t then ''-'' else []) @ es6_body (d # ds) n"
    using False sp fl by (simp add: es6_number_def Let_def)
  with es6_body_num [OF d, of n] m show ?thesis by (auto simp: num_text_def hd_append)
qed (simp add: es6_number_def num_text_def num_char_def ascii_digit_def)

lemma jcs_number_num: "floats_ok F \<Longrightarrow> jcs_number F n = Inr t \<Longrightarrow> num_text t"
  using idec_num es6_num by (auto simp: jcs_number_def split: option.splits if_splits)

lemma normal_ok:
  shows "write_value F v = Inr t \<Longrightarrow> floats_ok F \<Longrightarrow> strings_valid v \<Longrightarrow> put_ok (normal F v)"
    and "write_items F first vs = Inr t \<Longrightarrow> floats_ok F \<Longrightarrow> strings_valid (JArray vs) \<Longrightarrow> put_ok (JArray (normal_items F vs))"
    and "write_members F first ms = Inr t \<Longrightarrow> floats_ok F \<Longrightarrow> strings_valid (JObject ms)
      \<Longrightarrow> put_ok (JObject (normal_members F ms))"
proof (induction F v and F first vs and F first ms arbitrary: t and t and t
    rule: write_value_write_items_write_members.induct)
  case (3 F n)
  then show ?case using jcs_number_num [of F n t] by simp
qed (auto simp: result_iffs sort_members_def)

text \<open>C38. The canonical text is the document. Two documents that have a canonical form have the same text exactly when
  they are equal once members are sorted and numbers written out: nothing else is lost in the text, so a digest of it
  stands for one document.\<close>

theorem canonical_determines:
  assumes "floats_ok F" and "strings_valid v" and "strings_valid w" and "canonical F v = Inr t" and "canonical F w = Inr u"
  shows "t = u \<longleftrightarrow> normal F v = normal F w"
proof -
  have tu: "t = put (normal F v)" "u = put (normal F w)" using assms(4,5) written_normal(1) by (simp_all add: canonical_def)
  have "put_ok (normal F v)" "put_ok (normal F w)" using assms normal_ok(1) by (simp_all add: canonical_def)
  with put_cut(1) [of "normal F v" "[]" "normal F w" "[]"] tu show ?thesis by (auto simp: delim_def)
qed

text \<open>The order of members does not matter: two objects with the same members, whose names differ, have the same
  canonical text, or both have none.\<close>

theorem member_order_irrelevant:
  assumes "mset ms = mset ms'" and "inj_on encode_utf16 (fst ` set ms)" and "distinct (map fst ms)"
  shows "canonical F (JObject ms) = canonical F (JObject ms')"
proof -
  have "inj_on (\<lambda>m. encode_utf16 (fst m)) (set ms)"
    using assms(2,3) by (auto simp: inj_on_def distinct_map)
  then have "sort_members ms = sort_members ms'" unfolding sort_members_def
    by (rule sort_key_inj_key_eq [rotated]) (simp_all add: assms(1))
  then show ?thesis by (simp add: canonical_def)
qed

text \<open>An integer has a canonical form exactly when a double holds it, and it is then its decimal digits.\<close>

lemma integers_exact_or_refused:
  assumes "- (2 ^ 63) \<le> i" and "i < 2 ^ 64"
  shows "canonical F (JNum (idec i)) = (if \<bar>i\<bar> \<le> MAX_EXACT_INT then Inr (idec i) else Inl IntegerNotExact)"
proof -
  have d: "dec n \<noteq> [] \<and> list_all ascii_digit (dec n) \<and> digits_value (dec n) = n" for n by (rule dec_digits)
  have "\<not> ascii_digit (CHR ''-'')" by (simp add: ascii_digit_def)
  then have "hd (dec n) \<noteq> CHR ''-''" for n using d [of n] by (cases "dec n") auto
  then have "num_int (idec i) = Some i" using d [of "nat i"] d [of "nat (- i)"]
    by (cases "i < 0"; cases "dec (nat i)") (simp_all add: num_int_def idec_def, metis list.sel(1))
  then show ?thesis using assms
    by (auto simp: canonical_def jcs_number_def as_i64_def as_u64_def MAX_EXACT_INT_def)
qed


subsection \<open>How long a canonical text is\<close>

text \<open>A document whose numbers are integers a double holds, and a bound on its text: six bytes for a byte of a string.\<close>

fun exact :: "json \<Rightarrow> bool" where
  "exact (JNum n) = (case num_int n of None \<Rightarrow> False | Some i \<Rightarrow> - MAX_EXACT_INT \<le> i \<and> i \<le> MAX_EXACT_INT)"
| "exact (JArray vs) = list_all exact vs"
| "exact (JObject ms) = list_all (\<lambda>m. exact (snd m)) ms"
| "exact _ = True"

fun text_bound :: "json \<Rightarrow> nat" where
  "text_bound (JNum n) = (case num_int n of None \<Rightarrow> 0 | Some i \<Rightarrow> length (idec i))"
| "text_bound (JString s) = 2 + 6 * length s"
| "text_bound (JArray vs) = 2 + sum_list (map (\<lambda>v. 1 + text_bound v) vs)"
| "text_bound (JObject ms) = 2 + sum_list (map (\<lambda>m. 4 + 6 * length (fst m) + text_bound (snd m)) ms)"
| "text_bound _ = 5"

lemma length_write_char: "length (write_char c) \<le> 6 * length c"
  by (cases c rule: list.exhaust; cases "tl c") (simp_all add: write_char_def hex4_def)

lemma length_write_string: "length (write_string s) \<le> 2 + 6 * length s"
proof -
  have "length (concat (map write_char cs)) \<le> 6 * length (concat cs)" for cs
    using length_write_char by (induction cs) (auto intro: add_mono simp: algebra_simps)
  then have "length (concat (map write_char (chars s))) \<le> 6 * length s" by (metis concat_chars)
  then show ?thesis by (simp add: write_string_def del: length_concat)
qed

lemma mset_sort_members: "mset (sort_members ms) = mset ms"
  by (simp add: sort_members_def)

lemma sum_sort_members: "sum_list (map f (sort_members ms)) = (sum_list (map f ms) :: nat)"
  by (metis mset_sort_members mset_map sum_mset_sum_list)

lemma written_exact:
  shows "exact v \<Longrightarrow> \<exists>t. write_value F v = Inr t \<and> length t \<le> text_bound v"
    and "list_all exact vs \<Longrightarrow> \<exists>t. write_items F first vs = Inr t \<and> length t \<le> sum_list (map (\<lambda>v. 1 + text_bound v) vs)"
    and "list_all (\<lambda>m. exact (snd m)) ms \<Longrightarrow>
      \<exists>t. write_members F first ms = Inr t \<and> length t \<le> sum_list (map (\<lambda>m. 4 + 6 * length (fst m) + text_bound (snd m)) ms)"
proof (induction F v and F first vs and F first ms rule: write_value_write_items_write_members.induct)
  case (3 F n)
  then obtain i where i: "num_int n = Some i" "- MAX_EXACT_INT \<le> i" "i \<le> MAX_EXACT_INT" by (auto split: option.splits)
  then have "as_i64 n = Some i" by (simp add: as_i64_def MAX_EXACT_INT_def)
  with i show ?case by (simp add: jcs_number_def abs_le_iff)
next
  case (4 F s)
  then show ?case using length_write_string [of s] by simp
next
  case (5 F items)
  then show ?case by (fastforce simp: ebind_def)
next
  case (6 F ms)
  have "list_all (\<lambda>m. exact (snd m)) (sort_members ms)" using 6(2) by (simp add: list_all_iff sort_members_def)
  with 6(1) obtain t where "write_members F True (sort_members ms) = Inr t"
    "length t \<le> sum_list (map (\<lambda>m. 4 + 6 * length (fst m) + text_bound (snd m)) (sort_members ms))" by blast
  then show ?case by (simp add: sum_sort_members ebind_def)
next
  case (8 F first v vs)
  then show ?case by (fastforce simp: ebind_def)
next
  case (10 F first k v ms)
  then show ?case using length_write_string [of k] by (fastforce simp: ebind_def)
qed simp_all

text \<open>A document whose numbers are integers a double holds has a canonical text, and that text is no longer than six
  bytes for each byte of its strings and a few for each item: only a number can refuse a document, and a bound on the
  document bounds its text.\<close>

theorem exact_document_has_text:
  assumes "exact v"
  shows "\<exists>t. canonical F v = Inr t \<and> length t \<le> text_bound v"
  unfolding canonical_def by (rule written_exact(1) [OF assms])

end
