(* ===== verification/ProofFacts.thy ===== *)
theory ProofFacts
  imports ProofRun "HOL-Library.Multiset"
begin

section \<open>What a policy proof rests on\<close>

text \<open>
  However proofs start and end, no more run than there are slots, and a slot comes back whatever became of its
  proof; the wait for the child ends at the deadline; and a proof holds the numbers of one report that adds up,
  split between the run of the incident and the rest.
\<close>

subsection \<open>Slots under any interleaving\<close>

text \<open>A proof takes a slot in one step and drops the guard in a later one; only a holder can drop.\<close>

datatype 'p slot_event = Takes 'p | Drops 'p

fun slot_move :: "slots \<times> 'p set \<Rightarrow> 'p slot_event \<Rightarrow> (slots \<times> 'p set) \<times> bool" where
  "slot_move (s, holders) (Takes p) =
     (if p \<in> holders then ((s, holders), False)
      else (case try_acquire s of
              (s', Inl _) \<Rightarrow> ((s', holders), False)
            | (s', Inr _) \<Rightarrow> ((s', insert p holders), True)))"
| "slot_move (s, holders) (Drops p) =
     (if p \<in> holders then ((slot_drop s, holders - {p}), True) else ((s, holders), False))"

definition slots_ok :: "nat \<Rightarrow> slots \<times> 'p set \<Rightarrow> bool" where
  "slots_ok limit x = (case x of (s, holders) \<Rightarrow>
     sl_limit s = limit \<and> finite holders \<and> sl_in_use s = card holders \<and> card holders \<le> limit)"

interpretation slot_machine: invariant_machine slot_move "slots_ok limit" for limit
proof
  fix x :: "slots \<times> 'p set" and e
  assume "slots_ok limit x"
  then show "slots_ok limit (fst (slot_move x e))"
    by (cases x; cases e)
      (auto simp: slots_ok_def try_acquire_def slot_drop_def card_insert_if card_Diff_singleton_if)
qed

text \<open>C34. Slots bound the proofs. However many callers take and drop slots in whatever order, the count is the number
  of holders and never more than the limit; and a caller is refused exactly when the limit is reached.\<close>

theorem slots_bound_proofs:
  "case fst (run slot_move (slots_new limit, {}) es) of (s, holders) \<Rightarrow>
     finite (holders :: 'p set) \<and> sl_in_use s = card holders \<and> card holders \<le> limit
   \<and> (snd (try_acquire s) = Inr () \<longleftrightarrow> card holders < limit)
   \<and> (snd (try_acquire s) = Inl limit \<longleftrightarrow> card holders = limit)"
proof -
  have "slots_ok limit (slots_new limit, {})" by (simp add: slots_ok_def slots_new_def)
  then have "slots_ok limit (fst (run slot_move (slots_new limit, {} :: 'p set) es))" by (rule slot_machine.inv_run)
  then show ?thesis by (auto simp: slots_ok_def try_acquire_def split: prod.splits)
qed

subsection \<open>The wait for the child\<close>

lemma wait_child_ends:
  assumes "deadline \<le> cd_now c (k + n)"
  shows "\<exists>r. wait_child c deadline seconds k = Some r"
  using assms
proof (induction n arbitrary: k)
  case 0
  then show ?case by (subst wait_child.simps) (auto split: sum.splits option.splits)
next
  case (Suc n)
  then obtain r where "wait_child c deadline seconds (k + 1) = Some r" by fastforce
  then show ?case by (subst wait_child.simps) (auto split: sum.splits option.splits)
qed

text \<open>A clock that reaches the deadline while a child is polled.\<close>

definition clock_reaches :: "spawner \<Rightarrow> time \<Rightarrow> bool" where
  "clock_reaches spawn deadline \<longleftrightarrow>
     (\<forall>bin args extra c. spawn bin args extra = Inr c \<longrightarrow> (\<exists>k. deadline \<le> cd_now c k))"

lemma run_bounded_ends:
  assumes "clock_reaches spawn deadline"
  shows "\<exists>r. run_bounded spawn bin args extra deadline seconds = Some r"
proof (cases "spawn bin args extra")
  case (Inr c)
  with assms obtain k where "deadline \<le> cd_now c k" unfolding clock_reaches_def by blast
  then obtain r where "wait_child c deadline seconds 0 = Some r" using wait_child_ends [of deadline c 0 k] by auto
  with Inr show ?thesis by (cases r) (simp_all add: run_bounded_def)
qed (simp add: run_bounded_def)

lemma acquire_drop: "try_acquire s = (s', Inr u) \<Longrightarrow> slot_drop s' = s"
  by (auto simp: try_acquire_def slot_drop_def split: if_splits)

lemma acquire_refused: "try_acquire s = (s', Inl l) \<Longrightarrow> s' = s \<and> sl_limit s \<le> sl_in_use s \<and> l = sl_limit s"
  by (auto simp: try_acquire_def split: if_splits)

lemma wait_child_not_busy:
  assumes "wait_child c deadline seconds k = Some r"
  shows "r \<noteq> Inl (ProofBusy l)"
  by (rule wait_child.raw_induct [where P = "\<lambda>c d s k r. r \<noteq> Inl (ProofBusy l)", OF _ assms])
    (auto split: sum.splits option.splits if_splits)

lemma run_bounded_not_busy: "run_bounded spawn bin args extra deadline seconds \<noteq> Some (Inl (ProofBusy l))"
  using wait_child_not_busy [of _ deadline seconds 0 "Inl (ProofBusy l)" l] by (auto simp: run_bounded_def split: sum.splits option.splits)

lemma replay_not_busy: "replay_candidate W config inputs timeout = Some r \<Longrightarrow> r \<noteq> Inl (ProofBusy l)"
  using run_bounded_not_busy
  by (auto simp: replay_candidate_def run_replay_def read_replay_def ebind_def
      split: prod.splits sum.splits option.splits parse_error.splits)


subsection \<open>Both halves of a proof\<close>

definition report_ok :: "replay_report \<Rightarrow> bool" where
  "report_ok report \<longleftrightarrow>
     outcomes_total (rp_outcomes report) = rp_replayed report
   \<and> (case rp_candidate report of
        None \<Rightarrow> True
      | Some c \<Rightarrow> length (cn_rows c) = cn_changed c
          \<and> cn_replayable c = outcomes_replayable (rp_outcomes report)
          \<and> list_all (\<lambda>r. is_verdict (ch_from r) \<and> is_verdict (ch_to r)) (cn_rows c))"

lemma row_at_verdicts: "row_at ls = Some r \<Longrightarrow> is_verdict (ch_from r) \<and> is_verdict (ch_to r)"
  by (auto simp: row_at_def row_of_lines_def Let_def split: list.splits option.splits prod.splits if_splits)

lemma candidate_rows_verdicts:
  "list_all (\<lambda>r. is_verdict (ch_from r) \<and> is_verdict (ch_to r)) (candidate_rows ls)"
  by (induction ls rule: candidate_rows.induct) (auto split: option.splits dest: row_at_verdicts)

lemma parse_candidate_ok:
  "parse_candidate lines = Inr (Some c) \<Longrightarrow> length (cn_rows c) = cn_changed c
     \<and> list_all (\<lambda>r. is_verdict (ch_from r) \<and> is_verdict (ch_to r)) (cn_rows c)"
  using candidate_rows_verdicts
  by (auto simp: parse_candidate_def result_iffs Let_def split: list.splits prod.splits if_splits)

lemma parse_report_ok:
  assumes "parse_report text = Inr report"
  shows "report_ok report"
proof -
  have "report_ok report" if "report_candidate n o' lines = Inr report" and "outcomes_total o' = n" for n o' lines
    using that by (auto simp: report_candidate_def report_ok_def result_iffs dest: parse_candidate_ok
        split: if_splits option.splits)
  moreover have "report_ok \<lparr>rp_replayed = 0, rp_outcomes = no_outcomes, rp_candidate = None\<rparr>"
    by (simp add: report_ok_def no_outcomes_def outcomes_total_def u64_sum_def)
  ultimately show ?thesis
    using assms by (auto simp: parse_report_def report_lines_def result_iffs split: list.splits if_splits)
qed

lemma count_changes:
  "ew_tightened (foldl count_change e rows) + ew_loosened (foldl count_change e rows)
     + ew_reclassified (foldl count_change e rows)
   = ew_tightened e + ew_loosened e + ew_reclassified e + length rows"
  by (induction rows arbitrary: e) (simp_all add: count_change_def)

definition stops_one :: "changed_row \<Rightarrow> bool" where
  "stops_one r \<longleftrightarrow> ch_from r = ''allow'' \<and> ch_to r \<noteq> ''allow''"

lemma stops_one_verdict: "is_verdict (ch_to r) \<Longrightarrow> stops_one r \<longleftrightarrow> ch_from r = ''allow'' \<and> (ch_to r = ''deny'' \<or> ch_to r = ''hold'')"
  by (auto simp: stops_one_def is_verdict_def)

text \<open>The proof of a report that adds up, about one run.\<close>

definition halves_of :: "replay_report \<Rightarrow> string \<Rightarrow> policy_proof \<Rightarrow> bool" where
  "halves_of report run_id p \<longleftrightarrow>
     pp_replayed p = rp_replayed report \<and> outcomes_total (pp_outcomes p) = pp_replayed p
   \<and> pp_elsewhere_changes p = filter (\<lambda>r. ch_run r \<noteq> Data run_id) (pp_elsewhere_changes p)
   \<and> pp_incident_changes p = filter (\<lambda>r. ch_run r = Data run_id) (pp_incident_changes p)
   \<and> ew_tightened (pp_elsewhere p) + ew_loosened (pp_elsewhere p) + ew_reclassified (pp_elsewhere p)
       = length (pp_elsewhere_changes p)
   \<and> (case rp_candidate report of
        None \<Rightarrow> \<not> pp_candidate_given p \<and> pp_stops_this_incident p = None
      | Some c \<Rightarrow> pp_candidate_given p
          \<and> mset (pp_incident_changes p) + mset (pp_elsewhere_changes p) = mset (cn_rows c)
          \<and> length (pp_incident_changes p) + length (pp_elsewhere_changes p) = cn_changed c
          \<and> pp_stops_this_incident p =
              (if oc_diverged (pp_outcomes p) = 0 \<and> 0 < outcomes_replayable (pp_outcomes p)
               then Some (list_ex stops_one (pp_incident_changes p)) else None))"

lemma data_text_iff: "data_text d = t \<longleftrightarrow> d = Data t"
  by (cases d) simp

lemma judge_halves:
  assumes "report_ok report"
  shows "halves_of report run_id (judge report run_id)"
proof (cases "rp_candidate report")
  case None
  with assms show ?thesis by (simp add: judge_def halves_of_def report_ok_def no_elsewhere_def)
next
  case (Some c)
  have verdicts: "\<And>r. r \<in> set (cn_rows c) \<Longrightarrow> is_verdict (ch_to r)"
    using assms Some by (simp add: report_ok_def list_all_iff)
  have stops: "list_ex (\<lambda>r. ch_from r = ''allow'' \<and> (ch_to r = ''deny'' \<or> ch_to r = ''hold''))
      (filter (\<lambda>r. ch_run r = Data run_id) (cn_rows c)) = list_ex stops_one (filter (\<lambda>r. ch_run r = Data run_id) (cn_rows c))"
    by (rule list_ex_cong) (use verdicts stops_one_verdict in auto)
  show ?thesis
    using assms Some sum_length_filter_compl [of "\<lambda>r. ch_run r = Data run_id" "cn_rows c"]
    by (simp add: judge_def halves_of_def report_ok_def Let_def data_text_iff stops count_changes no_elsewhere_def)
qed


subsection \<open>What the report cannot carry\<close>

text \<open>A run id longer than the bound is never found in the report: every text of a report is cut at 300
  characters before the run of a row is compared with the incident's, so the changes of such an incident all count as
  changes elsewhere, and the answer, where one is given, is that the candidate does not stop it.\<close>

theorem long_run_counted_elsewhere:
  assumes "parse_report text = Inr report" and "UPSTREAM_TEXT_MAX < length (chars run_id)"
  shows "pp_incident_changes (judge report run_id) = [] \<and> pp_stops_this_incident (judge report run_id) \<noteq> Some True"
proof -
  have bounded: "ch_run r \<noteq> Data run_id" if "row_at ls = Some r" for ls r
    using that assms(2) length_take_chars [of UPSTREAM_TEXT_MAX]
    by (auto simp: row_at_def row_of_lines_def data_bounded_def Let_def not_less [symmetric]
        split: list.splits option.splits prod.splits if_splits)
  have "filter (\<lambda>r. ch_run r = Data run_id) (candidate_rows ls) = []" for ls
    by (induction ls rule: candidate_rows.induct) (auto split: option.splits dest: bounded)
  then have "filter (\<lambda>r. ch_run r = Data run_id) (cn_rows c) = []" if "rp_candidate report = Some c" for c
    using assms(1) that
    by (auto simp: parse_report_def report_lines_def report_candidate_def parse_candidate_def result_iffs Let_def
        split: list.splits if_splits prod.splits)
  then show ?thesis
    by (cases "rp_candidate report") (simp_all add: judge_def Let_def data_text_iff)
qed

end
