(* ===== verification/BudgetFacts.thy ===== *)
theory BudgetFacts
  imports BudgetProof ProofFacts
begin

section \<open>What a budget proof rests on\<close>

text \<open>
  An amount is read exactly or refused; the statement handed to \<open>tokenfuse\<close> holds no text of a producer beyond a
  short name; and the two halves of a proof add up to the report over the whole trace.
\<close>

subsection \<open>Amounts\<close>

lemma digits_value_append: "digits_value (a @ b) = digits_value a * 10 ^ length b + digits_value b"
proof (induction b rule: rev_induct)
  case (snoc c cs)
  then show ?case by (simp add: digits_value_snoc algebra_simps flip: append_assoc)
qed (simp add: digits_value_def)

lemma digits_value_bound: "list_all ascii_digit s \<Longrightarrow> digits_value s < 10 ^ length s"
proof (induction s rule: rev_induct)
  case (snoc c cs)
  then have "digits_value cs + 1 \<le> 10 ^ length cs" and "(of_char c :: nat) \<le> 57" by (simp_all add: ascii_digit_def)
  then have "10 * (digits_value cs + 1) \<le> 10 * 10 ^ length cs" by simp
  with \<open>(of_char c :: nat) \<le> 57\<close> show ?case by (simp add: digits_value_snoc)
qed (simp add: digits_value_def)

lemma times_ten: "((\<lambda>d. d * 10) ^^ n) (x :: int) = x * 10 ^ n"
  by (induction n) (simp_all add: algebra_simps)

text \<open>The number a text of digits with a point and at most six decimals stands for, in millionths.\<close>

definition usd_micros :: "string \<Rightarrow> string \<Rightarrow> int" where
  "usd_micros whole fraction =
     int (digits_value whole) * MICROS_PER_USD + int (digits_value fraction) * 10 ^ (6 - length fraction)"

definition usd_text :: "string \<Rightarrow> string \<Rightarrow> string \<Rightarrow> bool" where
  "usd_text whole fraction text \<longleftrightarrow>
     whole \<noteq> [] \<and> list_all ascii_digit whole \<and> list_all ascii_digit fraction \<and> length fraction \<le> 6
   \<and> text = (if fraction = [] then whole else whole @ ''.'' @ fraction)"

lemma point_no_digit: "list_all ascii_digit s \<Longrightarrow> CHR ''.'' \<notin> set s"
  by (auto simp: list_all_iff ascii_digit_def)

lemma split_once_None: "split_once c s = None \<longleftrightarrow> c \<notin> set s"
proof
  assume "split_once c s = None"
  then have "dropWhile (\<lambda>x. x \<noteq> c) s = []" by (simp add: split_once_def split: list.splits)
  then show "c \<notin> set s" by (auto simp: dropWhile_eq_Nil_conv)
next
  assume "c \<notin> set s"
  then have "dropWhile (\<lambda>x. x \<noteq> c) s = []" by (auto simp: dropWhile_eq_Nil_conv)
  then show "split_once c s = None" unfolding split_once_def by (simp only: list.case)
qed

definition usd_split :: "string \<Rightarrow> string \<times> string" where
  "usd_split text = (case split_once (CHR ''.'') text of Some p \<Rightarrow> p | None \<Rightarrow> (text, []))"

lemma usd_split_text: "usd_text whole fraction text \<Longrightarrow> usd_split text = (whole, fraction)"
  using point_no_digit [of whole] split_once_None [of "CHR ''.''" whole]
  by (auto simp: usd_text_def usd_split_def)

lemma usd_split_guard:
  assumes "usd_split text = (whole, fraction)"
  shows "(whole = [] \<or> \<not> all_digits whole \<or> \<not> all_digits fraction \<or> 6 < length fraction
      \<or> CHR ''.'' \<in> set text \<and> fraction = []) \<longleftrightarrow> \<not> usd_text whole fraction text"
proof (cases "split_once (CHR ''.'') text")
  case None
  with assms show ?thesis by (auto simp: usd_split_def usd_text_def all_digits_def split_once_None)
next
  case (Some p)
  with assms split_once_Some [of "CHR ''.''" "text" whole fraction] show ?thesis
    by (auto simp: usd_split_def usd_text_def all_digits_def)
qed

lemma usd_check:
  assumes "0 \<le> w" and "0 \<le> d"
  shows "ebind (ok_or AMOUNT_LARGE (i64 w)) (\<lambda>w.
      ebind (ok_or AMOUNT_LARGE (Option.bind (i64 (w * MICROS_PER_USD)) (\<lambda>w. i64 (w + d)))) (\<lambda>micros.
        if micros = 0 then Inl AMOUNT_ZERO
        else if MAX_LIMIT_MICROS < micros then Inl AMOUNT_LARGE else Inr micros)) = Inr m
    \<longleftrightarrow> m = w * MICROS_PER_USD + d \<and> 1 \<le> m \<and> m \<le> MAX_LIMIT_MICROS"
  using assms by (auto simp: ebind_def ok_or_def i64_def MAX_LIMIT_MICROS_def MICROS_PER_USD_def)

lemma parse_usd_text:
  assumes "usd_text whole fraction text"
  shows "parse_usd text = Inr micros \<longleftrightarrow>
    micros = usd_micros whole fraction \<and> 1 \<le> micros \<and> micros \<le> MAX_LIMIT_MICROS"
proof -
  let ?w = "int (digits_value whole)" and ?f = "int (digits_value fraction)"
  have split: "(case split_once (CHR ''.'') text of Some p \<Rightarrow> p | None \<Rightarrow> (text, [])) = (whole, fraction)"
    using usd_split_text [OF assms] by (simp add: usd_split_def)
  have good: "\<not> (whole = [] \<or> \<not> all_digits whole \<or> \<not> all_digits fraction \<or> 6 < length fraction
      \<or> CHR ''.'' \<in> set text \<and> fraction = [])"
    using usd_split_guard [OF usd_split_text [OF assms]] assms by blast
  have "digits_value fraction < 10 ^ length fraction" "length fraction \<le> 6"
    using assms digits_value_bound by (auto simp: usd_text_def)
  then have "digits_value fraction < 10 ^ 6"
    by (meson less_le_trans one_le_numeral power_increasing)
  then have f: "(if fraction = [] then Inr 0 else ok_or AMOUNT_SHAPE (parse_i64 fraction)) = (Inr ?f :: string + int)"
    by (simp add: parse_i64_def i64_def digits_value_def)
  have w: "parse_i64 whole = i64 ?w" using assms by (simp add: usd_text_def parse_i64_def)
  show ?thesis
    unfolding parse_usd_def split prod.case if_not_P [OF good] f w ebind_simps times_ten Let_def
    by (simp only: usd_check [OF of_nat_0_le_iff mult_nonneg_nonneg [OF of_nat_0_le_iff zero_le_power]] zero_le_numeral
        usd_micros_def)
qed

text \<open>C37. An amount is read exactly. A text is taken as an amount exactly when it is digits, with at most six decimals
  behind a point, and stands for more than nothing and at most a million dollars; the amount is then that number of
  micro-dollars.\<close>

theorem amount_read_exactly:
  "parse_usd text = Inr micros \<longleftrightarrow>
     (\<exists>whole fraction. usd_text whole fraction text \<and> micros = usd_micros whole fraction
        \<and> 1 \<le> micros \<and> micros \<le> MAX_LIMIT_MICROS)"
proof (cases "usd_split text")
  case (Pair whole fraction)
  show ?thesis
  proof (cases "usd_text whole fraction text")
    case True
    have "w = whole \<and> f = fraction" if "usd_text w f text" for w f
      using usd_split_text [OF that] usd_split_text [OF True] by simp
    with True show ?thesis unfolding parse_usd_text [OF True] by blast
  next
    case False
    with usd_split_guard [OF Pair] Pair have "parse_usd text = Inl AMOUNT_SHAPE"
      by (simp add: parse_usd_def usd_split_def)
    with False usd_split_text Pair show ?thesis by auto
  qed
qed


subsection \<open>The statement\<close>

text \<open>C36. A run id cannot leave its quotes. A statement is made only of a run id and a path of plain characters, so the
  quotes of the statement are the four of the code, nothing in it ends a statement, and another run id makes another
  statement.\<close>

theorem statement_quotes_run:
  assumes "copy_statement r target = Inr statement"
  shows "length (filter (\<lambda>c. c = CHR 0x27) statement) = 4 \<and> CHR '';'' \<notin> set statement
    \<and> list_all is_name_byte r \<and> list_all is_path_byte target
    \<and> (\<forall>r'. copy_statement r' target = Inr statement \<longrightarrow> r' = r)"
proof -
  have safe: "list_all is_name_byte r" "list_all is_path_byte target"
    and st: "statement = ''copy (select * from calls where run_id = '' @ QUOTE @ r @ QUOTE
               @ '' order by ts_millis, step) to '' @ QUOTE @ target @ QUOTE @ '' stored as parquet''"
    using assms by (auto simp: copy_statement_def query_safe_run_def result_iffs split: if_splits)
  have "\<not> is_name_byte (CHR 0x27)" "\<not> is_path_byte (CHR 0x27)" "\<not> is_name_byte (CHR '';'')" "\<not> is_path_byte (CHR '';'')"
    by code_simp+
  then have "CHR 0x27 \<notin> set r" "CHR 0x27 \<notin> set target" "CHR '';'' \<notin> set r" "CHR '';'' \<notin> set target"
    using safe by (auto simp: list_all_iff)
  moreover from this have "filter (\<lambda>c. c = CHR 0x27) r = []" "filter (\<lambda>c. c = CHR 0x27) target = []"
    by (auto simp: filter_empty_conv)
  moreover have "r' = r" if "copy_statement r' target = Inr statement" for r'
    using that st by (auto simp: copy_statement_def result_iffs QUOTE_def split: if_splits)
  ultimately show ?thesis using safe unfolding st by (auto simp: QUOTE_def)
qed

subsection \<open>Both halves of a proof\<close>

lemma step_Inr:
  "after_child r k = Some (Inr y) \<longleftrightarrow> (\<exists>x. r = Some (Inr x) \<and> k x = Some (Inr y))"
  "checked_step q k' = Some (Inr y) \<longleftrightarrow> (\<exists>x. q = Inr x \<and> k' x = Some (Inr y))"
  by (auto simp: after_child_def checked_step_def split: option.splits sum.splits)

lemma map_sum_Inr: "map_sum f id r = Inr y \<longleftrightarrow> r = Inr y"
  by (cases r) auto

lemma read_backtest_Inr: "read_backtest A done' asked = Inr report \<longleftrightarrow> parse_backtest A (fi_stdout done') asked = Inr report"
  by (auto simp: read_backtest_def split: sum.splits backtest_parse_error.splits)

text \<open>The two halves of the report over the whole trace, of which \<open>r\<close> is the report over the incident's own calls.\<close>

definition budget_halves :: "backtest_report \<Rightarrow> nat \<Rightarrow> budget_proof \<Rightarrow> bool" where
  "budget_halves r copies p \<longleftrightarrow>
     br_runs_total r = 1 \<and> br_calls_total r = copies
   \<and> (bp_stops_this_incident p \<longleftrightarrow> 0 < br_calls_blocked r)
   \<and> re_calls (bp_incident p) = copies \<and> re_calls_blocked (bp_incident p) = br_calls_blocked r
   \<and> br_runs_total (bp_trace p) = 1 + be_runs (bp_elsewhere p)
   \<and> br_runs_affected (bp_trace p) = br_runs_affected r + be_runs_affected (bp_elsewhere p)
   \<and> br_calls_total (bp_trace p) = copies + be_calls (bp_elsewhere p)
   \<and> br_calls_blocked (bp_trace p) = br_calls_blocked r + be_calls_blocked (bp_elsewhere p)
   \<and> re_saved_micros (bp_incident p) = br_saved_micros r
   \<and> be_saved_micros (bp_elsewhere p) = i64_saturating_sub (br_saved_micros (bp_trace p)) (br_saved_micros r)"

lemma judge_budget_halves:
  "judge_budget run_id candidate r trace copies tied = Inr p \<Longrightarrow>
     budget_halves r copies p \<and> bp_candidate p = candidate \<and> bp_trace p = trace \<and> (bp_elsewhere_exact p \<longleftrightarrow> \<not> tied)"
  by (auto simp: judge_budget_def budget_halves_def split: if_splits)

text \<open>What the checks on one report leave: it echoes the candidate and holds together.\<close>

lemma parse_backtest_ok:
  "parse_backtest A text asked = Inr r \<Longrightarrow>
     br_runs_affected r \<le> br_runs_total r \<and> br_calls_blocked r \<le> br_calls_total r
     \<and> br_runs_affected r \<le> br_calls_blocked r \<and> (0 < br_runs_affected r \<longleftrightarrow> 0 < br_calls_blocked r)"
  by (auto simp: parse_backtest_def checked_report_def result_iffs split: list.splits if_splits prod.splits)


text \<open>A pair of reports that cannot be about one trace is accepted: all of one run is affected in the whole trace and
  none of it alone, so that one run is affected elsewhere, where there is none.\<close>

lemma elsewhere_affects_more_than_it_holds:
  assumes "br_runs_total r = 1" and "br_runs_affected r = 0" and "br_calls_blocked r = 0" and "br_calls_total r = n"
    and "br_runs_total trace = 1" and "br_runs_affected trace = 1" and "br_calls_blocked trace = k" and "0 < k" and "k \<le> n"
    and "br_calls_total trace = n"
  shows "\<exists>p. judge_budget run_id candidate r trace n tied = Inr p
    \<and> be_runs (bp_elsewhere p) = 0 \<and> be_runs_affected (bp_elsewhere p) = 1
    \<and> be_calls (bp_elsewhere p) = 0 \<and> be_calls_blocked (bp_elsewhere p) = k"
  using assms by (simp add: judge_budget_def)

subsection \<open>The command ends\<close>

lemma tokenfuse_ends:
  "clock_reaches spawn (started + timeout) \<Longrightarrow> \<exists>r. tokenfuse spawn config args dir started timeout = Some r"
  using run_bounded_ends by (simp add: tokenfuse_def deadline_of_def)

lemma after_child_ends: "\<exists>y. r = Some y \<Longrightarrow> (\<And>x. \<exists>y. k x = Some y) \<Longrightarrow> \<exists>y. after_child r k = Some y"
  by (auto simp: after_child_def split: option.splits sum.splits)

lemma checked_step_ends: "(\<And>x. \<exists>y. k x = Some y) \<Longrightarrow> \<exists>y. checked_step r k = Some y"
  by (auto simp: checked_step_def split: sum.splits)

text \<open>A budget proof ends as a policy proof does, and gives its slot back.\<close>

theorem budget_ends_slot_returned:
  assumes "clock_reaches (pw_spawn W) (pw_now W + timeout)"
  shows "\<exists>r. prove_budget_in X A W s config store request timeout = Some (s, r)"
proof -
  have ends: "\<exists>r. backtest_run A (pw_spawn W) config inputs dir (pw_now W) timeout = Some r" for inputs dir
    unfolding backtest_run_def
    by (auto intro!: checked_step_ends after_child_ends tokenfuse_ends [OF assms] simp del: not_None_eq split: prod.splits)
  show ?thesis
  proof (cases "budget_inputs_of X A config store request")
    case (Inr inputs)
    show ?thesis
    proof (cases "sl_in_use s < sl_limit s")
      case True
      then have "try_acquire s = (s\<lparr>sl_in_use := sl_in_use s + 1\<rparr>, Inr ())" by (simp add: try_acquire_def)
      with Inr ends [of inputs] show ?thesis
        by (cases "pw_scratch W") (auto simp: prove_budget_in_def slot_drop_def)
    qed (simp add: Inr prove_budget_in_def try_acquire_def)
  qed (simp add: prove_budget_in_def)
qed

end
