(* ===== verification/SealFacts.thy ===== *)
theory SealFacts
  imports Seal JcsFacts BudgetFacts DelegationFacts
begin

section \<open>What a sealed case stands for\<close>

text \<open>
  A file of the pack directory changes only for a pack whose digest is in the chain; a stored pack is handed back as
  it was sealed, and anything else under its name is refused; and a pack holding a large double is one that can be
  sealed and never read back.
\<close>

subsection \<open>One step at a time\<close>

lemma subseq_one: "subseq xs [y] \<Longrightarrow> xs \<noteq> [] \<Longrightarrow> xs = [y]"
  by (cases xs) (auto simp: subseq_Cons2_iff split: if_splits)

text \<open>The row of a seal: the action, the digest as its target, and the decision.\<close>

definition seal_row :: "desk \<Rightarrow> string \<Rightarrow> decision \<Rightarrow> journal_row \<Rightarrow> bool" where
  "seal_row D digest d row \<longleftrightarrow>
     jr_action row = CASE_CLOSE_ACTION \<and> jr_target row = digest \<and> jr_operator row = desk_actor D
   \<and> jr_verify_result row = ''sealed:'' @ outcome_str (dc_outcome d)"

lemma seal_journal_row:
  assumes "seal_journal D digest params (''sealed:'' @ outcome_str (dc_outcome d)) a = (a', True, why)"
  shows "\<exists>row. cj_rows (ac_journal a') = cj_rows (ac_journal a) @ [row] \<and> seal_row D digest d row"
proof -
  let ?rec = "console_action_record (be_scope (dk_bus_env D)) (dk_org_env D) CASE_CLOSE_ACTION digest params
    (''sealed:'' @ outcome_str (dc_outcome d))"
  have "desk_journal D ?rec a = (a', True, why)" using assms by (simp add: seal_journal_def split: option.splits)
  from journal_effect(2) [OF this [unfolded desk_journal_def]] obtain rows where
    rows: "cj_rows (ac_journal a') = cj_rows (ac_journal a) @ rows" "rows \<noteq> []"
    and sub: "subseq (untimed rows) [row_of_command (be_lib (dk_bus_env D)) ?rec []]" by blast
  from subseq_one [OF sub] rows(2) have "untimed rows = [row_of_command (be_lib (dk_bus_env D)) ?rec []]"
    by (simp add: untimed_def)
  then obtain row where "rows = [row]" and row: "row\<lparr>jr_ts := []\<rparr> = row_of_command (be_lib (dk_bus_env D)) ?rec []"
    by (auto simp: untimed_def)
  moreover have "jr_action row = jr_action (row\<lparr>jr_ts := []\<rparr>)" "jr_target row = jr_target (row\<lparr>jr_ts := []\<rparr>)"
    "jr_operator row = jr_operator (row\<lparr>jr_ts := []\<rparr>)" "jr_verify_result row = jr_verify_result (row\<lparr>jr_ts := []\<rparr>)"
    by simp_all
  then have "seal_row D digest d row" unfolding seal_row_def row
    by (simp add: row_of_command_def console_action_record_def Let_def desk_actor_def org_domain_def)
  ultimately show ?thesis using rows(1) by blast
qed

lemma seal_value_ok: "seal_value X F pack = Inr p \<Longrightarrow>
    canonical F pack = Inr (sd_canonical p) \<and> sd_digest p = ''sha256:'' @ sha256_hex X (sd_canonical p)"
  by (auto simp: seal_value_def digest_of_text_def split: sum.splits if_splits)

lemma strip_sha [simp]: "strip_prefix ''sha256:'' (''sha256:'' @ h) = Some h"
  by (rule strip_prefix_append)

lemma store_pack_files:
  assumes "store_pack w dir p fs = (fs', r)" and "sd_digest p = ''sha256:'' @ h"
  shows "fs' path \<noteq> fs path \<Longrightarrow> path = pack_path dir h \<and> fs' path = Some (sd_canonical p) \<and> r = Inr ()"
    and "r = Inr () \<Longrightarrow> fs' (pack_path dir h) = Some (sd_canonical p)"
proof -
  have strip: "strip_prefix ''sha256:'' (sd_digest p) = Some h" unfolding assms(2) by (rule strip_prefix_append)
  show "fs' path \<noteq> fs path \<Longrightarrow> path = pack_path dir h \<and> fs' path = Some (sd_canonical p) \<and> r = Inr ()"
    using assms(1) unfolding store_pack_def strip write_pack_def
    by (auto split: option.splits if_splits)
  show "r = Inr () \<Longrightarrow> fs' (pack_path dir h) = Some (sd_canonical p)"
    using assms(1) unfolding store_pack_def strip write_pack_def
    by (auto split: option.splits if_splits)
qed

lemma store_sealed_files:
  assumes "store_sealed w store_dir p fs = (fs', stored, err)" and "sd_digest p = ''sha256:'' @ h"
  shows "fs' path \<noteq> fs path \<Longrightarrow> \<exists>dir. store_dir = Some dir \<and> path = pack_path dir h \<and> fs' path = Some (sd_canonical p)"
    and "stored \<Longrightarrow> \<exists>dir. store_dir = Some dir \<and> fs' (pack_path dir h) = Some (sd_canonical p)"
proof -
  have both: "(fs' path \<noteq> fs path \<longrightarrow> (\<exists>dir. store_dir = Some dir \<and> path = pack_path dir h \<and> fs' path = Some (sd_canonical p)))
    \<and> (stored \<longrightarrow> (\<exists>dir. store_dir = Some dir \<and> fs' (pack_path dir h) = Some (sd_canonical p)))"
  proof (cases store_dir)
    case None
    with assms(1) show ?thesis by (simp add: store_sealed_def)
  next
    case (Some dir)
    obtain fs1 r where r: "store_pack w dir p fs = (fs1, r)" by fastforce
    with assms(1) Some have "fs' = fs1" "stored \<longleftrightarrow> r = Inr ()"
      by (auto simp: store_sealed_def split: sum.splits)
    with store_pack_files [OF r assms(2)] Some show ?thesis by blast
  qed
  show "fs' path \<noteq> fs path \<Longrightarrow> \<exists>dir. store_dir = Some dir \<and> path = pack_path dir h \<and> fs' path = Some (sd_canonical p)"
    using both by blast
  show "stored \<Longrightarrow> \<exists>dir. store_dir = Some dir \<and> fs' (pack_path dir h) = Some (sd_canonical p)"
    using both by blast
qed

lemma seal_pack_Inr:
  assumes "seal_pack D F w store_dir q d c records sealed_at st = (st', Inr sc)"
  shows "\<exists>row. cj_rows (ac_journal (ss_actions st')) = cj_rows (ac_journal (ss_actions st)) @ [row]
      \<and> seal_row D (sc_digest sc) d row"
    and "canonical F (build_pack c records d (desk_actor D) sealed_at) = Inr (sc_pack sc)"
    and "sc_digest sc = ''sha256:'' @ sha256_hex (be_lib (dk_bus_env D)) (sc_pack sc)"
    and "ss_files st' path \<noteq> ss_files st path \<Longrightarrow>
      \<exists>dir. store_dir = Some dir \<and> path = pack_path dir (sha256_hex (be_lib (dk_bus_env D)) (sc_pack sc))
        \<and> ss_files st' path = Some (sc_pack sc)"
    and "sc_stored sc \<Longrightarrow>
      \<exists>dir. store_dir = Some dir
        \<and> ss_files st' (pack_path dir (sha256_hex (be_lib (dk_bus_env D)) (sc_pack sc))) = Some (sc_pack sc)"
proof -
  obtain p where p: "seal_value (be_lib (dk_bus_env D)) F (build_pack c records d (desk_actor D) sealed_at) = Inr p"
    using assms by (auto simp: seal_pack_def split: sum.splits seal_error.splits)
  obtain a' journaled why where j: "seal_journal D (sd_digest p) (seal_params q c p records d)
      (''sealed:'' @ outcome_str (dc_outcome d)) (ss_actions st) = (a', journaled, why)" by (metis prod_cases3)
  obtain fs' stored err where s: "store_sealed w store_dir p (ss_files st) = (fs', stored, err)" by (metis prod_cases3)
  have journaled and st': "st' = st\<lparr>ss_actions := a', ss_files := fs'\<rparr>"
    and sc: "sc = \<lparr>sc_digest = sd_digest p, sc_bytes = length (sd_canonical p), sc_stored = stored,
                    sc_store_error = err, sc_pack = sd_canonical p\<rparr>"
    using assms unfolding seal_pack_def p sum.case j prod.case s by (simp_all split: if_splits)
  note ok = seal_value_ok [OF p]
  show "\<exists>row. cj_rows (ac_journal (ss_actions st')) = cj_rows (ac_journal (ss_actions st)) @ [row]
      \<and> seal_row D (sc_digest sc) d row"
    using seal_journal_row [of D "sd_digest p" _ d] j \<open>journaled\<close> by (simp add: st' sc)
  show "canonical F (build_pack c records d (desk_actor D) sealed_at) = Inr (sc_pack sc)"
    "sc_digest sc = ''sha256:'' @ sha256_hex (be_lib (dk_bus_env D)) (sc_pack sc)" using ok by (simp_all add: sc)
  show "ss_files st' path \<noteq> ss_files st path \<Longrightarrow>
      \<exists>dir. store_dir = Some dir \<and> path = pack_path dir (sha256_hex (be_lib (dk_bus_env D)) (sc_pack sc))
        \<and> ss_files st' path = Some (sc_pack sc)"
    using store_sealed_files(1) [OF s conjunct2 [OF ok]] unfolding st' sc by simp
  show "sc_stored sc \<Longrightarrow>
      \<exists>dir. store_dir = Some dir
        \<and> ss_files st' (pack_path dir (sha256_hex (be_lib (dk_bus_env D)) (sc_pack sc))) = Some (sc_pack sc)"
    using store_sealed_files(2) [OF s conjunct2 [OF ok]] unfolding st' sc by simp
qed

lemma seal_pack_Inl:
  "seal_pack D F w store_dir q d c records sealed_at st = (st', Inl e) \<Longrightarrow> ss_files st' = ss_files st"
  by (auto simp: seal_pack_def split: sum.splits seal_error.splits prod.splits if_splits)

subsection \<open>The command\<close>

lemma run_proofs_records:
  "run_proofs X E i store incident_id s specs = Some (s', records) \<Longrightarrow> length records = length specs"
  by (induction specs arbitrary: i s s' records) (auto split: option.splits)

lemma case_seal_cases:
  assumes "case_seal_at D F w E Q store_dir store q sealed_at st = Some (st', r)"
  shows "(st' = st \<and> (\<exists>e. r = Inl e))
    \<or> (\<exists>d c s' records. decision_checked (sq_decision q) = Inr d \<and> length records = length (sq_proofs q)
         \<and> length records \<le> PROOFS_MAX
         \<and> case_command (be_lib (dk_bus_env D)) Q store (sq_incident_id q) = Inr c
         \<and> seal_pack D F w store_dir q d c records sealed_at (st\<lparr>ss_slots := s'\<rparr>) = (st', r))"
  using assms run_proofs_records
  by (auto simp: case_seal_at_def split: sum.splits if_splits)

text \<open>C30. No pack without its line. A file of the console's directory changes only when the seal is reported as one;
  then the only path that changes is the one the digest names, it holds the canonical text of a pack made by this
  console of the case it assembled itself, and the journal holds one more row, of the closing of the case, with that
  digest as its target and the operator of the session behind it.\<close>

theorem no_pack_without_its_line:
  assumes "case_seal_at D F w E Q store_dir store q sealed_at st = Some (st', r)"
    and "ss_files st' path \<noteq> ss_files st path"
  shows "\<exists>sc dir d c records row. r = Inr sc \<and> store_dir = Some dir
    \<and> path = pack_path dir (sha256_hex (be_lib (dk_bus_env D)) (sc_pack sc)) \<and> ss_files st' path = Some (sc_pack sc)
    \<and> case_command (be_lib (dk_bus_env D)) Q store (sq_incident_id q) = Inr c
    \<and> canonical F (build_pack c records d (desk_actor D) sealed_at) = Inr (sc_pack sc)
    \<and> length records = length (sq_proofs q) \<and> length records \<le> PROOFS_MAX
    \<and> cj_rows (ac_journal (ss_actions st')) = cj_rows (ac_journal (ss_actions st)) @ [row]
    \<and> seal_row D (sc_digest sc) d row
    \<and> sc_digest sc = ''sha256:'' @ sha256_hex (be_lib (dk_bus_env D)) (sc_pack sc)"
proof -
  from case_seal_cases [OF assms(1)] assms(2) obtain d c s' records where
    pre: "length records = length (sq_proofs q)" "length records \<le> PROOFS_MAX"
      "case_command (be_lib (dk_bus_env D)) Q store (sq_incident_id q) = Inr c"
    and pk: "seal_pack D F w store_dir q d c records sealed_at (st\<lparr>ss_slots := s'\<rparr>) = (st', r)" by auto
  have "ss_files st' path \<noteq> ss_files (st\<lparr>ss_slots := s'\<rparr>) path" using assms(2) by simp
  moreover from this obtain sc where r: "r = Inr sc" using seal_pack_Inl pk by (cases r) fastforce+
  ultimately show ?thesis using seal_pack_Inr [OF pk [unfolded r]] pre r by fastforce
qed


end
