(* ===== verification/CaseFacts.thy ===== *)
theory CaseFacts
  imports Case JournalFacts
begin

section \<open>What a case says\<close>

text \<open>
  A case has a line for every question, whatever the planes answer; its counts and states match its facts;
  the words in it that are not marked as data are the console's own; and an identity refusal is never
  asked about, or filed, under the agent its caller claimed.
\<close>

subsection \<open>Assembly\<close>

lemma assemble_sections_eq:
  "assemble_sections X answers ss lines facts =
     (lines @ map (\<lambda>s. line_of s (answer_for answers s)) ss,
      facts @ concat (map (\<lambda>s. facts_of X s (answer_for answers s)) ss))"
  by (induction ss arbitrary: lines facts) (simp_all add: Let_def)

lemma assemble_sel:
  "cf_lines (assemble X head answers) = map (\<lambda>s. line_of s (answer_for answers s)) section_ALL"
  "cf_facts (assemble X head answers) = concat (map (\<lambda>s. facts_of X s (answer_for answers s)) section_ALL)"
  "cf_subject (assemble X head answers) = hd_subject head"
  "cf_claimed_agent (assemble X head answers) = hd_claimed_agent head"
  "cf_run_id (assemble X head answers) = hd_run_id head"
  "cf_incident_id (assemble X head answers) = hd_incident_id head"
  by (simp_all add: assemble_def assemble_sections_eq Let_def)

lemma assemble_digest:
  "cf_digest (assemble X head answers) = digest_of X (case_json ((assemble X head answers)\<lparr>cf_digest := []\<rparr>))"
  by (simp add: assemble_def assemble_sections_eq Let_def)

lemma section_ALL_all: "set section_ALL = UNIV" "distinct section_ALL"
proof -
  have "s \<in> set section_ALL" for s by (cases s) (simp_all add: section_ALL_def)
  then show "set section_ALL = UNIV" by blast
qed (simp add: section_ALL_def)

lemma facts_of_section: "f \<in> set (facts_of X s answer) \<Longrightarrow> fc_section f = s"
  by (auto simp: facts_of_def fact_of_def split: option.splits case_answer.splits)

lemma filter_facts_of:
  "filter (\<lambda>f. fc_section f = t) (facts_of X s answer) = (if s = t then facts_of X s answer else [])"
  using facts_of_section by (auto simp: filter_empty_conv intro!: filter_True)

lemma section_facts:
  "filter (\<lambda>f. fc_section f = s) (cf_facts (assemble X head answers)) = facts_of X s (answer_for answers s)"
proof -
  have "filter (\<lambda>f. fc_section f = s) (concat (map (\<lambda>t. facts_of X t (answer_for answers t)) ss))
      = (if s \<in> set ss then facts_of X s (answer_for answers s) else [])" if "distinct ss" for ss
    using that by (induction ss) (auto simp: filter_facts_of)
  then show ?thesis using section_ALL_all by (simp add: assemble_sel)
qed

lemma line_of_sel:
  "ln_section (line_of s answer) = s" "ln_plane (line_of s answer) = section_plane s"
  "ln_facts (line_of s answer) = length (facts_of X s answer)"
  "ln_state (line_of s answer) = LineAnswered \<longleftrightarrow> facts_of X s answer \<noteq> []"
  by (auto simp: line_of_def facts_of_def Let_def split: option.splits case_answer.splits)

subsection \<open>The gatherer's words\<close>

text \<open>What an answer may hold outside its data: rows of the section's plane under fixed labels, and the
  console's sentences.\<close>

definition words_ALL :: "string list" where
  "words_ALL = [words_EMPTY, words_UNAVAILABLE, words_UNRECORDED, words_NO_RUN, words_FILED_UNDER_A_KEY,
     words_ALERTS_UNREAD, words_TIMELINE_CAPPED]"

fun lawful_answer :: "plane \<Rightarrow> case_answer \<Rightarrow> bool" where
  "lawful_answer p (Rows rows note) =
     ((\<forall>r\<in>set rows. cr_plane r = p \<and> cr_label r \<in> set label_ALL) \<and> (\<forall>n\<in>set_option note. n \<in> set words_ALL))"
| "lawful_answer p (Unavailable _) = True"
| "lawful_answer p (NotAsked reason) = (reason \<in> set words_ALL)"

lemma own_words:
  "words_NO_RUN \<in> set words_ALL" "words_FILED_UNDER_A_KEY \<in> set words_ALL" "words_ALERTS_UNREAD \<in> set words_ALL"
  "words_TIMELINE_CAPPED \<in> set words_ALL" "words_EMPTY \<in> set words_ALL" "words_UNAVAILABLE \<in> set words_ALL"
  "words_UNRECORDED \<in> set words_ALL"
  by (simp_all add: words_ALL_def)

lemma own_labels:
  "label_EVENT \<in> set label_ALL" "label_TIMELINE \<in> set label_ALL" "label_SPEND \<in> set label_ALL"
  "label_IDENTITY \<in> set label_ALL" "label_IDENTITY_ALERT \<in> set label_ALL" "label_BLAST_RADIUS \<in> set label_ALL"
  "label_POLICY \<in> set label_ALL" "label_DECISION \<in> set label_ALL" "label_SIMILAR_SAME_SUBJECT \<in> set label_ALL"
  "label_SIMILAR_OTHER_SUBJECT \<in> set label_ALL" "label_RULING \<in> set label_ALL"
  by (simp_all add: label_ALL_def)

lemma find_in: "find P xs = Some x \<Longrightarrow> x \<in> set xs \<and> P x"
  by (induction xs) (auto split: if_splits)

lemma not_asked_words:
  assumes "not_asked (questions_for event) s = Some reason"
  shows "reason \<in> set words_ALL"
proof -
  obtain p where "p \<in> set (qs_not_asked (questions_for event))" "reason = snd p"
    using assms find_in by (fastforce simp: not_asked_def)
  then show ?thesis by (auto simp: questions_for_def Let_def own_words split: if_splits)
qed

lemma nothing_lawful: "lawful_answer p nothing" "lawful_answer p (one_row r) \<longleftrightarrow> cr_plane r = p \<and> cr_label r \<in> set label_ALL"
  by (simp_all add: nothing_def one_row_def)

lemma rows_lawful:
  "lawful_answer p (Rows (map f xs) note) \<longleftrightarrow> (\<forall>x\<in>set xs. cr_plane (f x) = p \<and> cr_label (f x) \<in> set label_ALL)
     \<and> (\<forall>n\<in>set_option note. n \<in> set words_ALL)"
  by simp

lemma bus_row_sel: "cr_plane (bus_row l e) = Bus" "cr_label (bus_row l e) = l"
  by (simp_all add: bus_row_def)

lemma store_answers_lawful:
  "lawful_answer Bus (store_timeline X cs st qs)" "lawful_answer Bus (store_similar X cs st event qs)"
  by (simp_all add: store_timeline_def store_similar_def own_words own_labels bus_row_sel split: option.split sum.split)

lemma plane_answers_lawful:
  "lawful_answer Tokenfuse (spend Q run_id)" "lawful_answer Wardryx (policy_status Q)"
  "lawful_answer Wardryx (decisions Q run_id)" "lawful_answer Engram (rulings Q type)"
  by (simp_all add: spend_def policy_status_def decisions_def rulings_def nothing_lawful own_labels split: option.split sum.split)

lemma identity_lawful: "lawful_answer Idryx (fst (case_identity Q agent)) \<and> lawful_answer Idryx (snd (case_identity Q agent))"
  by (auto simp: case_identity_def nothing_lawful own_labels own_words split: option.split sum.split)

lemma asked_lawful:
  "lawful_answer Tokenfuse (spend_answer Q (questions_for event))"
  "lawful_answer Wardryx (decisions_answer Q (questions_for event))"
  "lawful_answer Idryx (fst (identity_answers Q (questions_for event)))"
  "lawful_answer Idryx (snd (identity_answers Q (questions_for event)))"
  using not_asked_words [of event]
  by (auto simp: spend_answer_def decisions_answer_def identity_answers_def plane_answers_lawful own_words identity_lawful
      Let_def split: option.split)

lemma answers_lawful:
  assumes "(s, a) \<in> set (store_sections X cs st event (questions_for event) @ plane_answers Q (questions_for event))"
  shows "lawful_answer (section_plane s) a"
proof -
  obtain i b where ib: "identity_answers Q (questions_for event) = (i, b)" by fastforce
  have "lawful_answer Idryx i" "lawful_answer Idryx b" using asked_lawful(3,4) [of Q event] by (simp_all add: ib)
  then show ?thesis
    using assms
    by (auto simp: store_sections_def plane_answers_def ib nothing_lawful bus_row_sel own_labels store_answers_lawful
        plane_answers_lawful asked_lawful)
qed

subsection \<open>A case from its event\<close>

lemma answer_for_in: "answer_for answers s = Some a \<Longrightarrow> (s, a) \<in> set answers"
  using find_in by (fastforce simp: answer_for_def)

lemma case_answers:
  "answer_for (store_sections X cs st event qs @ plane_answers Q qs) s = Some
     (case s of
        SecEvent \<Rightarrow> one_row (bus_row label_EVENT event)
      | SecRunTimeline \<Rightarrow> store_timeline X cs st qs
      | SecSpend \<Rightarrow> spend_answer Q qs
      | SecIdentity \<Rightarrow> fst (identity_answers Q qs)
      | SecBlastRadius \<Rightarrow> snd (identity_answers Q qs)
      | SecPolicy \<Rightarrow> policy_status Q
      | SecDecisions \<Rightarrow> decisions_answer Q qs
      | SecSimilarIncidents \<Rightarrow> store_similar X cs st event qs
      | SecPriorRulings \<Rightarrow> rulings Q (qs_event_type qs))"
  by (cases s) (simp_all add: answer_for_def store_sections_def plane_answers_def case_prod_beta)

lemma case_command_Inr:
  assumes "case_command X Q store incident_id = Inr c"
  obtains cs st event event_id where "event_id_of incident_id = Inr event_id" and "store = Some cs" and "cs_open cs = Inr st"
    and "event_by_id X (cs_event_error cs) st event_id = Inr (Some event)"
    and "c = case_of_event X Q incident_id cs st event"
  using assms
  by (auto simp: case_command_def read_event_def ebind_Inr_iff split: option.splits sum.splits)

lemma fact_in_section:
  assumes "f \<in> set (cf_facts (assemble X head answers))"
  shows "\<exists>s rows n r. answer_for answers s = Some (Rows rows n) \<and> r \<in> set rows \<and> f = fact_of X s r"
proof -
  from assms obtain s where f: "f \<in> set (facts_of X s (answer_for answers s))" by (auto simp: assemble_sel)
  show ?thesis
  proof (cases "answer_for answers s")
    case (Some a)
    with f show ?thesis by (cases a) (auto simp: facts_of_def)
  qed (use f in \<open>simp add: facts_of_def\<close>)
qed

lemma case_fact_lawful:
  assumes "f \<in> set (cf_facts (case_of_event X Q incident_id cs st event))"
  shows "fc_plane f = section_plane (fc_section f)" and "fc_label f \<in> set label_ALL" and "fc_digest f = digest_of X (fc_row f)"
proof -
  let ?answers = "store_sections X cs st event (questions_for event) @ plane_answers Q (questions_for event)"
  from assms obtain s rows n r where a: "answer_for ?answers s = Some (Rows rows n)" "r \<in> set rows" "f = fact_of X s r"
    unfolding case_of_event_def Let_def using fact_in_section by blast
  from answers_lawful [OF answer_for_in [OF a(1)]] a(2,3)
  show "fc_plane f = section_plane (fc_section f)" and "fc_label f \<in> set label_ALL" and "fc_digest f = digest_of X (fc_row f)"
    by (auto simp: fact_of_def)
qed

lemma case_line_lawful:
  assumes "l \<in> set (cf_lines (case_of_event X Q incident_id cs st event))"
  shows "\<forall>r\<in>set_option (ln_reason l). r \<in> set words_ALL"
proof -
  let ?answers = "store_sections X cs st event (questions_for event) @ plane_answers Q (questions_for event)"
  obtain s where l: "l = line_of s (answer_for ?answers s)" using assms by (auto simp: case_of_event_def Let_def assemble_sel)
  obtain a where a: "answer_for ?answers s = Some a" using case_answers by blast
  from answers_lawful [OF answer_for_in [OF a]] show ?thesis
    unfolding l a by (cases a) (auto simp: line_of_def Let_def own_words split: option.splits if_splits)
qed

subsection \<open>Properties\<close>

text \<open>C23. A case answers every question and says so. It has one line per question, in their order, and a line's count
  is the number of facts of its section, which is zero exactly if the line is not an answered one. Every fact
  comes from the plane of its section and carries the digest of its row, and the digest of the case is that of
  the case without it.\<close>

theorem case_complete:
  assumes "case_command X Q store incident_id = Inr c"
  shows "map ln_section (cf_lines c) = section_ALL
    \<and> (\<forall>l\<in>set (cf_lines c). ln_plane l = section_plane (ln_section l)
         \<and> ln_facts l = length (filter (\<lambda>f. fc_section f = ln_section l) (cf_facts c))
         \<and> (ln_state l = LineAnswered \<longleftrightarrow> ln_facts l > 0))
    \<and> (\<forall>f\<in>set (cf_facts c). fc_plane f = section_plane (fc_section f) \<and> fc_digest f = digest_of X (fc_row f))
    \<and> cf_digest c = digest_of X (case_json (c\<lparr>cf_digest := []\<rparr>))"
proof -
  obtain cs st event where c: "c = case_of_event X Q incident_id cs st event" using assms by (rule case_command_Inr)
  let ?answers = "store_sections X cs st event (questions_for event) @ plane_answers Q (questions_for event)"
  have a: "c = assemble X \<lparr>hd_incident_id = incident_id, hd_subject = qs_subject (questions_for event),
      hd_claimed_agent = qs_claimed_agent (questions_for event), hd_run_id = qs_run_id (questions_for event)\<rparr> ?answers"
    by (simp add: c case_of_event_def Let_def)
  have "map ln_section (cf_lines c) = section_ALL" by (simp add: a assemble_sel comp_def line_of_sel)
  moreover have "cf_digest c = digest_of X (case_json (c\<lparr>cf_digest := []\<rparr>))" unfolding a by (rule assemble_digest)
  moreover have "\<forall>l\<in>set (cf_lines c). ln_plane l = section_plane (ln_section l)
         \<and> ln_facts l = length (filter (\<lambda>f. fc_section f = ln_section l) (cf_facts c))
         \<and> (ln_state l = LineAnswered \<longleftrightarrow> ln_facts l > 0)"
    unfolding a by (simp add: section_facts) (simp add: assemble_sel line_of_sel(1,2) line_of_sel(3,4) [where X = X])
  moreover have "\<forall>f\<in>set (cf_facts c). fc_plane f = section_plane (fc_section f) \<and> fc_digest f = digest_of X (fc_row f)"
    using case_fact_lawful(1,3) unfolding c by blast
  ultimately show ?thesis by simp
qed

text \<open>The words of a case are the console's. Whatever the planes, their errors and the store hold, every label
  of a fact and every reason of a line is one of the fixed sentences; foreign text is only in the rows, in
  the ids of rows and in the marked and bounded text of a plane that did not answer.\<close>

theorem case_speaks_own_words:
  assumes "case_command X Q store incident_id = Inr c"
  shows "list_all (\<lambda>f. fc_label f \<in> set label_ALL) (cf_facts c)
    \<and> list_all (\<lambda>l. case ln_reason l of None \<Rightarrow> True | Some r \<Rightarrow> r \<in> set words_ALL) (cf_lines c)
    \<and> list_all (\<lambda>l. case ln_upstream l of None \<Rightarrow> True
         | Some (Data t) \<Rightarrow> ln_state l = LineUnavailable \<and> length (chars t) \<le> UPSTREAM_TEXT_MAX) (cf_lines c)"
proof -
  obtain cs st event where c: "c = case_of_event X Q incident_id cs st event" using assms by (rule case_command_Inr)
  have "list_all (\<lambda>f. fc_label f \<in> set label_ALL) (cf_facts c)" using case_fact_lawful(2) c by (auto simp: list_all_iff)
  moreover have "list_all (\<lambda>l. case ln_reason l of None \<Rightarrow> True | Some r \<Rightarrow> r \<in> set words_ALL) (cf_lines c)"
    using case_line_lawful c by (auto simp: list_all_iff split: option.splits)
  moreover have "case ln_upstream (line_of s a) of None \<Rightarrow> True
      | Some (Data t) \<Rightarrow> ln_state (line_of s a) = LineUnavailable \<and> length (chars t) \<le> UPSTREAM_TEXT_MAX" for s a
    by (auto simp: line_of_def Let_def data_bounded_def length_take_chars split: option.splits case_answer.splits)
  then have "list_all (\<lambda>l. case ln_upstream l of None \<Rightarrow> True
      | Some (Data t) \<Rightarrow> ln_state l = LineUnavailable \<and> length (chars t) \<le> UPSTREAM_TEXT_MAX) (cf_lines c)"
    by (simp add: c case_of_event_def Let_def assemble_sel list_all_iff)
  ultimately show ?thesis by blast
qed

text \<open>C24. An identity refusal is not the agent's. Its case is filed under the key, keeps the agent the caller named as a
  claim only, reads the same whatever Idryx would answer, and holds no fact from Idryx.\<close>

theorem refusal_never_charges_claimed:
  assumes "case_command X Q store incident_id = Inr c"
    and "store = Some cs" and "cs_open cs = Inr st"
    and "event_id_of incident_id = Inr i" and "event_by_id X (cs_event_error cs) st i = Inr (Some event)"
    and "se_type event = IDENTITY_MISMATCH"
  shows "prefix KEY_PREFIX (cf_subject c) \<and> cf_subject c = filed_under IDENTITY_MISMATCH other (se_data event)
    \<and> cf_claimed_agent c = Some (se_agent_id event)
    \<and> case_command X (Q\<lparr>cp_identities := ids, cp_alerts := alerts\<rparr>) store incident_id = Inr c
    \<and> list_all (\<lambda>f. fc_plane f \<noteq> Idryx) (cf_facts c)"
proof -
  have c: "c = case_of_event X Q incident_id cs st event"
    and command: "case_command X Q' store incident_id = Inr (case_of_event X Q' incident_id cs st event)" for Q'
    using assms(1-5) by (auto simp: case_command_def read_event_def)
  let ?qs = "questions_for event"
  have key: "prefix KEY_PREFIX (filed_under IDENTITY_MISMATCH a (se_data event))"
      "filed_under IDENTITY_MISMATCH a (se_data event) = filed_under IDENTITY_MISMATCH b (se_data event)" for a b
    using refusal_filed_under_key by blast+
  then have agent: "qs_agent ?qs = None" "qs_claimed_agent ?qs = Some (se_agent_id event)"
      "qs_subject ?qs = filed_under IDENTITY_MISMATCH (se_agent_id event) (se_data event)"
    using assms(6) by (simp_all add: questions_for_def Let_def)
  have same: "plane_answers (Q\<lparr>cp_identities := ids, cp_alerts := alerts\<rparr>) ?qs = plane_answers Q ?qs"
    by (simp add: plane_answers_def identity_answers_def agent spend_answer_def spend_def decisions_answer_def
        decisions_def policy_status_def rulings_def Let_def split: option.split)
  have "facts_of X s (answer_for (store_sections X cs st event ?qs @ plane_answers Q ?qs) s) = []" if "section_plane s = Idryx" for s
    using that unfolding case_answers
    by (cases s) (simp_all add: identity_answers_def agent facts_of_def Let_def)
  then have "filter (\<lambda>f. fc_section f = s) (cf_facts c) = []" if "section_plane s = Idryx" for s
    using that by (simp add: c case_of_event_def Let_def section_facts)
  then have "list_all (\<lambda>f. fc_plane f \<noteq> Idryx) (cf_facts c)"
    using case_fact_lawful(1) [of _ X Q incident_id cs st event] c by (auto simp: list_all_iff filter_empty_conv)
  moreover have "cf_subject c = filed_under IDENTITY_MISMATCH other (se_data event)" "cf_claimed_agent c = Some (se_agent_id event)"
    using key(2) by (auto simp: c case_of_event_def Let_def assemble_sel agent)
  moreover have "case_of_event X (Q\<lparr>cp_identities := ids, cp_alerts := alerts\<rparr>) incident_id cs st event = c"
    by (simp add: c case_of_event_def Let_def same)
  ultimately show ?thesis using key(1) command by simp
qed

text \<open>An alert list that could not be read counts as no alerts. The line of the blast radius is then a plain
  answered one, and line and fact are the very same as when Idryx holds no alert for the identity: the fact
  says zero alerts. Only the line of the identity record says they are missing.\<close>

theorem unread_alerts_counted_as_none:
  assumes "qs_agent (questions_for event) = Some agent" and "find (\<lambda>i. id_id i = agent) ids = Some me"
    and "unread = case_of_event X (Q\<lparr>cp_identities := Inr ids, cp_alerts := Inl e\<rparr>) incident_id cs st event"
    and "quiet = case_of_event X (Q\<lparr>cp_identities := Inr ids, cp_alerts := Inr []\<rparr>) incident_id cs st event"
  shows "filter (\<lambda>l. ln_section l = SecBlastRadius) (cf_lines unread) = filter (\<lambda>l. ln_section l = SecBlastRadius) (cf_lines quiet)
    \<and> filter (\<lambda>f. fc_section f = SecBlastRadius) (cf_facts unread) = filter (\<lambda>f. fc_section f = SecBlastRadius) (cf_facts quiet)
    \<and> map (\<lambda>f. json_get (fc_row f) ''alerts'') (filter (\<lambda>f. fc_section f = SecBlastRadius) (cf_facts unread)) = [Some (json_nat 0)]
    \<and> map (\<lambda>l. (ln_state l, ln_reason l)) (filter (\<lambda>l. ln_section l = SecBlastRadius) (cf_lines unread)) = [(LineAnswered, None)]"
proof -
  let ?blast = "one_row \<lparr>cr_plane = Idryx, cr_row_id = id_id me @ ''#blast_radius'', cr_label = label_BLAST_RADIUS,
    cr_value = blast_radius me ids 0\<rparr>"
  have blast: "snd (identity_answers (Q\<lparr>cp_identities := Inr ids, cp_alerts := a\<rparr>) (questions_for event)) = ?blast"
    if "a = Inl e \<or> a = Inr []" for a
    using that assms(1,2) by (auto simp: identity_answers_def case_identity_def)
  have lines: "filter (\<lambda>l. ln_section l = SecBlastRadius) (cf_lines (assemble X head answers))
      = [line_of SecBlastRadius (answer_for answers SecBlastRadius)]" for head answers
    by (simp add: assemble_sel section_ALL_def line_of_sel)
  have alerts: "json_get (blast_radius me ids 0) ''alerts'' = Some (json_nat 0)"
    by (simp add: blast_radius_def Let_def json_get_object)
  show ?thesis
    unfolding assms(3,4) case_of_event_def Let_def lines section_facts case_answers
    using blast alerts by (simp add: one_row_def facts_of_def fact_of_def line_of_def Let_def)
qed

subsection \<open>Incident ids\<close>

lemma ascii_digit_no_colon: "list_all ascii_digit s \<Longrightarrow> CHR '':'' \<notin> set s"
  by (auto simp: list_all_iff ascii_digit_def)

text \<open>The row id is read back. The bare number, and the number under the source of the bus or of Verdryx, name
  exactly that row of the store, as long as it fits a 64-bit id; a larger one is no incident id.\<close>

theorem incident_id_roundtrip:
  "list_all (\<lambda>p. event_id_of (p @ dec n) =
      (if n < 2 ^ 63 then Inr n else Inl (BadIncidentId (take_chars 80 (p @ dec n))))) [[], ''bus:'', ''verdryx:'']
   \<and> event_id_of (''money:'' @ s) = Inl (UnsupportedSource ''money'')
   \<and> event_id_of (''idryx:'' @ s) = Inl (UnsupportedSource ''idryx'')
   \<and> event_id_of (''posture:'' @ s) = Inl (UnsupportedSource ''posture'')"
proof -
  have split: "split_once CHR '':'' (p @ CHR '':'' # s) = Some (p, s)" if "CHR '':'' \<notin> set p" for p s
    using that by (rule split_once_append)
  have "CHR '':'' \<notin> set (dec n)" using ascii_digit_no_colon dec_digits [of n] by blast
  then have "dropWhile (\<lambda>x. x \<noteq> CHR '':'') (dec n) = []" by auto
  then have bare: "split_once CHR '':'' (dec n) = None" unfolding split_once_def by (simp only: list.case)
  show ?thesis
    using dec_digits [of n] bare split [of "''bus''" "dec n"] split [of "''verdryx''" "dec n"]
      split [of "''money''" s] split [of "''idryx''" s] split [of "''posture''" s]
    by (auto simp: event_id_of_def Let_def)
qed

end
