(* ===== verification/StoreFacts.thy ===== *)
theory StoreFacts
  imports StoreReads
begin

section \<open>What the reads of the store answer\<close>

text \<open>
  The aggregate over event types counts every row of its window once; pruning takes nothing that a later
  window or an undated count would have shown; and the example shown for a reason of quarantine is put
  together from different lines.
\<close>

subsection \<open>Groups\<close>

lemma set_group_keys [simp]: "set (group_keys key xs) = key ` set xs"
  by (simp add: group_keys_def)

lemma distinct_group_keys [simp]: "distinct (group_keys key xs)"
  by (simp add: group_keys_def)

lemma group_counts:
  "sum_list (map (\<lambda>k. length (filter (\<lambda>x. key x = k) xs)) (group_keys key xs)) = length xs"
proof -
  have "length (filter (\<lambda>x. key x = k) xs) = count_list (map key xs) k" for k
    by (induction xs) auto
  then have "sum_list (map (\<lambda>k. length (filter (\<lambda>x. key x = k) xs)) (group_keys key xs))
      = sum (count_list (map key xs)) (key ` set xs)"
    by (simp add: sum_list_distinct_conv_sum_set)
  also have "\<dots> = length (map key xs)" by (rule sum_count_set) auto
  finally show ?thesis by simp
qed

lemma sql_max_Some: "sql_max (map Some xs) = (if xs = [] then None else Some (Max (set xs)))"
proof -
  have "List.map_filter id (map Some xs) = xs" by (induction xs) (simp_all add: List.map_filter_simps)
  moreover have "foldl max y ys = fold max ys y" for y :: 'a and ys
    by (induction ys arbitrary: y) (simp_all add: max.commute)
  ultimately show ?thesis by (cases xs) (simp_all add: sql_max_def Max.set_eq_fold [symmetric])
qed

lemma map_Some: "map (Some \<circ> f) xs = map Some (map f xs)"
  by simp

subsection \<open>Properties\<close>

text \<open>The aggregate is the whole window. It has one row for each subject and type that occur in the window, and
  no other; the row counts the events filed under that subject with that type and carries the latest of
  their times; and the counts add up to the number of events in the window.\<close>

theorem type_counts_exact:
  assumes "type_counts_since X failed st cutoff = Inr counts"
  shows "distinct (map (\<lambda>c. (tc_agent_id c, tc_type c)) counts)
    \<and> set (map (\<lambda>c. (tc_agent_id c, tc_type c)) counts)
        = (\<lambda>r. (row_subject X r, row_type r)) ` {r \<in> set (st_events st). in_window cutoff r}
    \<and> list_all (\<lambda>c. let group = filter (\<lambda>r. in_window cutoff r \<and> row_subject X r = tc_agent_id c \<and> row_type r = tc_type c) (st_events st)
         in tc_count c = length group \<and> tc_last_ts c = Max (row_ts ` set group)) counts
    \<and> sum_list (map tc_count counts) = length (filter (in_window cutoff) (st_events st))"
proof -
  let ?rows = "filter (in_window cutoff) (st_events st)"
  let ?key = "\<lambda>r. (row_subject X r, row_type r)"
  let ?group = "\<lambda>k. filter (\<lambda>r. ?key r = k) ?rows"
  let ?row = "\<lambda>k. \<lparr>tc_agent_id = fst k, tc_type = snd k, tc_count = length (?group k),
    tc_last_ts = (case sql_max (map (Some \<circ> row_ts) (?group k)) of None \<Rightarrow> [] | Some ts \<Rightarrow> ts)\<rparr>"
  have counts: "counts = map ?row (group_keys ?key ?rows)"
    using assms by (auto simp: type_counts_since_def query_def Let_def case_prod_beta split: option.splits)
  have keys: "map (\<lambda>c. (tc_agent_id c, tc_type c)) counts = group_keys ?key ?rows"
    by (simp add: counts comp_def)
  have "?group k \<noteq> []" if "k \<in> set (group_keys ?key ?rows)" for k
    using that by (auto simp: filter_empty_conv)
  then have "tc_last_ts (?row k) = Max (row_ts ` set (?group k))" if "k \<in> set (group_keys ?key ?rows)" for k
    using that by (simp only: map_Some sql_max_Some agent_type_count.simps map_is_Nil_conv if_False option.case set_map)
  moreover have "?group k = filter (\<lambda>r. in_window cutoff r \<and> row_subject X r = fst k \<and> row_type r = snd k) (st_events st)" for k
    by (auto simp: prod_eq_iff conj_ac intro!: filter_cong)
  ultimately have "list_all (\<lambda>c. let group = filter (\<lambda>r. in_window cutoff r \<and> row_subject X r = tc_agent_id c \<and> row_type r = tc_type c) (st_events st)
         in tc_count c = length group \<and> tc_last_ts c = Max (row_ts ` set group)) counts"
    unfolding counts list_all_iff set_map by (auto simp: Let_def)
  moreover have "sum_list (map tc_count counts) = length ?rows"
    using group_counts [of ?key ?rows] by (simp add: counts comp_def)
  ultimately show ?thesis using keys by (simp add: conj_commute)
qed

text \<open>Pruning is invisible from the cutoff on. It never drops an undated event; the counts of any window that
  begins at the cutoff or later, and the number of undated events, are the same after it; and it drops
  exactly as many events as it reports.\<close>

theorem prune_keeps_windows:
  assumes "prune_before ms_text st cutoff = (st', n, q)" and "cutoff \<le> since"
  shows "type_counts_since X None st' (Some since) = type_counts_since X None st (Some since)
    \<and> undated_count None st' = undated_count None st
    \<and> length (st_events st) = length (st_events st') + n
    \<and> length (st_quarantine st) = length (st_quarantine st') + q"
proof -
  let ?old = "\<lambda>r. case row_ts_ms r of None \<Rightarrow> False | Some ms \<Rightarrow> ms < cutoff"
  let ?old_q = "\<lambda>q. q_ts q < ms_text cutoff"
  have st': "st_events st' = filter (\<lambda>r. \<not> ?old r) (st_events st)" "n = length (filter ?old (st_events st))"
      "st_quarantine st' = filter (\<lambda>r. \<not> ?old_q r) (st_quarantine st)" "q = length (filter ?old_q (st_quarantine st))"
    using assms(1) by (auto simp: prune_before_def Let_def)
  have "filter (in_window (Some since)) (st_events st') = filter (in_window (Some since)) (st_events st)"
    using assms(2) unfolding st' by (auto simp: in_window_def dated_since_def intro!: filter_cong split: option.splits)
  moreover have "filter (\<lambda>r. row_ts_ms r = None) (st_events st') = filter (\<lambda>r. row_ts_ms r = None) (st_events st)"
    unfolding st' by (auto intro!: filter_cong split: option.splits)
  ultimately show ?thesis
    using sum_length_filter_compl [of ?old "st_events st"] sum_length_filter_compl [of ?old_q "st_quarantine st"]
    by (simp add: type_counts_since_def undated_count_def query_def Let_def st')
qed

text \<open>The example of a reason is no line. The file, the offset and the excerpt shown for a reason are each the
  greatest on their own, so of two lines refused for one reason, one in the later file and one at the
  greater offset, the example names a place where no refused line was.\<close>

theorem quarantine_example_mixed:
  assumes "st_quarantine st = [q1, q2]" and "q_reason q1 = q_reason q2"
    and "q_file q1 = Some f1" and "q_file q2 = Some f2" and "f1 < f2"
    and "q_off q1 = Some o1" and "q_off q2 = Some o2" and "o2 < o1" and "limit \<noteq> 0"
  shows "\<exists>g. quarantine_by_reason None st limit = Inr [g]
    \<and> qr_example_file g = Some f2 \<and> qr_example_offset g = Some o1
    \<and> \<not> list_ex (\<lambda>q. q_file q = qr_example_file g \<and> q_off q = qr_example_offset g) (st_quarantine st)"
proof -
  have "group_keys q_reason (st_quarantine st) = [q_reason q1]" using assms(1,2) by (simp add: group_keys_def)
  moreover have "sql_limit limit = Suc (sql_limit limit - 1)" using assms(9) by (simp add: sql_limit_def)
  ultimately have "quarantine_by_reason None st limit = Inr [quarantine_group (st_quarantine st) (q_reason q1)]"
    by (simp add: quarantine_by_reason_def query_def)
  moreover have "f1 \<le> f2" "f1 \<noteq> f2" using assms(5) by auto
  ultimately show ?thesis using assms
    by (simp add: quarantine_group_def Let_def sql_max_def List.map_filter_simps max_def)
qed

end
