(* ===== verification/CaseDemo.thy ===== *)
theory CaseDemo
  imports CaseFacts StoreFacts "HOL-Library.Code_Target_Nat"
begin

section \<open>A concrete store and its cases\<close>

text \<open>
  A store with an alert on an agent, an earlier one, and an identity refusal that claimed the same agent; and
  planes of which two answer.
\<close>

definition case_lib :: ingest_lib where
  "case_lib =
     \<lparr>parse_json = (\<lambda>_. Inl ''bad''), schema_valid = (\<lambda>_ _. True), schema_errors = (\<lambda>_ _. []),
      decode_event = (\<lambda>_. Inl ''bad''), debug_str = (\<lambda>s. s), sha256_hex = (\<lambda>_. ''00''), json_text = (\<lambda>_. ''j''),
      rfc3339_millis = (\<lambda>_. Some 7)\<rparr>"

definition demo_row :: "nat \<Rightarrow> string \<Rightarrow> int option \<Rightarrow> stored_row" where
  "demo_row i type ms =
     \<lparr>row_id = i, row_env = ''local'', row_ts = ''t'', row_source = ''idryx'', row_type = type, row_agent_id = ''agent://o/a'',
      row_run_id = Some ''r-1'', row_severity = None, row_schema = SCHEMA_V0_2, row_on_behalf_of = None, row_data = None,
      row_prev_hash = None, row_raw = [], row_file = None, row_off = None, row_dedupe = dec i, row_ts_ms = ms\<rparr>"

definition case_db :: store where
  "case_db = \<lparr>st_events = [demo_row 1 ''alert'' (Some 5), demo_row 2 ''alert'' (Some 9), demo_row 3 IDENTITY_MISMATCH None],
     st_quarantine =
       [\<lparr>q_env = ''local'', q_file = Some ''a'', q_off = Some 9, q_raw = ''x'', q_reason = ''no id'', q_ts = ''1''\<rparr>,
        \<lparr>q_env = ''local'', q_file = Some ''b'', q_off = Some 1, q_raw = ''y'', q_reason = ''no id'', q_ts = ''2''\<rparr>],
     st_offsets = []\<rparr>"

definition open_db :: case_store where
  "open_db = \<lparr>cs_open = Inr case_db, cs_event_error = None, cs_run_error = None, cs_similar_error = None\<rparr>"

definition demo_identity :: idryx_identity where
  "demo_identity = \<lparr>id_id = ''agent://o/a'', id_type = ''agent'', id_privileged = True, id_on_behalf_of = [],
     id_permissions = [], id_value = JNull\<rparr>"

definition demo_planes :: case_planes where
  "demo_planes = \<lparr>cp_runs = Inr [\<lparr>rr_run_id = ''r-1'', rr_value = JNull\<rparr>], cp_identities = Inr [demo_identity],
     cp_alerts = Inl ''down'', cp_status = Inl ''down'', cp_approvals = Inr [], cp_recall = (\<lambda>_ _. Inr [])\<rparr>"

definition event_two :: stored_event where
  "event_two = (case stored_event_from_row case_lib (demo_row 2 ''alert'' (Some 9)) of Inr e \<Rightarrow> e)"

definition event_three :: stored_event where
  "event_three = (case stored_event_from_row case_lib (demo_row 3 IDENTITY_MISMATCH None) of Inr e \<Rightarrow> e)"

definition case_two :: case_file where
  "case_two = case_of_event case_lib demo_planes ''bus:2'' open_db case_db event_two"

definition case_three :: case_file where
  "case_three = case_of_event case_lib demo_planes ''bus:3'' open_db case_db event_three"

lemma demo_events:
  "event_id_of ''bus:2'' = Inr 2" "event_id_of ''bus:3'' = Inr 3"
  "event_by_id case_lib None case_db 2 = Inr (Some event_two)"
  "event_by_id case_lib None case_db 3 = Inr (Some event_three)" "se_type event_three = IDENTITY_MISMATCH"
  by code_simp+

lemma demo_cases:
  "case_command case_lib demo_planes (Some open_db) ''bus:2'' = Inr case_two"
  "case_command case_lib demo_planes (Some open_db) ''bus:3'' = Inr case_three"
  by (simp_all add: case_command_def read_event_def demo_events open_db_def case_two_def case_three_def)

theorem case_complete_witness:
  "map ln_section (cf_lines case_two) = section_ALL
    \<and> map ln_state (cf_lines case_two) =
        [LineAnswered, LineAnswered, LineAnswered, LineAnswered, LineAnswered, LineUnavailable, LineEmpty, LineAnswered, LineEmpty]"
proof
  show "map ln_section (cf_lines case_two) = section_ALL" using case_complete [OF demo_cases(1)] by blast
qed code_simp

theorem case_speaks_own_words_witness:
  "list_all (\<lambda>f. fc_label f \<in> set label_ALL) (cf_facts case_two) \<and> length (cf_facts case_two) = 8"
proof
  show "list_all (\<lambda>f. fc_label f \<in> set label_ALL) (cf_facts case_two)" using case_speaks_own_words [OF demo_cases(1)] by blast
qed code_simp

theorem refusal_never_charges_claimed_witness:
  "cf_claimed_agent case_three = Some ''agent://o/a'' \<and> cf_subject case_three = ''key:(none)''
    \<and> case_command case_lib (demo_planes\<lparr>cp_identities := Inl ''down'', cp_alerts := Inr []\<rparr>) (Some open_db) ''bus:3'' = Inr case_three"
proof -
  have "cs_open open_db = Inr case_db" "event_by_id case_lib (cs_event_error open_db) case_db 3 = Inr (Some event_three)"
    by (simp_all add: open_db_def demo_events)
  from refusal_never_charges_claimed [OF demo_cases(2) refl this(1) demo_events(2) this(2) demo_events(5),
      where ids = "Inl ''down''" and alerts = "Inr []"]
  have "cf_claimed_agent case_three = Some (se_agent_id event_three)"
    "case_command case_lib (demo_planes\<lparr>cp_identities := Inl ''down'', cp_alerts := Inr []\<rparr>) (Some open_db) ''bus:3'' = Inr case_three"
    by blast+
  moreover have "se_agent_id event_three = ''agent://o/a''" "cf_subject case_three = ''key:(none)''" by code_simp+
  ultimately show ?thesis by simp
qed

theorem unread_alerts_counted_as_none_witness:
  "map (\<lambda>f. json_get (fc_row f) ''alerts'') (filter (\<lambda>f. fc_section f = SecBlastRadius) (cf_facts case_two)) = [Some (json_nat 0)]
   \<and> cp_alerts demo_planes = Inl ''down''"
proof
  have "demo_planes\<lparr>cp_identities := Inr [demo_identity], cp_alerts := Inl ''down''\<rparr> = demo_planes" by (simp add: demo_planes_def)
  then have "case_two = case_of_event case_lib (demo_planes\<lparr>cp_identities := Inr [demo_identity], cp_alerts := Inl ''down''\<rparr>)
      ''bus:2'' open_db case_db event_two" by (simp add: case_two_def)
  moreover have "qs_agent (questions_for event_two) = Some ''agent://o/a''" by code_simp
  moreover have "find (\<lambda>i. id_id i = ''agent://o/a'') [demo_identity] = Some demo_identity" by code_simp
  ultimately show "map (\<lambda>f. json_get (fc_row f) ''alerts'') (filter (\<lambda>f. fc_section f = SecBlastRadius) (cf_facts case_two)) = [Some (json_nat 0)]"
    using unread_alerts_counted_as_none [OF _ _ _ refl] by blast
qed (simp add: demo_planes_def)

theorem type_counts_exact_witness:
  "case type_counts_since case_lib None case_db None of Inl _ \<Rightarrow> False
   | Inr counts \<Rightarrow> sum_list (map tc_count counts) = 3 \<and> map tc_count counts = [2, 1]"
proof -
  obtain counts where counts: "type_counts_since case_lib None case_db None = Inr counts"
    by (simp add: type_counts_since_def query_def)
  moreover have "length (filter (in_window None) (st_events case_db)) = 3" by code_simp
  moreover have "map_sum id (map tc_count) (type_counts_since case_lib None case_db None) = Inr [2, 1]" by code_simp
  ultimately show ?thesis using type_counts_exact [OF counts] by simp
qed

theorem prune_keeps_windows_witness:
  "case prune_before (\<lambda>_. ''2'') case_db 6 of (st', n, q) \<Rightarrow>
     length (st_events case_db) = length (st_events st') + n \<and> n = 1 \<and> q = 1"
proof -
  obtain st' n q where p: "prune_before (\<lambda>_. ''2'') case_db 6 = (st', n, q)" by (metis prod_cases3)
  have "snd (prune_before (\<lambda>_. ''2'') case_db 6) = (1, 1)" by code_simp
  with p prune_keeps_windows [OF p order_refl] show ?thesis by simp
qed

theorem quarantine_example_mixed_witness:
  "\<exists>g. quarantine_by_reason None case_db 10 = Inr [g] \<and> qr_example_file g = Some ''b'' \<and> qr_example_offset g = Some 9"
proof -
  have "''a'' < (''b'' :: string)" by code_simp
  then show ?thesis
    using quarantine_example_mixed [of case_db _ _ "''a''" "''b''" 9 1 10] by (fastforce simp: case_db_def)
qed

end
