(* ===== verification/ProofDemo.thy ===== *)
theory ProofDemo
  imports ProofFacts BudgetFacts CaseDemo
begin

section \<open>Concrete proofs\<close>

text \<open>
  A replay of two decisions of which the candidate turns one, the incident's, from allow into deny; a backtest that
  blocks one of the two calls of a run; and two reports that are taken for something else than they are.
\<close>

text \<open>A report is read part by part.\<close>

lemma parse_candidate_parts:
  assumes "dropWhile (\<lambda>l. \<not> prefix ''Against '' l) lines = at_line # rest"
    and "strip_suffix '' replayable decision(s) change:'' at_line = Some head"
    and "rsplit_once_str '', '' head = Some (name, counts)" and "split_once_str '' of '' counts = Some (a, b)"
    and "parse_u64 (trim a) = Some (length (candidate_rows rest))" and "parse_u64 (trim b) = Some n"
  shows "parse_candidate lines = Inr (Some \<lparr>cn_changed = length (candidate_rows rest), cn_replayable = n, cn_rows = candidate_rows rest\<rparr>)"
  unfolding parse_candidate_def assms(1) by (simp add: assms(2-) ok_or_def Let_def)

lemma parse_report_parts:
  assumes "str_lines t = first # rest"
    and "Option.bind (strip_prefix ''Replayed '' first) (\<lambda>r. Option.bind (first_word r) parse_u64) = Some n" and "n \<noteq> 0"
    and "report_counts (foldl fill_slots (replicate 7 None) rest) = Some o'" and "outcomes_total o' = n"
    and "parse_candidate (first # rest) = Inr (Some c)" and "cn_replayable c = outcomes_replayable o'"
  shows "parse_report t = Inr \<lparr>rp_replayed = n, rp_outcomes = o', rp_candidate = Some c\<rparr>"
  unfolding parse_report_def assms(1) list.case report_lines_def assms(2) report_candidate_def
  using assms(3-) by (simp add: ok_or_def)

definition two_reproduced :: outcomes where
  "two_reproduced = no_outcomes\<lparr>oc_reproduced := 2\<rparr>"

definition report_head :: "string \<Rightarrow> string list" where
  "report_head changed =
     [''Replayed 2 decision(s) from e'', [], ''  reproduced 2'', ''  approval-decided 0'', ''  approval-spent 0'',
      ''  approval-refused 0'', ''  not archived 0'', ''  unreadable 0'', ''  diverged 0'', [],
      ''Against c, '' @ changed @ '' of 2 replayable decision(s) change:'']"

lemma two_reproduced_counts:
  "report_counts (foldl fill_slots (replicate 7 None) (tl (report_head ''1''))) = Some two_reproduced"
  "outcomes_total two_reproduced = 2" "outcomes_replayable two_reproduced = 2"
  by code_simp+

lemma fill_full: "None \<notin> set found \<Longrightarrow> length found \<le> 7 \<Longrightarrow> fill_slots found l = found"
  by (rule nth_equalityI) (auto simp: fill_slots_def LABELS_def dest: nth_mem)

lemma read_one_change:
  assumes "str_lines t = report_head ''1'' @ rows" and "candidate_rows rows = [r]"
  shows "parse_report t = Inr \<lparr>rp_replayed = 2, rp_outcomes = two_reproduced,
    rp_candidate = Some \<lparr>cn_changed = 1, cn_replayable = 2, cn_rows = [r]\<rparr>\<rparr>"
proof (rule parse_report_parts [where first = "hd (report_head ''1'')" and rest = "tl (report_head ''1'') @ rows"])
  show "str_lines t = hd (report_head ''1'') # tl (report_head ''1'') @ rows" by (simp add: assms(1) report_head_def)
  show "Option.bind (strip_prefix ''Replayed '' (hd (report_head ''1''))) (\<lambda>r. Option.bind (first_word r) parse_u64) = Some 2"
    by code_simp
  obtain found where f: "foldl fill_slots (replicate 7 None) (tl (report_head ''1'')) = found" by simp
  with two_reproduced_counts(1) have full: "None \<notin> set found \<and> length found \<le> 7"
    by (auto simp: report_counts_def split: list.splits option.splits)
  have "foldl fill_slots found ls = found" for ls using full by (induction ls) (simp_all add: fill_full)
  then show "report_counts (foldl fill_slots (replicate 7 None) (tl (report_head ''1'') @ rows)) = Some two_reproduced"
    using f two_reproduced_counts(1) by simp
  have drop: "dropWhile (\<lambda>l. \<not> prefix ''Against '' l) (hd (report_head ''1'') # tl (report_head ''1'') @ rows)
      = last (report_head ''1'') # rows" by (simp add: report_head_def)
  have parts: "strip_suffix '' replayable decision(s) change:'' (last (report_head ''1'')) = Some ''Against c, 1 of 2''"
    "rsplit_once_str '', '' ''Against c, 1 of 2'' = Some (''Against c'', ''1 of 2'')"
    "split_once_str '' of '' ''1 of 2'' = Some (''1'', ''2'')" "parse_u64 (trim ''1'') = Some 1" "parse_u64 (trim ''2'') = Some 2"
    by code_simp+
  show "parse_candidate (hd (report_head ''1'') # tl (report_head ''1'') @ rows)
      = Inr (Some \<lparr>cn_changed = 1, cn_replayable = 2, cn_rows = [r]\<rparr>)"
    using parse_candidate_parts [OF drop parts(1,2,3) _ parts(5)] parts(4) assms(2) by simp
qed (simp_all add: two_reproduced_counts)

definition report_text :: "string list \<Rightarrow> string" where
  "report_text rows = join [LF] (report_head ''1'' @ rows)"

definition demo_rows :: "string list" where
  "demo_rows = [''  allow -> deny   a  run r-1'', ''   was: x'', ''   now: y'']"

definition demo_report :: string where
  "demo_report = report_text demo_rows"

definition demo_child :: "string \<Rightarrow> child" where
  "demo_child out = \<lparr>cd_poll = (\<lambda>k. if k = 0 then Inr None else Inr (Some (Some 0))), cd_now = (\<lambda>k. k), cd_stdout = out,
     cd_stderr = []\<rparr>"

definition demo_world :: proof_world where
  "demo_world = \<lparr>pw_now = 0, pw_scratch = Inr ''/tmp/s'', pw_write = None, pw_spawn = (\<lambda>_ _ _. Inr (demo_child demo_report))\<rparr>"

definition demo_config :: proof_config where
  "demo_config = \<lparr>pc_wardryx_bin = ''wardryx'', pc_archive = Some ''/a'', pc_events = Some ''/e''\<rparr>"

definition demo_request :: proof_request where
  "demo_request = \<lparr>pq_incident_id = ''bus:2'', pq_candidate = ''deny: all''\<rparr>"

definition demo_proof :: "(slots \<times> (proof_error + policy_proof)) option" where
  "demo_proof = prove_in case_lib demo_world (slots_new 2) demo_config (Some open_db) demo_request 5"

lemma demo_wait: "0 < deadline \<Longrightarrow> wait_child (demo_child out) deadline seconds 0 = Some (Inr (Some 0))"
  by (subst wait_child.simps, subst wait_child.simps) (simp add: demo_child_def)

lemma demo_incident_run:
  "0 < deadline \<Longrightarrow> spawn bin args extra = Inr (demo_child out) \<Longrightarrow>
   run_bounded spawn bin args extra deadline seconds
     = Some (Inr \<lparr>fi_exit = Some 0, fi_stdout = from_utf8_lossy (capped out), fi_stderr = []\<rparr>)"
  by (simp add: run_bounded_def demo_wait, simp add: demo_child_def capped_def)

lemma demo_inputs: "proof_inputs case_lib demo_config (Some open_db) demo_request = Inr (''/a'', ''/e'', ''r-1'')"
  by code_simp

definition stopping_row :: "string \<Rightarrow> changed_row" where
  "stopping_row r = \<lparr>ch_from = ''allow'', ch_to = ''deny'', ch_agent = Data ''a'', ch_run = Data r, ch_was = Data ''x'',
     ch_now = Data ''y''\<rparr>"

lemma demo_rows_read: "candidate_rows demo_rows = [stopping_row ''r-1'']"
  by code_simp

lemma demo_read:
  "from_utf8_lossy (capped demo_report) = demo_report" "str_lines demo_report = report_head ''1'' @ demo_rows"
  by code_simp+

lemma judge_stopping:
  "pp_stops_this_incident (judge \<lparr>rp_replayed = 2, rp_outcomes = two_reproduced,
     rp_candidate = Some \<lparr>cn_changed = 1, cn_replayable = 2, cn_rows = [stopping_row r]\<rparr>\<rparr> i) = Some (r = i)"
  by (simp add: judge_def Let_def two_reproduced_def no_outcomes_def stopping_row_def)

lemma demo_proof_result:
  "\<exists>p. demo_proof = Some (slots_new 2, Inr p) \<and> pp_stops_this_incident p = Some True"
proof -
  note report = read_one_change [OF demo_read(2) demo_rows_read]
  obtain r where r: "parse_report demo_report = Inr r" "pp_stops_this_incident (judge r ''r-1'') = Some True"
    using report judge_stopping by metis
  then have "replay_candidate demo_world demo_config (''/a'', ''/e'', ''r-1'') 5 = Some (Inr (judge r ''r-1''))"
    by (simp add: replay_candidate_def run_replay_def demo_world_def demo_incident_run demo_read(1) read_replay_def)
  then have "demo_proof = Some (slots_new 2, Inr (judge r ''r-1''))"
    by (simp add: demo_proof_def prove_in_def demo_inputs try_acquire_def slot_drop_def slots_new_def)
  with r show ?thesis by blast
qed

lemma demo_clock: "clock_reaches (pw_spawn demo_world) (pw_now demo_world + 5)"
  by (auto simp: clock_reaches_def demo_world_def demo_child_def)



definition long_run :: string where "long_run = replicate 301 (CHR ''r'')"

definition long_rows :: "string list" where
  "long_rows = [''  allow -> deny   a  run '' @ long_run, ''   was: x'', ''   now: y'']"

lemma long_run_read:
  "candidate_rows long_rows = [stopping_row (replicate 300 (CHR ''r''))]"
  "str_lines (report_text long_rows) = report_head ''1'' @ long_rows"
  "UPSTREAM_TEXT_MAX < length (chars long_run)" "replicate 300 (CHR ''r'') \<noteq> long_run"
  by code_simp+

theorem long_run_counted_elsewhere_witness:
  "\<exists>report. parse_report (report_text long_rows) = Inr report
     \<and> pp_incident_changes (judge report long_run) = [] \<and> pp_stops_this_incident (judge report long_run) = Some False"
proof -
  note r = read_one_change [OF long_run_read(2,1)]
  from long_run_counted_elsewhere [OF r long_run_read(3)] r judge_stopping long_run_read(4) show ?thesis by fastforce
qed

text \<open>A run id that holds line feeds prints a row of another run in the place of its own, and the count still fits:
  the report of a change that loosens run r-2 is read as one that stops run r-1.\<close>

definition forged_rows :: "string list" where
  "forged_rows = [''  deny -> allow   a  run r-2'' @ [LF] @ ''allow -> deny a run r-1'' @ [LF] @ ''was: x'' @ [LF] @ ''now: y'',
     ''   was: x'', ''   now: y'']"

definition forged_lines :: "string list" where
  "forged_lines = [''  deny -> allow   a  run r-2'', ''allow -> deny a run r-1'', ''was: x'', ''now: y'', ''   was: x'', ''   now: y'']"

lemma forged_read:
  "candidate_rows forged_lines = [stopping_row ''r-1'']"
  "str_lines (report_text forged_rows) = report_head ''1'' @ forged_lines"
  by code_simp+

lemma forged_row_taken:
  "\<exists>report. parse_report (report_text forged_rows) = Inr report \<and> pp_stops_this_incident (judge report ''r-1'') = Some True"
  using read_one_change [OF forged_read(2,1)] judge_stopping by metis

text \<open>Counts whose sum wraps around are taken to add up.\<close>

lemma wrapped_outcomes_accepted:
  "outcomes_total (no_outcomes\<lparr>oc_reproduced := 2 ^ 64 - 1, oc_unreadable := 2\<rparr>) = 1"
  by code_simp

subsection \<open>A budget\<close>

text \<open>Two calls of run r-1, of which a limit of one step blocks one; nothing else is in the trace.\<close>

definition demo_amounts :: amounts where
  "demo_amounts = \<lparr>am_text = idec, am_read = parse_i64, am_four = idec\<rparr>"

definition budget_asked :: budget_request where
  "budget_asked = \<lparr>bq_incident_id = ''bus:2'', bq_per_run_usd = None, bq_per_step_usd = None, bq_max_steps = Some 1\<rparr>"

definition one_step :: budget_candidate where
  "one_step = \<lparr>bc_per_run_micros = None, bc_per_step_micros = None, bc_max_steps = Some 1\<rparr>"

definition backtest_text :: string where
  "backtest_text = join [LF]
     [HEAD_LINE, CANDIDATE_LINE @ ''max_steps 1'', RUNS_LINE @ ''1 (1 affected)'', CALLS_LINE @ ''2 (1 would be blocked)'',
      SPEND_LINE @ ''$0.000003'', SAVED_LINE @ ''$0.000002 (66.7%)'', PROJECTED_LINE @ ''$0.000001'', []]"

definition backtest_result :: backtest_report where
  "backtest_result = \<lparr>br_runs_total = 1, br_runs_affected = 1, br_calls_total = 2, br_calls_blocked = 1,
     br_spent_micros = 3, br_saved_micros = 2\<rparr>"

definition table_text :: "string list \<Rightarrow> string" where
  "table_text rows = join [LF] ([''+--+''] @ take 1 rows @ [''+--+''] @ drop 1 rows @ [''+--+''])"

definition tokenfuse_says :: "string list \<Rightarrow> string" where
  "tokenfuse_says args =
     (if args ! 0 = ''backtest'' then backtest_text
      else if args ! 1 = STEP_COUNT_STATEMENT then table_text [''| n | steps |'', ''| 2 | 2 |'']
      else table_text [''| count |'', ''| 2 |''])"

definition budget_world :: proof_world where
  "budget_world = \<lparr>pw_now = 0, pw_scratch = Inr ''/tmp/s'', pw_write = None,
     pw_spawn = (\<lambda>_ args _. Inr (demo_child (tokenfuse_says args)))\<rparr>"

definition budget_config_demo :: budget_config where
  "budget_config_demo = \<lparr>gc_tokenfuse_bin = ''tokenfuse'', gc_trace_dir = Some ''/t''\<rparr>"

definition demo_budget :: "(slots \<times> (proof_error + budget_proof)) option" where
  "demo_budget = prove_budget_in case_lib demo_amounts budget_world (slots_new 2) budget_config_demo (Some open_db) budget_asked 5"

lemma budget_inputs_demo:
  "budget_inputs_of case_lib demo_amounts budget_config_demo (Some open_db) budget_asked
     = Inr \<lparr>bi_candidate = one_step, bi_backtest = [''backtest'', ''--max-steps'', ''1''], bi_trace = ''/t'', bi_run = ''r-1''\<rparr>"
  by code_simp

lemma budget_texts:
  "from_utf8_lossy (capped backtest_text) = backtest_text"
  "parse_copy_count (from_utf8_lossy (capped (table_text [''| count |'', ''| 2 |'']))) = Some 2"
  "parse_step_counts (from_utf8_lossy (capped (table_text [''| n | steps |'', ''| 2 | 2 |'']))) = Some (2, 2)"
  by code_simp+

lemma backtest_read: "parse_backtest demo_amounts backtest_text one_step = Inr backtest_result"
proof -
  have "str_lines backtest_text = [HEAD_LINE, CANDIDATE_LINE @ ''max_steps 1'', RUNS_LINE @ ''1 (1 affected)'',
     CALLS_LINE @ ''2 (1 would be blocked)'', SPEND_LINE @ ''$0.000003'', SAVED_LINE @ ''$0.000002 (66.7%)'',
     PROJECTED_LINE @ ''$0.000001'']" by code_simp
  moreover have "count_pair ''1 (1 affected)'' '' affected)'' = Some (1, 1)" "count_pair ''2 (1 would be blocked)'' '' would be blocked)'' = Some (2, 1)"
    "money ''$0.000003'' = Some 3" "money ''$0.000001'' = Some 1" "saved_amount ''$0.000002 (66.7%)'' = Some 2"
    "candidate_describe demo_amounts one_step = ''max_steps 1''" by code_simp+
  ultimately show ?thesis
    by (simp add: parse_backtest_def ok_or_def checked_report_def i64_def backtest_result_def)
qed

lemma tokenfuse_demo:
  "tokenfuse (pw_spawn budget_world) budget_config_demo args dir (pw_now budget_world) 5
     = Some (Inr \<lparr>fi_exit = Some 0, fi_stdout = from_utf8_lossy (capped (tokenfuse_says args)), fi_stderr = []\<rparr>)"
  by (simp add: tokenfuse_def deadline_of_def budget_world_def demo_incident_run)

definition demo_statement :: string where
  "demo_statement = ''copy (select * from calls where run_id = '' @ QUOTE @ ''r-1'' @ QUOTE
     @ '' order by ts_millis, step) to '' @ QUOTE @ ''/tmp/s/part.parquet'' @ QUOTE @ '' stored as parquet''"

lemma demo_statement_made: "copy_statement ''r-1'' (path_join ''/tmp/s'' ''part.parquet'') = Inr demo_statement"
  by code_simp

lemma tokenfuse_answers:
  "tokenfuse_says [''sql'', demo_statement] = table_text [''| count |'', ''| 2 |'']"
  "tokenfuse_says [''sql'', STEP_COUNT_STATEMENT] = table_text [''| n | steps |'', ''| 2 | 2 |'']"
  "tokenfuse_says (''backtest'' # args) = backtest_text"
  by (simp_all add: tokenfuse_says_def demo_statement_def STEP_COUNT_STATEMENT_def)

lemma demo_budget_result: "\<exists>p. demo_budget = Some (slots_new 2, Inr p) \<and> bp_stops_this_incident p"
proof -
  obtain p where p: "judge_budget ''r-1'' one_step backtest_result backtest_result 2 False = Inr p" "bp_stops_this_incident p"
    by (simp add: judge_budget_def backtest_result_def)
  have "backtest_run demo_amounts (pw_spawn budget_world) budget_config_demo
      \<lparr>bi_candidate = one_step, bi_backtest = [''backtest'', ''--max-steps'', ''1''], bi_trace = ''/t'', bi_run = ''r-1''\<rparr>
      ''/tmp/s'' (pw_now budget_world) 5 = Some (Inr p)"
    by (simp add: backtest_run_def demo_statement_made tokenfuse_demo tokenfuse_answers budget_texts backtest_read p
        after_child_def checked_step_def ok_or_def read_backtest_def)
  moreover have "pw_scratch budget_world = Inr ''/tmp/s''" by (simp add: budget_world_def)
  ultimately have "demo_budget = Some (slots_new 2, Inr p)"
    by (simp add: demo_budget_def prove_budget_in_def budget_inputs_demo try_acquire_def slot_drop_def slots_new_def)
  with p(2) show ?thesis by blast
qed


theorem statement_quotes_run_witness:
  "length (filter (\<lambda>c. c = CHR 0x27) demo_statement) = 4 \<and> copy_statement (''r-1'' @ [CHR 0x27] @ '' or 1 = 1'') ''/p''
     = Inl ''the run id holds characters the proof will not put in a query''"
proof
  show "length (filter (\<lambda>c. c = CHR 0x27) demo_statement) = 4" using statement_quotes_run [OF demo_statement_made] by blast
qed code_simp

end
