(* ===== verification/SealDemo.thy ===== *)
theory SealDemo
  imports SealFacts ProofDemo ActionsDemo
begin

section \<open>Concrete packs\<close>

text \<open>
  A case sealed on a console with a journal and a directory, and a pack read back; two texts that are one value and
  two that are not; and a double that is written as an integer no reader takes.
\<close>

definition demo_floats :: floats where
  "demo_floats = \<lparr>fl_zero = (\<lambda>_. False), fl_negative = (\<lambda>_. False), fl_scientific = (\<lambda>_. ''1e16'')\<rparr>"

subsection \<open>One text for one document\<close>

lemma demo_floats_ok: "floats_ok demo_floats"
  unfolding floats_ok_def demo_floats_def
  by (rule allI, rule impI, rule exI [of _ "CHR ''1''"], rule exI [of _ "[]"], rule exI [of _ "''16''"]) (simp add: ascii_digit_def)

definition doc_value :: json where
  "doc_value = JObject [(''b'', JNum ''1''), (''a'', JArray [JNull, JString ''x''])]"

definition doc_value_turned :: json where
  "doc_value_turned = JObject [(''a'', JArray [JNull, JString ''x'']), (''b'', JNum ''1'')]"

definition doc_value_other :: json where
  "doc_value_other = JObject [(''a'', JArray [JNull, JString ''x'']), (''b'', JString ''1'')]"

lemma doc_values:
  "strings_valid doc_value" "strings_valid doc_value_turned" "strings_valid doc_value_other"
  "canonical demo_floats doc_value = Inr (''{'' @ write_string ''a'' @ '':[null,'' @ write_string ''x'' @ ''],'' @ write_string ''b'' @ '':1}'')"
  "canonical demo_floats doc_value_turned = Inr (''{'' @ write_string ''a'' @ '':[null,'' @ write_string ''x'' @ ''],'' @ write_string ''b'' @ '':1}'')"
  "canonical demo_floats doc_value_other = Inr (''{'' @ write_string ''a'' @ '':[null,'' @ write_string ''x'' @ ''],'' @ write_string ''b'' @ '':'' @ write_string ''1'' @ ''}'')"
  by code_simp+

theorem canonical_determines_witness:
  "normal demo_floats doc_value = normal demo_floats doc_value_turned
    \<and> normal demo_floats doc_value \<noteq> normal demo_floats doc_value_other"
  using canonical_determines [OF demo_floats_ok doc_values(1,2,4,5)]
    canonical_determines [OF demo_floats_ok doc_values(1,3,4,6)] by (simp add: write_string_def)


theorem exact_document_has_text_witness:
  "\<exists>t. canonical demo_floats doc_value = Inr t \<and> length t \<le> 50"
proof -
  have "exact doc_value" "text_bound doc_value \<le> 50" by code_simp+
  with exact_document_has_text [of doc_value demo_floats] show ?thesis by (meson le_trans)
qed

subsection \<open>A case sealed and read back\<close>

definition seal_desk :: "ingest_lib \<Rightarrow> desk" where
  "seal_desk X = demo_desk\<lparr>dk_bus_env := actions_bus\<lparr>be_lib := X\<rparr>\<rparr>"

definition demo_decision :: decision where
  "demo_decision = \<lparr>dc_outcome = Declined, dc_note = ''known''\<rparr>"

definition demo_seal :: seal_request where
  "demo_seal = \<lparr>sq_incident_id = ''bus:2'', sq_proofs = [], sq_decision = demo_decision\<rparr>"

definition calm_packs :: pack_world where
  "calm_packs = \<lparr>pk_pid = 7, pk_mkdir = None, pk_read = None, pk_create = None, pk_exists = ''exists'', pk_write = None,
     pk_rename = None\<rparr>"

definition demo_proof_env :: proof_env where
  "demo_proof_env = \<lparr>pe_amounts = demo_amounts, pe_archive_var = None, pe_source_events_dir = None, pe_data_dir = None,
     pe_world = (\<lambda>_. demo_world)\<rparr>"

definition fresh_seal :: seal_state where
  "fresh_seal = \<lparr>ss_actions = no_actions, ss_files = (\<lambda>_. None), ss_slots = slots_new 4\<rparr>"

definition demo_pack :: json where
  "demo_pack = build_pack case_two [] demo_decision ''user://acme/alice'' ''t''"

lemma demo_decided: "decision_checked demo_decision = Inr demo_decision"
  by code_simp

lemma demo_pack_text: "\<exists>t. canonical demo_floats demo_pack = Inr t \<and> length t \<le> PACK_MAX_BYTES"
proof -
  have "exact (case_json case_two)" "text_bound (case_json case_two) \<le> 1000000" by code_simp+
  then have "exact demo_pack" "text_bound demo_pack \<le> PACK_MAX_BYTES"
    by (simp_all add: demo_pack_def build_pack_def json_object_def demo_decision_def PACK_FORMAT_def PACK_MAX_BYTES_def)
  with written_exact(1) [of demo_pack demo_floats] show ?thesis unfolding canonical_def by (meson le_trans)
qed

text \<open>A library whose digest is \<open>h\<close> and whose reader answers \<open>v\<close>.\<close>

definition reading :: "string \<Rightarrow> json \<Rightarrow> ingest_lib" where
  "reading h v = case_lib\<lparr>sha256_hex := (\<lambda>_. h), parse_json := (\<lambda>_. Inr v)\<rparr>"

lemma demo_actor: "desk_actor (seal_desk X) = ''user://acme/alice''"
  by code_simp

lemma demo_journaled:
  "fst (snd (seal_journal (seal_desk case_lib) digest params ''sealed:declined'' no_actions))"
  "fst (snd (seal_journal (seal_desk (reading h v)) digest params ''sealed:declined'' no_actions))"
  by code_simp+

text \<open>The pack is stored under its digest.\<close>

lemma demo_seal_pack:
  assumes "\<And>digest params. fst (snd (seal_journal (seal_desk X) digest params ''sealed:declined'' no_actions))"
    and "\<And>t. sha256_hex X t = h"
  shows "\<exists>st' sc. seal_pack (seal_desk X) demo_floats calm_packs (Some ''d'') demo_seal demo_decision case_two [] ''t'' fresh_seal = (st', Inr sc)
    \<and> sc_stored sc \<and> ss_files st' (pack_path ''d'' h) \<noteq> None"
proof -
  obtain t where t: "canonical demo_floats demo_pack = Inr t" "length t \<le> PACK_MAX_BYTES" using demo_pack_text by blast
  let ?p = "\<lparr>sd_canonical = t, sd_digest = ''sha256:'' @ h\<rparr>"
  have lib: "be_lib (dk_bus_env (seal_desk X)) = X" by (simp add: seal_desk_def)
  have v: "seal_value X demo_floats (build_pack case_two [] demo_decision (desk_actor (seal_desk X)) ''t'') = Inr ?p"
    using t by (simp add: seal_value_def demo_actor digest_of_text_def assms(2) flip: demo_pack_def)
  let ?j = "seal_journal (seal_desk X) (''sha256:'' @ h) (seal_params demo_seal case_two ?p [] demo_decision) ''sealed:declined'' no_actions"
  obtain a b why where jb: "?j = (a, b, why)" by (rule prod_cases3)
  moreover have b using assms(1) [of "''sha256:'' @ h" "seal_params demo_seal case_two ?p [] demo_decision"]
    unfolding jb by simp
  ultimately have j: "?j = (a, True, why)" by simp
  have strip: "strip_prefix ''sha256:'' (sd_digest ?p) = Some h" unfolding sealed.simps by (rule strip_sha)
  have f: "store_sealed calm_packs (Some ''d'') ?p (ss_files fresh_seal)
      = ((\<lambda>_. None)(temporary_path ''d'' h 7 := None, pack_path ''d'' h \<mapsto> t), True, None)"
    unfolding store_sealed_def option.case store_pack_def strip write_pack_def by (simp add: calm_packs_def fresh_seal_def)
  show ?thesis
    unfolding seal_pack_def lib v sum.case using j f
    by (simp add: demo_decision_def fresh_seal_def)
qed

theorem no_pack_without_its_line_witness:
  "\<exists>st' sc row. case_seal_at (seal_desk case_lib) demo_floats calm_packs demo_proof_env demo_planes (Some ''d'') (Some open_db)
       demo_seal ''t'' fresh_seal = Some (st', Inr sc)
    \<and> ss_files st' (pack_path ''d'' ''00'') = Some (sc_pack sc) \<and> sc_digest sc = ''sha256:00''
    \<and> cj_rows (ac_journal (ss_actions st')) = [row] \<and> jr_target row = ''sha256:00''"
proof -
  let ?D = "seal_desk case_lib"
  have lib: "be_lib (dk_bus_env ?D) = case_lib" by (simp add: seal_desk_def)
  have sha: "sha256_hex case_lib t = ''00''" for t by (simp add: case_lib_def)
  obtain st' sc where pk: "seal_pack ?D demo_floats calm_packs (Some ''d'') demo_seal demo_decision case_two [] ''t'' fresh_seal = (st', Inr sc)"
    and held: "ss_files st' (pack_path ''d'' ''00'') \<noteq> None"
    using demo_seal_pack [of case_lib, OF demo_journaled(1) sha] by blast
  have "fresh_seal\<lparr>ss_slots := ss_slots fresh_seal\<rparr> = fresh_seal" by simp
  then have sealed: "case_seal_at ?D demo_floats calm_packs demo_proof_env demo_planes (Some ''d'') (Some open_db)
       demo_seal ''t'' fresh_seal = Some (st', Inr sc)"
    using pk demo_cases(1) by (simp add: case_seal_at_def lib demo_seal_def demo_decided PROOFS_MAX_def)
  have "ss_files st' (pack_path ''d'' ''00'') \<noteq> ss_files fresh_seal (pack_path ''d'' ''00'')"
    using held by (simp add: fresh_seal_def)
  from no_pack_without_its_line [OF sealed this, unfolded lib sha] sealed show ?thesis
    by (auto simp: seal_row_def fresh_seal_def no_actions_def blank_journal_def)
qed

definition hex64 :: string where
  "hex64 = replicate 64 (CHR ''0'')"


end
