(* ===== verification/Spec2Isabelle.thy ===== *)
theory Spec2Isabelle
  imports ActionsDemo ConsolePasskeys ConsoleLogin Lifecycle IngestRestart Sse UrlPath FelyxDemo GraphFacts JournalDemo SealDemo
begin

text \<open>
  \<^bold>\<open>Genaryx console: a verification library.\<close>

  The console (a Rust workspace under \<open>src/crates\<close>) is the place where the operator of a fleet of agents signs
  in, reads what the planes of the estate report, and confirms the few actions that change something: killing a run,
  setting a budget, stopping an agent, revoking a delegation, closing a reservation, blocking an agent. It also keeps
  an event store fed from files, a hash-chained journal of what its operators did, a delegation graph, a case file per
  incident, and a copilot that answers questions from tool results. The library models these parts and proves what
  each promises.

  \<^bold>\<open>How the parts interact.\<close> A request reaches \<open>crates/web/src/main.rs\<close>, which throttles sign-ins, resolves a
  session, looks the command up in the role table, and demands a passkey confirmation for ceremony commands; only then
  it is dispatched to a plane under \<open>crates/api/src\<close>. A plane calls a service through a client of
  \<open>crates/connectors/src\<close> (signing what changes something with \<open>crates/signing\<close>) and records what came of it
  through \<open>crates/core/src/command.rs\<close>. Events arrive through \<open>crates/core/src/ingest.rs\<close> or the stream decoder, are
  checked by \<open>conform.rs\<close>, stored by \<open>store.rs\<close>, folded by \<open>graph.rs\<close>, and assembled into a case by \<open>case/\<close>. The
  copilot (\<open>crates/copilot\<close>) reads planes through tools, fences their text, and checks every draft against what the
  tools returned.

  \<^bold>\<open>Theories and the code they model.\<close> The comment that opens a group of definitions names the file; names of
  functions and fields are those of the source where HOL allows it.
  \<^item> \<open>Prelude\<close>, \<open>Utf8\<close>, \<open>Text\<close>: the operations of the Rust standard library the sources use (strings as UTF-8 bytes,
    hash maps, saturating arithmetic, lossy decoding, decimal numbers), the JSON datatype, and the three interfaces
    several components implement: \<open>expiring_table\<close>, \<open>invariant_machine\<close> and \<open>provenance\<close>.
  \<^item> \<open>Throttle\<close> (\<open>web/src/throttle.rs\<close>), \<open>Roles\<close> (\<open>roles.rs\<close>), \<open>Sessions\<close> (\<open>auth.rs\<close>), \<open>WebAuthn\<close>
    (\<open>webauthn.rs\<close>), \<open>Oidc\<close> (\<open>oidc.rs\<close>), \<open>Lifecycle\<close> (\<open>lifecycle.rs\<close> and its arms of \<open>dispatch.rs\<close>): one component
    each, with its lemmas.
  \<^item> \<open>Console\<close> (\<open>main.rs\<close>, \<open>ctx.rs\<close>, \<open>config.rs\<close>): the handlers over the state those components share;
    \<open>ConsoleTraces\<close>, \<open>ConsolePasskeys\<close>, \<open>ConsoleLogin\<close>: what holds over any list of requests.
  \<^item> \<open>Events\<close> (\<open>core/src/event.rs\<close>, \<open>conform.rs\<close>, \<open>attribution.rs\<close>), \<open>Ingest\<close> (\<open>ingest.rs\<close>, the writes of
    \<open>store.rs\<close>), \<open>StoreReads\<close> (its reads), \<open>Graph\<close> (\<open>graph.rs\<close>), \<open>Journal\<close> (\<open>command.rs\<close>, \<open>api/src/journal.rs\<close>),
    \<open>Sse\<close> and \<open>UrlPath\<close> (\<open>connectors/src\<close>), with \<open>IngestLines\<close>, \<open>IngestRuns\<close>, \<open>IngestRestart\<close>, \<open>StoreFacts\<close>,
    \<open>GraphFacts\<close>, \<open>JournalFacts\<close>.
  \<^item> \<open>Case\<close> (\<open>api/src/case\<close>) and \<open>CaseFacts\<close>.
  \<^item> \<open>CloudRest\<close> (\<open>signing/src/lib.rs\<close>, \<open>es256.rs\<close>, \<open>connectors/src/cloud_rest.rs\<close>), \<open>Money\<close> and \<open>MoneyUnits\<close>
    (\<open>api/src/money\<close>), \<open>Delegation\<close> (\<open>api/src/delegation\<close>), \<open>Retained\<close> (\<open>money/closure.rs\<close>, \<open>money/retained.rs\<close>,
    \<open>connectors/src/gateway.rs\<close>), with \<open>CloudFacts\<close>, \<open>MoneyFacts\<close>, \<open>DelegationFacts\<close>, \<open>RetainedFacts\<close>.
  \<^item> \<open>Fence\<close>, \<open>PlaneText\<close> (\<open>copilot/src/untrusted.rs\<close>), \<open>Grounding\<close> (\<open>grounding.rs\<close>), \<open>References\<close>
    (\<open>references.rs\<close>), \<open>Felyx\<close> (\<open>agent.rs\<close>, \<open>action.rs\<close>, \<open>tools/propose.rs\<close>, \<open>tools/mod.rs\<close>), with \<open>FenceFacts\<close> and
    \<open>FelyxFacts\<close>.
  \<^item> \<open>ProofReport\<close>, \<open>ProofRun\<close> (\<open>api/src/proof/mod.rs\<close>, \<open>slots.rs\<close>, \<open>commands.rs\<close>), \<open>Backtest\<close>, \<open>BudgetProof\<close>
    (\<open>budget.rs\<close>, \<open>budget_commands.rs\<close>): what a candidate policy or budget would have done to an incident and to
    everything else, with \<open>ProofFacts\<close> and \<open>BudgetFacts\<close>; \<open>Jcs\<close>, \<open>SealPack\<close>, \<open>Seal\<close> (\<open>api/src/seal\<close>): a case with its
    proofs as one canonical text whose digest is in the journal, with \<open>JcsFacts\<close> and \<open>SealFacts\<close>.
  \<^item> \<open>ActionsDemo\<close>, \<open>CaseDemo\<close>, \<open>FelyxDemo\<close>, \<open>JournalDemo\<close>, \<open>ProofDemo\<close>, \<open>SealDemo\<close>: small concrete worlds the properties are applied to.

  \<^bold>\<open>What the groups of lemmas show.\<close> Sign-in: how long a key is held, that a session resolves only if it was minted
  and is alive, that a challenge is redeemed once and a signature counter never goes back, and, over every list of
  requests, that a dispatched command has a sign-in and (if it is a ceremony command) a fresh confirmation of exactly
  its arguments behind it. Ingest: each complete line of a growing file is stored once and in order whatever the
  polling, a restart resumes where the journal of offsets says. Graph: the fold refines a specification over the set
  of events. Journal: any run of commands, restarts and clean failures leaves one verified hash chain. Copilot: plane
  text stays behind a fence it cannot close, proposals are vouched for, statements without a source are taken out,
  the loop ends. Actions: what is signed is what is sent, what is reported happened, and every attempt is on the
  record. Proofs: no more run at once than there are slots, each ends by its deadline, a proof is exactly the two
  halves of the report it was read from, and no run id leaves its quotes. Packs: one text stands for one document, no
  pack is stored without its line in the journal, and a stored pack is read back as it was sealed. Where the code does less than it says, a lemma shows it on a concrete input.

  \<^bold>\<open>State and time.\<close> Stateful code is explicit state passing over records; errors are the left of a sum. A handler
  runs at one instant: the clock readings inside one critical section or one handler are equal. Handlers of one
  process run one after another, as the locks of the source order them; interleavings are lists of requests or of
  steps. Durations are naturals, counters are words of their width where they can wrap.

  \<^bold>\<open>Parameters.\<close> What is not under \<open>src/\<close> is an argument of the definitions: hashing, signatures, CBOR, base64,
  regular expressions and the JSON parser and printer (\<open>ext\<close>, \<open>oidc_ext\<close>, \<open>ingest_lib\<close>, \<open>conform_ext\<close>,
  \<open>gateway_lib\<close>, \<open>signer\<close>), the Unicode tables (\<open>unicode\<close>), floating-point arithmetic (\<open>numbers\<close>, \<open>money_lib\<close>, \<open>amounts\<close>,
  \<open>floats\<close>), the decoders serde generates (\<open>cloud_lib\<close>, \<open>case_planes\<close>), and what the disk and the network answer (\<open>outside\<close>, \<open>pdp\<close>,
  \<open>journal_world\<close>, \<open>cloud_world\<close>, \<open>gateway_world\<close>, \<open>vouchryx\<close>, \<open>path_lib\<close>, \<open>case_store\<close>, \<open>bus_env\<close>, \<open>desk\<close>,
  \<open>proof_world\<close> with its \<open>child\<close> processes, \<open>pack_world\<close>). What a theorem relies on of them is a hypothesis of that theorem, and each such theorem has a witness that meets it.

  \<^bold>\<open>Bounds and fuel.\<close> The bounds are the constants of the source (\<open>MAX_RUNS_PER_STOP\<close>, \<open>ACCOUNT_LIMIT\<close>,
  \<open>CEREMONY_TTL\<close>, \<open>MAX_RESPONSE_BYTES\<close>, ...). The only fuel is the iteration bound the loop of the copilot itself
  carries (\<open>max_iterations\<close>). The wait for a child process (\<open>wait_child\<close>) ends only when a clock does what clocks do, so
  it is a partial function whose value is \<open>None\<close> when it never ends, and a theorem says when it ends. Every other loop is
  structural or has a measure.

  \<^bold>\<open>Not modelled.\<close> The planes of \<open>crates/api/src\<close> that only read a service and reshape its answer (identity, memory,
  quality, crypto, evidence, drills, statistics, remote and onboarding), the clients of the command-line tools and of
  SSH and WireGuard, the wires of the language-model providers, the startup diagnostics, the database migrations, the
  static assets and the boot sequence of the server, the front end and the provisioning scripts. They are pure input
  and output, generated code, or other languages.
\<close>

end
